(* ===== verification/Prelude.thy ===== *)
theory Prelude
  imports Main "HOL-Library.Word" "HOL-Library.Char_ord" "HOL-Library.List_Lexorder"
    "HOL-Library.Sublist"
begin

section \<open>Prelude: Go values, errors, strings and the transaction machine\<close>

text \<open>
  The vocabulary every component shares.
  \<^item> Machine integers: \<open>uint64\<close> is \<open>64 word\<close>, \<open>uint32\<close> and \<open>int32\<close> are
    \<open>32 word\<close>; \<open>+\<close> and \<open>-\<close> wrap as they do in Go.
  \<^item> A Go \<open>string\<close> and a Go \<open>[]byte\<close> are both sequences of bytes and are both
    \<open>string\<close> (a \<open>char\<close> is one byte), so the conversions \<open>string(b)\<close> and
    \<open>[]byte(s)\<close> are the identity.  Their order is the lexicographic byte order of the
    key-value stores.
  \<^item> A Go \<open>error\<close> is a value of type \<open>error\<close>; a fallible operation returns
    \<open>error + 'a\<close> with \<open>Inl\<close> for a non-nil error.
  \<^item> The pieces of Go's standard library the sources use: decimal and hexadecimal text,
    \<open>strings.Join\<close>, \<open>strings.ToLower\<close>, \<open>strings.TrimSpace\<close>, big-endian integers.
  \<^item> Locales for the transaction machine of the chain: a message is delivered to a state,
    a failed message leaves the state as it was.
\<close>

type_synonym u64 = "64 word"
type_synonym u32 = "32 word"
type_synonym i32 = "32 word"
type_synonym bytes = string

named_theorems key_simps \<open>definitions of store keys and prefixes\<close>

subsection \<open>Errors\<close>

text \<open>The sentinel errors of each module, one enumeration per \<open>types/errors.go\<close>.\<close>

datatype org_error =
    Org_ErrInvalidOrgID | Org_ErrInvalidLeader | Org_ErrInvalidDomain | Org_ErrInvalidName
  | Org_ErrInvalidDescription | Org_ErrInvalidTechStack | Org_ErrInvalidFocusAreas
  | Org_ErrOrgAlreadyExists | Org_ErrLeaderAlreadyOwnsOrg | Org_ErrOrgNotFound
  | Org_ErrMemberNotFound | Org_ErrMemberExists | Org_ErrCannotRemoveLeader | Org_ErrNotLeader
  | Org_ErrInvalidRole | Org_ErrInvalidHubEndpoints | Org_ErrInvalidHubResponsePubkey
  | Org_ErrInvalidQuota | Org_ErrOrgNotActive | Org_ErrInsufficientFund | Org_ErrSlotCapReached
  | Org_ErrUnauthorized | Org_ErrFeegrantUnavailable

datatype memory_error =
    Mem_ErrInvalidContentHash | Mem_ErrInvalidOrgID | Mem_ErrInvalidContributor
  | Mem_ErrInvalidContributorSignature | Mem_ErrNotContributor | Mem_ErrInvalidApprover
  | Mem_ErrInvalidBlob | Mem_ErrBlobTooLarge | Mem_ErrInvalidKeyword | Mem_ErrTooManyKeywords
  | Mem_ErrCommitmentExists | Mem_ErrCommitmentNotFound | Mem_ErrMemoryExists
  | Mem_ErrMemoryNotFound | Mem_ErrMerkleRootNotFound | Mem_ErrMaxPendingExceeded
  | Mem_ErrUnauthorized | Mem_ErrOrgNotFound | Mem_ErrInvalidRelationType
  | Mem_ErrMemoryNotApproved | Mem_ErrMemoryNotEligibleForValidity | Mem_ErrRelationshipExists
  | Mem_ErrRelationshipNotFound | Mem_ErrInvalidValidityBounds | Mem_ErrMemoryArchived
  | Mem_ErrSelfRelation | Mem_ErrInvalidMemoryType | Mem_ErrInvalidReporter
  | Mem_ErrInvalidReportReason | Mem_ErrReportExists

datatype serve_error =
    Srv_ErrInvalidOrgID | Srv_ErrInvalidContentHash | Srv_ErrInvalidServeKey
  | Srv_ErrInvalidServeKeyPubkey | Srv_ErrInvalidServeSignature | Srv_ErrInvalidServeFingerprint
  | Srv_ErrInvalidContributor | Srv_ErrDuplicateServeFingerprint
  | Srv_ErrDuplicateDenialFingerprint | Srv_ErrBatchTooLarge | Srv_ErrBatchEmpty
  | Srv_ErrMemoryNotFound | Srv_ErrOrgNotFound | Srv_ErrOrgTooYoung | Srv_ErrMaxServesExceeded
  | Srv_ErrStatsNotFound | Srv_ErrContributorNotFound | Srv_ErrUnauthorized | Srv_ErrEventParked
  | Srv_ErrInvalidEventType | Srv_ErrNegAnchorInert | Srv_ErrInvalidServeEpisodeRef
  | Srv_ErrServeEpisodeRefTooLong

datatype emissions_error =
    Em_ErrInvalidEmissionPool | Em_ErrInvalidOperatorID | Em_ErrInvalidOrgID
  | Em_ErrInvalidReward | Em_ErrNoEmissionPool | Em_ErrOperatorNotFound
  | Em_ErrValidatorNotFound | Em_ErrInsufficientBalance | Em_ErrBootstrapExpired
  | Em_ErrInvalidBootstrapCredit | Em_ErrNoBootstrapPool | Em_ErrUnauthorized
  | Em_ErrNotMigrated | Em_ErrUnauthorizedClaim | Em_ErrNothingToClaim
  | Em_ErrInvalidWalletAddress

datatype bandwidth_error =
    Bw_ErrInvalidOrgID | Bw_ErrBandwidthExhausted | Bw_ErrMemoryBandwidthExhausted
  | Bw_ErrServeBandwidthExhausted | Bw_ErrInvalidCap | Bw_ErrOverrideNotFound
  | Bw_ErrUnauthorized | Bw_ErrOrgNotFound

datatype reputation_error =
    Rep_ErrInvalidDeveloper | Rep_ErrDeveloperNotFound | Rep_ErrReputationNotActive
  | Rep_ErrInvalidMemory | Rep_ErrInvalidDifficulty | Rep_ErrInvalidQuality | Rep_ErrNoStats
  | Rep_ErrUnauthorized

datatype identity_error =
    Id_ErrAliasAlreadyMigrated | Id_ErrInvalidPasskeySignature | Id_ErrInvalidWalletAddress
  | Id_ErrInvalidPasskeyPubkey

datatype attestation_error =
    Att_ErrInvalidOrgID | Att_ErrInvalidSessionHash | Att_ErrInvalidContributor
  | Att_ErrInvalidModelID | Att_ErrInvalidProviderType | Att_ErrDuplicateAttestation
  | Att_ErrAttestationNotFound | Att_ErrAttestationDisabled | Att_ErrOrgNotFound
  | Att_ErrMaxAttestationsExceeded | Att_ErrUnauthorized

text \<open>
  A Go error: a sentinel of one of the modules, an ad hoc \<open>fmt.Errorf\<close> message, a gRPC
  \<open>status.Error\<close> with its code, an error of the SDK keepers outside this repository, or a run-time panic (which the SDK's
  transaction runner turns into a failed transaction).
\<close>

datatype error =
    E_org org_error | E_memory memory_error | E_serve serve_error
  | E_emissions emissions_error | E_bandwidth bandwidth_error
  | E_reputation reputation_error | E_identity identity_error | E_attestation attestation_error
  | Errorf string | Status string string | E_sdk string | Panic string

type_synonym 'a result = "error + 'a"

text \<open>A validation returns no value: \<open>Inr ()\<close> is the \<open>nil\<close> error.\<close>

type_synonym check = "unit result"

subsection \<open>Decimal text\<close>

definition digit_char :: "nat \<Rightarrow> char" where
  "digit_char d = char_of (48 + d)"

fun format_nat :: "nat \<Rightarrow> string" where
  "format_nat n =
     (if n < 10 then [digit_char n] else format_nat (n div 10) @ [digit_char (n mod 10)])"

declare format_nat.simps [simp del]

text \<open>\<open>strconv.FormatUint(v, 10)\<close> and \<open>fmt.Sprintf("%d", v)\<close> on a \<open>uint64\<close>.\<close>

definition FormatUint :: "u64 \<Rightarrow> string" where
  "FormatUint v = format_nat (unat v)"

definition is_digit :: "char \<Rightarrow> bool" where
  "is_digit c \<longleftrightarrow> CHR ''0'' \<le> c \<and> c \<le> CHR ''9''"

definition digit_val :: "char \<Rightarrow> nat" where
  "digit_val c = of_char c - 48"

text \<open>
  \<open>strconv.ParseUint(s, 10, 64)\<close>: \<open>None\<close> is its error (empty text, a character that is
  not a digit, or a value that does not fit 64 bits).
\<close>

definition parse_nat :: "string \<Rightarrow> nat" where
  "parse_nat s = foldl (\<lambda>acc c. 10 * acc + digit_val c) 0 s"

definition ParseUint :: "string \<Rightarrow> u64 option" where
  "ParseUint s =
     (if s = [] \<or> \<not> list_all is_digit s \<or> 2 ^ 64 \<le> parse_nat s then None
      else Some (of_nat (parse_nat s)))"

text \<open>
  The value \<open>strconv.ParseUint\<close> returns along with its error: the largest \<open>uint64\<close> as soon as the digits
  read so far do not fit, and zero at a character that is not a digit.
\<close>

fun ParseUint_failed :: "nat \<Rightarrow> string \<Rightarrow> u64" where
  "ParseUint_failed n [] = 0"
| "ParseUint_failed n (c # cs) =
     (if \<not> is_digit c then 0
      else if 2 ^ 64 \<le> 10 * n + digit_val c then - 1
      else ParseUint_failed (10 * n + digit_val c) cs)"

lemma digit_char_simps [simp]:
  "digit_char 0 = CHR ''0''" "digit_char 1 = CHR ''1''" "digit_char 2 = CHR ''2''"
  "digit_char 3 = CHR ''3''" "digit_char 4 = CHR ''4''" "digit_char 5 = CHR ''5''"
  "digit_char 6 = CHR ''6''" "digit_char 7 = CHR ''7''" "digit_char 8 = CHR ''8''"
  "digit_char 9 = CHR ''9''"
  "digit_char (Suc 0) = CHR ''1''"
  by code_simp+

lemma of_char_digit_char [simp]: "d < 10 \<Longrightarrow> of_char (digit_char d) = (48 + d :: nat)"
  by (simp add: digit_char_def of_char_of)

lemma digit_char_inj [simp]: "d < 10 \<Longrightarrow> e < 10 \<Longrightarrow> digit_char d = digit_char e \<longleftrightarrow> d = e"
  by (metis add_left_cancel of_char_digit_char)

lemma is_digit_iff: "is_digit c \<longleftrightarrow> 48 \<le> (of_char c :: nat) \<and> (of_char c :: nat) \<le> 57"
  by (simp add: is_digit_def less_eq_char_def)

lemma is_digit_digit_char [simp]: "d < 10 \<Longrightarrow> is_digit (digit_char d)"
  by (simp add: is_digit_iff)

lemma digit_val_digit_char [simp]: "d < 10 \<Longrightarrow> digit_val (digit_char d) = d"
  by (simp add: digit_val_def)

lemma format_nat_digits: "list_all is_digit (format_nat n)"
proof (induction n rule: format_nat.induct)
  case (1 n)
  then show ?case by (subst format_nat.simps) auto
qed

lemma format_nat_nonempty [simp]: "format_nat n \<noteq> []"
  by (subst format_nat.simps) simp

lemma parse_nat_snoc: "parse_nat (s @ [c]) = 10 * parse_nat s + digit_val c"
  by (simp add: parse_nat_def)

lemma parse_format_nat [simp]: "parse_nat (format_nat n) = n"
proof (induction n rule: format_nat.induct)
  case (1 n)
  show ?case
  proof (cases "n < 10")
    case True
    then show ?thesis by (simp add: format_nat.simps [of n] parse_nat_def)
  next
    case False
    with "1.IH" have "parse_nat (format_nat (n div 10)) = n div 10" by simp
    with False show ?thesis by (simp add: format_nat.simps [of n] parse_nat_snoc)
  qed
qed

lemma format_nat_inj [simp]: "format_nat m = format_nat n \<longleftrightarrow> m = n"
  by (metis parse_format_nat)

lemma FormatUint_inj [simp]: "FormatUint a = FormatUint b \<longleftrightarrow> a = b"
  by (simp add: FormatUint_def word_unat_eq_iff)

lemma FormatUint_digits: "c \<in> set (FormatUint v) \<Longrightarrow> is_digit c"
  using format_nat_digits [of "unat v"] by (auto simp: FormatUint_def list_all_iff)

lemma FormatUint_nonempty [simp]: "FormatUint v \<noteq> []"
  by (simp add: FormatUint_def)

lemma ParseUint_FormatUint [simp]: "ParseUint (FormatUint v) = Some v"
proof -
  have "unat v < 2 ^ 64" using unsigned_less [of v, where ?'a = nat] by simp
  then show ?thesis
    using format_nat_digits [of "unat v"] by (simp add: ParseUint_def FormatUint_def)
qed

subsection \<open>Hexadecimal text\<close>

definition hex_char :: "nat \<Rightarrow> char" where
  "hex_char d = (if d < 10 then char_of (48 + d) else char_of (87 + d))"

text \<open>\<open>hex.EncodeToString\<close> (the \<open>types.ContentHashToHex\<close> of the modules).\<close>

fun hex_encode :: "bytes \<Rightarrow> string" where
  "hex_encode [] = []"
| "hex_encode (c # cs) =
     hex_char (of_char c div 16) # hex_char (of_char c mod 16) # hex_encode cs"

definition hex_val :: "char \<Rightarrow> nat option" where
  "hex_val c =
     (let n = of_char c in
      if 48 \<le> n \<and> n \<le> 57 then Some (n - 48)
      else if 97 \<le> n \<and> n \<le> 102 then Some (n - 87)
      else if 65 \<le> n \<and> n \<le> 70 then Some (n - 55)
      else None)"

text \<open>\<open>hex.DecodeString\<close>: \<open>None\<close> for an odd length or a character that is not hex.\<close>

fun hex_decode :: "string \<Rightarrow> bytes option" where
  "hex_decode [] = Some []"
| "hex_decode [c] = None"
| "hex_decode (a # b # cs) =
     (case (hex_val a, hex_val b, hex_decode cs) of
        (Some h, Some l, Some bs) \<Rightarrow> Some (char_of (16 * h + l) # bs)
      | _ \<Rightarrow> None)"

lemma hex_char_simps [simp]:
  "hex_char 0 = CHR ''0''" "hex_char 1 = CHR ''1''" "hex_char 2 = CHR ''2''"
  "hex_char 3 = CHR ''3''" "hex_char 4 = CHR ''4''" "hex_char 5 = CHR ''5''"
  "hex_char 6 = CHR ''6''" "hex_char 7 = CHR ''7''" "hex_char 8 = CHR ''8''"
  "hex_char 9 = CHR ''9''" "hex_char 10 = CHR ''a''" "hex_char 11 = CHR ''b''"
  "hex_char 12 = CHR ''c''" "hex_char 13 = CHR ''d''" "hex_char 14 = CHR ''e''"
  "hex_char 15 = CHR ''f''"
  "hex_char (Suc 0) = CHR ''1''"
  by code_simp+

lemma of_char_less_256: "(of_char c :: nat) < 256"
  by (cases c) (simp add: of_char_def horner_sum_simps of_bool_def split: if_splits)

lemma of_char_div_mod [simp]:
  "(of_char c :: nat) div 16 < 16" "(of_char c :: nat) mod 16 < 16"
  using of_char_less_256 [of c] by (simp_all add: less_mult_imp_div_less)

lemma of_char_hex_char:
  "d < 16 \<Longrightarrow> of_char (hex_char d) = (if d < 10 then 48 + d else 87 + d :: nat)"
  by (simp add: hex_char_def of_char_of)

lemma hex_val_hex_char [simp]: "d < 16 \<Longrightarrow> hex_val (hex_char d) = Some d"
  by (simp add: hex_val_def of_char_hex_char)

lemma hex_decode_encode [simp]: "hex_decode (hex_encode bs) = Some bs"
  by (induction bs) simp_all

lemma hex_encode_inj [simp]: "hex_encode a = hex_encode b \<longleftrightarrow> a = b"
  by (metis hex_decode_encode option.inject)

lemma length_hex_encode [simp]: "length (hex_encode bs) = 2 * length bs"
  by (induction bs) simp_all

lemma length_hex_decode: "hex_decode s = Some bs \<Longrightarrow> length s = 2 * length bs"
  by (induction s arbitrary: bs rule: hex_decode.induct) (auto split: option.splits)

definition is_lower_hex :: "char \<Rightarrow> bool" where
  "is_lower_hex c \<longleftrightarrow> is_digit c \<or> (97 \<le> (of_char c :: nat) \<and> (of_char c :: nat) \<le> 102)"

lemma is_lower_hex_hex_char [simp]: "d < 16 \<Longrightarrow> is_lower_hex (hex_char d)"
  by (simp add: is_lower_hex_def is_digit_iff of_char_hex_char)

lemma hex_encode_lower_hex: "c \<in> set (hex_encode bs) \<Longrightarrow> is_lower_hex c"
  by (induction bs) auto

text \<open>Separators that never occur in decimal or hexadecimal text.\<close>

lemma no_sep_hex [simp]:
  "CHR ''/'' \<notin> set (hex_encode bs)" "CHR ''\<newline>'' \<notin> set (hex_encode bs)"
  "CHR '':'' \<notin> set (hex_encode bs)" "CHR ''='' \<notin> set (hex_encode bs)"
  by (auto dest!: hex_encode_lower_hex simp: is_lower_hex_def is_digit_iff)

lemma no_sep_FormatUint [simp]:
  "CHR ''/'' \<notin> set (FormatUint v)" "CHR ''\<newline>'' \<notin> set (FormatUint v)"
  "CHR '':'' \<notin> set (FormatUint v)"
  by (auto dest!: FormatUint_digits simp: is_digit_iff)

subsection \<open>Splitting and joining\<close>

lemma append_sep_inj:
  assumes "c \<notin> set a" "c \<notin> set a'"
  shows "a @ c # b = a' @ c # b' \<longleftrightarrow> a = a' \<and> b = b'"
  using assms
proof (induction a arbitrary: a')
  case Nil
  then show ?case by (cases a') auto
next
  case (Cons x a)
  then show ?case by (cases a') auto
qed

lemma append_sep_inj_right:
  assumes "c \<notin> set b" "c \<notin> set b'"
  shows "a @ c # b = a' @ c # b' \<longleftrightarrow> a = a' \<and> b = b'"
proof -
  have "a @ c # b = a' @ c # b' \<longleftrightarrow> rev b @ c # rev a = rev b' @ c # rev a'"
    by (metis append.assoc append_Cons append_Nil rev.simps(2) rev_append rev_rev_ident)
  also have "\<dots> \<longleftrightarrow> b = b' \<and> a = a'"
    using assms append_sep_inj [of c "rev b" "rev b'" "rev a" "rev a'"] by simp
  finally show ?thesis by blast
qed

text \<open>A 64-bit word read as a Go \<open>int\<close>.\<close>

lemma sint_u64: "sint (w :: u64) = (if uint w < 2 ^ 63 then uint w else uint w - 2 ^ 64)"
proof -
  have "sint w = (uint w + 2 ^ 63) mod 2 ^ 64 - 2 ^ 63"
    by (simp add: sint_uint signed_take_bit_eq_take_bit_shift take_bit_eq_mod)
  moreover have w: "uint w < 2 ^ 64" "0 \<le> uint w" using uint_lt2p [of w] by simp_all
  moreover have "(uint w + 2 ^ 63) mod 2 ^ 64 = (if uint w < 2 ^ 63 then uint w + 2 ^ 63 else uint w + 2 ^ 63 - 2 ^ 64)"
    using w by (cases "uint w < 2 ^ 63") (simp_all add: mod_pos_geq)
  ultimately show ?thesis by simp
qed

lemma sint_word_of_int_u64:
  "- (2 ^ 63) \<le> k \<Longrightarrow> k < 2 ^ 63 \<Longrightarrow> sint (word_of_int k :: u64) = k"
  by (simp add: signed_of_int signed_take_bit_int_eq_self)

text \<open>Keys put hexadecimal or decimal parts after a slash, which neither contains.\<close>

lemma sep_uint_inj:
  "o1 @ CHR ''/'' # FormatUint e1 = o2 @ CHR ''/'' # FormatUint e2 \<longleftrightarrow> o1 = o2 \<and> e1 = e2"
  using append_sep_inj_right [of "CHR ''/''" "FormatUint e1" "FormatUint e2" o1 o2] by simp

lemma sep_hex_inj:
  "o1 @ CHR ''/'' # hex_encode h1 = o2 @ CHR ''/'' # hex_encode h2 \<longleftrightarrow> o1 = o2 \<and> h1 = h2"
  using append_sep_inj_right [of "CHR ''/''" "hex_encode h1" "hex_encode h2" o1 o2] by simp

lemma sep_uint_hex_inj:
  "o1 @ CHR ''/'' # FormatUint e1 @ CHR ''/'' # hex_encode h1 = o2 @ CHR ''/'' # FormatUint e2 @ CHR ''/'' # hex_encode h2 \<longleftrightarrow>
   o1 = o2 \<and> e1 = e2 \<and> h1 = h2"
  using sep_hex_inj [of "o1 @ CHR ''/'' # FormatUint e1" h1 "o2 @ CHR ''/'' # FormatUint e2" h2]
    sep_uint_inj [of o1 e1 o2 e2] by simp

lemma sep_hex_uint_inj:
  "o1 @ CHR ''/'' # hex_encode h1 @ CHR ''/'' # FormatUint e1 = o2 @ CHR ''/'' # hex_encode h2 @ CHR ''/'' # FormatUint e2 \<longleftrightarrow>
   o1 = o2 \<and> h1 = h2 \<and> e1 = e2"
  using sep_uint_inj [of "o1 @ CHR ''/'' # hex_encode h1" e1 "o2 @ CHR ''/'' # hex_encode h2" e2]
    sep_hex_inj [of o1 h1 o2 h2] by simp

text \<open>\<open>strings.Join\<close> with the one-character separator newline.\<close>

fun join_lines :: "string list \<Rightarrow> string" where
  "join_lines [] = []"
| "join_lines [l] = l"
| "join_lines (l # m # ls) = l @ CHR ''\<newline>'' # join_lines (m # ls)"

definition one_line :: "string \<Rightarrow> bool" where
  "one_line l \<longleftrightarrow> CHR ''\<newline>'' \<notin> set l"

lemma one_line_simps [simp]:
  "one_line []" "one_line (a @ b) \<longleftrightarrow> one_line a \<and> one_line b"
  "one_line (c # s) \<longleftrightarrow> c \<noteq> CHR ''\<newline>'' \<and> one_line s"
  "one_line (hex_encode bs)" "one_line (FormatUint v)"
  by (auto simp: one_line_def)

lemma hex_val_newline [simp]: "hex_val (CHR ''\<newline>'') = None"
  by (simp add: hex_val_def)

lemma hex_decode_one_line: "hex_decode s = Some bz \<Longrightarrow> one_line s"
  by (induction s arbitrary: bz rule: hex_decode.induct) (auto split: option.splits)

lemma join_lines_inj:
  assumes "list_all one_line xs" "list_all one_line ys" "xs \<noteq> []" "ys \<noteq> []"
    "join_lines xs = join_lines ys"
  shows "xs = ys"
  using assms
proof (induction xs arbitrary: ys rule: join_lines.induct)
  case (2 l)
  then show ?case by (cases ys rule: join_lines.cases) (auto simp: one_line_def)
next
  case (3 l m ls)
  obtain l' m' ls' where ys: "ys = l' # m' # ls'"
    using 3 by (cases ys rule: join_lines.cases) (auto simp: one_line_def)
  from 3 ys have "l = l'" "join_lines (m # ls) = join_lines (m' # ls')"
    by (auto simp: one_line_def append_sep_inj)
  moreover from this(2) have "m # ls = m' # ls'"
    by (rule "3.IH" [rotated -1]) (use 3 ys in auto)
  ultimately show ?case using ys by simp
qed simp

subsection \<open>Case and white space\<close>

text \<open>
  \<open>strings.ToLower\<close> on the ASCII letters.  The sources only compare a string with its
  lower-case form before decoding it as hex with the same error, so bytes outside ASCII,
  which are never hex, are left alone.
\<close>

definition to_lower_char :: "char \<Rightarrow> char" where
  "to_lower_char c =
     (if 65 \<le> (of_char c :: nat) \<and> (of_char c :: nat) \<le> 90 then char_of (of_char c + 32 :: nat) else c)"

definition ToLower :: "string \<Rightarrow> string" where
  "ToLower = map to_lower_char"

text \<open>
  The UTF-8 encodings of the code points \<open>unicode.IsSpace\<close> accepts; \<open>strings.TrimSpace\<close>
  of a string is empty exactly when the string is a sequence of these.
\<close>

definition space_runes :: "string list" where
  "space_runes =
     [[CHR 0x09], [CHR 0x0A], [CHR 0x0B], [CHR 0x0C], [CHR 0x0D], [CHR 0x20],
      [CHR 0xC2, CHR 0x85], [CHR 0xC2, CHR 0xA0], [CHR 0xE1, CHR 0x9A, CHR 0x80],
      [CHR 0xE2, CHR 0x80, CHR 0x80], [CHR 0xE2, CHR 0x80, CHR 0x81],
      [CHR 0xE2, CHR 0x80, CHR 0x82], [CHR 0xE2, CHR 0x80, CHR 0x83],
      [CHR 0xE2, CHR 0x80, CHR 0x84], [CHR 0xE2, CHR 0x80, CHR 0x85],
      [CHR 0xE2, CHR 0x80, CHR 0x86], [CHR 0xE2, CHR 0x80, CHR 0x87],
      [CHR 0xE2, CHR 0x80, CHR 0x88], [CHR 0xE2, CHR 0x80, CHR 0x89],
      [CHR 0xE2, CHR 0x80, CHR 0x8A], [CHR 0xE2, CHR 0x80, CHR 0xA8],
      [CHR 0xE2, CHR 0x80, CHR 0xA9], [CHR 0xE2, CHR 0x80, CHR 0xAF],
      [CHR 0xE2, CHR 0x81, CHR 0x9F], [CHR 0xE3, CHR 0x80, CHR 0x80]]"

fun trim_space_empty_fuel :: "nat \<Rightarrow> string \<Rightarrow> bool" where
  "trim_space_empty_fuel n [] = True"
| "trim_space_empty_fuel 0 (c # cs) = False"
| "trim_space_empty_fuel (Suc n) (c # cs) =
     (case filter (\<lambda>r. prefix r (c # cs)) space_runes of
        [] \<Rightarrow> False
      | r # _ \<Rightarrow> trim_space_empty_fuel n (drop (length r) (c # cs)))"

text \<open>Every step drops at least one byte, so the length of the string is enough fuel.\<close>

definition TrimSpace_empty :: "string \<Rightarrow> bool" where
  "TrimSpace_empty s = trim_space_empty_fuel (length s) s"

subsection \<open>Big-endian integers\<close>

text \<open>\<open>binary.BigEndian.PutUint64\<close>: the eight bytes of a \<open>uint64\<close>, high byte first.\<close>

definition be_uint64 :: "u64 \<Rightarrow> bytes" where
  "be_uint64 v = map (\<lambda>i. char_of (unat (drop_bit (8 * i) v) mod 256)) [7, 6, 5, 4, 3, 2, 1, 0]"

lemma length_be_uint64 [simp]: "length (be_uint64 v) = 8"
  by (simp add: be_uint64_def)

lemma char_of_mod_256_inj: "char_of (a mod 256 :: nat) = char_of (b mod 256) \<longleftrightarrow> a mod 256 = b mod 256"
  by (metis of_char_of mod_mod_trivial)

lemma be_uint64_inj [simp]: "be_uint64 a = be_uint64 b \<longleftrightarrow> a = b"
proof
  assume eq: "be_uint64 a = be_uint64 b"
  have byte: "unat (drop_bit (8 * i) a) mod 256 = unat (drop_bit (8 * i) b) mod 256" if "i < 8" for i
  proof -
    have "i \<in> set [7, 6, 5, 4, 3, 2, 1, 0]" using that by auto
    then show ?thesis using eq by (simp only: be_uint64_def map_eq_conv char_of_mod_256_inj)
  qed
  show "a = b"
  proof (rule bit_eqI)
    fix n
    assume "possible_bit TYPE(64 word) n"
    then have n: "n < 64" by (simp add: possible_bit_word)
    have bit: "bit v n \<longleftrightarrow> bit (unat (drop_bit (8 * (n div 8)) v) mod 256) (n mod 8)" for v :: u64
    proof -
      have "bit (take_bit 8 (unat (drop_bit (8 * (n div 8)) v))) (n mod 8)
          \<longleftrightarrow> bit (drop_bit (8 * (n div 8)) v) (n mod 8)"
        by (simp add: bit_take_bit_iff bit_unsigned_iff)
      also have "\<dots> \<longleftrightarrow> bit v n" by (simp add: bit_drop_bit_eq)
      finally show ?thesis by (simp add: take_bit_eq_mod)
    qed
    have "n div 8 < 8" using n by simp
    then show "bit a n = bit b n" by (metis bit byte)
  qed
qed simp

subsection \<open>Words\<close>

lemma unat_less_2p [simp]: "unat (a :: 'a::len word) < 2 ^ LENGTH('a)"
  by (rule unsigned_less)

lemma unat_Suc_less:
  assumes "a < (b :: 'a::len word)"
  shows "unat (a + 1) = unat a + 1"
proof -
  have "unat b < 2 ^ LENGTH('a)" by (rule unsigned_less)
  then have "unat a + 1 < 2 ^ LENGTH('a)"
    using assms unfolding word_less_nat_alt by linarith
  then show ?thesis by (simp add: unat_word_ariths)
qed

lemma word_less_add_1: "a < (b :: 'a::len word) \<Longrightarrow> a < a + 1"
  using unat_Suc_less [of a b] by (simp add: word_less_nat_alt)

lemma unat_add_no_overflow:
  "unat a + unat b < 2 ^ LENGTH('a) \<Longrightarrow> unat (a + b) = unat a + unat (b :: 'a::len word)"
  by (simp add: unat_word_ariths)

lemma unat_diff_le: "b \<le> a \<Longrightarrow> unat (a - b) = unat a - unat (b :: 'a::len word)"
  by (rule unat_sub)

subsection \<open>Delivering transactions\<close>

text \<open>
  The SDK's transaction runner: a message handler is a function from a state to an error or
  a new state.  When the handler fails, its writes are discarded and the state stays as it
  was, so a block of messages is a fold over the handler.
\<close>

fun deliver_all :: "('s \<Rightarrow> 'm \<Rightarrow> 's result) \<Rightarrow> 's \<Rightarrow> 'm list \<Rightarrow> 's" where
  "deliver_all h s [] = s"
| "deliver_all h s (m # ms) =
     deliver_all h (case h s m of Inl e \<Rightarrow> s | Inr s' \<Rightarrow> s') ms"

lemma deliver_all_append: "deliver_all h s (ms @ ms') = deliver_all h (deliver_all h s ms) ms'"
  by (induction ms arbitrary: s) simp_all

text \<open>A handler that keeps an invariant keeps it along every block of messages.\<close>

locale tx_machine =
  fixes handle :: "'s \<Rightarrow> 'm \<Rightarrow> 's result"
    and inv :: "'s \<Rightarrow> bool"
  assumes handle_inv: "inv s \<Longrightarrow> handle s m = Inr s' \<Longrightarrow> inv s'"
begin

lemma deliver_all_inv: "inv s \<Longrightarrow> inv (deliver_all handle s ms)"
  by (induction ms arbitrary: s) (auto split: sum.split intro: handle_inv)

end

text \<open>
  A table of records is append-only when no message changes or removes a record it holds:
  \<open>entry s k\<close> is the record under key \<open>k\<close>, or what of it is immutable.
\<close>

locale append_only = tx_machine +
  fixes entry :: "'s \<Rightarrow> 'k \<Rightarrow> 'v option"
  assumes entry_kept: "inv s \<Longrightarrow> handle s m = Inr s' \<Longrightarrow> entry s k = Some v \<Longrightarrow> entry s' k = Some v"
begin

lemma deliver_all_entry:
  assumes "inv s" "entry s k = Some v"
  shows "entry (deliver_all handle s ms) k = Some v"
  using assms
proof (induction ms arbitrary: s)
  case (Cons m ms)
  then show ?case by (auto split: sum.split intro: handle_inv entry_kept)
qed simp

end

text \<open>
  A reflexive and transitive relation that every message respects relates the state before a block
  of messages to the state after it.
\<close>

locale monotone_machine = tx_machine +
  fixes evolves :: "'s \<Rightarrow> 's \<Rightarrow> bool"
  assumes evolves_refl: "inv s \<Longrightarrow> evolves s s"
    and evolves_trans: "evolves s s' \<Longrightarrow> evolves s' s'' \<Longrightarrow> evolves s s''"
    and handle_evolves: "inv s \<Longrightarrow> handle s m = Inr s' \<Longrightarrow> evolves s s'"
begin

lemma deliver_all_evolves: "inv s \<Longrightarrow> evolves s (deliver_all handle s ms)"
proof (induction ms arbitrary: s)
  case (Cons m ms)
  then show ?case
    by (cases "handle s m") (auto intro: evolves_trans handle_inv handle_evolves)
qed (simp add: evolves_refl)

end

end
