(* ===== verification/KVStore.thy ===== *)
theory KVStore
  imports Prelude
begin

section \<open>KVStore: the ordered key-value store of a module\<close>

text \<open>
  Every keeper reads and writes a byte-keyed store through \<open>store.Get\<close>, \<open>Set\<close>, \<open>Delete\<close>
  and \<open>Iterator(start, end)\<close>.  The content of such a store is an association list whose
  keys are strictly increasing in byte order, which is the order iterators visit.  A module's
  state is a record of such tables, one for each kind of value it stores, each under its own
  key prefix; keys are the full byte strings the code builds.
  \<^item> \<open>kv_get\<close>, \<open>kv_set\<close>, \<open>kv_del\<close>: the three point operations;
  \<^item> \<open>kv_from\<close>: an iterator with a \<open>nil\<close> end; \<open>kv_range\<close>: one with both ends;
    \<open>kv_prefix\<close>: the range from a prefix to the end of the keys that carry it;
  \<^item> the locale \<open>kv_map\<close>: the laws the keepers rely on, and what follows for loops of writes.
\<close>

type_synonym 'v kv = "(bytes \<times> 'v) list"

definition kv_get :: "'v kv \<Rightarrow> bytes \<Rightarrow> 'v option" where
  "kv_get t k = map_of t k"

fun kv_set :: "bytes \<Rightarrow> 'v \<Rightarrow> 'v kv \<Rightarrow> 'v kv" where
  "kv_set k v [] = [(k, v)]"
| "kv_set k v ((k', v') # t) =
     (if k < k' then (k, v) # (k', v') # t
      else if k = k' then (k, v) # t
      else (k', v') # kv_set k v t)"

definition kv_del :: "bytes \<Rightarrow> 'v kv \<Rightarrow> 'v kv" where
  "kv_del k t = filter (\<lambda>e. fst e \<noteq> k) t"

definition kv_has :: "'v kv \<Rightarrow> bytes \<Rightarrow> bool" where
  "kv_has t k \<longleftrightarrow> kv_get t k \<noteq> None"

definition kv_from :: "bytes \<Rightarrow> 'v kv \<Rightarrow> 'v kv" where
  "kv_from lo t = filter (\<lambda>e. lo \<le> fst e) t"

definition kv_range :: "bytes \<Rightarrow> bytes option \<Rightarrow> 'v kv \<Rightarrow> 'v kv" where
  "kv_range lo hi t =
     filter (\<lambda>e. lo \<le> fst e \<and> (case hi of None \<Rightarrow> True | Some h \<Rightarrow> fst e < h)) t"

definition kv_prefix :: "bytes \<Rightarrow> 'v kv \<Rightarrow> 'v kv" where
  "kv_prefix p t = filter (\<lambda>e. prefix p (fst e)) t"

definition kv_ok :: "'v kv \<Rightarrow> bool" where
  "kv_ok t \<longleftrightarrow> sorted_wrt (<) (map fst t)"

subsection \<open>The point operations\<close>

lemma kv_ok_Nil [simp]: "kv_ok []"
  by (simp add: kv_ok_def)

lemma kv_ok_Cons: "kv_ok ((k, v) # t) \<longleftrightarrow> (\<forall>e\<in>set t. k < fst e) \<and> kv_ok t"
  by (simp add: kv_ok_def)

lemma kv_get_Nil [simp]: "kv_get [] k = None"
  by (simp add: kv_get_def)

lemma kv_get_Cons [simp]: "kv_get ((k', v) # t) k = (if k = k' then Some v else kv_get t k)"
  by (simp add: kv_get_def)

lemma kv_get_set: "kv_get (kv_set k v t) k' = (if k' = k then Some v else kv_get t k')"
  by (induction k v t rule: kv_set.induct) auto

lemma kv_get_set_same [simp]: "kv_get (kv_set k v t) k = Some v"
  by (simp add: kv_get_set)

lemma kv_get_set_other [simp]: "k' \<noteq> k \<Longrightarrow> kv_get (kv_set k v t) k' = kv_get t k'"
  by (simp add: kv_get_set)

lemma kv_get_del: "kv_get (kv_del k t) k' = (if k' = k then None else kv_get t k')"
  by (induction t) (auto simp: kv_del_def)

lemma kv_get_del_same [simp]: "kv_get (kv_del k t) k = None"
  by (simp add: kv_get_del)

lemma kv_get_del_other [simp]: "k' \<noteq> k \<Longrightarrow> kv_get (kv_del k t) k' = kv_get t k'"
  by (simp add: kv_get_del)

lemma fst_set_kv_set: "fst ` set (kv_set k v t) = insert k (fst ` set t)"
  by (induction k v t rule: kv_set.induct) auto

lemma set_kv_set_subset: "set (kv_set k v t) \<subseteq> insert (k, v) (set t)"
  by (induction k v t rule: kv_set.induct) auto

lemma kv_ok_set [simp]: "kv_ok t \<Longrightarrow> kv_ok (kv_set k v t)"
proof (induction t)
  case (Cons e t)
  obtain k' w where e: "e = (k', w)" by fastforce
  have tail: "\<And>x. x \<in> set t \<Longrightarrow> k' < fst x" "kv_ok t"
    using Cons.prems e by (auto simp: kv_ok_Cons)
  have "k < fst x" if "k < k'" "x \<in> set t" for x
    using that tail(1) less_trans by blast
  moreover have "k' < fst x" if "\<not> k < k'" "k \<noteq> k'" "x \<in> set (kv_set k v t)" for x
    using that tail(1) [of x] set_kv_set_subset [of k v t] by auto
  ultimately show ?case using e tail Cons.IH by (simp add: kv_ok_Cons)
qed (simp add: kv_ok_Cons)

lemma kv_ok_filter [simp]: "kv_ok t \<Longrightarrow> kv_ok (filter P t)"
  by (simp add: kv_ok_def sorted_wrt_map sorted_wrt_filter)

lemma kv_ok_del [simp]: "kv_ok t \<Longrightarrow> kv_ok (kv_del k t)"
  by (simp add: kv_del_def)

lemma kv_ok_distinct: "kv_ok t \<Longrightarrow> distinct (map fst t)"
  unfolding kv_ok_def using strict_sorted_iff by blast

lemma kv_get_iff: "kv_ok t \<Longrightarrow> kv_get t k = Some v \<longleftrightarrow> (k, v) \<in> set t"
  unfolding kv_get_def by (intro map_of_eq_Some_iff kv_ok_distinct)

lemma kv_get_SomeD: "kv_get t k = Some v \<Longrightarrow> (k, v) \<in> set t"
  unfolding kv_get_def by (rule map_of_SomeD)

lemma kv_get_None_iff: "kv_get t k = None \<longleftrightarrow> k \<notin> fst ` set t"
  by (simp add: kv_get_def map_of_eq_None_iff)

lemma set_kv_set_new: "kv_get t k = None \<Longrightarrow> set (kv_set k v t) = insert (k, v) (set t)"
  by (induction t) (auto split: if_splits)

text \<open>
  A loop that writes records under their keys leaves, under each key, the last record that has it:
  \<open>latest key xs x\<close> says that \<open>x\<close> is the last element of \<open>xs\<close> with the key it has.
\<close>

definition latest :: "('a \<Rightarrow> 'k) \<Rightarrow> 'a list \<Rightarrow> 'a \<Rightarrow> bool" where
  "latest key xs x \<longleftrightarrow> find (\<lambda>y. key y = key x) (rev xs) = Some x"

lemma latest_cong: "(\<And>y. key y = key x \<longleftrightarrow> key' y = key' x) \<Longrightarrow> latest key xs x = latest key' xs x"
  by (simp add: latest_def)

lemma kv_ok_set_all: "kv_ok t \<Longrightarrow> kv_ok (foldl (\<lambda>t x. kv_set (key x) x t) t xs)"
  by (induction xs arbitrary: t) simp_all

lemma kv_get_set_all:
  "kv_get (foldl (\<lambda>t x. kv_set (key x) x t) [] xs) k = find (\<lambda>x. key x = k) (rev xs)"
  by (induction xs rule: rev_induct) (auto simp: kv_get_def [of "[]"])

lemma set_kv_set_all:
  "set (foldl (\<lambda>t x. kv_set (key x) x t) [] xs) = {(key x, x) | x. latest key xs x}"
proof -
  have "(k, x) \<in> set (foldl (\<lambda>t x. kv_set (key x) x t) [] xs) \<longleftrightarrow> find (\<lambda>y. key y = k) (rev xs) = Some x" for k x
    using kv_get_iff [OF kv_ok_set_all, of "[]" key xs k x] by (simp add: kv_get_set_all)
  moreover have "find (\<lambda>y. key y = k) (rev xs) = Some x \<longleftrightarrow> k = key x \<and> latest key xs x" for k x
    by (auto simp: latest_def find_Some_iff)
  ultimately show ?thesis by auto
qed

text \<open>Two well-formed stores with the same entries are the same store.\<close>

lemma kv_ext:
  assumes "kv_ok s" "kv_ok t" "\<And>k. kv_get s k = kv_get t k"
  shows "s = t"
proof -
  have sets: "set s = set t"
    using assms by (auto simp: set_eq_iff simp flip: kv_get_iff [OF assms(1)] kv_get_iff [OF assms(2)])
  then have "set (map fst s) = set (map fst t)" by simp
  then have keys: "map fst s = map fst t"
    by (intro strict_sorted_equal) (use assms(1,2) in \<open>simp_all add: kv_ok_def\<close>)
  show ?thesis
  proof (rule nth_equalityI)
    show len: "length s = length t" using keys by (metis length_map)
    show "s ! i = t ! i" if "i < length s" for i
    proof -
      have "map fst s ! i = map fst t ! i" by (simp only: keys)
      then have "fst (s ! i) = fst (t ! i)" using that len by simp
      moreover have "s ! i \<in> set s" "t ! i \<in> set t" using that len by simp_all
      ultimately show ?thesis
        using sets eq_key_imp_eq_value [OF kv_ok_distinct [OF assms(2)]]
        by (cases "s ! i"; cases "t ! i") auto
    qed
  qed
qed

subsection \<open>Iteration\<close>

lemma kv_get_filter: "kv_ok t \<Longrightarrow>
  kv_get (filter (\<lambda>e. P (fst e)) t) k = (if P k then kv_get t k else None)"
  by (induction t) (auto simp: kv_ok_def)

lemma kv_prefix_subset: "e \<in> set (kv_prefix p t) \<Longrightarrow> e \<in> set t \<and> prefix p (fst e)"
  by (simp add: kv_prefix_def)

lemma kv_from_all: "(\<And>e. e \<in> set t \<Longrightarrow> lo \<le> fst e) \<Longrightarrow> kv_from lo t = t"
  by (auto simp: kv_from_def filter_id_conv)

lemma kv_from_none: "(\<And>e. e \<in> set t \<Longrightarrow> fst e < lo) \<Longrightarrow> kv_from lo t = []"
  by (force simp: kv_from_def filter_empty_conv not_le)

lemma kv_from_append: "kv_from lo (s @ t) = kv_from lo s @ kv_from lo t"
  by (simp add: kv_from_def)

lemma kv_from_split: "kv_from lo t = kv_range lo None t"
  by (simp add: kv_from_def kv_range_def)

lemma prefix_le: "prefix p k \<Longrightarrow> p \<le> (k :: bytes)"
proof (induction p arbitrary: k)
  case (Cons c p)
  then show ?case by (cases k) auto
qed simp

text \<open>An iterator with a \<open>nil\<close> end visits the keys with the prefix and everything after them.\<close>

lemma kv_prefix_from: "set (kv_prefix p t) \<subseteq> set (kv_from p t)"
  by (auto simp: kv_prefix_def kv_from_def prefix_le)

subsection \<open>The interface of a store\<close>

text \<open>
  What the keepers rely on: a read after a write, and that writes keep the store well formed.
  The loops of genesis import write one entry for each element of a list; the lemmas of the
  locale say what a store holds afterwards.
\<close>

locale kv_map =
  fixes get :: "'s \<Rightarrow> bytes \<Rightarrow> 'v option"
    and put :: "bytes \<Rightarrow> 'v \<Rightarrow> 's \<Rightarrow> 's"
    and del :: "bytes \<Rightarrow> 's \<Rightarrow> 's"
    and ok :: "'s \<Rightarrow> bool"
  assumes get_put: "ok s \<Longrightarrow> get (put k v s) k' = (if k' = k then Some v else get s k')"
    and get_del: "ok s \<Longrightarrow> get (del k s) k' = (if k' = k then None else get s k')"
    and ok_put: "ok s \<Longrightarrow> ok (put k v s)"
    and ok_del: "ok s \<Longrightarrow> ok (del k s)"
begin

lemma ok_put_all: "ok s \<Longrightarrow> ok (fold (\<lambda>e. put (fst e) (snd e)) es s)"
  by (induction es arbitrary: s) (auto intro: ok_put)

lemma get_put_all_other:
  "ok s \<Longrightarrow> k \<notin> fst ` set es \<Longrightarrow> get (fold (\<lambda>e. put (fst e) (snd e)) es s) k = get s k"
  by (induction es arbitrary: s) (auto simp: get_put ok_put)

lemma get_put_all:
  assumes "ok s" "distinct (map fst es)"
  shows "get (fold (\<lambda>e. put (fst e) (snd e)) es s) k =
    (case map_of es k of Some v \<Rightarrow> Some v | None \<Rightarrow> get s k)"
  using assms
proof (induction es arbitrary: s)
  case (Cons e es)
  show ?case
  proof (cases "k = fst e")
    case True
    with Cons.prems show ?thesis
      using get_put_all_other [of "put (fst e) (snd e) s" k es]
      by (cases e) (auto simp: ok_put get_put)
  next
    case False
    with Cons show ?thesis by (cases e) (auto simp: ok_put get_put split: option.split)
  qed
qed simp

end

interpretation kv: kv_map kv_get kv_set kv_del kv_ok
  by unfold_locales (simp_all add: kv_get_set kv_get_del)

text \<open>
  Genesis export lists the entries of a table in key order and genesis import writes them back
  one by one: importing an exported table into an empty store gives the table again.
\<close>

lemma kv_reload:
  assumes "kv_ok t"
  shows "fold (\<lambda>e. kv_set (fst e) (snd e)) t [] = t"
proof (rule kv_ext)
  show "kv_ok (fold (\<lambda>e. kv_set (fst e) (snd e)) t [])"
    by (rule kv.ok_put_all) simp
  show "kv_get (fold (\<lambda>e. kv_set (fst e) (snd e)) t []) k = kv_get t k" for k
    using kv.get_put_all [of "[]" t k] kv_ok_distinct [OF assms]
    by (auto simp: kv_get_def split: option.split)
qed (rule assms)

lemma kv_reload_values:
  assumes "kv_ok t" "\<And>k v. (k, v) \<in> set t \<Longrightarrow> k = key v"
  shows "fold (\<lambda>v. kv_set (key v) v) (map snd t) [] = t"
proof -
  have "fold (\<lambda>v. kv_set (key v) v) (map snd t) s = fold (\<lambda>e. kv_set (fst e) (snd e)) t s" for s
    using assms(2)
  proof (induction t arbitrary: s)
    case (Cons e t)
    then have "key (snd e) = fst e" by (cases e) auto
    moreover have "fold (\<lambda>v. kv_set (key v) v) (map snd t) s' = fold (\<lambda>e. kv_set (fst e) (snd e)) t s'"
      for s' by (rule Cons.IH) (use Cons.prems in auto)
    ultimately show ?case by simp
  qed simp
  then show ?thesis using kv_reload [OF assms(1)] by simp
qed

text \<open>Importing transformed values: the import of an export that converts every record.\<close>

lemma kv_ok_map: "kv_ok (map (\<lambda>e. (fst e, f e)) t) \<longleftrightarrow> kv_ok t"
  by (simp add: kv_ok_def comp_def)

lemma kv_reload_map:
  assumes "kv_ok t" "\<And>k v. (k, v) \<in> set t \<Longrightarrow> k = key (g v)"
  shows "fold (\<lambda>w. kv_set (key w) (f w)) (map (\<lambda>e. g (snd e)) t) [] = map (\<lambda>e. (fst e, f (g (snd e)))) t"
proof -
  have "fold (\<lambda>w. kv_set (key w) (f w)) (map (\<lambda>e. g (snd e)) t) s =
      fold (\<lambda>e. kv_set (fst e) (snd e)) (map (\<lambda>e. (fst e, f (g (snd e)))) t) s" for s
    using assms(2)
  proof (induction t arbitrary: s)
    case (Cons e t)
    then have "key (g (snd e)) = fst e" by (cases e) auto
    moreover have "fold (\<lambda>w. kv_set (key w) (f w)) (map (\<lambda>e. g (snd e)) t) s' =
        fold (\<lambda>e. kv_set (fst e) (snd e)) (map (\<lambda>e. (fst e, f (g (snd e)))) t) s'" for s'
      by (rule Cons.IH) (use Cons.prems in auto)
    ultimately show ?case by simp
  qed simp
  then show ?thesis
    using kv_reload [of "map (\<lambda>e. (fst e, f (g (snd e)))) t"] assms(1) by (simp add: kv_ok_map)
qed

subsection \<open>Numbers of entries\<close>

lemma kv_get_before: "kv_ok ((k', w) # t) \<Longrightarrow> k < k' \<Longrightarrow> kv_get ((k', w) # t) k = None"
  by (force simp: kv_get_None_iff kv_ok_Cons simp del: kv_get_Cons)

lemma kv_get_head_tail: "kv_ok ((k, w) # t) \<Longrightarrow> kv_get t k = None"
  by (force simp: kv_get_None_iff kv_ok_Cons)

lemma kv_ok_tail: "kv_ok (e # t) \<Longrightarrow> kv_ok t"
  by (simp add: kv_ok_def)

text \<open>
  A write or a deletion seen on the list: a store is the entries with smaller keys, the entry of
  the key if there is one, and the entries with larger keys.
\<close>

lemma kv_set_split:
  assumes "kv_ok t"
  obtains (new) a b where "kv_get t k = None" "t = a @ b" "kv_set k v t = a @ (k, v) # b"
      "kv_del k t = a @ b"
  | (old) a b w where "kv_get t k = Some w" "t = a @ (k, w) # b" "kv_set k v t = a @ (k, v) # b"
      "kv_del k t = a @ b"
  using assms
proof (induction t arbitrary: thesis)
  case Nil
  show ?case by (rule Nil(1) [of "[]" "[]"]) (simp_all add: kv_del_def)
next
  case (Cons e t)
  obtain k' w where e: "e = (k', w)" by fastforce
  have ok: "kv_ok t" using Cons.prems(3) by (rule kv_ok_tail)
  consider "k < k'" | "k = k'" | "k' < k" by fastforce
  then show ?case
  proof cases
    case 1
    then have none: "kv_get (e # t) k = None"
      using kv_get_before [of k' w t k] Cons.prems(3) e by simp
    moreover from this have "kv_del k (e # t) = e # t"
      unfolding kv_del_def kv_get_None_iff by (force intro: filter_True)
    ultimately show ?thesis using 1 e by (intro Cons.prems(1) [of "[]" "e # t"]) simp_all
  next
    case 2
    then have "kv_get t k = None"
      using kv_get_head_tail [of k w t] Cons.prems(3) e by simp
    then have "kv_del k t = t"
      unfolding kv_del_def kv_get_None_iff by (force intro: filter_True)
    then show ?thesis using 2 e by (intro Cons.prems(2) [of w "[]" t]) (simp_all add: kv_del_def)
  next
    case 3
    from 3 e have step: "kv_get (e # t) k = kv_get t k" "kv_set k v (e # t) = e # kv_set k v t"
      "kv_del k (e # t) = e # kv_del k t" by (auto simp: kv_del_def)
    show ?thesis
    proof (rule Cons.IH [OF _ _ ok])
      show thesis if "kv_get t k = None" "t = a @ b" "kv_set k v t = a @ (k, v) # b"
        "kv_del k t = a @ b" for a b
        using that step by (intro Cons.prems(1) [of "e # a" b]) simp_all
      show thesis if "kv_get t k = Some w'" "t = a @ (k, w') # b"
        "kv_set k v t = a @ (k, v) # b" "kv_del k t = a @ b" for w' a b
        using that step by (intro Cons.prems(2) [of w' "e # a" b]) simp_all
    qed
  qed
qed

lemma length_kv_set:
  "kv_ok t \<Longrightarrow> length (kv_set k v t) = (if kv_get t k = None then Suc (length t) else length t)"
  by (erule kv_set_split [of t k v]) simp_all

lemma filter_kv_set_out:
  assumes "kv_ok t" "\<not> P (k, v)" "\<And>v'. kv_get t k = Some v' \<Longrightarrow> \<not> P (k, v')"
  shows "filter P (kv_set k v t) = filter P t"
  using assms(2,3) by (cases rule: kv_set_split [OF assms(1), of k v]) simp_all

lemma length_filter_kv_set:
  assumes "kv_ok t" "P (k, v)"
  shows "length (filter P (kv_set k v t)) =
    (case kv_get t k of
       None \<Rightarrow> Suc (length (filter P t))
     | Some v' \<Rightarrow> if P (k, v') then length (filter P t) else Suc (length (filter P t)))"
  using assms(2) by (cases rule: kv_set_split [OF assms(1), of k v]) simp_all

lemma filter_kv_del_out:
  assumes "kv_ok t" "\<And>v. kv_get t k = Some v \<Longrightarrow> \<not> P (k, v)"
  shows "filter P (kv_del k t) = filter P t"
  using assms(2) by (cases rule: kv_set_split [OF assms(1), of k undefined]) simp_all

lemma length_filter_kv_del:
  assumes "kv_ok t" "kv_get t k = Some v" "P (k, v)"
  shows "length (filter P t) = Suc (length (filter P (kv_del k t)))"
  using assms(2,3) by (cases rule: kv_set_split [OF assms(1), of k undefined]) simp_all

text \<open>The sum of a measure over the entries, under a write.\<close>

lemma sum_kv_set:
  fixes f :: "'v \<Rightarrow> nat"
  assumes "kv_ok t"
  shows "(\<Sum>e\<leftarrow>kv_set k v t. f (snd e)) + (case kv_get t k of None \<Rightarrow> 0 | Some w \<Rightarrow> f w) =
    (\<Sum>e\<leftarrow>t. f (snd e)) + f v"
  using assms
proof (induction k v t rule: kv_set.induct)
  case (2 k v k' v' t)
  show ?case
  proof (cases "k < k'")
    case True
    then show ?thesis using kv_get_before [OF 2(2), of k] by (simp del: kv_get_Cons)
  next
    case False
    then show ?thesis using 2 kv_ok_tail [OF 2(2)] by auto
  qed
qed simp

lemma kv_get_le_sum:
  fixes f :: "'v \<Rightarrow> nat"
  shows "kv_get t k = Some v \<Longrightarrow> f v \<le> (\<Sum>e\<leftarrow>t. f (snd e))"
  by (induction t) (auto split: if_splits)

subsection \<open>The genesis marker\<close>

text \<open>
  Chain initialisation (\<open>InitChainer\<close> in \<open>app/app.go\<close>) writes one marker record into every
  mounted store, under a key after all others.
\<close>

definition genesisInitMarkerKey :: bytes where
  "genesisInitMarkerKey = [char_of (255 :: nat), char_of (255 :: nat), char_of (255 :: nat), char_of (255 :: nat)]"

definition genesisInitMarkerValue :: bytes where
  "genesisInitMarkerValue = [char_of (1 :: nat)]"

definition marker_entries :: "bool \<Rightarrow> bytes kv" where
  "marker_entries m = (if m then [(genesisInitMarkerKey, genesisInitMarkerValue)] else [])"

end
