(* ===== verification/Sdk.thy ===== *)
theory Sdk
  imports Prelude
begin

section \<open>Sdk: the parts of the Cosmos SDK the keepers call\<close>

text \<open>
  The keepers call code that is not part of this repository: the bank and fee-grant keepers,
  the bech32 address codec, module addresses, hash functions and signature verification, and
  the URL parser.  All of it is a parameter of the model, the record \<open>sdk\<close>, an argument of
  the definitions that use it.  Nothing is assumed of these functions except in the
  hypotheses of the theorems that need it; the documented behaviour used there is stated by
  the predicate \<open>bank_ok\<close>.

  \<open>'x\<close> is the state of the SDK modules (balances, allowances), which the keepers of this
  repository only reach through these functions.  A \<open>None\<close> result of a keeper call is a non-nil
  error, whose own text the callers wrap or replace.
\<close>

type_synonym coins = "(string \<times> nat) list"

text \<open>\<open>sdk.NewCoins(sdk.NewCoin("uvibe", n))\<close>: a zero coin is dropped.\<close>

definition uvibe :: "nat \<Rightarrow> coins" where
  "uvibe n = (if n = 0 then [] else [(''uvibe'', n)])"

text \<open>
  The fee allowances the repository builds.  Times are nanoseconds, as \<open>time.Duration\<close>.
\<close>

datatype allowance =
    AllowedMsgAllowance (allowed_messages: "string list")
  | PeriodicAllowance (spend_limit: coins) (expiration: int) (period: int)
      (period_spend_limit: coins) (period_can_spend: coins)

record 'x sdk =
  AccAddressFromBech32 :: "string \<Rightarrow> bytes option"
  AccAddress_String :: "bytes \<Rightarrow> string"
  NewModuleAddress :: "string \<Rightarrow> bytes"
  SendCoinsFromAccountToModule :: "'x \<Rightarrow> bytes \<Rightarrow> string \<Rightarrow> coins \<Rightarrow> 'x option"
  SendCoinsFromModuleToAccount :: "'x \<Rightarrow> string \<Rightarrow> bytes \<Rightarrow> coins \<Rightarrow> 'x option"
  SendCoins :: "'x \<Rightarrow> bytes \<Rightarrow> bytes \<Rightarrow> coins \<Rightarrow> 'x option"
  BurnCoins :: "'x \<Rightarrow> string \<Rightarrow> coins \<Rightarrow> 'x option"
  MintCoins :: "'x \<Rightarrow> string \<Rightarrow> coins \<Rightarrow> 'x option"
  GetBalance :: "'x \<Rightarrow> bytes \<Rightarrow> string \<Rightarrow> nat"
  feegrantKeeper :: "('x \<Rightarrow> bytes \<Rightarrow> bytes \<Rightarrow> allowance \<Rightarrow> 'x option) option"
  url_Parse :: "string \<Rightarrow> (string \<times> string) option"
  sha256_Sum256 :: "bytes \<Rightarrow> bytes"
  ed25519_Verify :: "bytes \<Rightarrow> bytes \<Rightarrow> bytes \<Rightarrow> bool"
  block_time :: int
  block_height :: int
  authority :: string

text \<open>
  The documented contract of the bank keeper for one denomination: \<open>bal\<close> reads an account's
  balance and \<open>supply\<close> the total supply of \<open>uvibe\<close>.  A send that succeeds moves exactly the amount
  from one account to the other; minting adds the amount to the supply and to the module's
  account, burning takes it from both; granting an allowance moves no coins.
\<close>

definition moves :: "('x \<Rightarrow> bytes \<Rightarrow> nat) \<Rightarrow> ('x \<Rightarrow> nat) \<Rightarrow> 'x \<Rightarrow> 'x \<Rightarrow> bytes \<Rightarrow> bytes \<Rightarrow> nat \<Rightarrow> bool" where
  "moves bal supply x x' from to n \<longleftrightarrow>
     n \<le> bal x from \<and> supply x' = supply x \<and>
     (from = to \<longrightarrow> bal x' = bal x) \<and>
     (from \<noteq> to \<longrightarrow> bal x' = (bal x)(from := bal x from - n, to := bal x to + n))"

definition grants_move_nothing :: "'x sdk \<Rightarrow> ('x \<Rightarrow> bytes \<Rightarrow> nat) \<Rightarrow> ('x \<Rightarrow> nat) \<Rightarrow> bool" where
  "grants_move_nothing K bal supply \<longleftrightarrow>
     (\<forall>g x a b al x'. feegrantKeeper K = Some g \<longrightarrow> g x a b al = Some x' \<longrightarrow>
        bal x' = bal x \<and> supply x' = supply x)"

definition bank_ok :: "'x sdk \<Rightarrow> ('x \<Rightarrow> bytes \<Rightarrow> nat) \<Rightarrow> ('x \<Rightarrow> nat) \<Rightarrow> bool" where
  "bank_ok K bal supply \<longleftrightarrow>
     (\<forall>x a m n x'. SendCoinsFromAccountToModule K x a m (uvibe n) = Some x' \<longrightarrow>
        moves bal supply x x' a (NewModuleAddress K m) n) \<and>
     (\<forall>x a m n x'. SendCoinsFromModuleToAccount K x m a (uvibe n) = Some x' \<longrightarrow>
        moves bal supply x x' (NewModuleAddress K m) a n) \<and>
     (\<forall>x a b n x'. SendCoins K x a b (uvibe n) = Some x' \<longrightarrow> moves bal supply x x' a b n) \<and>
     (\<forall>x m n x'. BurnCoins K x m (uvibe n) = Some x' \<longrightarrow>
        n \<le> bal x (NewModuleAddress K m) \<and> n \<le> supply x \<and> supply x' = supply x - n \<and>
        bal x' = (bal x)(NewModuleAddress K m := bal x (NewModuleAddress K m) - n)) \<and>
     (\<forall>x m n x'. MintCoins K x m (uvibe n) = Some x' \<longrightarrow>
        supply x' = supply x + n \<and>
        bal x' = (bal x)(NewModuleAddress K m := bal x (NewModuleAddress K m) + n)) \<and>
     grants_move_nothing K bal supply"

lemma bank_ok_to_module: "bank_ok K bal supply \<Longrightarrow>
    SendCoinsFromAccountToModule K x a m (uvibe n) = Some x' \<Longrightarrow>
    moves bal supply x x' a (NewModuleAddress K m) n"
  unfolding bank_ok_def by metis

lemma bank_ok_from_module: "bank_ok K bal supply \<Longrightarrow>
    SendCoinsFromModuleToAccount K x m a (uvibe n) = Some x' \<Longrightarrow>
    moves bal supply x x' (NewModuleAddress K m) a n"
  unfolding bank_ok_def by blast

lemma bank_ok_send: "bank_ok K bal supply \<Longrightarrow> SendCoins K x a b (uvibe n) = Some x' \<Longrightarrow>
    moves bal supply x x' a b n"
  unfolding bank_ok_def by blast

lemma bank_ok_burn: "bank_ok K bal supply \<Longrightarrow> BurnCoins K x m (uvibe n) = Some x' \<Longrightarrow>
    n \<le> bal x (NewModuleAddress K m) \<and> n \<le> supply x \<and> supply x' = supply x - n \<and>
    bal x' = (bal x)(NewModuleAddress K m := bal x (NewModuleAddress K m) - n)"
  unfolding bank_ok_def by blast

lemma bank_ok_mint: "bank_ok K bal supply \<Longrightarrow> MintCoins K x m (uvibe n) = Some x' \<Longrightarrow>
    supply x' = supply x + n \<and>
    bal x' = (bal x)(NewModuleAddress K m := bal x (NewModuleAddress K m) + n)"
  unfolding bank_ok_def by blast

lemma bank_ok_grant: "bank_ok K bal supply \<Longrightarrow> feegrantKeeper K = Some g \<Longrightarrow>
    g x a b al = Some x' \<Longrightarrow> bal x' = bal x \<and> supply x' = supply x"
  unfolding bank_ok_def grants_move_nothing_def by meson

subsection \<open>A ledger that keeps the contract\<close>

text \<open>
  A concrete instance of the parameter, for evaluating the model: balances as an association
  list, addresses that are their own bech32 text.  It shows that \<open>bank_ok\<close> can hold.
\<close>

record ledger =
  lg_balances :: "(bytes \<times> nat) list"
  lg_supply :: nat
  lg_grants :: "(bytes \<times> bytes \<times> allowance) list"

definition lg_bal :: "ledger \<Rightarrow> bytes \<Rightarrow> nat" where
  "lg_bal l a = (case map_of (lg_balances l) a of None \<Rightarrow> 0 | Some n \<Rightarrow> n)"

definition lg_amount :: "coins \<Rightarrow> nat" where
  "lg_amount c = sum_list (map snd c)"

definition lg_put :: "bytes \<Rightarrow> nat \<Rightarrow> ledger \<Rightarrow> ledger" where
  "lg_put a n l = l\<lparr>lg_balances := (a, n) # filter (\<lambda>e. fst e \<noteq> a) (lg_balances l)\<rparr>"

definition lg_move :: "ledger \<Rightarrow> bytes \<Rightarrow> bytes \<Rightarrow> coins \<Rightarrow> ledger option" where
  "lg_move l a b c =
     (let n = lg_amount c in
      if lg_bal l a < n then None
      else if a = b then Some l
      else Some (lg_put b (lg_bal l b + n) (lg_put a (lg_bal l a - n) l)))"

definition lg_module :: "string \<Rightarrow> bytes" where
  "lg_module m = ''module/'' @ m"

definition lg_burn :: "ledger \<Rightarrow> string \<Rightarrow> coins \<Rightarrow> ledger option" where
  "lg_burn l m c =
     (let n = lg_amount c; a = lg_module m in
      if lg_bal l a < n \<or> lg_supply l < n then None
      else Some ((lg_put a (lg_bal l a - n) l)\<lparr>lg_supply := lg_supply l - n\<rparr>))"

definition lg_mint :: "ledger \<Rightarrow> string \<Rightarrow> coins \<Rightarrow> ledger option" where
  "lg_mint l m c =
     (let n = lg_amount c; a = lg_module m in
      Some ((lg_put a (lg_bal l a + n) l)\<lparr>lg_supply := lg_supply l + n\<rparr>))"

definition ledger_sdk :: "ledger sdk" where
  "ledger_sdk = \<lparr>
     AccAddressFromBech32 = (\<lambda>s. if s = [] then None else Some s),
     AccAddress_String = (\<lambda>a. a),
     NewModuleAddress = lg_module,
     SendCoinsFromAccountToModule = (\<lambda>l a m c. lg_move l a (lg_module m) c),
     SendCoinsFromModuleToAccount = (\<lambda>l m a c. lg_move l (lg_module m) a c),
     SendCoins = lg_move,
     BurnCoins = lg_burn,
     MintCoins = lg_mint,
     GetBalance = (\<lambda>l a denom. if denom = ''uvibe'' then lg_bal l a else 0),
     feegrantKeeper = Some (\<lambda>l a b al. Some (l\<lparr>lg_grants := (a, b, al) # lg_grants l\<rparr>)),
     url_Parse = (\<lambda>s. Some (''https'', s)),
     sha256_Sum256 = (\<lambda>b. b),
     ed25519_Verify = (\<lambda>pk msg sig. sig = pk @ msg),
     block_time = 0,
     block_height = 0,
     authority = ''gov''\<rparr>"

lemma lg_amount_uvibe [simp]: "lg_amount (uvibe n) = n"
  by (simp add: lg_amount_def uvibe_def)

lemma map_of_filter_other: "map_of (filter (\<lambda>e. fst e \<noteq> a) xs) b = (if b = a then None else map_of xs b)"
  by (induction xs) auto

lemma lg_bal_put [simp]: "lg_bal (lg_put a n l) = (lg_bal l)(a := n)"
  by (rule ext) (simp add: lg_bal_def lg_put_def map_of_filter_other)

lemma lg_supply_put [simp]: "lg_supply (lg_put a n l) = lg_supply l"
  by (simp add: lg_put_def)

lemma lg_bal_updates [simp]:
  "lg_bal (l\<lparr>lg_supply := s\<rparr>) = lg_bal l" "lg_bal (l\<lparr>lg_grants := g\<rparr>) = lg_bal l"
  by (simp_all add: lg_bal_def fun_eq_iff)

lemma lg_move_moves: "lg_move l a b (uvibe n) = Some l' \<Longrightarrow> moves lg_bal lg_supply l l' a b n"
  by (auto simp: lg_move_def moves_def Let_def split: if_splits)

lemma ledger_sdk_bank_ok: "bank_ok ledger_sdk lg_bal lg_supply"
  unfolding bank_ok_def grants_move_nothing_def ledger_sdk_def
  by (auto simp: lg_move_moves lg_burn_def lg_mint_def Let_def split: if_splits)

end
