(* ===== verification/Org.thy ===== *)
theory Org
  imports KVStore Sdk Complex_Main
begin

section \<open>Org: organisations, members and leadership (x/org)\<close>

text \<open>
  The org module registers organisations in numbered slots against a payment, keeps their
  member records, and lets the leader's chain wallet change members, serving keys, configuration
  and leadership or close the organisation.

  The data of \<open>x/org/types\<close>, the keeper of \<open>x/org/keeper/keeper.go\<close>, \<open>aggregates.go\<close> and
  \<open>serving_feegrant.go\<close>, and the message handlers of \<open>msg_server.go\<close> follow in that order.
  An operation takes the SDK parameter \<open>K\<close>, the module's state and, where it reaches the bank or
  the fee-grant keeper, the state \<open>x\<close> of the SDK.
\<close>

subsection \<open>Data\<close>

definition OrgStatus_ACTIVE :: i32 where "OrgStatus_ACTIVE = 0"
definition OrgStatus_DORMANT :: i32 where "OrgStatus_DORMANT = 1"
definition OrgStatus_SUSPENDED :: i32 where "OrgStatus_SUSPENDED = 2"
definition OrgStatus_CLOSED :: i32 where "OrgStatus_CLOSED = 3"

lemmas OrgStatus_defs =
  OrgStatus_ACTIVE_def OrgStatus_DORMANT_def OrgStatus_SUSPENDED_def OrgStatus_CLOSED_def

record Org =
  org_OrgID :: string
  org_Slot :: u64
  org_Leader :: string
  org_Domain :: string
  org_Name :: string
  org_Description :: string
  org_TechStack :: string
  org_FocusAreas :: string
  org_CreatedAt :: u64
  org_RenewalHeight :: u64
  org_StorageQuota :: u64
  org_RetrievalBudget :: u64
  org_Status :: i32
  org_HubServingAddress :: string
  org_HubEndpoints :: "string list"
  org_HubResponsePubkey :: string
  org_LeaderWalletAddress :: string
  org_AccountAddress :: string

record StoredOrg =
  so_OrgId :: string
  so_Leader :: string
  so_CreatedAt :: u64
  so_RenewalHeight :: u64
  so_StorageQuota :: u64
  so_RetrievalBudget :: u64
  so_Status :: i32
  so_Domain :: string
  so_TotalCommittedMemories :: u64
  so_TotalActiveMembers :: u64
  so_TotalUpheldReports :: u64
  so_LastActivityEpoch :: u64
  so_HubServingAddress :: string
  so_LeaderWalletAddress :: string
  so_Slot :: u64
  so_AccountAddress :: string
  so_HubEndpoints :: "string list"
  so_HubResponsePubkey :: string
  so_Description :: string
  so_TechStack :: string
  so_FocusAreas :: string
  so_Name :: string

record MemberRecord =
  mr_OrgID :: string
  mr_Pubkey :: string
  mr_Role :: string
  mr_X25519Pubkey :: string
  mr_CanContribute :: bool
  mr_CanModerate :: bool

record StoredMemberRecord =
  sm_OrgId :: string
  sm_Pubkey :: string
  sm_Role :: string
  sm_X25519Pubkey :: string
  sm_CanContribute :: bool
  sm_CanModerate :: bool

record OrgConfig =
  oc_OrgID :: string
  oc_ServeReceiptRequired :: bool
  oc_ContestStakeVibe :: u64
  oc_VocabHash :: string
  oc_EmbeddingModelID :: string
  oc_MinContributionsPerEpoch :: u64

record StoredOrgConfig =
  sc_OrgId :: string
  sc_ServeReceiptRequired :: bool
  sc_ContestStakeVibe :: u64
  sc_VocabHash :: string
  sc_EmbeddingModelId :: string
  sc_MinContributionsPerEpoch :: u64

record org_Params =
  op_MinRegistrationFee :: u64
  op_AnnualRenewalFee :: u64
  op_DefaultStorageQuota :: u64
  op_DefaultRetrievalBudget :: u64
  op_GracePeriodEpochs :: u64
  op_BurnPriceDecayEpochs :: u64
  op_BaseBurnPrice :: u64
  op_BurnPriceIncreasePercent :: u64
  op_SlotCap :: u64

definition org_DefaultParams :: org_Params where
  "org_DefaultParams = \<lparr>
     op_MinRegistrationFee = 10000000, op_AnnualRenewalFee = 5000000,
     op_DefaultStorageQuota = 1073741824, op_DefaultRetrievalBudget = 10000,
     op_GracePeriodEpochs = 30, op_BurnPriceDecayEpochs = 10, op_BaseBurnPrice = 10000000,
     op_BurnPriceIncreasePercent = 20, op_SlotCap = 32\<rparr>"

definition org_zero_Params :: org_Params where
  "org_zero_Params = \<lparr>
     op_MinRegistrationFee = 0, op_AnnualRenewalFee = 0, op_DefaultStorageQuota = 0,
     op_DefaultRetrievalBudget = 0, op_GracePeriodEpochs = 0, op_BurnPriceDecayEpochs = 0,
     op_BaseBurnPrice = 0, op_BurnPriceIncreasePercent = 0, op_SlotCap = 0\<rparr>"

definition org_Params_Validate :: "org_Params \<Rightarrow> check" where
  "org_Params_Validate p =
     (if op_SlotCap p = 0 then Inl (Errorf ''slot_cap must be greater than 0'') else Inr ())"

definition NewOrg ::
  "string \<Rightarrow> string \<Rightarrow> string \<Rightarrow> string \<Rightarrow> string \<Rightarrow> string \<Rightarrow> u64 \<Rightarrow> u64 \<Rightarrow> Org" where
  "NewOrg orgID leader domain description techStack focusAreas storageQuota retrievalBudget = \<lparr>
     org_OrgID = orgID, org_Slot = 0, org_Leader = leader, org_Domain = domain, org_Name = [],
     org_Description = description, org_TechStack = techStack, org_FocusAreas = focusAreas,
     org_CreatedAt = 0, org_RenewalHeight = 0, org_StorageQuota = storageQuota,
     org_RetrievalBudget = retrievalBudget, org_Status = OrgStatus_ACTIVE,
     org_HubServingAddress = [], org_HubEndpoints = [], org_HubResponsePubkey = [],
     org_LeaderWalletAddress = [], org_AccountAddress = []\<rparr>"

fun containsASCIIControl :: "string \<Rightarrow> bool" where
  "containsASCIIControl [] = False"
| "containsASCIIControl (c # s) = (of_char c < (0x20 :: nat) \<or> containsASCIIControl s)"

text \<open>
  The loop over a domain ranges over code points; a code point outside ASCII is encoded in bytes
  of at least 128, none of which is allowed, so ranging over the bytes gives the same verdict.
\<close>

definition domain_char :: "char \<Rightarrow> bool" where
  "domain_char c \<longleftrightarrow>
     (CHR ''a'' \<le> c \<and> c \<le> CHR ''z'') \<or> (CHR ''A'' \<le> c \<and> c \<le> CHR ''Z'') \<or>
     (CHR ''0'' \<le> c \<and> c \<le> CHR ''9'') \<or> c \<in> set '' ,.-_/+&''"

definition Org_Validate :: "Org \<Rightarrow> check" where
  "Org_Validate o' =
     (if org_OrgID o' = [] then Inl (E_org Org_ErrInvalidOrgID)
      else if org_Leader o' = [] then Inl (E_org Org_ErrInvalidLeader)
      else if length (org_Description o') > 500 \<or> containsASCIIControl (org_Description o')
        then Inl (E_org Org_ErrInvalidDescription)
      else if length (org_TechStack o') > 200 \<or> containsASCIIControl (org_TechStack o')
        then Inl (E_org Org_ErrInvalidTechStack)
      else if length (org_FocusAreas o') > 200 \<or> containsASCIIControl (org_FocusAreas o')
        then Inl (E_org Org_ErrInvalidFocusAreas)
      else if length (org_Name o') > 100 \<or> containsASCIIControl (org_Name o')
        then Inl (E_org Org_ErrInvalidName)
      else if length (org_Domain o') > 128 then Inl (E_org Org_ErrInvalidDomain)
      else if \<not> list_all domain_char (org_Domain o') then Inl (E_org Org_ErrInvalidDomain)
      else Inr ())"

definition Org_IsActive :: "Org \<Rightarrow> bool" where
  "Org_IsActive o' \<longleftrightarrow> org_Status o' = OrgStatus_ACTIVE"

definition NewMemberRecord :: "string \<Rightarrow> string \<Rightarrow> string \<Rightarrow> string \<Rightarrow> MemberRecord" where
  "NewMemberRecord orgID pubkey role x25519Pubkey = \<lparr>
     mr_OrgID = orgID, mr_Pubkey = pubkey, mr_Role = role, mr_X25519Pubkey = x25519Pubkey,
     mr_CanContribute = False, mr_CanModerate = False\<rparr>"

definition orgConfigToStored :: "OrgConfig \<Rightarrow> StoredOrgConfig" where
  "orgConfigToStored cfg = \<lparr>
     sc_OrgId = oc_OrgID cfg, sc_ServeReceiptRequired = oc_ServeReceiptRequired cfg,
     sc_ContestStakeVibe = oc_ContestStakeVibe cfg, sc_VocabHash = oc_VocabHash cfg,
     sc_EmbeddingModelId = oc_EmbeddingModelID cfg,
     sc_MinContributionsPerEpoch = oc_MinContributionsPerEpoch cfg\<rparr>"

definition storedToOrgConfig :: "StoredOrgConfig \<Rightarrow> OrgConfig" where
  "storedToOrgConfig stored = \<lparr>
     oc_OrgID = sc_OrgId stored, oc_ServeReceiptRequired = sc_ServeReceiptRequired stored,
     oc_ContestStakeVibe = sc_ContestStakeVibe stored, oc_VocabHash = sc_VocabHash stored,
     oc_EmbeddingModelID = sc_EmbeddingModelId stored,
     oc_MinContributionsPerEpoch = sc_MinContributionsPerEpoch stored\<rparr>"

definition FormatOrgID :: "u64 \<Rightarrow> string" where
  "FormatOrgID slot = ''wevibe-org-'' @ FormatUint slot"

definition OrgAccountAddress :: "'x sdk \<Rightarrow> string \<Rightarrow> bytes" where
  "OrgAccountAddress K orgID = NewModuleAddress K (''orgacct/'' @ orgID)"

record org_GenesisState =
  og_Orgs :: "Org list"
  og_Members :: "MemberRecord list"
  og_OrgConfigs :: "OrgConfig list"
  og_NextSlot :: u64
  og_Params :: org_Params

definition org_DefaultGenesis :: org_GenesisState where
  "org_DefaultGenesis = \<lparr>og_Orgs = [], og_Members = [], og_OrgConfigs = [], og_NextSlot = 0,
     og_Params = org_DefaultParams\<rparr>"

definition org_GenesisState_Validate :: "org_GenesisState \<Rightarrow> check" where
  "org_GenesisState_Validate g = org_Params_Validate (og_Params g)"

subsection \<open>State and keys\<close>

text \<open>
  The module's store.  \<open>os_epoch_current\<close> is the value under the key \<open>epoch/current\<close>, which
  \<open>getCurrentEpoch\<close> reads.
\<close>

record org_state =
  os_params :: "org_Params option"
  os_slotreg :: "u64 option"
  os_orgs :: "StoredOrg kv"
  os_members :: "StoredMemberRecord kv"
  os_configs :: "StoredOrgConfig kv"
  os_epoch_current :: "bytes option"

definition org_empty :: org_state where
  "org_empty = \<lparr>os_params = None, os_slotreg = None, os_orgs = [], os_members = [],
     os_configs = [], os_epoch_current = None\<rparr>"

definition orgKey :: "string \<Rightarrow> bytes" where
  "orgKey orgID = ''org/'' @ orgID"

definition memberPrefix :: "string \<Rightarrow> bytes" where
  "memberPrefix orgID = ''member/'' @ orgID @ ''/''"

definition memberKey :: "string \<Rightarrow> string \<Rightarrow> bytes" where
  "memberKey orgID memberPubkey = ''member/'' @ orgID @ ''/'' @ memberPubkey"

definition orgConfigKey :: "string \<Rightarrow> bytes" where
  "orgConfigKey orgID = ''orgconfig/'' @ orgID"

definition orgToStored :: "Org \<Rightarrow> StoredOrg" where
  "orgToStored o' = \<lparr>
     so_OrgId = org_OrgID o', so_Leader = org_Leader o', so_CreatedAt = org_CreatedAt o',
     so_RenewalHeight = org_RenewalHeight o', so_StorageQuota = org_StorageQuota o',
     so_RetrievalBudget = org_RetrievalBudget o', so_Status = org_Status o',
     so_Domain = org_Domain o', so_TotalCommittedMemories = 0, so_TotalActiveMembers = 0,
     so_TotalUpheldReports = 0, so_LastActivityEpoch = 0,
     so_HubServingAddress = org_HubServingAddress o',
     so_LeaderWalletAddress = org_LeaderWalletAddress o', so_Slot = org_Slot o',
     so_AccountAddress = org_AccountAddress o', so_HubEndpoints = org_HubEndpoints o',
     so_HubResponsePubkey = org_HubResponsePubkey o', so_Description = org_Description o',
     so_TechStack = org_TechStack o', so_FocusAreas = org_FocusAreas o', so_Name = org_Name o'\<rparr>"

definition storedToOrg :: "StoredOrg \<Rightarrow> Org" where
  "storedToOrg s = \<lparr>
     org_OrgID = so_OrgId s, org_Slot = so_Slot s, org_Leader = so_Leader s,
     org_Domain = so_Domain s, org_Name = so_Name s, org_Description = so_Description s,
     org_TechStack = so_TechStack s, org_FocusAreas = so_FocusAreas s,
     org_CreatedAt = so_CreatedAt s, org_RenewalHeight = so_RenewalHeight s,
     org_StorageQuota = so_StorageQuota s, org_RetrievalBudget = so_RetrievalBudget s,
     org_Status = so_Status s, org_HubServingAddress = so_HubServingAddress s,
     org_HubEndpoints = so_HubEndpoints s, org_HubResponsePubkey = so_HubResponsePubkey s,
     org_LeaderWalletAddress = so_LeaderWalletAddress s, org_AccountAddress = so_AccountAddress s\<rparr>"

definition memberToStored :: "MemberRecord \<Rightarrow> StoredMemberRecord" where
  "memberToStored m = \<lparr>
     sm_OrgId = mr_OrgID m, sm_Pubkey = mr_Pubkey m, sm_Role = mr_Role m,
     sm_X25519Pubkey = mr_X25519Pubkey m, sm_CanContribute = mr_CanContribute m,
     sm_CanModerate = mr_CanModerate m\<rparr>"

definition storedToMember :: "StoredMemberRecord \<Rightarrow> MemberRecord" where
  "storedToMember s = \<lparr>
     mr_OrgID = sm_OrgId s, mr_Pubkey = sm_Pubkey s, mr_Role = sm_Role s,
     mr_X25519Pubkey = sm_X25519Pubkey s, mr_CanContribute = sm_CanContribute s,
     mr_CanModerate = sm_CanModerate s\<rparr>"

text \<open>What \<open>proto.Unmarshal\<close> makes of an absent record: every field has its zero value.\<close>

definition zero_StoredMemberRecord :: StoredMemberRecord where
  "zero_StoredMemberRecord = \<lparr>sm_OrgId = [], sm_Pubkey = [], sm_Role = [], sm_X25519Pubkey = [],
     sm_CanContribute = False, sm_CanModerate = False\<rparr>"

subsection \<open>Keeper\<close>

definition org_SetParams :: "org_Params \<Rightarrow> org_state \<Rightarrow> org_state" where
  "org_SetParams p st = st\<lparr>os_params := Some p\<rparr>"

definition org_GetParams :: "org_state \<Rightarrow> org_Params" where
  "org_GetParams st = (case os_params st of None \<Rightarrow> org_DefaultParams | Some p \<Rightarrow> p)"

definition GetNextSlot :: "org_state \<Rightarrow> u64" where
  "GetNextSlot st = (case os_slotreg st of None \<Rightarrow> 0 | Some n \<Rightarrow> n)"

definition SetNextSlot :: "u64 \<Rightarrow> org_state \<Rightarrow> org_state" where
  "SetNextSlot n st = st\<lparr>os_slotreg := Some n\<rparr>"

definition GetAllOrgs :: "org_state \<Rightarrow> Org list" where
  "GetAllOrgs st = map (\<lambda>e. storedToOrg (snd e)) (os_orgs st)"

text \<open>\<open>for i := uint64(0); i < slot; i++ { multiplier.Add(multiplier, inc) }\<close>\<close>

fun ascending_multiplier :: "nat \<Rightarrow> rat \<Rightarrow> rat \<Rightarrow> rat" where
  "ascending_multiplier 0 inc multiplier = multiplier"
| "ascending_multiplier (Suc n) inc multiplier = ascending_multiplier n inc (multiplier + inc)"

text \<open>
  \<open>big.Rat\<close> keeps a reduced fraction, whose numerator and denominator are \<open>quotient_of\<close>;
  \<open>big.Int.Div\<close> by a positive number rounds down.  The conversions to \<open>int64\<close> read the word as
  a signed number.
\<close>

definition computeAscendingPrice :: "org_state \<Rightarrow> u64 \<Rightarrow> u64" where
  "computeAscendingPrice st slot =
     (let params = org_GetParams st;
          basePrice = op_BaseBurnPrice params;
          increasePercent = op_BurnPriceIncreasePercent params;
          multiplier = ascending_multiplier (unat slot)
            (Fract (sint increasePercent) 100) (Fract 100 100);
          (num, denom) = quotient_of multiplier;
          result = (sint basePrice * num) div denom
      in if result \<le> 0 then basePrice
         else if 2 ^ 64 \<le> result then basePrice
         else word_of_int result)"

definition ComputeSlotPrice :: "org_state \<Rightarrow> u64 \<Rightarrow> nat" where
  "ComputeSlotPrice st slot = unat (computeAscendingPrice st slot)"

definition GetOrg :: "org_state \<Rightarrow> string \<Rightarrow> Org result" where
  "GetOrg st orgID =
     (case kv_get (os_orgs st) (orgKey orgID) of
        None \<Rightarrow> Inl (E_org Org_ErrOrgNotFound)
      | Some stored \<Rightarrow> Inr (storedToOrg stored))"

definition HasOrg :: "org_state \<Rightarrow> string \<Rightarrow> bool" where
  "HasOrg st orgID = kv_has (os_orgs st) (orgKey orgID)"

definition GetMember :: "org_state \<Rightarrow> string \<Rightarrow> string \<Rightarrow> MemberRecord result" where
  "GetMember st orgID memberPubkey =
     (case kv_get (os_members st) (memberKey orgID memberPubkey) of
        None \<Rightarrow> Inl (E_org Org_ErrMemberNotFound)
      | Some stored \<Rightarrow> Inr (storedToMember stored))"

definition GetAllMembers :: "org_state \<Rightarrow> string \<Rightarrow> MemberRecord list" where
  "GetAllMembers st orgID =
     map (\<lambda>e. storedToMember (snd e)) (kv_prefix (memberPrefix orgID) (os_members st))"

definition IsMember :: "org_state \<Rightarrow> string \<Rightarrow> string \<Rightarrow> bool" where
  "IsMember st orgID memberPubkey = kv_has (os_members st) (memberKey orgID memberPubkey)"

definition IsLeader :: "org_state \<Rightarrow> string \<Rightarrow> string \<Rightarrow> bool" where
  "IsLeader st orgID memberPubkey =
     (case GetMember st orgID memberPubkey of Inl e \<Rightarrow> False | Inr m \<Rightarrow> mr_Role m = ''leader'')"

definition IsModerator :: "org_state \<Rightarrow> string \<Rightarrow> string \<Rightarrow> bool" where
  "IsModerator st orgID memberPubkey =
     (case GetMember st orgID memberPubkey of Inl e \<Rightarrow> False | Inr m \<Rightarrow> mr_CanModerate m)"

definition GetServingAddress :: "org_state \<Rightarrow> string \<Rightarrow> string result" where
  "GetServingAddress st orgID =
     (case GetOrg st orgID of Inl e \<Rightarrow> Inl e | Inr o' \<Rightarrow> Inr (org_HubServingAddress o'))"

definition GetLeaderWallet :: "org_state \<Rightarrow> string \<Rightarrow> string result" where
  "GetLeaderWallet st orgID =
     (case GetOrg st orgID of Inl e \<Rightarrow> Inl e | Inr o' \<Rightarrow> Inr (org_LeaderWalletAddress o'))"

subsubsection \<open>Fee grants\<close>

definition servingAllowedMsgTypeURLs :: "string list" where
  "servingAllowedMsgTypeURLs =
     [''/wevibe.serve.v1.MsgSubmitServeBatch'', ''/wevibe.serve.v1.MsgSubmitDenialBatch'',
      ''/wevibe.serve.v1.MsgSubmitEventBatch'']"

definition leaderAllowedMsgTypeURLs :: "string list" where
  "leaderAllowedMsgTypeURLs =
     [''/wevibe.org.v1.MsgAddMember'', ''/wevibe.org.v1.MsgRemoveMember'',
      ''/wevibe.org.v1.MsgSetMemberCapabilities'', ''/wevibe.org.v1.MsgSetOrgConfig'',
      ''/wevibe.org.v1.MsgSetServingKey'', ''/wevibe.org.v1.MsgSetServingInfo'',
      ''/wevibe.org.v1.MsgTransferLeadership'', ''/wevibe.org.v1.MsgCloseOrg'',
      ''/wevibe.org.v1.MsgGrantTrialAllowance'', ''/wevibe.memory.v1.MsgSubmitCommitment'',
      ''/wevibe.memory.v1.MsgApproveMemory'', ''/wevibe.memory.v1.MsgReportMemory'']"

definition grantServingFeegrant :: "'x sdk \<Rightarrow> 'x \<Rightarrow> bytes \<Rightarrow> string \<Rightarrow> 'x result" where
  "grantServingFeegrant K x orgAccountAddr servingAddr =
     (if servingAddr = [] then Inr x
      else case AccAddressFromBech32 K servingAddr of
        None \<Rightarrow> Inl (Errorf ''parse serving address'')
      | Some servingAddrParsed \<Rightarrow>
          (case feegrantKeeper K of
             None \<Rightarrow> Inl (E_org Org_ErrFeegrantUnavailable)
           | Some GrantAllowance \<Rightarrow>
               (case GrantAllowance x orgAccountAddr servingAddrParsed
                       (AllowedMsgAllowance servingAllowedMsgTypeURLs) of
                  None \<Rightarrow> Inl (Errorf ''grant serving feegrant'')
                | Some x' \<Rightarrow> Inr x')))"

definition grantLeaderFeegrant :: "'x sdk \<Rightarrow> 'x \<Rightarrow> bytes \<Rightarrow> string \<Rightarrow> 'x result" where
  "grantLeaderFeegrant K x granter leaderWalletBech32 =
     (if leaderWalletBech32 = [] then Inr x
      else case AccAddressFromBech32 K leaderWalletBech32 of
        None \<Rightarrow> Inl (Errorf ''parse leader wallet address'')
      | Some leaderWalletAddr \<Rightarrow>
          (case feegrantKeeper K of
             None \<Rightarrow> Inl (E_org Org_ErrFeegrantUnavailable)
           | Some GrantAllowance \<Rightarrow>
               (case GrantAllowance x granter leaderWalletAddr
                       (AllowedMsgAllowance leaderAllowedMsgTypeURLs) of
                  None \<Rightarrow> Inl (Errorf ''grant leader feegrant'')
                | Some x' \<Rightarrow> Inr x')))"

subsubsection \<open>Registration\<close>

text \<open>
  The payment: half of the price, rounded down, is sent to the module account and burned, the rest
  is sent to the account of the new organisation.
\<close>

definition register_payment :: "'x sdk \<Rightarrow> 'x \<Rightarrow> bytes \<Rightarrow> string \<Rightarrow> nat \<Rightarrow> 'x result" where
  "register_payment K x creator orgID price =
     (if 0 < price then
        let burnHalf = price div 2; acctHalf = price - burnHalf in
        case (if 0 < burnHalf then
                (case SendCoinsFromAccountToModule K x creator ''org'' (uvibe burnHalf) of
                   None \<Rightarrow> Inl (E_org Org_ErrInsufficientFund)
                 | Some x1 \<Rightarrow>
                     (case BurnCoins K x1 ''org'' (uvibe burnHalf) of
                        None \<Rightarrow> Inl (Errorf ''burn coins'')
                      | Some x2 \<Rightarrow> Inr x2))
              else Inr x) of
          Inl e \<Rightarrow> Inl e
        | Inr x2 \<Rightarrow>
            (if 0 < acctHalf then
               (case SendCoins K x2 creator (OrgAccountAddress K orgID) (uvibe acctHalf) of
                  None \<Rightarrow> Inl (E_org Org_ErrInsufficientFund)
                | Some x3 \<Rightarrow> Inr x3)
             else Inr x2)
      else Inr x)"

definition RegisterOrg ::
  "'x sdk \<Rightarrow> org_state \<Rightarrow> 'x \<Rightarrow> Org \<Rightarrow> bytes \<Rightarrow> (org_state \<times> 'x \<times> string) result" where
  "RegisterOrg K st x org0 creator =
     (let nextSlot = GetNextSlot st; params = org_GetParams st in
      if op_SlotCap params \<le> nextSlot then Inl (E_org Org_ErrSlotCapReached)
      else
        let orgID = FormatOrgID nextSlot;
            o' = org0\<lparr>org_Slot := nextSlot, org_OrgID := orgID,
                   org_AccountAddress := AccAddress_String K (OrgAccountAddress K orgID)\<rparr>
        in
        case Org_Validate o' of
          Inl e \<Rightarrow> Inl e
        | Inr _ \<Rightarrow>
            if kv_has (os_orgs st) (orgKey orgID) then Inl (E_org Org_ErrOrgAlreadyExists)
            else if list_ex (\<lambda>existing. org_Leader existing = org_Leader o') (GetAllOrgs st)
              then Inl (E_org Org_ErrLeaderAlreadyOwnsOrg)
            else
              (case register_payment K x creator orgID (ComputeSlotPrice st nextSlot) of
                 Inl e \<Rightarrow> Inl e
               | Inr x1 \<Rightarrow>
                   let storedOrg = (orgToStored o')\<lparr>so_TotalActiveMembers := 1\<rparr>;
                       st1 = st\<lparr>os_orgs := kv_set (orgKey orgID) storedOrg (os_orgs st)\<rparr>
                   in
                   (case grantServingFeegrant K x1 (OrgAccountAddress K orgID)
                           (org_HubServingAddress o') of
                      Inl e \<Rightarrow> Inl e
                    | Inr x2 \<Rightarrow>
                        (case (if org_LeaderWalletAddress o' \<noteq> [] then
                                 grantLeaderFeegrant K x2 (OrgAccountAddress K orgID)
                                   (org_LeaderWalletAddress o')
                               else Inr x2) of
                           Inl e \<Rightarrow> Inl e
                         | Inr x3 \<Rightarrow>
                             let leader = zero_StoredMemberRecord\<lparr>sm_OrgId := orgID,
                                   sm_Pubkey := org_Leader o', sm_Role := ''leader''\<rparr>;
                                 st2 = st1\<lparr>os_members :=
                                   kv_set (memberKey orgID (org_Leader o')) leader (os_members st1)\<rparr>
                             in Inr (SetNextSlot (nextSlot + 1) st2, x3, orgID)))))"

subsubsection \<open>Members and leadership\<close>

definition AddMember :: "org_state \<Rightarrow> MemberRecord \<Rightarrow> org_state result" where
  "AddMember st member =
     (if mr_Role member \<noteq> ''member'' then Inl (E_org Org_ErrInvalidRole)
      else case kv_get (os_orgs st) (orgKey (mr_OrgID member)) of
        None \<Rightarrow> Inl (E_org Org_ErrOrgNotFound)
      | Some orgStored \<Rightarrow>
          if so_Status orgStored \<noteq> OrgStatus_ACTIVE then Inl (E_org Org_ErrOrgNotActive)
          else
            let key = memberKey (mr_OrgID member) (mr_Pubkey member) in
            if kv_has (os_members st) key then Inl (E_org Org_ErrMemberExists)
            else Inr (st\<lparr>
              os_members := kv_set key (memberToStored member) (os_members st),
              os_orgs := kv_set (orgKey (mr_OrgID member))
                (orgStored\<lparr>so_TotalActiveMembers := so_TotalActiveMembers orgStored + 1\<rparr>)
                (os_orgs st)\<rparr>))"

definition RemoveMember :: "org_state \<Rightarrow> string \<Rightarrow> string \<Rightarrow> org_state result" where
  "RemoveMember st orgID memberPubkey =
     (let key = memberKey orgID memberPubkey in
      case kv_get (os_members st) key of
        None \<Rightarrow> Inl (E_org Org_ErrMemberNotFound)
      | Some memberStored \<Rightarrow>
          if sm_Role memberStored = ''leader'' then Inl (E_org Org_ErrCannotRemoveLeader)
          else (case kv_get (os_orgs st) (orgKey orgID) of
            None \<Rightarrow> Inl (E_org Org_ErrOrgNotFound)
          | Some orgStored \<Rightarrow>
              if so_Status orgStored \<noteq> OrgStatus_ACTIVE then Inl (E_org Org_ErrOrgNotActive)
              else Inr (st\<lparr>
                os_members := kv_del key (os_members st),
                os_orgs := kv_set (orgKey orgID)
                  (if 0 < so_TotalActiveMembers orgStored
                   then orgStored\<lparr>so_TotalActiveMembers := so_TotalActiveMembers orgStored - 1\<rparr>
                   else orgStored) (os_orgs st)\<rparr>)))"

text \<open>The authorisation of every leader operation: the signer is the non-empty leader wallet.\<close>

definition leader_authorized :: "Org \<Rightarrow> string \<Rightarrow> bool" where
  "leader_authorized o' signer \<longleftrightarrow>
     \<not> (org_LeaderWalletAddress o' = [] \<or> signer \<noteq> org_LeaderWalletAddress o')"

text \<open>
  The read-modify-write of the stored record, \<open>store.Get\<close>, \<open>proto.Unmarshal\<close>, an assignment,
  \<open>store.Set\<close>, after \<open>GetOrg\<close> has found the organisation.
\<close>

definition modify_stored_org :: "(StoredOrg \<Rightarrow> StoredOrg) \<Rightarrow> string \<Rightarrow> org_state \<Rightarrow> org_state" where
  "modify_stored_org f orgID st =
     (case kv_get (os_orgs st) (orgKey orgID) of
        None \<Rightarrow> st
      | Some stored \<Rightarrow> st\<lparr>os_orgs := kv_set (orgKey orgID) (f stored) (os_orgs st)\<rparr>)"

definition SetServingKey ::
  "'x sdk \<Rightarrow> org_state \<Rightarrow> 'x \<Rightarrow> string \<Rightarrow> string \<Rightarrow> string \<Rightarrow> (org_state \<times> 'x) result" where
  "SetServingKey K st x orgID newServingKey signer =
     (case GetOrg st orgID of
        Inl e \<Rightarrow> Inl e
      | Inr o' \<Rightarrow>
          if \<not> leader_authorized o' signer then Inl (E_org Org_ErrNotLeader)
          else
            let st' = modify_stored_org (\<lambda>s. s\<lparr>so_HubServingAddress := newServingKey\<rparr>) orgID st in
            (case grantServingFeegrant K x (OrgAccountAddress K orgID) newServingKey of
               Inl e \<Rightarrow> Inl e
             | Inr x' \<Rightarrow> Inr (st', x')))"

fun ValidateHubEndpoints_loop :: "'x sdk \<Rightarrow> string list \<Rightarrow> check" where
  "ValidateHubEndpoints_loop K [] = Inr ()"
| "ValidateHubEndpoints_loop K (endpoint # es) =
     (case url_Parse K endpoint of
        None \<Rightarrow> Inl (E_org Org_ErrInvalidHubEndpoints)
      | Some (scheme, host) \<Rightarrow>
          if (ToLower scheme \<noteq> ''http'' \<and> ToLower scheme \<noteq> ''https'') \<or> host = []
          then Inl (E_org Org_ErrInvalidHubEndpoints)
          else ValidateHubEndpoints_loop K es)"

definition ValidateHubEndpoints :: "'x sdk \<Rightarrow> string list \<Rightarrow> check" where
  "ValidateHubEndpoints K endpoints =
     (if length endpoints < 1 \<or> 3 < length endpoints then Inl (E_org Org_ErrInvalidHubEndpoints)
      else ValidateHubEndpoints_loop K endpoints)"

definition ValidateHubResponsePubkey :: "string \<Rightarrow> check" where
  "ValidateHubResponsePubkey pubkey =
     (if pubkey = [] then Inr ()
      else if pubkey \<noteq> ToLower pubkey then Inl (E_org Org_ErrInvalidHubResponsePubkey)
      else case hex_decode pubkey of
        None \<Rightarrow> Inl (E_org Org_ErrInvalidHubResponsePubkey)
      | Some bz \<Rightarrow>
          if length bz \<noteq> 32 then Inl (E_org Org_ErrInvalidHubResponsePubkey) else Inr ())"

definition SetServingInfo ::
  "'x sdk \<Rightarrow> org_state \<Rightarrow> string \<Rightarrow> string list \<Rightarrow> string \<Rightarrow> string \<Rightarrow> org_state result" where
  "SetServingInfo K st orgID endpoints responsePubkey signer =
     (case GetOrg st orgID of
        Inl e \<Rightarrow> Inl e
      | Inr o' \<Rightarrow>
          if \<not> leader_authorized o' signer then Inl (E_org Org_ErrNotLeader)
          else (case ValidateHubEndpoints K endpoints of
            Inl e \<Rightarrow> Inl e
          | Inr _ \<Rightarrow>
              Inr (modify_stored_org
                (\<lambda>s. s\<lparr>so_HubEndpoints := endpoints, so_HubResponsePubkey := responsePubkey\<rparr>)
                orgID st)))"

definition SetMemberCapabilities ::
  "org_state \<Rightarrow> string \<Rightarrow> string \<Rightarrow> bool \<Rightarrow> bool \<Rightarrow> string \<Rightarrow> org_state result" where
  "SetMemberCapabilities st orgID pubkey canContribute canModerate signer =
     (case GetOrg st orgID of
        Inl e \<Rightarrow> Inl e
      | Inr o' \<Rightarrow>
          if \<not> leader_authorized o' signer then Inl (E_org Org_ErrNotLeader)
          else if org_Status o' \<noteq> OrgStatus_ACTIVE then Inl (E_org Org_ErrOrgNotActive)
          else (case GetMember st orgID pubkey of
            Inl e \<Rightarrow> Inl e
          | Inr member \<Rightarrow>
              Inr (st\<lparr>os_members := kv_set (memberKey orgID pubkey)
                (memberToStored (member\<lparr>mr_CanContribute := canContribute,
                   mr_CanModerate := canModerate\<rparr>)) (os_members st)\<rparr>)))"

text \<open>An absent record reads as the zero record: \<open>proto.Unmarshal\<close> of no bytes succeeds.\<close>

definition get_stored_member :: "org_state \<Rightarrow> bytes \<Rightarrow> StoredMemberRecord" where
  "get_stored_member st key =
     (case kv_get (os_members st) key of None \<Rightarrow> zero_StoredMemberRecord | Some s \<Rightarrow> s)"

definition TransferLeadership ::
  "'x sdk \<Rightarrow> org_state \<Rightarrow> 'x \<Rightarrow> string \<Rightarrow> string \<Rightarrow> string \<Rightarrow> string \<Rightarrow> (org_state \<times> 'x) result" where
  "TransferLeadership K st x orgID newLeader newLeaderWallet signer =
     (if newLeaderWallet = [] then Inl (Errorf ''new_leader_wallet cannot be empty'')
      else if AccAddressFromBech32 K newLeaderWallet = None
        then Inl (Errorf ''invalid new_leader_wallet'')
      else case GetOrg st orgID of
        Inl e \<Rightarrow> Inl e
      | Inr o' \<Rightarrow>
          if \<not> leader_authorized o' signer then Inl (E_org Org_ErrNotLeader)
          else (case GetMember st orgID newLeader of
            Inl e \<Rightarrow> Inl (Errorf ''new_leader must be a member of the org'')
          | Inr _ \<Rightarrow>
              let oldLeaderKey = memberKey orgID (org_Leader o');
                  oldLeader = (get_stored_member st oldLeaderKey)\<lparr>sm_Role := ''member''\<rparr>;
                  st1 = st\<lparr>os_members := kv_set oldLeaderKey oldLeader (os_members st)\<rparr>;
                  newLeaderKey = memberKey orgID newLeader;
                  newLeaderRec = (get_stored_member st1 newLeaderKey)\<lparr>sm_Role := ''leader''\<rparr>;
                  st2 = st1\<lparr>os_members := kv_set newLeaderKey newLeaderRec (os_members st1)\<rparr>;
                  st3 = modify_stored_org
                    (\<lambda>s. s\<lparr>so_Leader := newLeader, so_LeaderWalletAddress := newLeaderWallet\<rparr>)
                    orgID st2
              in
              (case grantLeaderFeegrant K x (OrgAccountAddress K orgID) newLeaderWallet of
                 Inl e \<Rightarrow> Inl e
               | Inr x' \<Rightarrow> Inr (st3, x'))))"

definition CloseOrg :: "org_state \<Rightarrow> string \<Rightarrow> string \<Rightarrow> org_state result" where
  "CloseOrg st orgID signer =
     (case GetOrg st orgID of
        Inl e \<Rightarrow> Inl e
      | Inr o' \<Rightarrow>
          if \<not> leader_authorized o' signer then Inl (E_org Org_ErrNotLeader)
          else if org_Status o' \<noteq> OrgStatus_ACTIVE then Inl (E_org Org_ErrOrgNotActive)
          else Inr (modify_stored_org (\<lambda>s. s\<lparr>so_Status := OrgStatus_CLOSED\<rparr>) orgID st))"

definition UpdateOrgStatus :: "org_state \<Rightarrow> string \<Rightarrow> i32 \<Rightarrow> org_state result" where
  "UpdateOrgStatus st orgID status =
     (if kv_get (os_orgs st) (orgKey orgID) = None then Inl (E_org Org_ErrOrgNotFound)
      else Inr (modify_stored_org (\<lambda>s. s\<lparr>so_Status := status\<rparr>) orgID st))"

definition UpdateStorageQuota :: "org_state \<Rightarrow> string \<Rightarrow> u64 \<Rightarrow> org_state result" where
  "UpdateStorageQuota st orgID quota =
     (if kv_get (os_orgs st) (orgKey orgID) = None then Inl (E_org Org_ErrOrgNotFound)
      else Inr (modify_stored_org (\<lambda>s. s\<lparr>so_StorageQuota := quota\<rparr>) orgID st))"

definition GetOrgConfig :: "org_state \<Rightarrow> string \<Rightarrow> OrgConfig" where
  "GetOrgConfig st orgID =
     (case kv_get (os_configs st) (orgConfigKey orgID) of
        None \<Rightarrow> \<lparr>oc_OrgID = orgID, oc_ServeReceiptRequired = False, oc_ContestStakeVibe = 0,
          oc_VocabHash = [], oc_EmbeddingModelID = [], oc_MinContributionsPerEpoch = 0\<rparr>
      | Some stored \<Rightarrow> storedToOrgConfig stored)"

definition SetOrgConfig :: "org_state \<Rightarrow> string \<Rightarrow> OrgConfig \<Rightarrow> org_state" where
  "SetOrgConfig st orgID cfg =
     st\<lparr>os_configs := kv_set (orgConfigKey orgID) (orgConfigToStored cfg) (os_configs st)\<rparr>"

subsubsection \<open>Aggregates\<close>

text \<open>\<open>binary.BigEndian.Uint64\<close> reads the first eight bytes and panics on fewer.\<close>

definition BigEndian_Uint64 :: "bytes \<Rightarrow> u64 result" where
  "BigEndian_Uint64 bz =
     (if length bz < 8 then Inl (Panic ''index out of range'')
      else Inr (foldl (\<lambda>acc c. 256 * acc + of_nat (of_char c)) 0 (take 8 bz)))"

definition org_getCurrentEpoch :: "org_state \<Rightarrow> u64 result" where
  "org_getCurrentEpoch st =
     (case os_epoch_current st of None \<Rightarrow> Inr 0 | Some bz \<Rightarrow> BigEndian_Uint64 bz)"

definition modifyOrgAggregate ::
  "org_state \<Rightarrow> string \<Rightarrow> (StoredOrg \<Rightarrow> u64 \<Rightarrow> StoredOrg) \<Rightarrow> org_state result" where
  "modifyOrgAggregate st orgID fn =
     (case kv_get (os_orgs st) (orgKey orgID) of
        None \<Rightarrow> Inl (E_org Org_ErrOrgNotFound)
      | Some stored \<Rightarrow>
          (case org_getCurrentEpoch st of
             Inl e \<Rightarrow> Inl e
           | Inr currentEpoch \<Rightarrow>
               Inr (st\<lparr>os_orgs := kv_set (orgKey orgID) (fn stored currentEpoch) (os_orgs st)\<rparr>)))"

definition IncrementOrgCommittedMemories :: "org_state \<Rightarrow> string \<Rightarrow> org_state result" where
  "IncrementOrgCommittedMemories st orgID =
     modifyOrgAggregate st orgID (\<lambda>stored currentEpoch.
       stored\<lparr>so_TotalCommittedMemories := so_TotalCommittedMemories stored + 1,
         so_LastActivityEpoch := currentEpoch\<rparr>)"

definition IncrementOrgUpheldReports :: "org_state \<Rightarrow> string \<Rightarrow> org_state result" where
  "IncrementOrgUpheldReports st orgID =
     modifyOrgAggregate st orgID (\<lambda>stored currentEpoch.
       stored\<lparr>so_TotalUpheldReports := so_TotalUpheldReports stored + 1,
         so_LastActivityEpoch := currentEpoch\<rparr>)"

definition SetOrgLastActivityEpoch :: "org_state \<Rightarrow> string \<Rightarrow> u64 \<Rightarrow> org_state result" where
  "SetOrgLastActivityEpoch st orgID epoch =
     modifyOrgAggregate st orgID (\<lambda>stored _. stored\<lparr>so_LastActivityEpoch := epoch\<rparr>)"

definition RecomputeOrgActiveMembers :: "org_state \<Rightarrow> string \<Rightarrow> org_state result" where
  "RecomputeOrgActiveMembers st orgID =
     (let count = of_nat (length (filter (\<lambda>e. sm_Role (snd e) \<noteq> ''inactive'')
            (kv_prefix (memberPrefix orgID) (os_members st)))) in
      modifyOrgAggregate st orgID (\<lambda>stored currentEpoch.
        stored\<lparr>so_TotalActiveMembers := count, so_LastActivityEpoch := currentEpoch\<rparr>))"

subsubsection \<open>Genesis\<close>

fun org_InitGenesis_orgs :: "Org list \<Rightarrow> org_state \<Rightarrow> org_state result" where
  "org_InitGenesis_orgs [] st = Inr st"
| "org_InitGenesis_orgs (o' # os) st =
     (case Org_Validate o' of
        Inl e \<Rightarrow> Inl e
      | Inr _ \<Rightarrow> org_InitGenesis_orgs os
          (st\<lparr>os_orgs := kv_set (orgKey (org_OrgID o')) (orgToStored o') (os_orgs st)\<rparr>))"

definition org_InitGenesis :: "org_state \<Rightarrow> org_GenesisState \<Rightarrow> org_state result" where
  "org_InitGenesis st0 state =
     (let params = (if og_Params state = org_zero_Params then org_DefaultParams
                    else og_Params state);
          st1 = SetNextSlot (og_NextSlot state) (org_SetParams params st0) in
      case org_InitGenesis_orgs (og_Orgs state) st1 of
        Inl e \<Rightarrow> Inl e
      | Inr st2 \<Rightarrow>
          let st3 = fold (\<lambda>m st. st\<lparr>os_members :=
                kv_set (memberKey (mr_OrgID m) (mr_Pubkey m)) (memberToStored m) (os_members st)\<rparr>)
                (og_Members state) st2;
              st4 = fold (\<lambda>c st. st\<lparr>os_configs :=
                kv_set (orgConfigKey (oc_OrgID c))
                  \<lparr>sc_OrgId = oc_OrgID c, sc_ServeReceiptRequired = oc_ServeReceiptRequired c,
                   sc_ContestStakeVibe = 0, sc_VocabHash = [], sc_EmbeddingModelId = [],
                   sc_MinContributionsPerEpoch = 0\<rparr> (os_configs st)\<rparr>)
                (og_OrgConfigs state) st3
          in Inr st4)"

definition org_ExportGenesis :: "org_state \<Rightarrow> org_GenesisState" where
  "org_ExportGenesis st = \<lparr>
     og_Orgs = map (\<lambda>e. storedToOrg (snd e)) (os_orgs st),
     og_Members = map (\<lambda>e. storedToMember (snd e)) (os_members st),
     og_OrgConfigs = map (\<lambda>e. \<lparr>oc_OrgID = sc_OrgId (snd e),
       oc_ServeReceiptRequired = sc_ServeReceiptRequired (snd e),
       oc_ContestStakeVibe = sc_ContestStakeVibe (snd e), oc_VocabHash = [],
       oc_EmbeddingModelID = [],
       oc_MinContributionsPerEpoch = sc_MinContributionsPerEpoch (snd e)\<rparr>) (os_configs st),
     og_NextSlot = GetNextSlot st,
     og_Params = org_GetParams st\<rparr>"

subsection \<open>Messages\<close>

record MsgRegisterOrg =
  mro_Signer :: string
  mro_Leader :: string
  mro_StorageQuota :: u64
  mro_RetrievalBudget :: u64
  mro_Domain :: string
  mro_HubServingKey :: string
  mro_LeaderWallet :: string
  mro_Description :: string
  mro_TechStack :: string
  mro_FocusAreas :: string
  mro_Name :: string

record MsgSetServingKey =
  msk_Signer :: string
  msk_OrgId :: string
  msk_NewServingKey :: string

record MsgSetServingInfo =
  msi_Signer :: string
  msi_OrgId :: string
  msi_HubEndpoints :: "string list"
  msi_HubResponsePubkey :: string

record MsgAddMember =
  mam_Signer :: string
  mam_OrgId :: string
  mam_Pubkey :: string
  mam_Role :: string
  mam_X25519Pubkey :: string
  mam_CanContribute :: bool
  mam_CanModerate :: bool

record MsgRemoveMember =
  mrm_Signer :: string
  mrm_OrgId :: string
  mrm_Pubkey :: string

record org_MsgUpdateParams =
  omu_Authority :: string
  omu_Params :: "org_Params option"

record MsgSetOrgConfig =
  mso_Signer :: string
  mso_OrgId :: string
  mso_ServeReceiptRequired :: bool
  mso_MinContributionsPerEpoch :: u64
  mso_ContestStakeVibe :: u64
  mso_VocabHash :: string
  mso_EmbeddingModelId :: string

record MsgGrantTrialAllowance =
  mgt_Signer :: string
  mgt_OrgId :: string
  mgt_Grantee :: string
  mgt_DailySubmissions :: u64
  mgt_TrialDays :: u64

record MsgSetMemberCapabilities =
  mmc_Signer :: string
  mmc_OrgId :: string
  mmc_Pubkey :: string
  mmc_CanContribute :: bool
  mmc_CanModerate :: bool

record MsgTransferLeadership =
  mtl_Signer :: string
  mtl_OrgId :: string
  mtl_NewLeader :: string
  mtl_NewLeaderWallet :: string

record MsgCloseOrg =
  mco_Signer :: string
  mco_OrgId :: string

definition MsgRegisterOrg_ValidateBasic :: "MsgRegisterOrg \<Rightarrow> check" where
  "MsgRegisterOrg_ValidateBasic m =
     (if mro_Signer m = [] then Inl (Errorf ''signer cannot be empty'')
      else if mro_Leader m = [] then Inl (E_org Org_ErrInvalidLeader)
      else Inr ())"

definition MsgSetServingKey_ValidateBasic :: "MsgSetServingKey \<Rightarrow> check" where
  "MsgSetServingKey_ValidateBasic m =
     (if msk_Signer m = [] then Inl (Errorf ''signer cannot be empty'')
      else if msk_OrgId m = [] then Inl (E_org Org_ErrInvalidOrgID)
      else if msk_NewServingKey m = [] then Inl (Errorf ''new_serving_key cannot be empty'')
      else Inr ())"

definition MsgSetServingInfo_ValidateBasic :: "'x sdk \<Rightarrow> MsgSetServingInfo \<Rightarrow> check" where
  "MsgSetServingInfo_ValidateBasic K m =
     (if msi_Signer m = [] then Inl (Errorf ''signer cannot be empty'')
      else if msi_OrgId m = [] then Inl (E_org Org_ErrInvalidOrgID)
      else case ValidateHubEndpoints K (msi_HubEndpoints m) of
        Inl e \<Rightarrow> Inl e
      | Inr _ \<Rightarrow> ValidateHubResponsePubkey (msi_HubResponsePubkey m))"

definition MsgAddMember_ValidateBasic :: "MsgAddMember \<Rightarrow> check" where
  "MsgAddMember_ValidateBasic m =
     (if mam_Signer m = [] then Inl (Errorf ''signer cannot be empty'')
      else if mam_OrgId m = [] then Inl (E_org Org_ErrInvalidOrgID)
      else if mam_Pubkey m = [] then Inl (Errorf ''pubkey cannot be empty'')
      else if mam_X25519Pubkey m = [] then Inl (Errorf ''x25519_pubkey cannot be empty'')
      else if mam_Role m \<noteq> ''member'' then Inl (E_org Org_ErrInvalidRole)
      else Inr ())"

definition MsgRemoveMember_ValidateBasic :: "MsgRemoveMember \<Rightarrow> check" where
  "MsgRemoveMember_ValidateBasic m =
     (if mrm_Signer m = [] then Inl (Errorf ''signer cannot be empty'')
      else if mrm_OrgId m = [] then Inl (E_org Org_ErrInvalidOrgID)
      else if mrm_Pubkey m = [] then Inl (Errorf ''pubkey cannot be empty'')
      else Inr ())"

definition MsgSetOrgConfig_ValidateBasic :: "MsgSetOrgConfig \<Rightarrow> check" where
  "MsgSetOrgConfig_ValidateBasic m =
     (if mso_Signer m = [] then Inl (Errorf ''signer cannot be empty'')
      else if mso_OrgId m = [] then Inl (E_org Org_ErrInvalidOrgID)
      else if 100 < mso_MinContributionsPerEpoch m
        then Inl (Errorf ''min_contributions_per_epoch must be <= 100'')
      else if mso_VocabHash m \<noteq> [] \<and>
          (length (mso_VocabHash m) \<noteq> 64 \<or> mso_VocabHash m \<noteq> ToLower (mso_VocabHash m) \<or>
           hex_decode (mso_VocabHash m) = None)
        then Inl (Errorf ''vocab_hash must be 64 lowercase hex chars'')
      else if mso_EmbeddingModelId m \<noteq> [] \<and> 128 < length (mso_EmbeddingModelId m)
        then Inl (Errorf ''embedding_model_id must be <= 128 chars'')
      else Inr ())"

definition MsgGrantTrialAllowance_ValidateBasic :: "MsgGrantTrialAllowance \<Rightarrow> check" where
  "MsgGrantTrialAllowance_ValidateBasic m =
     (if mgt_Signer m = [] then Inl (Errorf ''signer cannot be empty'')
      else if mgt_OrgId m = [] then Inl (E_org Org_ErrInvalidOrgID)
      else if mgt_Grantee m = [] then Inl (Errorf ''grantee cannot be empty'')
      else if mgt_DailySubmissions m = 0 then Inl (Errorf ''daily_submissions must be positive'')
      else if mgt_TrialDays m = 0 then Inl (Errorf ''trial_days must be positive'')
      else Inr ())"

definition MsgSetMemberCapabilities_ValidateBasic :: "MsgSetMemberCapabilities \<Rightarrow> check" where
  "MsgSetMemberCapabilities_ValidateBasic m =
     (if mmc_Signer m = [] then Inl (Errorf ''signer cannot be empty'')
      else if mmc_OrgId m = [] then Inl (E_org Org_ErrInvalidOrgID)
      else if mmc_Pubkey m = [] then Inl (Errorf ''pubkey cannot be empty'')
      else Inr ())"

definition MsgTransferLeadership_ValidateBasic :: "'x sdk \<Rightarrow> MsgTransferLeadership \<Rightarrow> check" where
  "MsgTransferLeadership_ValidateBasic K m =
     (if mtl_Signer m = [] then Inl (Errorf ''signer cannot be empty'')
      else if mtl_OrgId m = [] then Inl (E_org Org_ErrInvalidOrgID)
      else if mtl_NewLeader m = [] then Inl (Errorf ''new_leader cannot be empty'')
      else if mtl_NewLeaderWallet m = [] then Inl (Errorf ''new_leader_wallet cannot be empty'')
      else if AccAddressFromBech32 K (mtl_NewLeaderWallet m) = None
        then Inl (Errorf ''invalid new_leader_wallet'')
      else if mtl_Signer m = mtl_NewLeader m
        then Inl (Errorf ''signer cannot transfer leadership to self'')
      else Inr ())"

definition MsgCloseOrg_ValidateBasic :: "MsgCloseOrg \<Rightarrow> check" where
  "MsgCloseOrg_ValidateBasic m =
     (if mco_Signer m = [] then Inl (Errorf ''signer cannot be empty'')
      else if mco_OrgId m = [] then Inl (E_org Org_ErrInvalidOrgID)
      else Inr ())"

subsection \<open>Message handlers\<close>

text \<open>
  One definition for each handler of \<open>msg_server.go\<close>; the events the handlers emit are not part of
  the state and are left out.
\<close>

definition Msg_RegisterOrg ::
  "'x sdk \<Rightarrow> org_state \<Rightarrow> 'x \<Rightarrow> MsgRegisterOrg \<Rightarrow> (org_state \<times> 'x \<times> string) result" where
  "Msg_RegisterOrg K st x msg =
     (case MsgRegisterOrg_ValidateBasic msg of
        Inl e \<Rightarrow> Inl e
      | Inr _ \<Rightarrow>
          (case AccAddressFromBech32 K (mro_Signer msg) of
             None \<Rightarrow> Inl (Errorf ''invalid signer address'')
           | Some creator \<Rightarrow>
               let o' = (NewOrg [] (mro_Leader msg) (mro_Domain msg) (mro_Description msg)
                     (mro_TechStack msg) (mro_FocusAreas msg) (mro_StorageQuota msg)
                     (mro_RetrievalBudget msg))\<lparr>org_HubServingAddress := mro_HubServingKey msg,
                     org_LeaderWalletAddress := mro_LeaderWallet msg, org_Name := mro_Name msg\<rparr>
               in RegisterOrg K st x o' creator))"

definition Msg_AddMember :: "org_state \<Rightarrow> MsgAddMember \<Rightarrow> org_state result" where
  "Msg_AddMember st msg =
     (case MsgAddMember_ValidateBasic msg of
        Inl e \<Rightarrow> Inl e
      | Inr _ \<Rightarrow>
          if \<not> HasOrg st (mam_OrgId msg) then Inl (E_org Org_ErrOrgNotFound)
          else (case GetOrg st (mam_OrgId msg) of
            Inl e \<Rightarrow> Inl e
          | Inr o' \<Rightarrow>
              if \<not> leader_authorized o' (mam_Signer msg) then Inl (E_org Org_ErrNotLeader)
              else if org_Status o' \<noteq> OrgStatus_ACTIVE then Inl (E_org Org_ErrOrgNotActive)
              else if mam_Role msg = ''leader'' then Inl (E_org Org_ErrInvalidRole)
              else AddMember st
                ((NewMemberRecord (mam_OrgId msg) (mam_Pubkey msg) (mam_Role msg)
                   (mam_X25519Pubkey msg))\<lparr>mr_CanContribute := mam_CanContribute msg,
                     mr_CanModerate := mam_CanModerate msg\<rparr>)))"

definition Msg_SetServingKey ::
  "'x sdk \<Rightarrow> org_state \<Rightarrow> 'x \<Rightarrow> MsgSetServingKey \<Rightarrow> (org_state \<times> 'x) result" where
  "Msg_SetServingKey K st x msg =
     (case MsgSetServingKey_ValidateBasic msg of
        Inl e \<Rightarrow> Inl e
      | Inr _ \<Rightarrow>
          if \<not> HasOrg st (msk_OrgId msg) then Inl (E_org Org_ErrOrgNotFound)
          else SetServingKey K st x (msk_OrgId msg) (msk_NewServingKey msg) (msk_Signer msg))"

definition Msg_SetServingInfo ::
  "'x sdk \<Rightarrow> org_state \<Rightarrow> MsgSetServingInfo \<Rightarrow> org_state result" where
  "Msg_SetServingInfo K st msg =
     (case MsgSetServingInfo_ValidateBasic K msg of
        Inl e \<Rightarrow> Inl e
      | Inr _ \<Rightarrow>
          if \<not> HasOrg st (msi_OrgId msg) then Inl (E_org Org_ErrOrgNotFound)
          else SetServingInfo K st (msi_OrgId msg) (msi_HubEndpoints msg)
            (msi_HubResponsePubkey msg) (msi_Signer msg))"

definition Msg_RemoveMember :: "org_state \<Rightarrow> MsgRemoveMember \<Rightarrow> org_state result" where
  "Msg_RemoveMember st msg =
     (case MsgRemoveMember_ValidateBasic msg of
        Inl e \<Rightarrow> Inl e
      | Inr _ \<Rightarrow>
          if \<not> HasOrg st (mrm_OrgId msg) then Inl (E_org Org_ErrOrgNotFound)
          else (case GetOrg st (mrm_OrgId msg) of
            Inl e \<Rightarrow> Inl e
          | Inr o' \<Rightarrow>
              if \<not> leader_authorized o' (mrm_Signer msg) then Inl (E_org Org_ErrNotLeader)
              else RemoveMember st (mrm_OrgId msg) (mrm_Pubkey msg)))"

definition org_Msg_UpdateParams ::
  "'x sdk \<Rightarrow> org_state \<Rightarrow> org_MsgUpdateParams \<Rightarrow> org_state result" where
  "org_Msg_UpdateParams K st msg =
     (if omu_Authority msg \<noteq> authority K then Inl (E_org Org_ErrUnauthorized)
      else case omu_Params msg of
        None \<Rightarrow> Inl (Panic ''nil pointer dereference'')
      | Some p \<Rightarrow>
          (case org_Params_Validate p of Inl e \<Rightarrow> Inl e | Inr _ \<Rightarrow> Inr (org_SetParams p st)))"

definition Msg_SetOrgConfig :: "org_state \<Rightarrow> MsgSetOrgConfig \<Rightarrow> org_state result" where
  "Msg_SetOrgConfig st msg =
     (case MsgSetOrgConfig_ValidateBasic msg of
        Inl e \<Rightarrow> Inl e
      | Inr _ \<Rightarrow>
          if \<not> HasOrg st (mso_OrgId msg) then Inl (E_org Org_ErrOrgNotFound)
          else (case GetOrg st (mso_OrgId msg) of
            Inl e \<Rightarrow> Inl e
          | Inr o' \<Rightarrow>
              if \<not> leader_authorized o' (mso_Signer msg) then Inl (E_org Org_ErrNotLeader)
              else if 100 < mso_MinContributionsPerEpoch msg
                then Inl (Errorf ''min_contributions_per_epoch must be <= 100'')
              else Inr (SetOrgConfig st (mso_OrgId msg) \<lparr>
                oc_OrgID = mso_OrgId msg,
                oc_ServeReceiptRequired = mso_ServeReceiptRequired msg,
                oc_ContestStakeVibe = mso_ContestStakeVibe msg,
                oc_VocabHash = mso_VocabHash msg,
                oc_EmbeddingModelID = mso_EmbeddingModelId msg,
                oc_MinContributionsPerEpoch = mso_MinContributionsPerEpoch msg\<rparr>)))"

text \<open>
  Limits are exact (\<open>math.Int\<close>); the duration \<open>time.Duration(days) * 24 * time.Hour\<close> is a product of
  64-bit nanosecond counts and wraps.
\<close>

definition trial_allowance :: "'x sdk \<Rightarrow> u64 \<Rightarrow> u64 \<Rightarrow> allowance" where
  "trial_allowance K dailySubmissions trialDays =
     (let dailyLimit = 2000 * unat dailySubmissions;
          totalLimit = dailyLimit * unat trialDays
      in PeriodicAllowance (uvibe totalLimit)
           (block_time K + sint (trialDays * 86400000000000)) 86400000000000
           (uvibe dailyLimit) (uvibe dailyLimit))"

definition Msg_GrantTrialAllowance ::
  "'x sdk \<Rightarrow> org_state \<Rightarrow> 'x \<Rightarrow> MsgGrantTrialAllowance \<Rightarrow> 'x result" where
  "Msg_GrantTrialAllowance K st x msg =
     (case MsgGrantTrialAllowance_ValidateBasic msg of
        Inl e \<Rightarrow> Inl e
      | Inr _ \<Rightarrow>
          (case feegrantKeeper K of
             None \<Rightarrow> Inl (E_org Org_ErrFeegrantUnavailable)
           | Some GrantAllowance \<Rightarrow>
               if \<not> HasOrg st (mgt_OrgId msg) then Inl (E_org Org_ErrOrgNotFound)
               else (case GetOrg st (mgt_OrgId msg) of
                 Inl e \<Rightarrow> Inl e
               | Inr o' \<Rightarrow>
                   if \<not> leader_authorized o' (mgt_Signer msg) then Inl (E_org Org_ErrNotLeader)
                   else (case AccAddressFromBech32 K (mgt_Signer msg) of
                     None \<Rightarrow> Inl (Errorf ''invalid signer address'')
                   | Some granter \<Rightarrow>
                       (case AccAddressFromBech32 K (mgt_Grantee msg) of
                          None \<Rightarrow> Inl (Errorf ''invalid grantee address'')
                        | Some grantee \<Rightarrow>
                            (case GrantAllowance x granter grantee
                                (trial_allowance K (mgt_DailySubmissions msg) (mgt_TrialDays msg)) of
                               None \<Rightarrow> Inl (Errorf ''grant allowance'')
                             | Some x' \<Rightarrow> Inr x'))))))"

definition Msg_SetMemberCapabilities ::
  "org_state \<Rightarrow> MsgSetMemberCapabilities \<Rightarrow> org_state result" where
  "Msg_SetMemberCapabilities st msg =
     (case MsgSetMemberCapabilities_ValidateBasic msg of
        Inl e \<Rightarrow> Inl e
      | Inr _ \<Rightarrow>
          if \<not> HasOrg st (mmc_OrgId msg) then Inl (E_org Org_ErrOrgNotFound)
          else SetMemberCapabilities st (mmc_OrgId msg) (mmc_Pubkey msg) (mmc_CanContribute msg)
            (mmc_CanModerate msg) (mmc_Signer msg))"

definition Msg_TransferLeadership ::
  "'x sdk \<Rightarrow> org_state \<Rightarrow> 'x \<Rightarrow> MsgTransferLeadership \<Rightarrow> (org_state \<times> 'x) result" where
  "Msg_TransferLeadership K st x msg =
     (case MsgTransferLeadership_ValidateBasic K msg of
        Inl e \<Rightarrow> Inl e
      | Inr _ \<Rightarrow>
          if \<not> HasOrg st (mtl_OrgId msg) then Inl (E_org Org_ErrOrgNotFound)
          else (case GetOrg st (mtl_OrgId msg) of
            Inl e \<Rightarrow> Inl e
          | Inr _ \<Rightarrow> TransferLeadership K st x (mtl_OrgId msg) (mtl_NewLeader msg)
              (mtl_NewLeaderWallet msg) (mtl_Signer msg)))"

definition Msg_CloseOrg :: "org_state \<Rightarrow> MsgCloseOrg \<Rightarrow> org_state result" where
  "Msg_CloseOrg st msg =
     (case MsgCloseOrg_ValidateBasic msg of
        Inl e \<Rightarrow> Inl e
      | Inr _ \<Rightarrow>
          if \<not> HasOrg st (mco_OrgId msg) then Inl (E_org Org_ErrOrgNotFound)
          else CloseOrg st (mco_OrgId msg) (mco_Signer msg))"

datatype org_msg =
    M_RegisterOrg MsgRegisterOrg | M_AddMember MsgAddMember | M_SetServingKey MsgSetServingKey
  | M_SetServingInfo MsgSetServingInfo | M_RemoveMember MsgRemoveMember
  | M_org_UpdateParams org_MsgUpdateParams | M_SetOrgConfig MsgSetOrgConfig
  | M_GrantTrialAllowance MsgGrantTrialAllowance
  | M_SetMemberCapabilities MsgSetMemberCapabilities
  | M_TransferLeadership MsgTransferLeadership | M_CloseOrg MsgCloseOrg

text \<open>The message router of the module: the handler of each message type.\<close>

definition with_ext :: "'x \<Rightarrow> 's result \<Rightarrow> ('s \<times> 'x) result" where
  "with_ext x r = (case r of Inl e \<Rightarrow> Inl e | Inr s \<Rightarrow> Inr (s, x))"

fun org_handle :: "'x sdk \<Rightarrow> org_state \<times> 'x \<Rightarrow> org_msg \<Rightarrow> (org_state \<times> 'x) result" where
  "org_handle K (st, x) (M_RegisterOrg m) =
     (case Msg_RegisterOrg K st x m of Inl e \<Rightarrow> Inl e | Inr (st', x', _) \<Rightarrow> Inr (st', x'))"
| "org_handle K (st, x) (M_AddMember m) = with_ext x (Msg_AddMember st m)"
| "org_handle K (st, x) (M_SetServingKey m) = Msg_SetServingKey K st x m"
| "org_handle K (st, x) (M_SetServingInfo m) = with_ext x (Msg_SetServingInfo K st m)"
| "org_handle K (st, x) (M_RemoveMember m) = with_ext x (Msg_RemoveMember st m)"
| "org_handle K (st, x) (M_org_UpdateParams m) = with_ext x (org_Msg_UpdateParams K st m)"
| "org_handle K (st, x) (M_SetOrgConfig m) = with_ext x (Msg_SetOrgConfig st m)"
| "org_handle K (st, x) (M_GrantTrialAllowance m) =
     (case Msg_GrantTrialAllowance K st x m of Inl e \<Rightarrow> Inl e | Inr x' \<Rightarrow> Inr (st, x'))"
| "org_handle K (st, x) (M_SetMemberCapabilities m) = with_ext x (Msg_SetMemberCapabilities st m)"
| "org_handle K (st, x) (M_TransferLeadership m) = Msg_TransferLeadership K st x m"
| "org_handle K (st, x) (M_CloseOrg m) = with_ext x (Msg_CloseOrg st m)"

end
