(* ===== verification/Org_Correct.thy ===== *)
theory Org_Correct
  imports Org
begin

section \<open>Org: what the handlers guarantee\<close>

text \<open>
  The abstract transitions of the org state (\<open>org_step\<close>), the refinement of every message handler
  to one of them, the state invariant \<open>org_inv\<close> and its preservation along every block of
  messages, the member counter, authorisation, and the slot price.
\<close>

subsection \<open>Keys\<close>

lemma orgKey_inj [simp]: "orgKey a = orgKey b \<longleftrightarrow> a = b"
  by (simp add: orgKey_def)

lemma orgConfigKey_inj [simp]: "orgConfigKey a = orgConfigKey b \<longleftrightarrow> a = b"
  by (simp add: orgConfigKey_def)

lemma FormatOrgID_inj [simp]: "FormatOrgID a = FormatOrgID b \<longleftrightarrow> a = b"
  by (simp add: FormatOrgID_def)

lemma FormatOrgID_nonempty [simp]: "FormatOrgID a \<noteq> []"
  by (simp add: FormatOrgID_def)

lemma FormatOrgID_no_slash: "CHR ''/'' \<notin> set (FormatOrgID a)"
  by (simp add: FormatOrgID_def)

lemma memberKey_same_org [simp]: "memberKey a p = memberKey a q \<longleftrightarrow> p = q"
  by (simp add: memberKey_def)

lemma memberKey_inj:
  "CHR ''/'' \<notin> set a \<Longrightarrow> CHR ''/'' \<notin> set b \<Longrightarrow> memberKey a p = memberKey b q \<longleftrightarrow> a = b \<and> p = q"
  by (simp add: memberKey_def append_sep_inj)

lemma memberKey_FormatOrgID [simp]:
  "memberKey (FormatOrgID a) p = memberKey (FormatOrgID b) q \<longleftrightarrow> a = b \<and> p = q"
  by (simp add: memberKey_inj FormatOrgID_no_slash)

subsection \<open>Conversions\<close>

lemma storedToMember_memberToStored [simp]: "storedToMember (memberToStored m) = m"
  by (simp add: storedToMember_def memberToStored_def)

lemma memberToStored_storedToMember [simp]: "memberToStored (storedToMember s) = s"
  by (simp add: storedToMember_def memberToStored_def)

lemma storedToOrg_orgToStored [simp]: "storedToOrg (orgToStored o') = o'"
  by (simp add: storedToOrg_def orgToStored_def)

lemma storedToOrg_simps [simp]:
  "org_OrgID (storedToOrg s) = so_OrgId s" "org_Slot (storedToOrg s) = so_Slot s"
  "org_Leader (storedToOrg s) = so_Leader s" "org_Status (storedToOrg s) = so_Status s"
  "org_LeaderWalletAddress (storedToOrg s) = so_LeaderWalletAddress s"
  "org_HubServingAddress (storedToOrg s) = so_HubServingAddress s"
  by (simp_all add: storedToOrg_def)

lemma storedToMember_simps [simp]:
  "mr_OrgID (storedToMember m) = sm_OrgId m" "mr_Pubkey (storedToMember m) = sm_Pubkey m"
  "mr_Role (storedToMember m) = sm_Role m"
  "mr_CanContribute (storedToMember m) = sm_CanContribute m"
  "mr_CanModerate (storedToMember m) = sm_CanModerate m"
  by (simp_all add: storedToMember_def)

lemma memberToStored_capabilities [simp]:
  "memberToStored ((storedToMember m)\<lparr>mr_CanContribute := c, mr_CanModerate := d\<rparr>) =
   m\<lparr>sm_CanContribute := c, sm_CanModerate := d\<rparr>"
  by (cases m) (simp add: memberToStored_def storedToMember_def)

lemma GetOrg_Inr: "GetOrg st i = Inr o' \<longleftrightarrow>
    (\<exists>s. kv_get (os_orgs st) (orgKey i) = Some s \<and> o' = storedToOrg s)"
  by (auto simp: GetOrg_def split: option.splits)

lemma GetMember_Inr: "GetMember st i p = Inr m \<longleftrightarrow>
    (\<exists>s. kv_get (os_members st) (memberKey i p) = Some s \<and> m = storedToMember s)"
  by (auto simp: GetMember_def split: option.splits)

subsection \<open>Abstract transitions\<close>

text \<open>
  The nine ways the state of the module can change.  \<open>os_update\<close> covers the handlers that assign
  fields of one organisation's record that no invariant mentions.
\<close>

definition keeps_core :: "StoredOrg \<Rightarrow> StoredOrg \<Rightarrow> bool" where
  "keeps_core s t \<longleftrightarrow> so_OrgId t = so_OrgId s \<and> so_Slot t = so_Slot s \<and>
     so_AccountAddress t = so_AccountAddress s \<and> so_Leader t = so_Leader s \<and>
     so_LeaderWalletAddress t = so_LeaderWalletAddress s \<and>
     so_TotalActiveMembers t = so_TotalActiveMembers s \<and> so_Status t = so_Status s"

inductive org_step :: "org_state \<Rightarrow> org_state \<Rightarrow> bool" where
  os_register: "GetNextSlot st < op_SlotCap (org_GetParams st) \<Longrightarrow> i = FormatOrgID (GetNextSlot st) \<Longrightarrow>
    \<not> kv_has (os_orgs st) (orgKey i) \<Longrightarrow>
    so_OrgId s = i \<Longrightarrow> so_Slot s = GetNextSlot st \<Longrightarrow> so_TotalActiveMembers s = 1 \<Longrightarrow>
    so_Status s = OrgStatus_ACTIVE \<Longrightarrow> so_Leader s \<noteq> [] \<Longrightarrow>
    (\<And>k t. kv_get (os_orgs st) k = Some t \<Longrightarrow> so_Leader t \<noteq> so_Leader s) \<Longrightarrow>
    m = zero_StoredMemberRecord\<lparr>sm_OrgId := i, sm_Pubkey := so_Leader s, sm_Role := ''leader''\<rparr> \<Longrightarrow>
    org_step st (st\<lparr>os_orgs := kv_set (orgKey i) s (os_orgs st),
      os_members := kv_set (memberKey i (so_Leader s)) m (os_members st),
      os_slotreg := Some (GetNextSlot st + 1)\<rparr>)"
| os_add: "kv_get (os_orgs st) (orgKey i) = Some s \<Longrightarrow> so_Status s = OrgStatus_ACTIVE \<Longrightarrow>
    kv_get (os_members st) (memberKey i (sm_Pubkey m)) = None \<Longrightarrow>
    sm_OrgId m = i \<Longrightarrow> sm_Role m = ''member'' \<Longrightarrow>
    org_step st (st\<lparr>os_members := kv_set (memberKey i (sm_Pubkey m)) m (os_members st),
      os_orgs := kv_set (orgKey i) (s\<lparr>so_TotalActiveMembers := so_TotalActiveMembers s + 1\<rparr>)
        (os_orgs st)\<rparr>)"
| os_remove: "kv_get (os_orgs st) (orgKey i) = Some s \<Longrightarrow> so_Status s = OrgStatus_ACTIVE \<Longrightarrow>
    kv_get (os_members st) (memberKey i p) = Some m \<Longrightarrow> sm_Role m \<noteq> ''leader'' \<Longrightarrow>
    org_step st (st\<lparr>os_members := kv_del (memberKey i p) (os_members st),
      os_orgs := kv_set (orgKey i)
        (if 0 < so_TotalActiveMembers s
         then s\<lparr>so_TotalActiveMembers := so_TotalActiveMembers s - 1\<rparr> else s) (os_orgs st)\<rparr>)"
| os_capabilities: "kv_get (os_orgs st) (orgKey i) = Some s \<Longrightarrow> so_Status s = OrgStatus_ACTIVE \<Longrightarrow>
    kv_get (os_members st) (memberKey i p) = Some m \<Longrightarrow>
    org_step st (st\<lparr>os_members :=
      kv_set (memberKey i p) (m\<lparr>sm_CanContribute := c, sm_CanModerate := d\<rparr>) (os_members st)\<rparr>)"
| os_transfer: "kv_get (os_orgs st) (orgKey i) = Some s \<Longrightarrow>
    kv_get (os_members st) (memberKey i p) \<noteq> None \<Longrightarrow>
    ms1 = kv_set (memberKey i (so_Leader s))
      ((get_stored_member st (memberKey i (so_Leader s)))\<lparr>sm_Role := ''member''\<rparr>) (os_members st) \<Longrightarrow>
    ms2 = kv_set (memberKey i p)
      ((get_stored_member (st\<lparr>os_members := ms1\<rparr>) (memberKey i p))\<lparr>sm_Role := ''leader''\<rparr>) ms1 \<Longrightarrow>
    org_step st (st\<lparr>os_members := ms2,
      os_orgs := kv_set (orgKey i) (s\<lparr>so_Leader := p, so_LeaderWalletAddress := w\<rparr>) (os_orgs st)\<rparr>)"
| os_close: "kv_get (os_orgs st) (orgKey i) = Some s \<Longrightarrow> so_Status s = OrgStatus_ACTIVE \<Longrightarrow>
    org_step st (st\<lparr>os_orgs := kv_set (orgKey i) (s\<lparr>so_Status := OrgStatus_CLOSED\<rparr>) (os_orgs st)\<rparr>)"
| os_update: "kv_get (os_orgs st) (orgKey i) = Some s \<Longrightarrow> keeps_core s t \<Longrightarrow>
    org_step st (st\<lparr>os_orgs := kv_set (orgKey i) t (os_orgs st)\<rparr>)"
| os_config: "kv_get (os_orgs st) (orgKey i) = Some s \<Longrightarrow> sc_OrgId c = i \<Longrightarrow>
    org_step st (st\<lparr>os_configs := kv_set (orgConfigKey i) c (os_configs st)\<rparr>)"
| os_params: "org_step st (st\<lparr>os_params := Some p\<rparr>)"
| os_idle: "org_step st st"

lemmas handler_splits = sum.splits option.splits if_splits prod.splits

subsection \<open>Every handler refines the transitions\<close>

lemma Org_Validate_leader: "Org_Validate o' = Inr () \<Longrightarrow> org_Leader o' \<noteq> []"
  by (auto simp: Org_Validate_def split: if_splits)

lemma GetAllOrgs_leader:
  "\<not> list_ex (\<lambda>e. org_Leader e = l) (GetAllOrgs st) \<Longrightarrow> kv_get (os_orgs st) k = Some t \<Longrightarrow>
   so_Leader t \<noteq> l"
  by (auto simp: GetAllOrgs_def list_ex_iff storedToOrg_def dest!: kv_get_SomeD)

lemma RegisterOrg_step:
  assumes "RegisterOrg K st x o' creator = Inr (st', x', i)" "org_Status o' = OrgStatus_ACTIVE"
  shows "org_step st st'"
proof -
  let ?i = "FormatOrgID (GetNextSlot st)"
  let ?o = "o'\<lparr>org_Slot := GetNextSlot st, org_OrgID := ?i,
    org_AccountAddress := AccAddress_String K (OrgAccountAddress K ?i)\<rparr>"
  let ?s = "(orgToStored ?o)\<lparr>so_TotalActiveMembers := 1\<rparr>"
  from assms(1) have g: "GetNextSlot st < op_SlotCap (org_GetParams st)" "Org_Validate ?o = Inr ()"
    "\<not> kv_has (os_orgs st) (orgKey ?i)"
    "\<not> list_ex (\<lambda>e. org_Leader e = org_Leader o') (GetAllOrgs st)"
    and st': "st' = st\<lparr>os_orgs := kv_set (orgKey ?i) ?s (os_orgs st),
      os_members := kv_set (memberKey ?i (org_Leader o')) (zero_StoredMemberRecord\<lparr>sm_OrgId := ?i,
        sm_Pubkey := org_Leader o', sm_Role := ''leader''\<rparr>) (os_members st),
      os_slotreg := Some (GetNextSlot st + 1)\<rparr>"
    by (auto simp: RegisterOrg_def Let_def SetNextSlot_def split: handler_splits)
  show ?thesis
    unfolding st'
    using g assms(2) Org_Validate_leader [OF g(2)] GetAllOrgs_leader [OF g(4)]
      os_register [of st ?i ?s]
    by (auto simp: orgToStored_def)
qed

lemma AddMember_step:
  assumes "AddMember st m = Inr st'"
  shows "org_step st st'"
proof -
  from assms obtain s where "kv_get (os_orgs st) (orgKey (mr_OrgID m)) = Some s"
    "so_Status s = OrgStatus_ACTIVE"
    "kv_get (os_members st) (memberKey (mr_OrgID m) (mr_Pubkey m)) = None" "mr_Role m = ''member''"
    and st': "st' = st\<lparr>
      os_members := kv_set (memberKey (mr_OrgID m) (mr_Pubkey m)) (memberToStored m) (os_members st),
      os_orgs := kv_set (orgKey (mr_OrgID m))
        (s\<lparr>so_TotalActiveMembers := so_TotalActiveMembers s + 1\<rparr>) (os_orgs st)\<rparr>"
    by (auto simp: AddMember_def Let_def kv_has_def split: handler_splits)
  then show ?thesis
    unfolding st' using os_add [of st "mr_OrgID m" s "memberToStored m"]
    by (simp add: memberToStored_def)
qed

lemma RemoveMember_step:
  assumes "RemoveMember st i p = Inr st'"
  shows "org_step st st'"
proof -
  from assms obtain m s where "kv_get (os_members st) (memberKey i p) = Some m"
    "sm_Role m \<noteq> ''leader''" "kv_get (os_orgs st) (orgKey i) = Some s"
    "so_Status s = OrgStatus_ACTIVE"
    and st': "st' = st\<lparr>os_members := kv_del (memberKey i p) (os_members st),
      os_orgs := kv_set (orgKey i)
        (if 0 < so_TotalActiveMembers s
         then s\<lparr>so_TotalActiveMembers := so_TotalActiveMembers s - 1\<rparr> else s) (os_orgs st)\<rparr>"
    unfolding RemoveMember_def Let_def
    by (simp split: option.splits if_split_asm)
  then show ?thesis unfolding st' by (intro os_remove)
qed

text \<open>
  What a leader operation has checked when it succeeds: the organisation exists, and the signer is
  its non-empty leader wallet.
\<close>

definition authorized :: "org_state \<Rightarrow> string \<Rightarrow> string \<Rightarrow> bool" where
  "authorized st i signer \<longleftrightarrow>
     (\<exists>s. kv_get (os_orgs st) (orgKey i) = Some s \<and> so_LeaderWalletAddress s \<noteq> [] \<and>
          signer = so_LeaderWalletAddress s)"

lemma authorized_iff: "authorized st i signer \<longleftrightarrow> (\<exists>o'. GetOrg st i = Inr o' \<and> leader_authorized o' signer)"
  by (auto simp: authorized_def GetOrg_Inr leader_authorized_def)

lemma modify_stored_org_Some:
  "kv_get (os_orgs st) (orgKey i) = Some s \<Longrightarrow>
   modify_stored_org f i st = st\<lparr>os_orgs := kv_set (orgKey i) (f s) (os_orgs st)\<rparr>"
  by (simp add: modify_stored_org_def)

lemma SetServingKey_step:
  assumes "SetServingKey K st x i key signer = Inr (st', x')"
  shows "org_step st st' \<and> authorized st i signer"
proof -
  from assms obtain s where s: "kv_get (os_orgs st) (orgKey i) = Some s"
    "leader_authorized (storedToOrg s) signer"
    and st': "st' = st\<lparr>os_orgs := kv_set (orgKey i) (s\<lparr>so_HubServingAddress := key\<rparr>) (os_orgs st)\<rparr>"
    by (auto simp: SetServingKey_def Let_def GetOrg_def modify_stored_org_Some split: handler_splits)
  have "org_step st st'" unfolding st' using s by (intro os_update) (simp_all add: keeps_core_def)
  with s show ?thesis by (auto simp: authorized_iff GetOrg_def)
qed

lemma SetServingInfo_step:
  assumes "SetServingInfo K st i eps pk signer = Inr st'"
  shows "org_step st st' \<and> authorized st i signer"
proof -
  from assms obtain s where s: "kv_get (os_orgs st) (orgKey i) = Some s"
    "leader_authorized (storedToOrg s) signer"
    and st': "st' = st\<lparr>os_orgs := kv_set (orgKey i)
      (s\<lparr>so_HubEndpoints := eps, so_HubResponsePubkey := pk\<rparr>) (os_orgs st)\<rparr>"
    by (auto simp: SetServingInfo_def Let_def GetOrg_def modify_stored_org_Some split: handler_splits)
  have "org_step st st'" unfolding st' using s by (intro os_update) (simp_all add: keeps_core_def)
  with s show ?thesis by (auto simp: authorized_iff GetOrg_def)
qed

lemma SetMemberCapabilities_step:
  assumes "SetMemberCapabilities st i p c d signer = Inr st'"
  shows "org_step st st' \<and> authorized st i signer"
proof -
  from assms obtain s m where s: "kv_get (os_orgs st) (orgKey i) = Some s"
    "leader_authorized (storedToOrg s) signer" "so_Status s = OrgStatus_ACTIVE"
    "kv_get (os_members st) (memberKey i p) = Some m"
    and st': "st' = st\<lparr>os_members := kv_set (memberKey i p)
      (m\<lparr>sm_CanContribute := c, sm_CanModerate := d\<rparr>) (os_members st)\<rparr>"
    by (auto simp: SetMemberCapabilities_def GetOrg_def GetMember_def split: handler_splits)
  have "org_step st st'" unfolding st' using s by (intro os_capabilities)
  with s show ?thesis by (auto simp: authorized_iff GetOrg_def)
qed

lemma TransferLeadership_Inr:
  assumes "TransferLeadership K st x i p w signer = Inr (st', x')"
  obtains s ms1 ms2 where "kv_get (os_orgs st) (orgKey i) = Some s"
    "leader_authorized (storedToOrg s) signer" "kv_get (os_members st) (memberKey i p) \<noteq> None"
    "ms1 = kv_set (memberKey i (so_Leader s))
      ((get_stored_member st (memberKey i (so_Leader s)))\<lparr>sm_Role := ''member''\<rparr>) (os_members st)"
    "ms2 = kv_set (memberKey i p) ((get_stored_member (st\<lparr>os_members := ms1\<rparr>)
      (memberKey i p))\<lparr>sm_Role := ''leader''\<rparr>) ms1"
    "st' = st\<lparr>os_members := ms2, os_orgs := kv_set (orgKey i)
      (s\<lparr>so_Leader := p, so_LeaderWalletAddress := w\<rparr>) (os_orgs st)\<rparr>"
  using assms unfolding TransferLeadership_def Let_def GetOrg_def GetMember_def modify_stored_org_def
  by (auto split: option.splits sum.splits if_split_asm)

lemma TransferLeadership_step:
  assumes "TransferLeadership K st x i p w signer = Inr (st', x')"
  shows "org_step st st' \<and> authorized st i signer"
  using assms
proof (rule TransferLeadership_Inr)
  fix s ms1 ms2
  assume s: "kv_get (os_orgs st) (orgKey i) = Some s" "leader_authorized (storedToOrg s) signer"
    and st': "kv_get (os_members st) (memberKey i p) \<noteq> None"
    "ms1 = kv_set (memberKey i (so_Leader s))
      ((get_stored_member st (memberKey i (so_Leader s)))\<lparr>sm_Role := ''member''\<rparr>) (os_members st)"
    "ms2 = kv_set (memberKey i p) ((get_stored_member (st\<lparr>os_members := ms1\<rparr>)
      (memberKey i p))\<lparr>sm_Role := ''leader''\<rparr>) ms1"
    "st' = st\<lparr>os_members := ms2, os_orgs := kv_set (orgKey i)
      (s\<lparr>so_Leader := p, so_LeaderWalletAddress := w\<rparr>) (os_orgs st)\<rparr>"
  have "org_step st st'" unfolding st'(4) by (rule os_transfer [OF s(1) st'(1-3)])
  with s show ?thesis by (auto simp: authorized_iff GetOrg_def)
qed

lemma CloseOrg_step:
  assumes "CloseOrg st i signer = Inr st'"
  shows "org_step st st' \<and> authorized st i signer"
proof -
  from assms obtain s where s: "kv_get (os_orgs st) (orgKey i) = Some s"
    "leader_authorized (storedToOrg s) signer" "so_Status s = OrgStatus_ACTIVE"
    and st': "st' = st\<lparr>os_orgs := kv_set (orgKey i) (s\<lparr>so_Status := OrgStatus_CLOSED\<rparr>) (os_orgs st)\<rparr>"
    by (auto simp: CloseOrg_def GetOrg_def modify_stored_org_Some split: handler_splits)
  have "org_step st st'" unfolding st' using s by (intro os_close)
  with s show ?thesis by (auto simp: authorized_iff GetOrg_def)
qed

subsection \<open>The message handlers\<close>

text \<open>The organisation and the signer a message names, for the messages of a leader.\<close>

fun leader_msg :: "org_msg \<Rightarrow> (string \<times> string) option" where
  "leader_msg (M_RegisterOrg m) = None"
| "leader_msg (M_AddMember m) = Some (mam_OrgId m, mam_Signer m)"
| "leader_msg (M_SetServingKey m) = Some (msk_OrgId m, msk_Signer m)"
| "leader_msg (M_SetServingInfo m) = Some (msi_OrgId m, msi_Signer m)"
| "leader_msg (M_RemoveMember m) = Some (mrm_OrgId m, mrm_Signer m)"
| "leader_msg (M_org_UpdateParams m) = None"
| "leader_msg (M_SetOrgConfig m) = Some (mso_OrgId m, mso_Signer m)"
| "leader_msg (M_GrantTrialAllowance m) = Some (mgt_OrgId m, mgt_Signer m)"
| "leader_msg (M_SetMemberCapabilities m) = Some (mmc_OrgId m, mmc_Signer m)"
| "leader_msg (M_TransferLeadership m) = Some (mtl_OrgId m, mtl_Signer m)"
| "leader_msg (M_CloseOrg m) = Some (mco_OrgId m, mco_Signer m)"

lemma Msg_RegisterOrg_step: "Msg_RegisterOrg K st x m = Inr (st', x', i) \<Longrightarrow> org_step st st'"
  by (auto simp: Msg_RegisterOrg_def Let_def NewOrg_def split: handler_splits
      intro!: RegisterOrg_step)

lemma Msg_AddMember_step:
  "Msg_AddMember st m = Inr st' \<Longrightarrow> org_step st st' \<and> authorized st (mam_OrgId m) (mam_Signer m)"
  by (auto simp: Msg_AddMember_def authorized_iff split: handler_splits intro!: AddMember_step)

lemma Msg_SetServingKey_step: "Msg_SetServingKey K st x m = Inr (st', x') \<Longrightarrow>
  org_step st st' \<and> authorized st (msk_OrgId m) (msk_Signer m)"
  by (auto simp: Msg_SetServingKey_def split: handler_splits dest!: SetServingKey_step)

lemma Msg_SetServingInfo_step: "Msg_SetServingInfo K st m = Inr st' \<Longrightarrow>
  org_step st st' \<and> authorized st (msi_OrgId m) (msi_Signer m)"
  by (auto simp: Msg_SetServingInfo_def split: handler_splits dest!: SetServingInfo_step)

lemma Msg_RemoveMember_step:
  "Msg_RemoveMember st m = Inr st' \<Longrightarrow> org_step st st' \<and> authorized st (mrm_OrgId m) (mrm_Signer m)"
  by (auto simp: Msg_RemoveMember_def authorized_iff split: handler_splits intro!: RemoveMember_step)

lemma org_Msg_UpdateParams_step: "org_Msg_UpdateParams K st m = Inr st' \<Longrightarrow> org_step st st'"
  by (auto simp: org_Msg_UpdateParams_def org_SetParams_def split: handler_splits intro: os_params)

lemma Msg_SetOrgConfig_step:
  "Msg_SetOrgConfig st m = Inr st' \<Longrightarrow> org_step st st' \<and> authorized st (mso_OrgId m) (mso_Signer m)"
  by (auto simp: Msg_SetOrgConfig_def SetOrgConfig_def GetOrg_Inr authorized_iff orgConfigToStored_def
      split: handler_splits intro: os_config)

lemma Msg_GrantTrialAllowance_auth:
  "Msg_GrantTrialAllowance K st x m = Inr x' \<Longrightarrow> authorized st (mgt_OrgId m) (mgt_Signer m)"
  by (auto simp: Msg_GrantTrialAllowance_def authorized_iff split: handler_splits)

lemma Msg_SetMemberCapabilities_step: "Msg_SetMemberCapabilities st m = Inr st' \<Longrightarrow>
  org_step st st' \<and> authorized st (mmc_OrgId m) (mmc_Signer m)"
  by (auto simp: Msg_SetMemberCapabilities_def split: handler_splits dest!: SetMemberCapabilities_step)

lemma Msg_TransferLeadership_step: "Msg_TransferLeadership K st x m = Inr (st', x') \<Longrightarrow>
  org_step st st' \<and> authorized st (mtl_OrgId m) (mtl_Signer m)"
  by (auto simp: Msg_TransferLeadership_def split: handler_splits dest!: TransferLeadership_step)

lemma Msg_CloseOrg_step:
  "Msg_CloseOrg st m = Inr st' \<Longrightarrow> org_step st st' \<and> authorized st (mco_OrgId m) (mco_Signer m)"
  by (auto simp: Msg_CloseOrg_def split: handler_splits dest!: CloseOrg_step)

lemma with_ext_Inr [simp]: "with_ext x r = Inr (s, x') \<longleftrightarrow> r = Inr s \<and> x' = x"
  by (auto simp: with_ext_def split: sum.splits)

lemmas handler_steps = Msg_RegisterOrg_step Msg_AddMember_step Msg_SetServingKey_step
  Msg_SetServingInfo_step Msg_RemoveMember_step org_Msg_UpdateParams_step Msg_SetOrgConfig_step
  Msg_SetMemberCapabilities_step Msg_TransferLeadership_step Msg_CloseOrg_step

lemma org_handle_step: "org_handle K (st, x) m = Inr (st', x') \<Longrightarrow> org_step st st'"
  by (cases m) (auto split: sum.splits dest: handler_steps intro: os_idle)

lemma org_handle_authorized:
  "org_handle K (st, x) m = Inr (st', x') \<Longrightarrow> leader_msg m = Some (i, signer) \<Longrightarrow>
   authorized st i signer"
  by (cases m) (auto split: sum.splits dest: handler_steps Msg_GrantTrialAllowance_auth)

subsection \<open>The invariant\<close>

text \<open>
  An organisation is stored under the key of its identifier, which is that of its slot, a slot
  already handed out; its leader has a member record.  A member record is stored under the key of
  its organisation, which exists, and its public key; its role is \<open>leader\<close> for the leader of the
  organisation and \<open>member\<close> for everybody else.  A configuration is stored under the key of the
  organisation it names.
\<close>

definition org_entry_ok :: "org_state \<Rightarrow> bytes \<Rightarrow> StoredOrg \<Rightarrow> bool" where
  "org_entry_ok st k s \<longleftrightarrow>
     k = orgKey (so_OrgId s) \<and> so_OrgId s = FormatOrgID (so_Slot s) \<and> so_Slot s < GetNextSlot st \<and>
     kv_has (os_members st) (memberKey (so_OrgId s) (so_Leader s))"

definition member_entry_ok :: "org_state \<Rightarrow> bytes \<Rightarrow> StoredMemberRecord \<Rightarrow> bool" where
  "member_entry_ok st k m \<longleftrightarrow>
     k = memberKey (sm_OrgId m) (sm_Pubkey m) \<and>
     (case kv_get (os_orgs st) (orgKey (sm_OrgId m)) of
        None \<Rightarrow> False
      | Some s \<Rightarrow> sm_Role m = (if sm_Pubkey m = so_Leader s then ''leader'' else ''member''))"

definition org_inv :: "org_state \<Rightarrow> bool" where
  "org_inv st \<longleftrightarrow>
     kv_ok (os_orgs st) \<and> kv_ok (os_members st) \<and> kv_ok (os_configs st) \<and>
     list_all (\<lambda>(k, s). org_entry_ok st k s) (os_orgs st) \<and>
     list_all (\<lambda>(k, m). member_entry_ok st k m) (os_members st) \<and>
     list_all (\<lambda>(k, c). k = orgConfigKey (sc_OrgId c)) (os_configs st)"

lemma org_inv_iff: "org_inv st \<longleftrightarrow>
    kv_ok (os_orgs st) \<and> kv_ok (os_members st) \<and> kv_ok (os_configs st) \<and>
    (\<forall>k s. kv_get (os_orgs st) k = Some s \<longrightarrow> org_entry_ok st k s) \<and>
    (\<forall>k m. kv_get (os_members st) k = Some m \<longrightarrow> member_entry_ok st k m) \<and>
    (\<forall>k c. kv_get (os_configs st) k = Some c \<longrightarrow> k = orgConfigKey (sc_OrgId c))"
  unfolding org_inv_def list_all_iff by (auto simp: kv_get_iff)

lemma org_invD:
  assumes "org_inv st"
  shows "kv_ok (os_orgs st)" "kv_ok (os_members st)" "kv_ok (os_configs st)"
    "kv_get (os_orgs st) k = Some s \<Longrightarrow> org_entry_ok st k s"
    "kv_get (os_members st) k' = Some m \<Longrightarrow> member_entry_ok st k' m"
  using assms by (auto simp: org_inv_iff)

lemma org_inv_stored:
  assumes "org_inv st" "kv_get (os_orgs st) (orgKey i) = Some s"
  shows "so_OrgId s = i" "i = FormatOrgID (so_Slot s)" "so_Slot s < GetNextSlot st"
    "\<exists>m. kv_get (os_members st) (memberKey i (so_Leader s)) = Some m"
  using org_invD(4) [OF assms] by (auto simp: org_entry_ok_def kv_has_def)

lemma org_inv_member:
  assumes "org_inv st" "kv_get (os_orgs st) (orgKey i) = Some s"
    "kv_get (os_members st) (memberKey i p) = Some m"
  shows "sm_OrgId m = i" "sm_Pubkey m = p"
    "sm_Role m = (if p = so_Leader s then ''leader'' else ''member'')"
proof -
  from org_invD(5) [OF assms(1,3)] obtain t where t:
    "memberKey i p = memberKey (sm_OrgId m) (sm_Pubkey m)"
    "kv_get (os_orgs st) (orgKey (sm_OrgId m)) = Some t"
    "sm_Role m = (if sm_Pubkey m = so_Leader t then ''leader'' else ''member'')"
    by (auto simp: member_entry_ok_def split: option.splits)
  have "CHR ''/'' \<notin> set i" "CHR ''/'' \<notin> set (sm_OrgId m)"
    using org_inv_stored(2) [OF assms(1,2)] org_inv_stored(2) [OF assms(1) t(2)]
    by (metis FormatOrgID_no_slash)+
  then show eq: "sm_OrgId m = i" "sm_Pubkey m = p" using t(1) by (simp_all add: memberKey_inj)
  show "sm_Role m = (if p = so_Leader s then ''leader'' else ''member'')"
    using t(2,3) assms(2) unfolding eq by simp
qed

text \<open>
  A way to keep the invariant when only the record of one organisation and records of its own
  members change.
\<close>

lemma org_inv_local:
  assumes inv: "org_inv st"
    and s: "kv_get (os_orgs st) (orgKey i) = Some s" "so_OrgId t = so_OrgId s" "so_Slot t = so_Slot s"
    and st': "os_orgs st' = kv_set (orgKey i) t (os_orgs st)" "kv_ok (os_members st')"
      "os_configs st' = os_configs st" "os_slotreg st' = os_slotreg st"
    and others: "\<And>j p. CHR ''/'' \<notin> set j \<Longrightarrow> j \<noteq> i \<Longrightarrow>
      kv_get (os_members st') (memberKey j p) = kv_get (os_members st) (memberKey j p)"
    and keys: "\<And>k m. kv_get (os_members st') k = Some m \<Longrightarrow> k = memberKey (sm_OrgId m) (sm_Pubkey m)"
      "\<And>k m. kv_get (os_members st') k = Some m \<Longrightarrow> sm_OrgId m \<noteq> i \<Longrightarrow>
         kv_get (os_members st) k = Some m"
    and leader: "kv_has (os_members st') (memberKey i (so_Leader t))"
    and role: "\<And>p m. kv_get (os_members st') (memberKey i p) = Some m \<Longrightarrow>
      sm_Role m = (if p = so_Leader t then ''leader'' else ''member'')"
  shows "org_inv st'"
proof -
  note i = org_inv_stored [OF inv s(1)]
  have next': "GetNextSlot st' = GetNextSlot st" using st'(4) by (simp add: GetNextSlot_def)
  have "org_entry_ok st' k u" if u: "kv_get (os_orgs st') k = Some u" for k u
  proof (cases "k = orgKey i")
    case True
    then show ?thesis using u st' s i leader by (simp add: org_entry_ok_def next')
  next
    case False
    then have u': "kv_get (os_orgs st) k = Some u" using u st' by simp
    from org_invD(4) [OF inv u'] have "k = orgKey (so_OrgId u)" "so_OrgId u = FormatOrgID (so_Slot u)"
      by (auto simp: org_entry_ok_def)
    with False org_invD(4) [OF inv u'] show ?thesis
      by (simp add: org_entry_ok_def next' kv_has_def others FormatOrgID_no_slash)
  qed
  moreover have "member_entry_ok st' k m" if m: "kv_get (os_members st') k = Some m" for k m
  proof (cases "sm_OrgId m = i")
    case True
    then show ?thesis
      using m keys(1) [OF m] role [of "sm_Pubkey m" m] st' by (simp add: member_entry_ok_def)
  next
    case False
    with org_invD(5) [OF inv keys(2) [OF m False]] show ?thesis
      using st' by (simp add: member_entry_ok_def)
  qed
  ultimately show ?thesis using inv st' by (auto simp: org_inv_iff)
qed

lemma org_inv_config:
  assumes "org_inv st" "sc_OrgId c = i"
  shows "org_inv (st\<lparr>os_configs := kv_set (orgConfigKey i) c (os_configs st)\<rparr>)"
proof -
  have "org_entry_ok (st\<lparr>os_configs := cs\<rparr>) = org_entry_ok st"
    "member_entry_ok (st\<lparr>os_configs := cs\<rparr>) = member_entry_ok st" for cs
    by (simp_all add: org_entry_ok_def member_entry_ok_def fun_eq_iff GetNextSlot_def)
  with assms show ?thesis by (auto simp: org_inv_iff kv_get_set)
qed

lemma GetNextSlot_simps [simp]:
  "GetNextSlot (st\<lparr>os_slotreg := Some n\<rparr>) = n" "GetNextSlot (st\<lparr>os_orgs := os\<rparr>) = GetNextSlot st"
  "GetNextSlot (st\<lparr>os_members := ms\<rparr>) = GetNextSlot st"
  "GetNextSlot (st\<lparr>os_configs := cs\<rparr>) = GetNextSlot st"
  "GetNextSlot (st\<lparr>os_params := p\<rparr>) = GetNextSlot st"
  by (simp_all add: GetNextSlot_def)

lemma memberKey_other:
  assumes "org_inv st" "kv_get (os_orgs st) (orgKey i) = Some s" "CHR ''/'' \<notin> set j" "j \<noteq> i"
  shows "memberKey j p \<noteq> memberKey i q"
  using org_inv_stored(2) [OF assms(1,2)] assms(3,4) FormatOrgID_no_slash memberKey_inj by metis

lemma org_inv_register:
  assumes inv: "org_inv st" and slot: "GetNextSlot st < op_SlotCap (org_GetParams st)"
    and i: "i = FormatOrgID (GetNextSlot st)" and new: "\<not> kv_has (os_orgs st) (orgKey i)"
    and s: "so_OrgId s = i" "so_Slot s = GetNextSlot st"
    and m: "sm_OrgId m = i" "sm_Pubkey m = so_Leader s" "sm_Role m = ''leader''"
  shows "org_inv (st\<lparr>os_orgs := kv_set (orgKey i) s (os_orgs st),
    os_members := kv_set (memberKey i (so_Leader s)) m (os_members st),
    os_slotreg := Some (GetNextSlot st + 1)\<rparr>)" (is "org_inv ?st'")
proof -
  have lt: "GetNextSlot st < GetNextSlot st + 1"
    using slot by (rule word_less_add_1)
  have other: "memberKey i p \<noteq> k" "sm_OrgId u \<noteq> i" if u: "kv_get (os_members st) k = Some u" for k u p
  proof -
    obtain t where t: "k = memberKey (sm_OrgId u) (sm_Pubkey u)"
      "kv_get (os_orgs st) (orgKey (sm_OrgId u)) = Some t"
      using org_invD(5) [OF inv u] by (auto simp: member_entry_ok_def split: option.splits)
    with new show ne: "sm_OrgId u \<noteq> i" by (auto simp: kv_has_def)
    from memberKey_other [OF inv t(2), of i] ne show "memberKey i p \<noteq> k"
      unfolding t(1) i by (metis FormatOrgID_no_slash)
  qed
  have "org_entry_ok ?st' k u" if u: "kv_get (os_orgs ?st') k = Some u" for k u
  proof (cases "k = orgKey i")
    case True
    then show ?thesis using u s i lt by (simp add: org_entry_ok_def kv_has_def)
  next
    case False
    then have "org_entry_ok st k u" using u org_invD(4) [OF inv] by simp
    moreover from this lt have "so_Slot u < GetNextSlot st + 1"
      unfolding org_entry_ok_def by (metis order_less_trans)
    ultimately show ?thesis
      by (auto simp: org_entry_ok_def kv_has_def kv_get_set)
  qed
  moreover have "member_entry_ok ?st' k u" if u: "kv_get (os_members ?st') k = Some u" for k u
  proof (cases "k = memberKey i (so_Leader s)")
    case True
    then show ?thesis using u m by (simp add: member_entry_ok_def)
  next
    case False
    then have u': "kv_get (os_members st) k = Some u" using u by simp
    from org_invD(5) [OF inv u'] other(2) [OF u'] show ?thesis by (simp add: member_entry_ok_def)
  qed
  ultimately show ?thesis using inv by (auto simp: org_inv_iff)
qed

lemma org_inv_add:
  assumes inv: "org_inv st" and s: "kv_get (os_orgs st) (orgKey i) = Some s"
    and new: "kv_get (os_members st) (memberKey i (sm_Pubkey m)) = None"
    and m: "sm_OrgId m = i" "sm_Role m = ''member''"
    and t: "so_OrgId t = so_OrgId s" "so_Slot t = so_Slot s" "so_Leader t = so_Leader s"
  shows "org_inv (st\<lparr>os_members := kv_set (memberKey i (sm_Pubkey m)) m (os_members st),
    os_orgs := kv_set (orgKey i) t (os_orgs st)\<rparr>)"
proof (rule org_inv_local [OF inv s t(1,2)])
  have ne: "so_Leader s \<noteq> sm_Pubkey m"
    using org_inv_stored(4) [OF inv s] new by auto
  then show "kv_has (os_members (st\<lparr>os_members := kv_set (memberKey i (sm_Pubkey m)) m (os_members st),
      os_orgs := kv_set (orgKey i) t (os_orgs st)\<rparr>)) (memberKey i (so_Leader t))"
    using org_inv_stored(4) [OF inv s] t(3) by (auto simp: kv_has_def)
  show "sm_Role u = (if p = so_Leader t then ''leader'' else ''member'')"
    if "kv_get (os_members (st\<lparr>os_members := kv_set (memberKey i (sm_Pubkey m)) m (os_members st),
      os_orgs := kv_set (orgKey i) t (os_orgs st)\<rparr>)) (memberKey i p) = Some u" for p u
    using that ne m t(3) org_inv_member(3) [OF inv s, of p u]
    by (auto simp: kv_get_set split: if_splits)
qed (use inv m in \<open>auto simp: org_invD kv_get_set memberKey_other [OF inv s] member_entry_ok_def
       dest: org_invD(5) split: if_splits\<close>)

lemma org_inv_remove:
  assumes inv: "org_inv st" and s: "kv_get (os_orgs st) (orgKey i) = Some s"
    and m: "kv_get (os_members st) (memberKey i p) = Some m" "sm_Role m \<noteq> ''leader''"
    and t: "so_OrgId t = so_OrgId s" "so_Slot t = so_Slot s" "so_Leader t = so_Leader s"
  shows "org_inv (st\<lparr>os_members := kv_del (memberKey i p) (os_members st),
    os_orgs := kv_set (orgKey i) t (os_orgs st)\<rparr>)"
proof (rule org_inv_local [OF inv s t(1,2)])
  have ne: "so_Leader s \<noteq> p"
    using org_inv_member(3) [OF inv s m(1)] m(2) by auto
  then show "kv_has (os_members (st\<lparr>os_members := kv_del (memberKey i p) (os_members st),
      os_orgs := kv_set (orgKey i) t (os_orgs st)\<rparr>)) (memberKey i (so_Leader t))"
    using org_inv_stored(4) [OF inv s] t(3) by (auto simp: kv_has_def)
  show "sm_Role u = (if q = so_Leader t then ''leader'' else ''member'')"
    if "kv_get (os_members (st\<lparr>os_members := kv_del (memberKey i p) (os_members st),
      os_orgs := kv_set (orgKey i) t (os_orgs st)\<rparr>)) (memberKey i q) = Some u" for q u
    using that t(3) org_inv_member(3) [OF inv s, of q u]
    by (auto simp: kv_get_del split: if_splits)
qed (use inv in \<open>auto simp: org_invD kv_get_del memberKey_other [OF inv s] member_entry_ok_def
       dest: org_invD(5) split: if_splits\<close>)

lemma org_inv_capabilities:
  assumes inv: "org_inv st" and s: "kv_get (os_orgs st) (orgKey i) = Some s"
    and m: "kv_get (os_members st) (memberKey i p) = Some m"
    and u: "sm_OrgId u = sm_OrgId m" "sm_Pubkey u = sm_Pubkey m" "sm_Role u = sm_Role m"
  shows "org_inv (st\<lparr>os_members := kv_set (memberKey i p) u (os_members st)\<rparr>)"
proof -
  have "org_entry_ok (st\<lparr>os_members := kv_set (memberKey i p) u (os_members st)\<rparr>) k t"
    if "kv_get (os_orgs st) k = Some t" for k t
    using org_invD(4) [OF inv that] by (auto simp: org_entry_ok_def kv_has_def kv_get_set)
  moreover have "member_entry_ok (st\<lparr>os_members := kv_set (memberKey i p) u (os_members st)\<rparr>) k v"
    if "kv_get (kv_set (memberKey i p) u (os_members st)) k = Some v" for k v
  proof (cases "k = memberKey i p")
    case True
    with that org_invD(5) [OF inv m] u show ?thesis
      by (auto simp: member_entry_ok_def split: option.splits)
  next
    case False
    with that org_invD(5) [OF inv, of k v] show ?thesis by (simp add: member_entry_ok_def)
  qed
  ultimately show ?thesis using inv by (auto simp: org_inv_iff)
qed

lemma org_inv_transfer:
  assumes inv: "org_inv st" and s: "kv_get (os_orgs st) (orgKey i) = Some s"
    and p: "kv_get (os_members st) (memberKey i p) \<noteq> None"
    and ms1: "ms1 = kv_set (memberKey i (so_Leader s))
      ((get_stored_member st (memberKey i (so_Leader s)))\<lparr>sm_Role := ''member''\<rparr>) (os_members st)"
    and ms2: "ms2 = kv_set (memberKey i p)
      ((get_stored_member (st\<lparr>os_members := ms1\<rparr>) (memberKey i p))\<lparr>sm_Role := ''leader''\<rparr>) ms1"
    and t: "so_OrgId t = so_OrgId s" "so_Slot t = so_Slot s" "so_Leader t = p"
  shows "org_inv (st\<lparr>os_members := ms2, os_orgs := kv_set (orgKey i) t (os_orgs st)\<rparr>)"
proof (rule org_inv_local [OF inv s t(1,2)])
  obtain old new where
    old: "kv_get (os_members st) (memberKey i (so_Leader s)) = Some old" and
    new: "kv_get (os_members st) (memberKey i p) = Some new"
    using org_inv_stored(4) [OF inv s] p by auto
  note om = org_inv_member [OF inv s old] and nm = org_inv_member [OF inv s new]
  have get: "kv_get ms2 k =
    (if k = memberKey i p then Some (new\<lparr>sm_Role := ''leader''\<rparr>)
     else if k = memberKey i (so_Leader s) then Some (old\<lparr>sm_Role := ''member''\<rparr>)
     else kv_get (os_members st) k)" for k
    unfolding ms2 ms1 get_stored_member_def using old new by (auto simp: kv_get_set)
  show "kv_get (os_members (st\<lparr>os_members := ms2, os_orgs := kv_set (orgKey i) t (os_orgs st)\<rparr>))
      (memberKey j q) = kv_get (os_members st) (memberKey j q)"
    if "CHR ''/'' \<notin> set j" "j \<noteq> i" for j q
    using memberKey_other [OF inv s that] by (simp add: get)
  show "k = memberKey (sm_OrgId m) (sm_Pubkey m)"
    if "kv_get (os_members (st\<lparr>os_members := ms2, os_orgs := kv_set (orgKey i) t (os_orgs st)\<rparr>)) k =
      Some m" for k m
    using that om(1,2) nm(1,2) org_invD(5) [OF inv, of k m]
    by (auto simp: get member_entry_ok_def split: if_splits)
  show "kv_get (os_members st) k = Some m"
    if "kv_get (os_members (st\<lparr>os_members := ms2, os_orgs := kv_set (orgKey i) t (os_orgs st)\<rparr>)) k =
      Some m" "sm_OrgId m \<noteq> i" for k m
    using that om(1) nm(1) by (auto simp: get split: if_splits)
  show "sm_Role m = (if q = so_Leader t then ''leader'' else ''member'')"
    if "kv_get (os_members (st\<lparr>os_members := ms2, os_orgs := kv_set (orgKey i) t (os_orgs st)\<rparr>))
      (memberKey i q) = Some m" for q m
    using that t(3) org_inv_member(3) [OF inv s, of q m] by (auto simp: get split: if_splits)
  show "kv_has (os_members (st\<lparr>os_members := ms2, os_orgs := kv_set (orgKey i) t (os_orgs st)\<rparr>))
      (memberKey i (so_Leader t))"
    by (simp add: kv_has_def get t(3))
qed (use inv in \<open>simp_all add: ms1 ms2 org_invD\<close>)

lemma org_inv_modify:
  assumes inv: "org_inv st" and s: "kv_get (os_orgs st) (orgKey i) = Some s"
    and t: "so_OrgId t = so_OrgId s" "so_Slot t = so_Slot s" "so_Leader t = so_Leader s"
  shows "org_inv (st\<lparr>os_orgs := kv_set (orgKey i) t (os_orgs st)\<rparr>)"
  by (rule org_inv_local [OF inv s t(1,2)])
    (use inv org_inv_stored(4) [OF inv s] org_inv_member(3) [OF inv s] t(3)
     in \<open>auto simp: org_invD kv_has_def member_entry_ok_def dest: org_invD(5)\<close>)

theorem org_step_inv: "org_step st st' \<Longrightarrow> org_inv st \<Longrightarrow> org_inv st'"
proof (induction rule: org_step.induct)
  case (os_register st i s m)
  then show ?case by (intro org_inv_register) auto
next
  case (os_add st i s m)
  then show ?case by (intro org_inv_add) auto
next
  case (os_remove st i s p m)
  then show ?case by (intro org_inv_remove [of st i s p m]) simp_all
next
  case (os_capabilities st i s p m c d)
  then show ?case by (intro org_inv_capabilities) auto
next
  case (os_transfer st i s p ms1 ms2 w)
  then show ?case by (intro org_inv_transfer) auto
next
  case (os_close st i s)
  then show ?case by (intro org_inv_modify) auto
next
  case (os_update st i s t)
  then show ?case by (intro org_inv_modify) (auto simp: keeps_core_def)
next
  case (os_config st i s c)
  then show ?case by (intro org_inv_config)
qed (auto simp: org_inv_def org_entry_ok_def member_entry_ok_def)

subsection \<open>Blocks of messages\<close>

text \<open>The state after the module's default genesis.\<close>

definition org_start :: org_state where
  "org_start = (case org_InitGenesis org_empty org_DefaultGenesis of Inl _ \<Rightarrow> org_empty | Inr st \<Rightarrow> st)"

lemma org_inv_start: "org_inv org_start"
  by (simp add: org_start_def org_InitGenesis_def org_DefaultGenesis_def org_empty_def Let_def
      org_SetParams_def SetNextSlot_def org_inv_def)

interpretation org_tx: tx_machine "org_handle K" "\<lambda>s. org_inv (fst s)" for K :: "'x sdk"
proof unfold_locales
  show "org_inv (fst s')" if "org_inv (fst s)" "org_handle K s m = Inr s'"
    for s s' :: "org_state \<times> 'x" and m
    using that org_handle_step [of K "fst s" "snd s" m "fst s'" "snd s'"] org_step_inv by auto
qed

text \<open>
  The identity of an organisation: the identifier, the slot and the account it was registered with.
\<close>

definition org_identity :: "org_state \<Rightarrow> string \<Rightarrow> (string \<times> u64 \<times> string) option" where
  "org_identity st i = map_option (\<lambda>s. (so_OrgId s, so_Slot s, so_AccountAddress s))
     (kv_get (os_orgs st) (orgKey i))"

definition org_closed :: "org_state \<Rightarrow> string \<Rightarrow> unit option" where
  "org_closed st i =
     (case kv_get (os_orgs st) (orgKey i) of
        None \<Rightarrow> None
      | Some s \<Rightarrow> if so_Status s = OrgStatus_CLOSED then Some () else None)"

lemma org_step_identity:
  "org_step st st' \<Longrightarrow> org_identity st i = Some v \<Longrightarrow> org_identity st' i = Some v"
  by (induction rule: org_step.induct)
    (auto simp: org_identity_def kv_get_set kv_has_def keeps_core_def)

lemma org_step_closed: "org_step st st' \<Longrightarrow> org_closed st i = Some v \<Longrightarrow> org_closed st' i = Some v"
  by (induction rule: org_step.induct)
    (auto simp: org_closed_def kv_get_set kv_has_def keeps_core_def OrgStatus_defs
      split: option.splits if_splits)

interpretation org_ids: append_only "org_handle K" "\<lambda>s. org_inv (fst s)" "\<lambda>s. org_identity (fst s)"
  for K :: "'x sdk"
proof unfold_locales
  show "org_identity (fst s') i = Some v"
    if "org_handle K s m = Inr s'" "org_identity (fst s) i = Some v"
    for s s' :: "org_state \<times> 'x" and m i v
    using that org_handle_step [of K "fst s" "snd s" m "fst s'" "snd s'"] org_step_identity by auto
qed

interpretation org_end: append_only "org_handle K" "\<lambda>s. org_inv (fst s)" "\<lambda>s. org_closed (fst s)"
  for K :: "'x sdk"
proof unfold_locales
  show "org_closed (fst s') i = Some v"
    if "org_handle K s m = Inr s'" "org_closed (fst s) i = Some v"
    for s s' :: "org_state \<times> 'x" and m i v
    using that org_handle_step [of K "fst s" "snd s" m "fst s'" "snd s'"] org_step_closed by auto
qed

text \<open>
  C3: Whatever messages are delivered after the default genesis, the org store is well formed:
  identifiers, slots and keys agree, every organisation has exactly its leader recorded with the
  role \<open>leader\<close>, and every member record belongs to an existing organisation.
\<close>

theorem org_reachable_inv: "org_inv (fst (deliver_all (org_handle K) (org_start, x) ms))"
  by (rule org_tx.deliver_all_inv) (simp add: org_inv_start)

subsection \<open>The member counter\<close>

definition member_count :: "org_state \<Rightarrow> string \<Rightarrow> nat" where
  "member_count st i = length (filter (\<lambda>e. sm_OrgId (snd e) = i) (os_members st))"

definition count_ok :: "org_state \<Rightarrow> bool" where
  "count_ok st \<longleftrightarrow>
     list_all (\<lambda>(k, s). so_TotalActiveMembers s = of_nat (member_count st (so_OrgId s))) (os_orgs st)"

lemma count_ok_iff: "kv_ok (os_orgs st) \<Longrightarrow> count_ok st \<longleftrightarrow>
    (\<forall>k s. kv_get (os_orgs st) k = Some s \<longrightarrow>
       so_TotalActiveMembers s = of_nat (member_count st (so_OrgId s)))"
  unfolding count_ok_def list_all_iff by (auto simp: kv_get_iff)

lemma member_count_set:
  assumes "kv_ok (os_members st)" "sm_OrgId m = i"
    "\<And>u. kv_get (os_members st) k = Some u \<Longrightarrow> sm_OrgId u = i"
  shows "length (filter (\<lambda>e. sm_OrgId (snd e) = j) (kv_set k m (os_members st))) =
    (if j = i \<and> kv_get (os_members st) k = None then Suc (member_count st j) else member_count st j)"
proof (cases "j = i")
  case True
  then show ?thesis
    using assms length_filter_kv_set [of "os_members st" "\<lambda>e. sm_OrgId (snd e) = i" k m]
    by (auto simp: member_count_def split: option.splits)
next
  case False
  then have "filter (\<lambda>e. sm_OrgId (snd e) = j) (kv_set k m (os_members st)) =
      filter (\<lambda>e. sm_OrgId (snd e) = j) (os_members st)"
    using assms by (intro filter_kv_set_out) auto
  with False show ?thesis by (simp add: member_count_def)
qed

lemma member_count_del:
  assumes "kv_ok (os_members st)" "kv_get (os_members st) k = Some m" "sm_OrgId m = i"
  shows "length (filter (\<lambda>e. sm_OrgId (snd e) = j) (kv_del k (os_members st))) =
    (if j = i then member_count st j - 1 else member_count st j)"
proof (cases "j = i")
  case True
  then show ?thesis
    using assms length_filter_kv_del [OF assms(1,2), of "\<lambda>e. sm_OrgId (snd e) = i"]
    by (simp add: member_count_def)
next
  case False
  then have "filter (\<lambda>e. sm_OrgId (snd e) = j) (kv_del k (os_members st)) =
      filter (\<lambda>e. sm_OrgId (snd e) = j) (os_members st)"
    using assms by (intro filter_kv_del_out) auto
  with False show ?thesis by (simp add: member_count_def)
qed

lemma member_count_no_org:
  assumes "org_inv st" "\<not> kv_has (os_orgs st) (orgKey i)"
  shows "member_count st i = 0"
proof -
  have "sm_OrgId m \<noteq> i" if "(k, m) \<in> set (os_members st)" for k m
    using org_invD(5) [OF assms(1), of k m] that assms(2) org_invD(2) [OF assms(1)]
    by (auto simp: kv_get_iff kv_has_def member_entry_ok_def split: option.splits)
  then have "filter (\<lambda>e. sm_OrgId (snd e) = i) (os_members st) = []"
    by (fastforce simp: filter_empty_conv)
  then show ?thesis by (simp add: member_count_def)
qed

lemma count_ok_modify:
  assumes "kv_ok (os_orgs st)" "count_ok st" "kv_get (os_orgs st) (orgKey i) = Some s"
    "so_OrgId t = so_OrgId s" "os_orgs st' = kv_set (orgKey i) t (os_orgs st)"
    "so_TotalActiveMembers t = of_nat (member_count st' (so_OrgId s))"
    "\<And>j. j \<noteq> so_OrgId s \<Longrightarrow> member_count st' j = member_count st j"
    "\<And>k u. kv_get (os_orgs st) k = Some u \<Longrightarrow> so_OrgId u = so_OrgId s \<Longrightarrow> k = orgKey i"
  shows "count_ok st'"
proof -
  have "so_TotalActiveMembers u = of_nat (member_count st' (so_OrgId u))"
    if "kv_get (os_orgs st') k = Some u" for k u
  proof (cases "k = orgKey i")
    case True
    with that assms(4-6) show ?thesis by simp
  next
    case False
    with that assms(5) have u: "kv_get (os_orgs st) k = Some u" by simp
    with False assms(8) have "so_OrgId u \<noteq> so_OrgId s" by blast
    with u assms(1,2,7) show ?thesis by (simp add: count_ok_iff)
  qed
  moreover have "kv_ok (os_orgs st')" using assms(1,5) by simp
  ultimately show ?thesis by (simp add: count_ok_iff)
qed

lemma org_inv_key_unique:
  assumes "org_inv st" "kv_get (os_orgs st) (orgKey i) = Some s"
    "kv_get (os_orgs st) k = Some u" "so_OrgId u = so_OrgId s"
  shows "k = orgKey i"
  using org_invD(4) [OF assms(1,2)] org_invD(4) [OF assms(1,3)] assms(4)
  by (simp add: org_entry_ok_def)

lemma member_count_pos:
  assumes "org_inv st" "kv_get (os_orgs st) (orgKey i) = Some s"
    "kv_get (os_members st) (memberKey i p) = Some m" "sm_Role m \<noteq> ''leader''"
  shows "2 \<le> member_count st i"
proof -
  obtain l where l: "kv_get (os_members st) (memberKey i (so_Leader s)) = Some l"
    using org_inv_stored(4) [OF assms(1,2)] by blast
  have "p \<noteq> so_Leader s" using org_inv_member(3) [OF assms(1-3)] assms(4) by auto
  then have ne: "(memberKey i p, m) \<noteq> (memberKey i (so_Leader s), l)" by simp
  let ?F = "filter (\<lambda>e. sm_OrgId (snd e) = i) (os_members st)"
  have "{(memberKey i p, m), (memberKey i (so_Leader s), l)} \<subseteq> set ?F"
    using assms(3) l org_inv_member(1) [OF assms(1-3)] org_inv_member(1) [OF assms(1,2) l]
    by (auto dest: kv_get_SomeD)
  then have "card {(memberKey i p, m), (memberKey i (so_Leader s), l)} \<le> card (set ?F)"
    by (intro card_mono) auto
  also have "\<dots> \<le> length ?F" by (rule card_length)
  finally show ?thesis using ne by (simp add: member_count_def)
qed

lemma count_register:
  assumes inv: "org_inv st" and ok: "count_ok st" and i: "i = FormatOrgID (GetNextSlot st)"
    and new: "\<not> kv_has (os_orgs st) (orgKey i)" and s: "so_OrgId s = i" "so_TotalActiveMembers s = 1"
    and m: "sm_OrgId m = i"
    and st': "os_orgs st' = kv_set (orgKey i) s (os_orgs st)"
      "os_members st' = kv_set (memberKey i (so_Leader s)) m (os_members st)"
  shows "count_ok st'"
proof -
  have fresh: "kv_get (os_members st) (memberKey i (so_Leader s)) = None"
  proof (rule ccontr)
    assume "\<not> ?thesis"
    then obtain u where u: "kv_get (os_members st) (memberKey i (so_Leader s)) = Some u" by auto
    obtain t where t: "memberKey i (so_Leader s) = memberKey (sm_OrgId u) (sm_Pubkey u)"
      "kv_get (os_orgs st) (orgKey (sm_OrgId u)) = Some t"
      using org_invD(5) [OF inv u] by (auto simp: member_entry_ok_def split: option.splits)
    have "i = sm_OrgId u"
      using t(1) org_inv_stored(2) [OF inv t(2)] i by (metis memberKey_FormatOrgID)
    with t(2) new show False by (simp add: kv_has_def)
  qed
  have count: "member_count st' j = (if j = i then 1 else member_count st j)" for j
    using member_count_set [of st m i "memberKey i (so_Leader s)" j] member_count_no_org [OF inv new]
      fresh m org_invD(2) [OF inv] st'(2) by (simp add: member_count_def)
  have "so_TotalActiveMembers u = of_nat (member_count st' (so_OrgId u))"
    if "kv_get (os_orgs st') k = Some u" for k u
  proof (cases "k = orgKey i")
    case True
    with that s st'(1) show ?thesis by (auto simp: count)
  next
    case False
    with that st'(1) have u: "kv_get (os_orgs st) k = Some u" by simp
    have "so_OrgId u \<noteq> i"
      using False org_invD(4) [OF inv u] by (auto simp: org_entry_ok_def)
    with u ok inv show ?thesis by (simp add: count count_ok_iff org_invD)
  qed
  then show ?thesis using org_invD(1) [OF inv] st'(1) by (simp add: count_ok_iff)
qed

lemma count_total:
  assumes "org_inv st" "count_ok st" "kv_get (os_orgs st) (orgKey i) = Some s"
  shows "so_TotalActiveMembers s = of_nat (member_count st i)"
  using assms org_invD(1) [OF assms(1)] org_inv_stored(1) [OF assms(1,3)]
  by (auto simp: count_ok_iff)

lemma count_add:
  assumes inv: "org_inv st" and ok: "count_ok st" and s: "kv_get (os_orgs st) (orgKey i) = Some s"
    and new: "kv_get (os_members st) (memberKey i (sm_Pubkey m)) = None" and m: "sm_OrgId m = i"
    and st': "os_orgs st' = kv_set (orgKey i) (s\<lparr>so_TotalActiveMembers := so_TotalActiveMembers s + 1\<rparr>)
      (os_orgs st)" "os_members st' = kv_set (memberKey i (sm_Pubkey m)) m (os_members st)"
  shows "count_ok st'"
proof -
  have count: "member_count st' j = (if j = i then Suc (member_count st j) else member_count st j)" for j
    using member_count_set [of st m i "memberKey i (sm_Pubkey m)" j] new m org_invD(2) [OF inv] st'(2)
    by (simp add: member_count_def)
  show ?thesis
    by (rule count_ok_modify [OF org_invD(1) [OF inv] ok s _ st'(1)])
      (simp_all add: count count_total [OF inv ok s] org_inv_stored(1) [OF inv s]
        org_inv_key_unique [OF inv s])
qed

lemma count_remove:
  assumes inv: "org_inv st" and ok: "count_ok st" and s: "kv_get (os_orgs st) (orgKey i) = Some s"
    and m: "kv_get (os_members st) (memberKey i p) = Some m" "sm_Role m \<noteq> ''leader''"
    and bound: "length (os_members st) < 2 ^ 64"
    and st': "os_orgs st' = kv_set (orgKey i) (if 0 < so_TotalActiveMembers s
         then s\<lparr>so_TotalActiveMembers := so_TotalActiveMembers s - 1\<rparr> else s) (os_orgs st)"
      "os_members st' = kv_del (memberKey i p) (os_members st)"
  shows "count_ok st'"
proof -
  have count: "member_count st' j = (if j = i then member_count st j - 1 else member_count st j)" for j
    using member_count_del [OF org_invD(2) [OF inv] m(1) org_inv_member(1) [OF inv s m(1)], of j] st'(2)
    by (simp add: member_count_def)
  have two: "2 \<le> member_count st i" by (rule member_count_pos [OF inv s m])
  moreover have "member_count st i \<le> length (os_members st)" by (simp add: member_count_def)
  ultimately have "unat (of_nat (member_count st i) :: u64) = member_count st i"
    using bound by (simp add: unat_of_nat)
  with two have pos: "0 < so_TotalActiveMembers s"
    unfolding count_total [OF inv ok s] by (simp add: word_less_nat_alt)
  show ?thesis
    by (rule count_ok_modify [OF org_invD(1) [OF inv] ok s _ st'(1)])
      (use pos two in \<open>simp_all add: count count_total [OF inv ok s] org_inv_stored(1) [OF inv s]
        org_inv_key_unique [OF inv s] of_nat_diff\<close>)
qed

lemma count_same_members:
  assumes inv: "org_inv st" and ok: "count_ok st" and s: "kv_get (os_orgs st) (orgKey i) = Some s"
    and t: "so_OrgId t = so_OrgId s" "so_TotalActiveMembers t = so_TotalActiveMembers s"
    and st': "os_orgs st' = kv_set (orgKey i) t (os_orgs st)"
      "\<And>j. member_count st' j = member_count st j"
  shows "count_ok st'"
  by (rule count_ok_modify [OF org_invD(1) [OF inv] ok s t(1) st'(1)])
    (simp_all add: t st'(2) count_total [OF inv ok s] org_inv_stored(1) [OF inv s]
      org_inv_key_unique [OF inv s])

lemma member_count_overwrite:
  assumes "kv_ok (os_members st)" "kv_get (os_members st) k = Some m" "sm_OrgId u = sm_OrgId m"
  shows "member_count (st\<lparr>os_members := kv_set k u (os_members st)\<rparr>) j = member_count st j"
proof -
  have "length (filter (\<lambda>e. sm_OrgId (snd e) = j) (kv_set k u (os_members st))) = member_count st j"
    by (subst member_count_set [OF assms(1,3)]) (use assms(2) in auto)
  then show ?thesis by (simp add: member_count_def)
qed

lemma count_transfer:
  assumes inv: "org_inv st" and s: "kv_get (os_orgs st) (orgKey i) = Some s"
    and p: "kv_get (os_members st) (memberKey i p) \<noteq> None"
    and ms1: "ms1 = kv_set (memberKey i (so_Leader s))
      ((get_stored_member st (memberKey i (so_Leader s)))\<lparr>sm_Role := ''member''\<rparr>) (os_members st)"
    and ms2: "ms2 = kv_set (memberKey i p)
      ((get_stored_member (st\<lparr>os_members := ms1\<rparr>) (memberKey i p))\<lparr>sm_Role := ''leader''\<rparr>) ms1"
  shows "member_count (st\<lparr>os_members := ms2, os_orgs := os\<rparr>) j = member_count st j"
proof -
  let ?st1 = "st\<lparr>os_members := ms1\<rparr>"
  obtain old where old: "kv_get (os_members st) (memberKey i (so_Leader s)) = Some old"
    using org_inv_stored(4) [OF inv s] by blast
  obtain new where new: "kv_get ms1 (memberKey i p) = Some new"
    using p unfolding ms1 by (cases "p = so_Leader s") auto
  have "member_count ?st1 j = member_count st j"
    unfolding ms1 by (rule member_count_overwrite [OF org_invD(2) [OF inv] old])
      (simp add: get_stored_member_def old)
  moreover have "member_count (?st1\<lparr>os_members := ms2\<rparr>) j = member_count ?st1 j"
    using member_count_overwrite [of ?st1 "memberKey i p" new
        "(get_stored_member ?st1 (memberKey i p))\<lparr>sm_Role := ''leader''\<rparr>" j] new org_invD(2) [OF inv]
    by (simp add: get_stored_member_def ms2 ms1)
  ultimately show ?thesis by (simp add: member_count_def)
qed

lemma org_step_count:
  assumes "org_step st st'" "org_inv st" "count_ok st" "length (os_members st) < 2 ^ 64"
  shows "count_ok st'"
  using assms
proof (induction rule: org_step.induct)
  case (os_register st i s m)
  show ?case
    by (rule count_register [OF os_register.prems(1,2) os_register(2,3,4,6), of m])
      (simp_all add: os_register(10))
next
  case (os_add st i s m)
  show ?case
    by (rule count_add [OF os_add.prems(1,2) os_add(1,3,4)]) simp_all
next
  case (os_remove st i s p m)
  show ?case
    by (rule count_remove [OF os_remove.prems(1,2) os_remove(1,3,4) os_remove.prems(3)]) simp_all
next
  case (os_capabilities st i s p m d c)
  then show ?case
    using member_count_overwrite [of st "memberKey i p" m "m\<lparr>sm_CanContribute := c, sm_CanModerate := d\<rparr>"]
    by (simp add: count_ok_def org_invD)
next
  case (os_transfer st i s p ms1 ms2 w)
  show ?case
    by (rule count_same_members [OF os_transfer.prems(1,2) os_transfer(1),
          of "s\<lparr>so_Leader := p, so_LeaderWalletAddress := w\<rparr>"])
      (simp_all add: count_transfer [OF os_transfer.prems(1) os_transfer(1-4)])
next
  case (os_close st i s)
  show ?case
    by (rule count_same_members [OF os_close.prems(1,2) os_close(1),
          of "s\<lparr>so_Status := OrgStatus_CLOSED\<rparr>"]) (simp_all add: member_count_def)
next
  case (os_update st i s t)
  show ?case
    by (rule count_same_members [OF os_update.prems(1,2) os_update(1), of t])
      (use os_update(2) in \<open>simp_all add: member_count_def keeps_core_def\<close>)
qed (auto simp: count_ok_def member_count_def)

lemma org_step_members_length:
  "org_step st st' \<Longrightarrow> org_inv st \<Longrightarrow> length (os_members st') \<le> Suc (length (os_members st))"
proof (induction rule: org_step.induct)
  case (os_transfer st i s p ms1 ms2 w)
  have ok: "kv_ok (os_members st)" by (rule org_invD(2) [OF os_transfer.prems])
  have "kv_get (os_members st) (memberKey i (so_Leader s)) \<noteq> None"
    using org_inv_stored(4) [OF os_transfer.prems os_transfer(1)] by simp
  moreover from this have "kv_get ms1 (memberKey i p) \<noteq> None"
    using os_transfer(2) unfolding os_transfer(3) by (simp add: kv_get_set)
  ultimately show ?case
    using ok unfolding os_transfer(4) by (simp add: length_kv_set os_transfer(3))
qed (auto simp: length_kv_set org_invD kv_del_def intro: le_trans [OF length_filter_le])

lemma org_run_count:
  assumes "org_inv (fst s)" "count_ok (fst s)" "length (os_members (fst s)) + length ms < 2 ^ 64"
  shows "count_ok (fst (deliver_all (org_handle K) s ms)) \<and>
    length (os_members (fst (deliver_all (org_handle K) s ms))) \<le> length (os_members (fst s)) + length ms"
  using assms
proof (induction ms arbitrary: s)
  case (Cons m ms)
  show ?case
  proof (cases "org_handle K s m")
    case (Inl e)
    with Cons show ?thesis by fastforce
  next
    case (Inr s')
    then have step: "org_step (fst s) (fst s')"
      using org_handle_step [of K "fst s" "snd s" m "fst s'" "snd s'"] by simp
    have "org_inv (fst s')" by (rule org_step_inv [OF step Cons.prems(1)])
    moreover have "count_ok (fst s')"
      by (rule org_step_count [OF step Cons.prems(1,2)]) (use Cons.prems(3) in simp)
    moreover have len: "length (os_members (fst s')) \<le> Suc (length (os_members (fst s)))"
      by (rule org_step_members_length [OF step Cons.prems(1)])
    ultimately have "count_ok (fst (deliver_all (org_handle K) s' ms)) \<and>
        length (os_members (fst (deliver_all (org_handle K) s' ms))) \<le>
        length (os_members (fst s')) + length ms"
      using Cons.prems(3) by (intro Cons.IH) simp_all
    with len Inr show ?thesis by simp
  qed
qed simp

text \<open>
  C22: The stored counter \<open>TotalActiveMembers\<close> of every organisation is the number of its member
  records, after any sequence of fewer than \<open>2^64\<close> messages since the default genesis.
\<close>

theorem org_member_counter:
  assumes "length ms < 2 ^ 64"
    and "kv_get (os_orgs (fst (deliver_all (org_handle K) (org_start, x) ms))) (orgKey i) = Some s"
  shows "unat (so_TotalActiveMembers s) =
    member_count (fst (deliver_all (org_handle K) (org_start, x) ms)) i"
proof -
  let ?st = "fst (deliver_all (org_handle K) (org_start, x) ms)"
  have start: "org_inv org_start" "count_ok org_start" "os_members org_start = []"
    using org_inv_start by (simp_all add: org_start_def org_InitGenesis_def org_DefaultGenesis_def
        org_empty_def Let_def org_SetParams_def SetNextSlot_def count_ok_def)
  have inv: "org_inv ?st" by (rule org_tx.deliver_all_inv) (simp add: start)
  have ok: "count_ok ?st" "length (os_members ?st) \<le> length ms"
    using org_run_count [of "(org_start, x)" ms K] start assms(1) by simp_all
  have "member_count ?st i \<le> length (os_members ?st)" by (simp add: member_count_def)
  with ok(2) assms(1) have "unat (of_nat (member_count ?st i) :: u64) = member_count ?st i"
    by (simp add: unat_of_nat)
  with count_total [OF inv ok(1) assms(2)] show ?thesis by simp
qed

subsection \<open>The slot price\<close>

lemma ascending_multiplier: "ascending_multiplier n inc m = m + of_nat n * inc"
  by (induction n inc m rule: ascending_multiplier.induct) (simp_all add: algebra_simps)

text \<open>The price as a formula: the base price increased by \<open>inc\<close> percent of it for every slot sold.\<close>

definition slot_price :: "u64 \<Rightarrow> u64 \<Rightarrow> u64 \<Rightarrow> int" where
  "slot_price base inc slot = (sint base * (100 + int (unat slot) * sint inc)) div 100"

lemma computeAscendingPrice_closed:
  "computeAscendingPrice st slot =
     (let p = org_GetParams st;
          r = slot_price (op_BaseBurnPrice p) (op_BurnPriceIncreasePercent p) slot
      in if r \<le> 0 \<or> 2 ^ 64 \<le> r then op_BaseBurnPrice p else word_of_int r)"
proof -
  define base where "base = sint (op_BaseBurnPrice (org_GetParams st))"
  define inc where "inc = sint (op_BurnPriceIncreasePercent (org_GetParams st))"
  define r where "r = ascending_multiplier (unat slot) (Fract inc 100) (Fract 100 100)"
  obtain n d where nd: "quotient_of r = (n, d)" by fastforce
  then have d: "0 < d" "r = of_int n / of_int d"
    using quotient_of_denom_pos quotient_of_div by auto
  have "r = (100 + of_nat (unat slot) * of_int inc) / 100"
    unfolding r_def ascending_multiplier by (simp add: Fract_of_int_quotient field_simps)
  then have r: "of_int base * r = of_int (base * (100 + int (unat slot) * inc)) / of_int 100"
    by simp
  have "(base * n) div d = \<lfloor>of_int (base * n) / (of_int d :: rat)\<rfloor>"
    by (rule floor_divide_of_int_eq [symmetric])
  also have "of_int (base * n) / (of_int d :: rat) = of_int base * r" using d by simp
  also have "\<lfloor>of_int base * r\<rfloor> = (base * (100 + int (unat slot) * inc)) div 100"
    unfolding r by (rule floor_divide_of_int_eq)
  finally have "(base * n) div d = (base * (100 + int (unat slot) * inc)) div 100" .
  then show ?thesis
    using nd unfolding r_def inc_def base_def computeAscendingPrice_def slot_price_def Let_def
    by simp
qed

lemma ComputeSlotPrice_formula:
  "ComputeSlotPrice st slot =
     (let p = org_GetParams st;
          r = slot_price (op_BaseBurnPrice p) (op_BurnPriceIncreasePercent p) slot
      in if r \<le> 0 \<or> 2 ^ 64 \<le> r then unat (op_BaseBurnPrice p) else nat r)"
proof -
  have "unat (word_of_int r :: u64) = nat r" if "0 < r" "r < 2 ^ 64" for r
    using that by (simp add: unat_eq_nat_uint uint_word_of_int_eq take_bit_int_eq_self)
  then show ?thesis
    by (auto simp: ComputeSlotPrice_def computeAscendingPrice_closed Let_def)
qed

lemma slot_price_mono:
  assumes "0 \<le> sint base" "0 \<le> sint inc" "a \<le> b"
  shows "slot_price base inc a \<le> slot_price base inc b"
proof -
  have "int (unat a) * sint inc \<le> int (unat b) * sint inc"
    using assms by (intro mult_right_mono) (simp_all only: word_le_nat_alt of_nat_le_iff)
  then have "sint base * (100 + int (unat a) * sint inc) \<le> sint base * (100 + int (unat b) * sint inc)"
    using assms(1) by (intro mult_left_mono) simp_all
  then show ?thesis unfolding slot_price_def by (rule zdiv_mono1) simp
qed

text \<open>
  C24: The loop over exact fractions computes a linear price: the base price plus \<open>inc\<close> percent of it
  for each slot sold before, rounded down; the base price itself when that is not positive or does
  not fit 64 bits.  Within those bounds a later slot is never cheaper.
\<close>

theorem slot_price_correct:
  "ComputeSlotPrice st slot =
     (let p = org_GetParams st;
          r = slot_price (op_BaseBurnPrice p) (op_BurnPriceIncreasePercent p) slot
      in if r \<le> 0 \<or> 2 ^ 64 \<le> r then unat (op_BaseBurnPrice p) else nat r) \<and>
   (0 < sint (op_BaseBurnPrice (org_GetParams st)) \<and>
    0 \<le> sint (op_BurnPriceIncreasePercent (org_GetParams st)) \<and> slot \<le> slot' \<and>
    slot_price (op_BaseBurnPrice (org_GetParams st)) (op_BurnPriceIncreasePercent (org_GetParams st))
      slot' < 2 ^ 64 \<longrightarrow>
    ComputeSlotPrice st slot \<le> ComputeSlotPrice st slot')"
proof -
  let ?b = "op_BaseBurnPrice (org_GetParams st)"
  let ?i = "op_BurnPriceIncreasePercent (org_GetParams st)"
  have "ComputeSlotPrice st slot \<le> ComputeSlotPrice st slot'"
    if h: "0 < sint ?b" "0 \<le> sint ?i" "slot \<le> slot'" "slot_price ?b ?i slot' < 2 ^ 64"
  proof -
    have le: "slot_price ?b ?i slot \<le> slot_price ?b ?i slot'"
      using h by (intro slot_price_mono) auto
    have "slot_price ?b ?i 0 \<le> slot_price ?b ?i slot" using h by (intro slot_price_mono) auto
    moreover have "slot_price ?b ?i 0 = sint ?b" by (simp add: slot_price_def)
    ultimately have "0 < slot_price ?b ?i slot" using h(1) by simp
    with le h(4) show ?thesis by (simp add: ComputeSlotPrice_formula Let_def)
  qed
  then show ?thesis by (simp add: ComputeSlotPrice_formula)
qed

theorem slot_price_correct_witness:
  "ComputeSlotPrice org_start 3 = 16000000 \<and> ComputeSlotPrice org_start 31 = 72000000 \<and>
   ComputeSlotPrice org_start 3 \<le> ComputeSlotPrice org_start 31"
proof -
  have p: "op_BaseBurnPrice (org_GetParams org_start) = 10000000"
    "op_BurnPriceIncreasePercent (org_GetParams org_start) = 20"
    by (simp_all add: org_start_def org_InitGenesis_def org_DefaultGenesis_def org_DefaultParams_def
        org_zero_Params_def org_empty_def org_SetParams_def SetNextSlot_def Let_def org_GetParams_def)
  show ?thesis
    using slot_price_correct [of org_start 3 31] slot_price_correct [of org_start 31 31]
    by (simp add: p slot_price_def Let_def)
qed

subsection \<open>The payment\<close>

lemma feegrants_move_nothing:
  assumes "bank_ok K bal supply"
  shows "grantServingFeegrant K x a w = Inr x' \<Longrightarrow> bal x' = bal x \<and> supply x' = supply x"
    "grantLeaderFeegrant K x a w = Inr x' \<Longrightarrow> bal x' = bal x \<and> supply x' = supply x"
  using bank_ok_grant [OF assms]
  by (auto simp: grantServingFeegrant_def grantLeaderFeegrant_def split: option.splits if_splits)

lemma register_payment_effect:
  assumes bank: "bank_ok K bal supply" and pay: "register_payment K x creator i price = Inr x'"
    and distinct: "creator \<noteq> NewModuleAddress K ''org''" "creator \<noteq> OrgAccountAddress K i"
      "OrgAccountAddress K i \<noteq> NewModuleAddress K ''org''"
  shows "price \<le> bal x creator \<and> price div 2 \<le> supply x \<and> supply x' = supply x - price div 2 \<and>
    bal x' = (bal x)(creator := bal x creator - price,
      OrgAccountAddress K i := bal x (OrgAccountAddress K i) + (price - price div 2))"
proof -
  have burn: "price div 2 \<le> bal x creator \<and> price div 2 \<le> supply x \<and>
      supply x2 = supply x - price div 2 \<and> bal x2 = (bal x)(creator := bal x creator - price div 2)"
    if "SendCoinsFromAccountToModule K x creator ''org'' (uvibe (price div 2)) = Some x1"
      "BurnCoins K x1 ''org'' (uvibe (price div 2)) = Some x2" for x1 x2
    using bank_ok_to_module [OF bank that(1)] bank_ok_burn [OF bank that(2)] distinct
    by (auto simp: moves_def)
  have send: "price - price div 2 \<le> bal x2 creator \<and> supply x3 = supply x2 \<and>
      bal x3 = (bal x2)(creator := bal x2 creator - (price - price div 2),
        OrgAccountAddress K i := bal x2 (OrgAccountAddress K i) + (price - price div 2))"
    if "SendCoins K x2 creator (OrgAccountAddress K i) (uvibe (price - price div 2)) = Some x3" for x2 x3
    using bank_ok_send [OF bank that] distinct(2) by (simp add: moves_def)
  consider "price = 0" | "price = 1" | "0 < price div 2" by linarith
  then show ?thesis
  proof cases
    case 1
    with pay show ?thesis by (simp add: register_payment_def fun_upd_idem)
  next
    case 2
    with pay have "SendCoins K x creator (OrgAccountAddress K i) (uvibe (price - price div 2)) = Some x'"
      by (simp add: register_payment_def split: option.splits)
    from send [OF this] 2 show ?thesis by simp
  next
    case 3
    then have "0 < price" "0 < price - price div 2" by simp_all
    with pay 3 obtain x1 x2 where
      "SendCoinsFromAccountToModule K x creator ''org'' (uvibe (price div 2)) = Some x1"
      "BurnCoins K x1 ''org'' (uvibe (price div 2)) = Some x2"
      "SendCoins K x2 creator (OrgAccountAddress K i) (uvibe (price - price div 2)) = Some x'"
      by (auto simp: register_payment_def Let_def split: option.splits)
    note b = burn [OF this(1,2)] and s = send [OF this(3)]
    have "price \<le> n" if "h \<le> price" "h \<le> n" "price - h \<le> n - h" for h n :: nat
      using that by linarith
    from this [of "price div 2" "bal x creator"] b s have "price \<le> bal x creator" by simp
    with b s distinct show ?thesis by auto
  qed
qed

lemma RegisterOrg_payment:
  assumes "RegisterOrg K st x o' creator = Inr (st', x', i)"
  obtains x1 x2 where "i = FormatOrgID (GetNextSlot st)"
    "register_payment K x creator i (ComputeSlotPrice st (GetNextSlot st)) = Inr x1"
    "grantServingFeegrant K x1 (OrgAccountAddress K i) (org_HubServingAddress o') = Inr x2"
    "org_LeaderWalletAddress o' = [] \<longrightarrow> x' = x2"
    "org_LeaderWalletAddress o' \<noteq> [] \<longrightarrow>
       grantLeaderFeegrant K x2 (OrgAccountAddress K i) (org_LeaderWalletAddress o') = Inr x'"
  using assms by (auto simp: RegisterOrg_def Let_def split: sum.splits if_splits)

text \<open>
  C18: A successful registration charges the signer exactly the price of the slot: half of it, rounded
  down, leaves the supply, the rest is on the account of the new organisation, and no other balance
  changes.  The hypotheses are the bank's documented contract and that the signer, the new
  organisation's account and the module account are three different accounts.
\<close>

theorem register_payment_split:
  assumes "bank_ok K bal supply"
    and "Msg_RegisterOrg K st x m = Inr (st', x', i)"
    and "AccAddressFromBech32 K (mro_Signer m) = Some creator"
    and "creator \<noteq> NewModuleAddress K ''org''" "creator \<noteq> OrgAccountAddress K i"
      "OrgAccountAddress K i \<noteq> NewModuleAddress K ''org''"
  shows "let price = ComputeSlotPrice st (GetNextSlot st) in
    price \<le> bal x creator \<and> price div 2 \<le> supply x \<and> supply x' = supply x - price div 2 \<and>
    bal x' = (bal x)(creator := bal x creator - price,
      OrgAccountAddress K i := bal x (OrgAccountAddress K i) + (price - price div 2))"
proof -
  obtain o' where "RegisterOrg K st x o' creator = Inr (st', x', i)"
    using assms(2,3) by (auto simp: Msg_RegisterOrg_def Let_def split: sum.splits)
  then obtain x1 x2 where
    pay: "register_payment K x creator i (ComputeSlotPrice st (GetNextSlot st)) = Inr x1"
    and grants: "grantServingFeegrant K x1 (OrgAccountAddress K i) (org_HubServingAddress o') = Inr x2"
      "org_LeaderWalletAddress o' = [] \<longrightarrow> x' = x2"
      "org_LeaderWalletAddress o' \<noteq> [] \<longrightarrow>
         grantLeaderFeegrant K x2 (OrgAccountAddress K i) (org_LeaderWalletAddress o') = Inr x'"
    by (rule RegisterOrg_payment)
  have "bal x2 = bal x1 \<and> supply x2 = supply x1"
    by (rule feegrants_move_nothing(1) [OF assms(1) grants(1)])
  moreover have "bal x' = bal x2 \<and> supply x' = supply x2"
    using grants(2) feegrants_move_nothing(2) [OF assms(1) mp [OF grants(3)]]
    by (cases "org_LeaderWalletAddress o' = []") simp_all
  ultimately have "bal x' = bal x1 \<and> supply x' = supply x1" by simp
  with register_payment_effect [OF assms(1) pay assms(4-6)] show ?thesis by (simp add: Let_def)
qed

definition ex_register :: MsgRegisterOrg where
  "ex_register = \<lparr>mro_Signer = ''alice'', mro_Leader = ''pkA'', mro_StorageQuota = 5,
     mro_RetrievalBudget = 7, mro_Domain = ''tools'', mro_HubServingKey = ''hub'',
     mro_LeaderWallet = ''alice'', mro_Description = [], mro_TechStack = [], mro_FocusAreas = [],
     mro_Name = ''Guild''\<rparr>"

definition ex_add_member :: MsgAddMember where
  "ex_add_member = \<lparr>mam_Signer = ''alice'', mam_OrgId = ''wevibe-org-0'', mam_Pubkey = ''pkB'',
     mam_Role = ''member'', mam_X25519Pubkey = ''xB'', mam_CanContribute = True,
     mam_CanModerate = False\<rparr>"

definition ex_ledger :: ledger where
  "ex_ledger = \<lparr>lg_balances = [(''alice'', 20000000)], lg_supply = 20000000, lg_grants = []\<rparr>"

definition ex_msgs :: "org_msg list" where
  "ex_msgs = [M_RegisterOrg ex_register, M_AddMember ex_add_member]"

lemmas ex_org_defs = ex_register_def ex_add_member_def ex_ledger_def ex_msgs_def

lemmas org_start_defs = org_start_def org_InitGenesis_def org_DefaultGenesis_def
  org_DefaultParams_def org_zero_Params_def org_empty_def org_SetParams_def SetNextSlot_def

lemmas ledger_eval = ledger_sdk_def lg_move_def lg_module_def lg_bal_def lg_put_def lg_amount_def
  lg_burn_def lg_mint_def uvibe_def

lemmas register_eval = Msg_RegisterOrg_def MsgRegisterOrg_ValidateBasic_def RegisterOrg_def
  NewOrg_def Org_Validate_def GetAllOrgs_def register_payment_def ComputeSlotPrice_def
  computeAscendingPrice_closed slot_price_def GetNextSlot_def org_GetParams_def
  grantServingFeegrant_def grantLeaderFeegrant_def OrgAccountAddress_def zero_StoredMemberRecord_def
  orgToStored_def domain_char_def less_eq_char_def

lemmas member_eval = Msg_AddMember_def MsgAddMember_ValidateBasic_def HasOrg_def GetOrg_def
  leader_authorized_def storedToOrg_def AddMember_def NewMemberRecord_def memberToStored_def
  with_ext_def

lemmas org_key_eval = memberKey_def orgKey_def FormatOrgID_def FormatUint_def format_nat.simps
  kv_has_def OrgStatus_defs

lemmas org_eval = org_start_defs ledger_eval register_eval member_eval org_key_eval Let_def

theorem register_payment_split_witness:
  "bank_ok ledger_sdk lg_bal lg_supply \<and>
   (\<exists>st' l' i. Msg_RegisterOrg ledger_sdk org_start ex_ledger ex_register = Inr (st', l', i) \<and>
      lg_supply l' = 15000000 \<and> lg_bal l' ''alice'' = 10000000 \<and>
      lg_bal l' (OrgAccountAddress ledger_sdk i) = 5000000)"
proof -
  obtain st' l' where run: "Msg_RegisterOrg ledger_sdk org_start ex_ledger ex_register =
      Inr (st', l', ''wevibe-org-0'')"
    by (simp add: ex_org_defs org_eval)
  have price: "ComputeSlotPrice org_start (GetNextSlot org_start) = 10000000"
    by (simp add: org_eval)
  have acct: "AccAddressFromBech32 ledger_sdk (mro_Signer ex_register) = Some ''alice''"
    by (simp add: ex_register_def ledger_sdk_def)
  have addr: "OrgAccountAddress ledger_sdk ''wevibe-org-0'' = ''module/orgacct/wevibe-org-0''"
    "NewModuleAddress ledger_sdk ''org'' = ''module/org''"
    by (simp_all add: OrgAccountAddress_def ledger_sdk_def lg_module_def)
  have bal: "lg_bal ex_ledger ''alice'' = 20000000"
    "lg_bal ex_ledger ''module/orgacct/wevibe-org-0'' = 0" "lg_supply ex_ledger = 20000000"
    by (simp_all add: lg_bal_def ex_ledger_def)
  have "lg_supply l' = 15000000 \<and> lg_bal l' ''alice'' = 10000000 \<and>
      lg_bal l' (OrgAccountAddress ledger_sdk ''wevibe-org-0'') = 5000000"
    using register_payment_split [OF ledger_sdk_bank_ok run acct]
    by (simp add: price addr bal)
  with ledger_sdk_bank_ok run show ?thesis by blast
qed

theorem org_member_counter_witness:
  "length ex_msgs < 2 ^ 64 \<and>
   (\<exists>s. kv_get (os_orgs (fst (deliver_all (org_handle ledger_sdk) (org_start, ex_ledger) ex_msgs)))
          (orgKey ''wevibe-org-0'') = Some s \<and> unat (so_TotalActiveMembers s) = 2 \<and>
        unat (so_TotalActiveMembers s) =
          member_count (fst (deliver_all (org_handle ledger_sdk) (org_start, ex_ledger) ex_msgs))
            ''wevibe-org-0'')"
proof -
  let ?st = "fst (deliver_all (org_handle ledger_sdk) (org_start, ex_ledger) ex_msgs)"
  have len: "length ex_msgs < 2 ^ 64" by (simp add: ex_msgs_def)
  have "map_option (\<lambda>s. unat (so_TotalActiveMembers s))
      (kv_get (os_orgs ?st) (orgKey ''wevibe-org-0'')) = Some 2"
    by (simp add: ex_org_defs org_eval)
  then obtain s where s: "kv_get (os_orgs ?st) (orgKey ''wevibe-org-0'') = Some s"
    "unat (so_TotalActiveMembers s) = 2"
    unfolding map_option_eq_Some by blast
  from org_member_counter [OF len s(1)] len s show ?thesis by blast
qed

subsection \<open>Authority\<close>

text \<open>Only the record, the members and the configuration of organisation \<open>i\<close> may have changed.\<close>

definition org_frame :: "string \<Rightarrow> org_state \<Rightarrow> org_state \<Rightarrow> bool" where
  "org_frame i st st' \<longleftrightarrow>
     os_params st' = os_params st \<and> os_slotreg st' = os_slotreg st \<and>
     os_epoch_current st' = os_epoch_current st \<and>
     (\<forall>k. k \<noteq> orgKey i \<longrightarrow> kv_get (os_orgs st') k = kv_get (os_orgs st) k) \<and>
     (\<forall>k. \<not> prefix (memberPrefix i) k \<longrightarrow> kv_get (os_members st') k = kv_get (os_members st) k) \<and>
     (\<forall>k. k \<noteq> orgConfigKey i \<longrightarrow> kv_get (os_configs st') k = kv_get (os_configs st) k)"

lemma memberPrefix_memberKey [simp]: "prefix (memberPrefix i) (memberKey i p)"
  by (simp add: memberPrefix_def memberKey_def)

lemma not_prefix_memberKey [simp]: "\<not> prefix (memberPrefix i) k \<Longrightarrow> k \<noteq> memberKey i p"
  using memberPrefix_memberKey by blast

lemma modify_stored_org_frame [simp]: "org_frame i st (modify_stored_org f i st)"
  by (simp add: org_frame_def modify_stored_org_def split: option.split)

lemma AddMember_frame: "AddMember st m = Inr st' \<Longrightarrow> org_frame (mr_OrgID m) st st'"
  by (auto simp: AddMember_def Let_def org_frame_def split: handler_splits)

lemma RemoveMember_frame: "RemoveMember st i p = Inr st' \<Longrightarrow> org_frame i st st'"
  unfolding RemoveMember_def Let_def by (auto simp: org_frame_def split: handler_splits)

lemma SetServingKey_frame: "SetServingKey K st x i key w = Inr (st', x') \<Longrightarrow> org_frame i st st'"
  by (auto simp: SetServingKey_def Let_def split: handler_splits)

lemma SetServingInfo_frame: "SetServingInfo K st i eps pk w = Inr st' \<Longrightarrow> org_frame i st st'"
  by (auto simp: SetServingInfo_def split: handler_splits)

lemma SetMemberCapabilities_frame: "SetMemberCapabilities st i p c d w = Inr st' \<Longrightarrow> org_frame i st st'"
  by (auto simp: SetMemberCapabilities_def org_frame_def split: handler_splits)

lemma TransferLeadership_frame: "TransferLeadership K st x i p w s = Inr (st', x') \<Longrightarrow> org_frame i st st'"
  unfolding TransferLeadership_def Let_def
  by (auto simp: org_frame_def modify_stored_org_def split: handler_splits)

lemma CloseOrg_frame: "CloseOrg st i w = Inr st' \<Longrightarrow> org_frame i st st'"
  by (auto simp: CloseOrg_def split: handler_splits)

lemma SetOrgConfig_frame: "org_frame i st (SetOrgConfig st i c)"
  by (simp add: SetOrgConfig_def org_frame_def)

lemma org_frame_refl [simp]: "org_frame i st st"
  by (simp add: org_frame_def)

lemmas keeper_frames = AddMember_frame RemoveMember_frame SetServingKey_frame SetServingInfo_frame
  SetMemberCapabilities_frame TransferLeadership_frame CloseOrg_frame

lemma org_handle_frame:
  assumes "org_handle K (st, x) m = Inr (st', x')" "leader_msg m = Some (i, signer)"
  shows "org_frame i st st'"
proof (cases m)
  case (M_AddMember a)
  with assms show ?thesis
    by (auto simp: Msg_AddMember_def NewMemberRecord_def split: handler_splits dest!: AddMember_frame)
next
  case (M_SetOrgConfig a)
  with assms show ?thesis
    by (auto simp: Msg_SetOrgConfig_def SetOrgConfig_frame split: handler_splits)
qed (use assms in \<open>auto simp: Msg_SetServingKey_def Msg_SetServingInfo_def Msg_RemoveMember_def
      Msg_SetMemberCapabilities_def Msg_TransferLeadership_def Msg_CloseOrg_def
      split: handler_splits dest!: keeper_frames\<close>)

text \<open>
  C12: Every message that acts on an existing organisation succeeds only when it is signed by the
  organisation's registered, non-empty leader wallet, and it changes nothing of any other
  organisation: neither records, members, configurations nor parameters.
\<close>

theorem org_leader_authority:
  assumes "org_handle K (st, x) m = Inr (st', x')" "leader_msg m = Some (i, signer)"
  shows "(\<exists>o'. GetOrg st i = Inr o' \<and> org_LeaderWalletAddress o' \<noteq> [] \<and>
      signer = org_LeaderWalletAddress o') \<and> org_frame i st st'"
  using org_handle_authorized [OF assms] org_handle_frame [OF assms]
  by (auto simp: authorized_iff leader_authorized_def)

definition ex_state :: "org_state \<times> ledger" where
  "ex_state = deliver_all (org_handle ledger_sdk) (org_start, ex_ledger) [M_RegisterOrg ex_register]"

theorem org_leader_authority_witness:
  "\<exists>st' l'. org_handle ledger_sdk (fst ex_state, snd ex_state) (M_AddMember ex_add_member) = Inr (st', l') \<and>
     leader_msg (M_AddMember ex_add_member) = Some (''wevibe-org-0'', ''alice'') \<and>
     (\<exists>o'. GetOrg (fst ex_state) ''wevibe-org-0'' = Inr o' \<and> ''alice'' = org_LeaderWalletAddress o') \<and>
     org_frame ''wevibe-org-0'' (fst ex_state) st'"
proof -
  have "\<exists>s. org_handle ledger_sdk (fst ex_state, snd ex_state) (M_AddMember ex_add_member) = Inr s"
    by (simp add: ex_state_def ex_org_defs org_eval)
  then obtain st' l' where
    run: "org_handle ledger_sdk (fst ex_state, snd ex_state) (M_AddMember ex_add_member) = Inr (st', l')"
    by fastforce
  have msg: "leader_msg (M_AddMember ex_add_member) = Some (''wevibe-org-0'', ''alice'')"
    by (simp add: ex_add_member_def)
  from org_leader_authority [OF run msg] run msg show ?thesis by blast
qed

subsection \<open>Permanence\<close>

text \<open>
  C25: Once registered, an organisation is never removed and its identifier, slot and account never
  change; once closed, it stays closed, whatever messages follow.
\<close>

theorem org_permanent:
  assumes "kv_get (os_orgs (fst (deliver_all (org_handle K) (org_start, x) ms))) (orgKey i) = Some s"
  shows "\<exists>s'. kv_get (os_orgs (fst (deliver_all (org_handle K) (org_start, x) (ms @ ms')))) (orgKey i)
      = Some s' \<and> so_OrgId s' = so_OrgId s \<and> so_Slot s' = so_Slot s \<and>
    so_AccountAddress s' = so_AccountAddress s \<and>
    (so_Status s = OrgStatus_CLOSED \<longrightarrow> so_Status s' = OrgStatus_CLOSED)"
proof -
  let ?s = "deliver_all (org_handle K) (org_start, x) ms"
  have inv: "org_inv (fst ?s)" by (rule org_tx.deliver_all_inv) (simp add: org_inv_start)
  have "org_identity (fst (deliver_all (org_handle K) ?s ms')) i =
      Some (so_OrgId s, so_Slot s, so_AccountAddress s)"
    by (rule org_ids.deliver_all_entry) (use inv assms in \<open>simp_all add: org_identity_def\<close>)
  then obtain s' where s': "kv_get (os_orgs (fst (deliver_all (org_handle K) ?s ms'))) (orgKey i) = Some s'"
    "so_OrgId s' = so_OrgId s" "so_Slot s' = so_Slot s" "so_AccountAddress s' = so_AccountAddress s"
    by (auto simp: org_identity_def)
  have "so_Status s' = OrgStatus_CLOSED" if "so_Status s = OrgStatus_CLOSED"
  proof -
    have "org_closed (fst (deliver_all (org_handle K) ?s ms')) i = Some ()"
      by (rule org_end.deliver_all_entry) (use inv assms that in \<open>simp_all add: org_closed_def\<close>)
    with s'(1) show ?thesis by (simp add: org_closed_def split: if_splits)
  qed
  with s' show ?thesis by (auto simp: deliver_all_append)
qed

theorem org_permanent_witness:
  "\<exists>s s'. kv_get (os_orgs (fst (deliver_all (org_handle ledger_sdk) (org_start, ex_ledger)
        [M_RegisterOrg ex_register]))) (orgKey ''wevibe-org-0'') = Some s \<and>
     kv_get (os_orgs (fst (deliver_all (org_handle ledger_sdk) (org_start, ex_ledger)
        ([M_RegisterOrg ex_register] @ [M_CloseOrg \<lparr>mco_Signer = ''alice'', mco_OrgId = ''wevibe-org-0''\<rparr>]))))
        (orgKey ''wevibe-org-0'') = Some s' \<and> so_Slot s' = so_Slot s"
proof -
  have "kv_get (os_orgs (fst (deliver_all (org_handle ledger_sdk) (org_start, ex_ledger)
        [M_RegisterOrg ex_register]))) (orgKey ''wevibe-org-0'') \<noteq> None"
    by (simp add: ex_org_defs org_eval)
  then obtain s where "kv_get (os_orgs (fst (deliver_all (org_handle ledger_sdk) (org_start, ex_ledger)
        [M_RegisterOrg ex_register]))) (orgKey ''wevibe-org-0'') = Some s"
    by blast
  from this org_permanent [OF this] show ?thesis by blast
qed

subsection \<open>Leadership\<close>

lemma IsLeader_iff: "IsLeader st i p \<longleftrightarrow>
    (\<exists>m. kv_get (os_members st) (memberKey i p) = Some m \<and> sm_Role m = ''leader'')"
  by (auto simp: IsLeader_def GetMember_def split: option.splits)

lemma org_inv_unique_leader:
  assumes "org_inv st" "kv_get (os_orgs st) (orgKey i) = Some s"
  shows "IsLeader st i p \<longleftrightarrow> p = so_Leader s"
  using org_inv_stored(4) [OF assms] org_inv_member(3) [OF assms]
  by (auto simp: IsLeader_iff split: if_splits)

lemma Msg_TransferLeadership_keeper:
  "Msg_TransferLeadership K st x m = Inr s' \<Longrightarrow>
   TransferLeadership K st x (mtl_OrgId m) (mtl_NewLeader m) (mtl_NewLeaderWallet m) (mtl_Signer m) = Inr s'"
  by (auto simp: Msg_TransferLeadership_def split: handler_splits)

text \<open>
  C23: A successful transfer of leadership makes the named member the only leader of the organisation,
  hands the leader wallet over to the new one, and neither adds nor removes a member.
\<close>

theorem leadership_handover:
  assumes "org_inv st" "Msg_TransferLeadership K st x m = Inr (st', x')"
  shows "(\<forall>p. IsLeader st' (mtl_OrgId m) p \<longleftrightarrow> p = mtl_NewLeader m) \<and>
    GetLeaderWallet st' (mtl_OrgId m) = Inr (mtl_NewLeaderWallet m) \<and>
    (\<forall>i p. IsMember st' i p = IsMember st i p)"
  using Msg_TransferLeadership_keeper [OF assms(2)]
proof (rule TransferLeadership_Inr)
  let ?i = "mtl_OrgId m" and ?p = "mtl_NewLeader m" and ?w = "mtl_NewLeaderWallet m"
  fix s ms1 ms2
  assume s: "kv_get (os_orgs st) (orgKey ?i) = Some s"
    and p: "kv_get (os_members st) (memberKey ?i ?p) \<noteq> None"
    and ms1: "ms1 = kv_set (memberKey ?i (so_Leader s))
      ((get_stored_member st (memberKey ?i (so_Leader s)))\<lparr>sm_Role := ''member''\<rparr>) (os_members st)"
    and ms2: "ms2 = kv_set (memberKey ?i ?p) ((get_stored_member (st\<lparr>os_members := ms1\<rparr>)
      (memberKey ?i ?p))\<lparr>sm_Role := ''leader''\<rparr>) ms1"
    and st': "st' = st\<lparr>os_members := ms2, os_orgs := kv_set (orgKey ?i)
      (s\<lparr>so_Leader := ?p, so_LeaderWalletAddress := ?w\<rparr>) (os_orgs st)\<rparr>"
  have inv': "org_inv st'"
    using org_step_inv Msg_TransferLeadership_step [OF assms(2)] assms(1) by blast
  have s': "kv_get (os_orgs st') (orgKey ?i) = Some (s\<lparr>so_Leader := ?p, so_LeaderWalletAddress := ?w\<rparr>)"
    by (simp add: st')
  have "IsMember st' i q = IsMember st i q" for i q
    using p org_inv_stored(4) [OF assms(1) s] unfolding st' ms2 ms1
    by (auto simp: IsMember_def kv_has_def kv_get_set)
  with org_inv_unique_leader [OF inv' s'] s' show ?thesis by (simp add: GetLeaderWallet_def GetOrg_def)
qed

definition ex_state2 :: "org_state \<times> ledger" where
  "ex_state2 = deliver_all (org_handle ledger_sdk) (org_start, ex_ledger) ex_msgs"

definition ex_transfer :: MsgTransferLeadership where
  "ex_transfer = \<lparr>mtl_Signer = ''alice'', mtl_OrgId = ''wevibe-org-0'', mtl_NewLeader = ''pkB'',
     mtl_NewLeaderWallet = ''bob''\<rparr>"

theorem leadership_handover_witness:
  "\<exists>st' l'. Msg_TransferLeadership ledger_sdk (fst ex_state2) (snd ex_state2) ex_transfer = Inr (st', l') \<and>
     org_inv (fst ex_state2) \<and> IsLeader st' ''wevibe-org-0'' ''pkB'' \<and>
     \<not> IsLeader st' ''wevibe-org-0'' ''pkA'' \<and> GetLeaderWallet st' ''wevibe-org-0'' = Inr ''bob''"
proof -
  have "\<exists>s. Msg_TransferLeadership ledger_sdk (fst ex_state2) (snd ex_state2) ex_transfer = Inr s"
    by (simp add: ex_state2_def ex_transfer_def Msg_TransferLeadership_def
        MsgTransferLeadership_ValidateBasic_def TransferLeadership_def GetMember_def ex_org_defs org_eval)
  then obtain st' l' where
    run: "Msg_TransferLeadership ledger_sdk (fst ex_state2) (snd ex_state2) ex_transfer = Inr (st', l')"
    by fastforce
  have inv: "org_inv (fst ex_state2)"
    unfolding ex_state2_def by (rule org_tx.deliver_all_inv) (simp add: org_inv_start)
  have "IsLeader st' ''wevibe-org-0'' ''pkB'' \<and> \<not> IsLeader st' ''wevibe-org-0'' ''pkA'' \<and>
      GetLeaderWallet st' ''wevibe-org-0'' = Inr ''bob''"
    using leadership_handover [OF inv run] by (simp add: ex_transfer_def)
  with run inv show ?thesis by blast
qed

subsection \<open>Genesis\<close>

lemma org_InitGenesis_orgs_fold:
  "list_all (\<lambda>o'. Org_Validate o' = Inr ()) os \<Longrightarrow>
   org_InitGenesis_orgs os st =
     Inr (st\<lparr>os_orgs := fold (\<lambda>o'. kv_set (orgKey (org_OrgID o')) (orgToStored o')) os (os_orgs st)\<rparr>)"
  by (induction os st rule: org_InitGenesis_orgs.induct) simp_all

lemma fold_members:
  "fold (\<lambda>m st. st\<lparr>os_members := kv_set (k m) (v m) (os_members st)\<rparr>) ms st =
   st\<lparr>os_members := fold (\<lambda>m. kv_set (k m) (v m)) ms (os_members st)\<rparr>"
  by (induction ms arbitrary: st) simp_all

lemma fold_configs:
  "fold (\<lambda>c st. st\<lparr>os_configs := kv_set (k c) (v c) (os_configs st)\<rparr>) cs st =
   st\<lparr>os_configs := fold (\<lambda>c. kv_set (k c) (v c)) cs (os_configs st)\<rparr>"
  by (induction cs arbitrary: st) simp_all

text \<open>What an export and re-import leaves of an organisation and of its configuration.\<close>

definition reset_counters :: "StoredOrg \<Rightarrow> StoredOrg" where
  "reset_counters s = s\<lparr>so_TotalCommittedMemories := 0, so_TotalActiveMembers := 0,
     so_TotalUpheldReports := 0, so_LastActivityEpoch := 0\<rparr>"

definition reset_config :: "StoredOrgConfig \<Rightarrow> StoredOrgConfig" where
  "reset_config c = c\<lparr>sc_ContestStakeVibe := 0, sc_VocabHash := [], sc_EmbeddingModelId := [],
     sc_MinContributionsPerEpoch := 0\<rparr>"

lemma orgToStored_storedToOrg: "orgToStored (storedToOrg s) = reset_counters s"
  by (cases s) (simp add: orgToStored_def storedToOrg_def reset_counters_def)

text \<open>
  C26: Exporting the module's state and importing it into an empty store keeps organisations, members,
  the next slot and the parameters, but sets every aggregate counter of every organisation to zero
  and clears all fields of every configuration except \<open>ServeReceiptRequired\<close>.
\<close>

theorem org_genesis_round_trip:
  assumes "org_inv st" "list_all (\<lambda>e. Org_Validate (storedToOrg (snd e)) = Inr ()) (os_orgs st)"
    "org_GetParams st \<noteq> org_zero_Params"
  shows "org_InitGenesis org_empty (org_ExportGenesis st) = Inr \<lparr>
    os_params = Some (org_GetParams st), os_slotreg = Some (GetNextSlot st),
    os_orgs = map (\<lambda>e. (fst e, reset_counters (snd e))) (os_orgs st),
    os_members = os_members st,
    os_configs = map (\<lambda>e. (fst e, reset_config (snd e))) (os_configs st),
    os_epoch_current = None\<rparr>"
proof -
  let ?cfg = "\<lambda>c. \<lparr>oc_OrgID = sc_OrgId c, oc_ServeReceiptRequired = sc_ServeReceiptRequired c,
    oc_ContestStakeVibe = sc_ContestStakeVibe c, oc_VocabHash = [], oc_EmbeddingModelID = [],
    oc_MinContributionsPerEpoch = sc_MinContributionsPerEpoch c\<rparr>"
  let ?set = "\<lambda>c. \<lparr>sc_OrgId = oc_OrgID c, sc_ServeReceiptRequired = oc_ServeReceiptRequired c,
    sc_ContestStakeVibe = 0, sc_VocabHash = [], sc_EmbeddingModelId = [],
    sc_MinContributionsPerEpoch = 0\<rparr>"
  have key: "k = orgKey (so_OrgId s)" if "(k, s) \<in> set (os_orgs st)" for k s
    using org_invD(4) [OF assms(1), of k s] that org_invD(1) [OF assms(1)]
    by (simp add: kv_get_iff org_entry_ok_def)
  have orgs: "fold (\<lambda>o'. kv_set (orgKey (org_OrgID o')) (orgToStored o'))
      (map (\<lambda>e. storedToOrg (snd e)) (os_orgs st)) [] =
      map (\<lambda>e. (fst e, reset_counters (snd e))) (os_orgs st)"
    using kv_reload_map [OF org_invD(1) [OF assms(1)], of "\<lambda>o'. orgKey (org_OrgID o')" storedToOrg orgToStored]
      key by (simp add: orgToStored_storedToOrg)
  have mkey: "k = memberKey (sm_OrgId m) (sm_Pubkey m)" if "(k, m) \<in> set (os_members st)" for k m
    using org_invD(5) [OF assms(1), of k m] that org_invD(2) [OF assms(1)]
    by (simp add: kv_get_iff member_entry_ok_def)
  have members: "fold (\<lambda>m. kv_set (memberKey (mr_OrgID m) (mr_Pubkey m)) (memberToStored m))
      (map (\<lambda>e. storedToMember (snd e)) (os_members st)) [] = os_members st"
    using kv_reload_map [OF org_invD(2) [OF assms(1)],
        of "\<lambda>m. memberKey (mr_OrgID m) (mr_Pubkey m)" storedToMember memberToStored] mkey
    by simp
  have ckey: "k = orgConfigKey (sc_OrgId c)" if "(k, c) \<in> set (os_configs st)" for k c
    using assms(1) that unfolding org_inv_def list_all_iff by auto
  have configs: "fold (\<lambda>c. kv_set (orgConfigKey (oc_OrgID c)) (?set c))
      (map (\<lambda>e. ?cfg (snd e)) (os_configs st)) [] =
      map (\<lambda>e. (fst e, reset_config (snd e))) (os_configs st)"
    using kv_reload_map [OF org_invD(3) [OF assms(1)], of "\<lambda>c. orgConfigKey (oc_OrgID c)" ?cfg ?set] ckey
    by (simp add: reset_config_def)
  have "list_all (\<lambda>o'. Org_Validate o' = Inr ()) (map (\<lambda>e. storedToOrg (snd e)) (os_orgs st))"
    using assms(2) by (simp add: list_all_iff)
  then show ?thesis
    using assms(3) orgs members configs
    by (simp add: org_InitGenesis_def org_ExportGenesis_def org_InitGenesis_orgs_fold fold_members
        fold_configs Let_def org_SetParams_def SetNextSlot_def org_empty_def)
qed

theorem org_genesis_round_trip_witness:
  "\<exists>st'. org_InitGenesis org_empty (org_ExportGenesis (fst ex_state2)) = Inr st' \<and>
     map (\<lambda>e. so_TotalActiveMembers (snd e)) (os_orgs (fst ex_state2)) = [2] \<and>
     map (\<lambda>e. so_TotalActiveMembers (snd e)) (os_orgs st') = [0] \<and>
     os_members st' = os_members (fst ex_state2)"
proof -
  have inv: "org_inv (fst ex_state2)"
    unfolding ex_state2_def by (rule org_tx.deliver_all_inv) (simp add: org_inv_start)
  have valid: "list_all (\<lambda>e. Org_Validate (storedToOrg (snd e)) = Inr ()) (os_orgs (fst ex_state2))"
    by (simp add: ex_state2_def ex_org_defs org_eval)
  have params: "org_GetParams (fst ex_state2) \<noteq> org_zero_Params"
    by (simp add: ex_state2_def ex_org_defs org_eval)
  have two: "map (\<lambda>e. so_TotalActiveMembers (snd e)) (os_orgs (fst ex_state2)) = [2]"
    by (simp add: ex_state2_def ex_org_defs org_eval)
  then have "length (os_orgs (fst ex_state2)) = 1" by (metis length_map length_Cons list.size(3) One_nat_def)
  with org_genesis_round_trip [OF inv valid params] two show ?thesis
    by (auto simp: reset_counters_def length_Suc_conv)
qed

end
