(* ===== verification/Identity.thy ===== *)
theory Identity
  imports KVStore Sdk
begin

section \<open>Identity: passkey aliases (x/identity)\<close>

text \<open>
  The identity module binds a passkey (an ed25519 public key, written in hexadecimal) to a chain
  wallet.  A binding needs the passkey's signature over a canonical text that names both, and is
  made once.  The data of \<open>x/identity/types\<close>, the keeper and the message handler, then what they
  guarantee: the signed text is unambiguous, a binding is permanent, and genesis export and import
  are inverse to each other.
\<close>

subsection \<open>Data\<close>

record StoredIdentityAlias =
  ia_PasskeyPubkey :: string
  ia_WalletAddress :: string
  ia_IsMigrated :: bool
  ia_MigratedAtEpoch :: u64

record identity_Params =
  ip_Active :: bool

definition identity_DefaultParams :: identity_Params where
  "identity_DefaultParams = \<lparr>ip_Active = True\<rparr>"

definition identity_Params_Validate :: "identity_Params \<Rightarrow> check" where
  "identity_Params_Validate p = Inr ()"

text \<open>The slice of aliases holds pointers, so an entry may be \<open>nil\<close>.\<close>

record identity_GenesisState =
  ig_Aliases :: "StoredIdentityAlias option list"
  ig_Params :: identity_Params

definition identity_DefaultGenesis :: identity_GenesisState where
  "identity_DefaultGenesis = \<lparr>ig_Aliases = [], ig_Params = identity_DefaultParams\<rparr>"

definition ed25519_PublicKeySize :: nat where "ed25519_PublicKeySize = 32"
definition ed25519_SignatureSize :: nat where "ed25519_SignatureSize = 64"

lemmas ed25519_sizes = ed25519_PublicKeySize_def ed25519_SignatureSize_def

text \<open>\<open>bz, err := hex.DecodeString(s)\<close> followed by \<open>err != nil || len(bz) != n\<close>.\<close>

definition hex_of_size :: "nat \<Rightarrow> string \<Rightarrow> bool" where
  "hex_of_size n s = (case hex_decode s of None \<Rightarrow> False | Some bz \<Rightarrow> length bz = n)"

fun identity_Validate_aliases :: "StoredIdentityAlias option list \<Rightarrow> string list \<Rightarrow> check" where
  "identity_Validate_aliases [] seen = Inr ()"
| "identity_Validate_aliases (None # as) seen = Inl (Errorf ''alias cannot be nil'')"
| "identity_Validate_aliases (Some a # as) seen =
     (if ia_PasskeyPubkey a = [] then Inl (E_identity Id_ErrInvalidPasskeyPubkey)
      else if \<not> hex_of_size ed25519_PublicKeySize (ia_PasskeyPubkey a)
        then Inl (E_identity Id_ErrInvalidPasskeyPubkey)
      else if ia_WalletAddress a = [] then Inl (E_identity Id_ErrInvalidWalletAddress)
      else if ia_PasskeyPubkey a \<in> set seen then Inl (Errorf ''duplicate passkey_pubkey'')
      else identity_Validate_aliases as (ia_PasskeyPubkey a # seen))"

definition identity_GenesisState_Validate :: "identity_GenesisState \<Rightarrow> check" where
  "identity_GenesisState_Validate g =
     (case identity_Params_Validate (ig_Params g) of
        Inl e \<Rightarrow> Inl e
      | Inr _ \<Rightarrow> identity_Validate_aliases (ig_Aliases g) [])"

record MsgMigrateIdentity =
  mmi_Signer :: string
  mmi_PasskeyPubkey :: string
  mmi_PasskeySignature :: string
  mmi_Nonce :: u64

definition MsgMigrateIdentity_ValidateBasic :: "MsgMigrateIdentity \<Rightarrow> check" where
  "MsgMigrateIdentity_ValidateBasic m =
     (if mmi_Signer m = [] then Inl (Errorf ''signer cannot be empty'')
      else if mmi_PasskeyPubkey m = [] then Inl (E_identity Id_ErrInvalidPasskeyPubkey)
      else if mmi_PasskeySignature m = [] then Inl (E_identity Id_ErrInvalidPasskeySignature)
      else if \<not> hex_of_size ed25519_PublicKeySize (mmi_PasskeyPubkey m)
        then Inl (E_identity Id_ErrInvalidPasskeyPubkey)
      else if \<not> hex_of_size ed25519_SignatureSize (mmi_PasskeySignature m)
        then Inl (E_identity Id_ErrInvalidPasskeySignature)
      else Inr ())"

subsection \<open>Keeper\<close>

record identity_state =
  is_params :: "identity_Params option"
  is_aliases :: "StoredIdentityAlias kv"

definition identity_empty :: identity_state where
  "identity_empty = \<lparr>is_params = None, is_aliases = []\<rparr>"

definition AliasKey :: "string \<Rightarrow> bytes" where
  "AliasKey passkeyPubkey = ''alias/'' @ passkeyPubkey"

definition identity_setParams :: "identity_Params \<Rightarrow> identity_state \<Rightarrow> identity_state" where
  "identity_setParams p st = st\<lparr>is_params := Some p\<rparr>"

definition identity_getParams :: "identity_state \<Rightarrow> identity_Params" where
  "identity_getParams st = (case is_params st of None \<Rightarrow> identity_DefaultParams | Some p \<Rightarrow> p)"

definition SetAlias :: "StoredIdentityAlias option \<Rightarrow> identity_state \<Rightarrow> identity_state result" where
  "SetAlias alias st =
     (case alias of
        None \<Rightarrow> Inl (Errorf ''alias cannot be nil'')
      | Some a \<Rightarrow> Inr (st\<lparr>is_aliases := kv_set (AliasKey (ia_PasskeyPubkey a)) a (is_aliases st)\<rparr>))"

definition GetAlias :: "identity_state \<Rightarrow> string \<Rightarrow> StoredIdentityAlias option" where
  "GetAlias st passkeyPubkey = kv_get (is_aliases st) (AliasKey passkeyPubkey)"

text \<open>Wallet address, migrated flag, found flag.\<close>

definition ResolveIdentity :: "identity_state \<Rightarrow> string \<Rightarrow> string \<times> bool \<times> bool" where
  "ResolveIdentity st passkeyPubkey =
     (case GetAlias st passkeyPubkey of
        None \<Rightarrow> ([], False, False)
      | Some alias \<Rightarrow> (ia_WalletAddress alias, ia_IsMigrated alias, True))"

text \<open>
  The callback threads an accumulator and says whether to go on; after it has said no, the loop
  still visits the remaining entries without calling it.
\<close>

fun IterateAliases_loop ::
  "('a \<Rightarrow> StoredIdentityAlias \<Rightarrow> 'a \<times> bool) \<Rightarrow> bool \<Rightarrow> 'a \<Rightarrow> StoredIdentityAlias kv \<Rightarrow> 'a" where
  "IterateAliases_loop cb stopCallback acc [] = acc"
| "IterateAliases_loop cb stopCallback acc ((k, alias) # es) =
     (if stopCallback then IterateAliases_loop cb stopCallback acc es
      else case cb acc alias of
        (acc', continue) \<Rightarrow> IterateAliases_loop cb (\<not> continue) acc' es)"

definition IterateAliases ::
  "('a \<Rightarrow> StoredIdentityAlias \<Rightarrow> 'a \<times> bool) \<Rightarrow> 'a \<Rightarrow> identity_state \<Rightarrow> 'a" where
  "IterateAliases cb acc st = IterateAliases_loop cb False acc (kv_prefix ''alias/'' (is_aliases st))"

fun identity_InitGenesis_aliases ::
  "StoredIdentityAlias option list \<Rightarrow> identity_state \<Rightarrow> identity_state result" where
  "identity_InitGenesis_aliases [] st = Inr st"
| "identity_InitGenesis_aliases (alias # as) st =
     (if alias = None then identity_InitGenesis_aliases as st
      else case SetAlias alias st of
        Inl e \<Rightarrow> Inl (Panic ''identity: set alias'')
      | Inr st' \<Rightarrow> identity_InitGenesis_aliases as st')"

definition InitGenesisState ::
  "identity_GenesisState option \<Rightarrow> identity_state \<Rightarrow> identity_state result" where
  "InitGenesisState state0 st =
     (let state = (case state0 of None \<Rightarrow> identity_DefaultGenesis | Some s \<Rightarrow> s) in
      case identity_GenesisState_Validate state of
        Inl e \<Rightarrow> Inl (Panic ''identity: validate genesis'')
      | Inr _ \<Rightarrow>
          identity_InitGenesis_aliases (ig_Aliases state) (identity_setParams (ig_Params state) st))"

definition ExportGenesisState :: "identity_state \<Rightarrow> identity_GenesisState" where
  "ExportGenesisState st = \<lparr>
     ig_Aliases = IterateAliases (\<lambda>aliases alias. (aliases @ [Some alias], True)) [] st,
     ig_Params = identity_getParams st\<rparr>"

subsection \<open>Message handler\<close>

definition migrate_canonical :: "string \<Rightarrow> string \<Rightarrow> u64 \<Rightarrow> bytes" where
  "migrate_canonical passkeyPubkey signer nonce =
     ''wevibe.migrate_identity.v1'' @ [CHR ''\<newline>''] @ ''passkey_pubkey:'' @ passkeyPubkey @
     [CHR ''\<newline>''] @ ''wallet:'' @ signer @ [CHR ''\<newline>''] @ ''nonce:'' @ FormatUint nonce"

definition MigrateIdentity ::
  "'x sdk \<Rightarrow> identity_state \<Rightarrow> MsgMigrateIdentity \<Rightarrow> identity_state result" where
  "MigrateIdentity K st msg =
     (case MsgMigrateIdentity_ValidateBasic msg of
        Inl e \<Rightarrow> Inl e
      | Inr _ \<Rightarrow>
          if AccAddressFromBech32 K (mmi_Signer msg) = None
            then Inl (E_identity Id_ErrInvalidWalletAddress)
          else
            let canonical = migrate_canonical (mmi_PasskeyPubkey msg) (mmi_Signer msg) (mmi_Nonce msg) in
            (case hex_decode (mmi_PasskeyPubkey msg) of
               None \<Rightarrow> Inl (E_identity Id_ErrInvalidPasskeyPubkey)
             | Some passkeyPubkey \<Rightarrow>
                 if length passkeyPubkey \<noteq> ed25519_PublicKeySize
                   then Inl (E_identity Id_ErrInvalidPasskeyPubkey)
                 else (case hex_decode (mmi_PasskeySignature msg) of
                   None \<Rightarrow> Inl (E_identity Id_ErrInvalidPasskeySignature)
                 | Some passkeySignature \<Rightarrow>
                     if length passkeySignature \<noteq> ed25519_SignatureSize
                       then Inl (E_identity Id_ErrInvalidPasskeySignature)
                     else if \<not> ed25519_Verify K passkeyPubkey canonical passkeySignature
                       then Inl (E_identity Id_ErrInvalidPasskeySignature)
                     else if (case GetAlias st (mmi_PasskeyPubkey msg) of
                                None \<Rightarrow> False | Some existing \<Rightarrow> ia_IsMigrated existing)
                       then Inl (E_identity Id_ErrAliasAlreadyMigrated)
                     else SetAlias (Some \<lparr>
                       ia_PasskeyPubkey = mmi_PasskeyPubkey msg,
                       ia_WalletAddress = mmi_Signer msg,
                       ia_IsMigrated = True,
                       ia_MigratedAtEpoch = word_of_int (block_height K)\<rparr>) st)))"

subsection \<open>The signed text\<close>

lemma AliasKey_inj [simp]: "AliasKey a = AliasKey b \<longleftrightarrow> a = b"
  by (simp add: AliasKey_def)

lemma migrate_canonical_unique:
  assumes "one_line p" "one_line p'"
    and eq: "migrate_canonical p w n = migrate_canonical p' w' n'"
  shows "p = p' \<and> w = w' \<and> n = n'"
proof -
  let ?t = "\<lambda>w n. ''wallet:'' @ w @ [CHR ''\<newline>''] @ ''nonce:'' @ FormatUint n"
  from eq have "p @ CHR ''\<newline>'' # ?t w n = p' @ CHR ''\<newline>'' # ?t w' n'"
    by (simp add: migrate_canonical_def)
  then have p: "p = p'" and "?t w n = ?t w' n'"
    using assms(1,2) append_sep_inj [of "CHR ''\<newline>''" p p'] unfolding one_line_def by blast+
  then have "w @ CHR ''\<newline>'' # ''nonce:'' @ FormatUint n = w' @ CHR ''\<newline>'' # ''nonce:'' @ FormatUint n'"
    by simp
  then have "w = w' \<and> ''nonce:'' @ FormatUint n = ''nonce:'' @ FormatUint n'"
    by (subst (asm) append_sep_inj_right) simp_all
  with p show ?thesis by simp
qed

subsection \<open>What a migration does\<close>

lemma MigrateIdentity_Inr:
  assumes "MigrateIdentity K st msg = Inr st'"
  obtains pk sig where
    "hex_decode (mmi_PasskeyPubkey msg) = Some pk" "length pk = 32"
    "hex_decode (mmi_PasskeySignature msg) = Some sig" "length sig = 64"
    "ed25519_Verify K pk (migrate_canonical (mmi_PasskeyPubkey msg) (mmi_Signer msg) (mmi_Nonce msg)) sig"
    "\<And>a. GetAlias st (mmi_PasskeyPubkey msg) = Some a \<Longrightarrow> \<not> ia_IsMigrated a"
    "mmi_Signer msg \<noteq> []" "mmi_PasskeyPubkey msg \<noteq> []"
    "st' = st\<lparr>is_aliases := kv_set (AliasKey (mmi_PasskeyPubkey msg))
      \<lparr>ia_PasskeyPubkey = mmi_PasskeyPubkey msg, ia_WalletAddress = mmi_Signer msg,
       ia_IsMigrated = True, ia_MigratedAtEpoch = word_of_int (block_height K)\<rparr> (is_aliases st)\<rparr>"
  using assms
  by (auto simp: MigrateIdentity_def MsgMigrateIdentity_ValidateBasic_def SetAlias_def Let_def
      ed25519_sizes split: sum.splits option.splits if_splits)

definition identity_inv :: "identity_state \<Rightarrow> bool" where
  "identity_inv st \<longleftrightarrow> kv_ok (is_aliases st) \<and>
     list_all (\<lambda>(k, a). k = AliasKey (ia_PasskeyPubkey a) \<and> ia_PasskeyPubkey a \<noteq> [] \<and>
       hex_of_size 32 (ia_PasskeyPubkey a) \<and> ia_WalletAddress a \<noteq> []) (is_aliases st)"

lemma list_all_kv_set:
  "list_all P t \<Longrightarrow> P (k, v) \<Longrightarrow> list_all P (kv_set k v t)"
  using set_kv_set_subset [of k v t] by (auto simp: list_all_iff)

lemma MigrateIdentity_inv: "identity_inv st \<Longrightarrow> MigrateIdentity K st msg = Inr st' \<Longrightarrow> identity_inv st'"
  by (erule MigrateIdentity_Inr)
    (auto simp: identity_inv_def hex_of_size_def intro!: list_all_kv_set)

definition migrated_wallet :: "identity_state \<Rightarrow> string \<Rightarrow> string option" where
  "migrated_wallet st p =
     (case GetAlias st p of None \<Rightarrow> None
      | Some a \<Rightarrow> if ia_IsMigrated a then Some (ia_WalletAddress a) else None)"

text \<open>A message arrives with the context of its block.\<close>

definition identity_handle ::
  "identity_state \<Rightarrow> 'x sdk \<times> MsgMigrateIdentity \<Rightarrow> identity_state result" where
  "identity_handle st km = MigrateIdentity (fst km) st (snd km)"

lemma migrated_wallet_kept:
  assumes "MigrateIdentity K st m = Inr st'" "migrated_wallet st p = Some w"
  shows "migrated_wallet st' p = Some w"
proof (rule MigrateIdentity_Inr [OF assms(1)])
  assume new: "\<And>a. GetAlias st (mmi_PasskeyPubkey m) = Some a \<Longrightarrow> \<not> ia_IsMigrated a"
    and st': "st' = st\<lparr>is_aliases := kv_set (AliasKey (mmi_PasskeyPubkey m))
      \<lparr>ia_PasskeyPubkey = mmi_PasskeyPubkey m, ia_WalletAddress = mmi_Signer m,
       ia_IsMigrated = True, ia_MigratedAtEpoch = word_of_int (block_height K)\<rparr> (is_aliases st)\<rparr>"
  have "p \<noteq> mmi_PasskeyPubkey m"
    using new assms(2) by (auto simp: migrated_wallet_def split: option.splits if_splits)
  with assms(2) st' show ?thesis by (simp add: migrated_wallet_def GetAlias_def)
qed

interpretation identity_log: append_only identity_handle identity_inv migrated_wallet
  by unfold_locales (auto simp: identity_handle_def intro: MigrateIdentity_inv migrated_wallet_kept)

subsection \<open>Genesis\<close>

definition alias_ok :: "StoredIdentityAlias \<Rightarrow> bool" where
  "alias_ok a \<longleftrightarrow> ia_PasskeyPubkey a \<noteq> [] \<and> hex_of_size 32 (ia_PasskeyPubkey a) \<and> ia_WalletAddress a \<noteq> []"

lemma Validate_aliases_Some: "identity_Validate_aliases as seen = Inr () \<Longrightarrow> \<exists>bs. as = map Some bs"
proof (induction as seen rule: identity_Validate_aliases.induct)
  case (3 a as seen)
  then obtain bs where "as = map Some bs" by (auto split: if_splits)
  then show ?case by (auto intro: exI [of _ "a # bs"])
qed auto

lemma Validate_aliases_Inr:
  "identity_Validate_aliases (map Some bs) seen = Inr () \<longleftrightarrow>
     (\<forall>b\<in>set bs. alias_ok b \<and> ia_PasskeyPubkey b \<notin> set seen) \<and> distinct (map ia_PasskeyPubkey bs)"
  by (induction bs arbitrary: seen) (auto simp: ed25519_sizes alias_ok_def image_iff)

lemma InitGenesis_aliases_fold:
  "identity_InitGenesis_aliases (map Some as) st =
     Inr (st\<lparr>is_aliases := fold (\<lambda>a. kv_set (AliasKey (ia_PasskeyPubkey a)) a) as (is_aliases st)\<rparr>)"
  by (induction as arbitrary: st) (simp_all add: SetAlias_def)

lemma identity_inv_set:
  assumes "identity_inv st" "alias_ok a"
  shows "identity_inv (st\<lparr>is_aliases := kv_set (AliasKey (ia_PasskeyPubkey a)) a (is_aliases st)\<rparr>)"
  using assms by (auto simp: identity_inv_def alias_ok_def intro!: list_all_kv_set)

lemma InitGenesis_aliases_inv:
  assumes "identity_inv st" "\<forall>b\<in>set bs. alias_ok b"
  shows "identity_inv (st\<lparr>is_aliases := fold (\<lambda>a. kv_set (AliasKey (ia_PasskeyPubkey a)) a) bs (is_aliases st)\<rparr>)"
  using assms
proof (induction bs arbitrary: st)
  case (Cons b bs)
  then show ?case
    using Cons.IH [of "st\<lparr>is_aliases := kv_set (AliasKey (ia_PasskeyPubkey b)) b (is_aliases st)\<rparr>"]
      identity_inv_set [of st b] by simp
qed simp

lemma identity_genesis_inv:
  assumes "InitGenesisState (Some g) identity_empty = Inr st"
  shows "identity_inv st"
proof -
  have v: "identity_Validate_aliases (ig_Aliases g) [] = Inr ()"
    and i: "identity_InitGenesis_aliases (ig_Aliases g)
      (identity_setParams (ig_Params g) identity_empty) = Inr st"
    using assms by (auto simp: InitGenesisState_def identity_GenesisState_Validate_def
        identity_Params_Validate_def split: sum.splits)
  obtain bs where bs: "ig_Aliases g = map Some bs" using Validate_aliases_Some [OF v] by blast
  have "identity_inv (identity_setParams (ig_Params g) identity_empty)"
    by (simp add: identity_inv_def identity_setParams_def identity_empty_def)
  from InitGenesis_aliases_inv [OF this, of bs] v i show ?thesis
    by (simp add: bs Validate_aliases_Inr InitGenesis_aliases_fold)
qed

lemma IterateAliases_collect:
  "IterateAliases_loop (\<lambda>aliases alias. (aliases @ [Some alias], True)) False acc es =
     acc @ map (\<lambda>e. Some (snd e)) es"
  by (induction es arbitrary: acc) auto

lemma identity_prefix_all: "identity_inv st \<Longrightarrow> kv_prefix ''alias/'' (is_aliases st) = is_aliases st"
  by (auto simp: identity_inv_def kv_prefix_def list_all_iff filter_id_conv AliasKey_def)

lemma identity_export:
  "identity_inv st \<Longrightarrow> ig_Aliases (ExportGenesisState st) = map Some (map snd (is_aliases st))"
  by (simp add: ExportGenesisState_def IterateAliases_def identity_prefix_all IterateAliases_collect)

lemma identity_reimport:
  assumes "identity_inv st"
  shows "InitGenesisState (Some (ExportGenesisState st)) identity_empty =
    Inr (st\<lparr>is_params := Some (identity_getParams st)\<rparr>)"
proof -
  let ?t = "is_aliases st"
  have keys: "k = AliasKey (ia_PasskeyPubkey a)" if "(k, a) \<in> set ?t" for k a
    using assms that by (auto simp: identity_inv_def list_all_iff)
  have "map fst ?t = map AliasKey (map ia_PasskeyPubkey (map snd ?t))"
    using keys by auto
  moreover have "distinct (map fst ?t)"
    using assms kv_ok_distinct [of ?t] by (simp add: identity_inv_def)
  ultimately have "distinct (map ia_PasskeyPubkey (map snd ?t))"
    by (metis distinct_map)
  then have "identity_Validate_aliases (map Some (map snd ?t)) [] = Inr ()"
    using assms by (simp only: Validate_aliases_Inr)
      (auto simp: identity_inv_def list_all_iff alias_ok_def)
  moreover have "fold (\<lambda>a. kv_set (AliasKey (ia_PasskeyPubkey a)) a) (map snd ?t) [] = ?t"
    using assms keys by (intro kv_reload_values) (auto simp: identity_inv_def)
  moreover have "ig_Params (ExportGenesisState st) = identity_getParams st"
    by (simp add: ExportGenesisState_def)
  ultimately show ?thesis
    by (simp add: InitGenesisState_def identity_GenesisState_Validate_def identity_Params_Validate_def
        identity_export [OF assms] InitGenesis_aliases_fold identity_setParams_def identity_empty_def
        del: map_map)
qed

subsection \<open>Properties\<close>

definition ex_pk :: string where "ex_pk = concat (replicate 31 ''00'') @ ''ab''"
definition ex_pk_upper :: string where "ex_pk_upper = concat (replicate 31 ''00'') @ ''AB''"
definition ex_sig :: string where "ex_sig = concat (replicate 64 ''11'')"

definition ex_migrate :: "string \<Rightarrow> string \<Rightarrow> MsgMigrateIdentity" where
  "ex_migrate pk wallet = \<lparr>mmi_Signer = wallet, mmi_PasskeyPubkey = pk, mmi_PasskeySignature = ex_sig,
     mmi_Nonce = 1\<rparr>"

text \<open>A signature check for the examples that accepts one signature, of 64 bytes 17.\<close>

definition ex_id_sdk :: "ledger sdk" where
  "ex_id_sdk = ledger_sdk\<lparr>ed25519_Verify := (\<lambda>pk msg sig. sig = replicate 64 (char_of (17 :: nat))),
     block_height := 9\<rparr>"

lemma hex_decode_concat:
  "hex_decode ([a, b] @ s) = (case hex_decode [a, b] of None \<Rightarrow> None
     | Some x \<Rightarrow> map_option ((@) x) (hex_decode s))"
  by (auto split: option.splits)

lemma hex_decode_replicate:
  assumes "hex_decode [a, b] = Some [c]"
  shows "hex_decode (concat (replicate n [a, b]) @ s) = map_option ((@) (replicate n c)) (hex_decode s)"
proof (induction n)
  case 0
  show ?case by (cases "hex_decode s") simp_all
next
  case (Suc n)
  then show ?case using assms hex_decode_concat [of a b "concat (replicate n [a, b]) @ s"]
    by (cases "hex_decode s") simp_all
qed

lemma ex_hex:
  "hex_decode ex_pk = Some (replicate 31 (char_of (0 :: nat)) @ [char_of (171 :: nat)])"
  "hex_decode ex_pk_upper = Some (replicate 31 (char_of (0 :: nat)) @ [char_of (171 :: nat)])"
  "hex_decode ex_sig = Some (replicate 64 (char_of (17 :: nat)))"
  using hex_decode_replicate [of "CHR ''0''" "CHR ''0''" "char_of (0 :: nat)" 31]
    hex_decode_replicate [of "CHR ''1''" "CHR ''1''" "char_of (17 :: nat)" 64 "[]"]
  by (simp_all only: ex_pk_def ex_pk_upper_def ex_sig_def append_Nil2)
    (simp_all add: hex_val_def)

lemmas ex_identity_defs = ex_id_sdk_def ledger_sdk_def ex_migrate_def MigrateIdentity_def
  MsgMigrateIdentity_ValidateBasic_def SetAlias_def GetAlias_def hex_of_size_def ed25519_sizes
  identity_empty_def Let_def

lemma ex_nonempty: "ex_pk \<noteq> []" "ex_pk_upper \<noteq> []" "ex_sig \<noteq> []" "ex_pk \<noteq> ex_pk_upper"
  by (simp_all add: ex_pk_def ex_pk_upper_def ex_sig_def)

lemma ex_migrate_ok:
  assumes "hex_decode pk = Some (replicate 31 (char_of (0 :: nat)) @ [char_of (171 :: nat)])" "pk \<noteq> []"
    "w \<noteq> []" "GetAlias st pk = None"
  shows "MigrateIdentity ex_id_sdk st (ex_migrate pk w) = Inr (st\<lparr>is_aliases := kv_set (AliasKey pk)
    \<lparr>ia_PasskeyPubkey = pk, ia_WalletAddress = w, ia_IsMigrated = True, ia_MigratedAtEpoch = 9\<rparr>
    (is_aliases st)\<rparr>)"
  using assms by (simp add: ex_identity_defs ex_hex ex_nonempty)

text \<open>
  C7: When a migration succeeds, the passkey is 32 bytes of hexadecimal, was not migrated before,
  and its holder signed the canonical text of exactly this passkey, this wallet and this nonce:
  no other passkey, wallet or nonce has that text.  Afterwards the passkey resolves to the
  signing wallet and every other passkey resolves as before.
\<close>

theorem migration_authentic:
  assumes "MigrateIdentity K st msg = Inr st'"
  shows "(\<exists>pk sig. hex_decode (mmi_PasskeyPubkey msg) = Some pk \<and> length pk = 32 \<and>
      ed25519_Verify K pk
        (migrate_canonical (mmi_PasskeyPubkey msg) (mmi_Signer msg) (mmi_Nonce msg)) sig) \<and>
    (\<forall>p w n. one_line p \<and> migrate_canonical p w n =
        migrate_canonical (mmi_PasskeyPubkey msg) (mmi_Signer msg) (mmi_Nonce msg) \<longrightarrow>
      p = mmi_PasskeyPubkey msg \<and> w = mmi_Signer msg \<and> n = mmi_Nonce msg) \<and>
    migrated_wallet st (mmi_PasskeyPubkey msg) = None \<and>
    (\<forall>q. ResolveIdentity st' q =
      (if q = mmi_PasskeyPubkey msg then (mmi_Signer msg, True, True) else ResolveIdentity st q))"
  (is "?signed \<and> ?unique \<and> ?fresh \<and> ?resolved")
proof (intro conjI)
  show ?signed using assms by (rule MigrateIdentity_Inr) blast
  show ?unique
    using assms by (rule MigrateIdentity_Inr) (use hex_decode_one_line migrate_canonical_unique in blast)
  show ?fresh
    using assms by (rule MigrateIdentity_Inr) (auto simp: migrated_wallet_def split: option.splits)
  show ?resolved
    using assms by (rule MigrateIdentity_Inr)
      (auto simp: ResolveIdentity_def GetAlias_def kv_get_set split: option.splits)
qed

theorem migration_authentic_witness:
  "\<exists>st'. MigrateIdentity ex_id_sdk identity_empty (ex_migrate ex_pk ''alice'') = Inr st' \<and>
     ResolveIdentity st' ex_pk = (''alice'', True, True) \<and> ResolveIdentity st' ''x'' = ([], False, False)"
proof -
  obtain st' where st': "MigrateIdentity ex_id_sdk identity_empty (ex_migrate ex_pk ''alice'') = Inr st'"
    using ex_migrate_ok [OF ex_hex(1) ex_nonempty(1), of "''alice''" identity_empty]
    by (auto simp: GetAlias_def identity_empty_def)
  have "ex_pk \<noteq> ''x''" by (simp add: ex_pk_def)
  then show ?thesis
    using st' migration_authentic [OF st']
    by (auto simp: ex_migrate_def ResolveIdentity_def GetAlias_def identity_empty_def)
qed

text \<open>
  C27: A binding is permanent.  After any valid genesis and any messages in any blocks, once a
  passkey has been migrated to a wallet, no later message, by anyone, changes or removes that
  binding.
\<close>

theorem identity_binding_permanent:
  assumes "InitGenesisState (Some g) identity_empty = Inr st"
    and "migrated_wallet (deliver_all identity_handle st ms) p = Some w"
  shows "migrated_wallet (deliver_all identity_handle st (ms @ ms')) p = Some w"
  using identity_log.deliver_all_entry [OF identity_log.deliver_all_inv [OF identity_genesis_inv [OF assms(1)]] assms(2)]
  by (simp add: deliver_all_append)

theorem identity_binding_permanent_witness:
  "\<exists>st. InitGenesisState (Some identity_DefaultGenesis) identity_empty = Inr st \<and>
     migrated_wallet (deliver_all identity_handle st
       ([(ex_id_sdk, ex_migrate ex_pk ''alice'')] @ [(ex_id_sdk, ex_migrate ex_pk ''mallory'')])) ex_pk =
     Some ''alice''"
proof -
  have "\<exists>st. InitGenesisState (Some identity_DefaultGenesis) identity_empty = Inr st \<and> is_aliases st = []"
    by (simp add: InitGenesisState_def identity_DefaultGenesis_def identity_GenesisState_Validate_def
        identity_Params_Validate_def identity_setParams_def identity_empty_def)
  then obtain st where st: "InitGenesisState (Some identity_DefaultGenesis) identity_empty = Inr st"
    "is_aliases st = []" by blast
  have "migrated_wallet (deliver_all identity_handle st [(ex_id_sdk, ex_migrate ex_pk ''alice'')]) ex_pk
      = Some ''alice''"
    using ex_migrate_ok [OF ex_hex(1) ex_nonempty(1), of "''alice''" st] st(2)
    by (simp add: identity_handle_def migrated_wallet_def GetAlias_def)
  from identity_binding_permanent [OF st(1) this] st(1) show ?thesis by blast
qed

text \<open>
  Exporting the identity genesis and importing it into an empty store restores the module: the
  same aliases in the same order, and the parameters in force.
\<close>

theorem identity_genesis_round_trip:
  assumes "InitGenesisState (Some g) identity_empty = Inr st"
    and "st' = deliver_all identity_handle st ms"
  shows "\<exists>st''. InitGenesisState (Some (ExportGenesisState st')) identity_empty = Inr st'' \<and>
    is_aliases st'' = is_aliases st' \<and> identity_getParams st'' = identity_getParams st'"
  using identity_reimport [of st'] identity_log.deliver_all_inv [OF identity_genesis_inv [OF assms(1)], of ms]
  by (simp add: assms(2) identity_getParams_def)

theorem identity_genesis_round_trip_witness:
  "\<exists>st st''. InitGenesisState (Some identity_DefaultGenesis) identity_empty = Inr st \<and>
     InitGenesisState (Some (ExportGenesisState (deliver_all identity_handle st
       [(ex_id_sdk, ex_migrate ex_pk ''alice'')]))) identity_empty = Inr st'' \<and>
     length (is_aliases st'') = 1"
proof -
  have "\<exists>st. InitGenesisState (Some identity_DefaultGenesis) identity_empty = Inr st \<and> is_aliases st = []"
    by (simp add: InitGenesisState_def identity_DefaultGenesis_def identity_GenesisState_Validate_def
        identity_Params_Validate_def identity_setParams_def identity_empty_def)
  then obtain st where st: "InitGenesisState (Some identity_DefaultGenesis) identity_empty = Inr st"
    "is_aliases st = []" by blast
  have "length (is_aliases (deliver_all identity_handle st [(ex_id_sdk, ex_migrate ex_pk ''alice'')])) = 1"
    using ex_migrate_ok [OF ex_hex(1) ex_nonempty(1), of "''alice''" st] st(2)
    by (simp add: identity_handle_def GetAlias_def)
  then show ?thesis using identity_genesis_round_trip [OF st(1) refl] st(1) by metis
qed

text \<open>
  The store key is the text of the passkey, and hexadecimal text has two cases: the same 32-byte
  passkey, written in upper case, is a second alias and can be bound to a second wallet.
\<close>

theorem identity_case_variants:
  "\<exists>st. st = deliver_all identity_handle identity_empty
      [(ex_id_sdk, ex_migrate ex_pk ''alice''), (ex_id_sdk, ex_migrate ex_pk_upper ''bob'')] \<and>
    hex_decode ex_pk = hex_decode ex_pk_upper \<and>
    migrated_wallet st ex_pk = Some ''alice'' \<and> migrated_wallet st ex_pk_upper = Some ''bob''"
  using ex_nonempty ex_migrate_ok [OF ex_hex(1) ex_nonempty(1), of "''alice''" identity_empty]
    ex_migrate_ok [OF ex_hex(2) ex_nonempty(2), of "''bob''"]
  by (simp add: identity_handle_def migrated_wallet_def GetAlias_def ex_hex identity_empty_def kv_get_set)

end
