(* ===== verification/Wire.thy ===== *)
theory Wire
  imports Prelude
begin

section \<open>Wire: the protobuf encoding of stored records\<close>

text \<open>
  The keepers store records in the protobuf wire format, through the generated methods of the
  \<open>state.pb.go\<close> files.  Most iterators of the chain are bounded by their prefix and only meet
  records of one type; those components use typed tables.  Some iterators have no upper bound
  and decode records of \<^emph>\<open>other\<close> types, so what they return depends on the encoding.  This
  theory has the encoder, the decoder with every error it raises, and the skipping of unknown
  fields, written once over a \<^emph>\<open>schema\<close> that gives the kind of every known field.  A schema has
  integer, boolean and enumeration fields and (repeated) string and bytes fields, which is what
  the records have that such an iterator meets; maps, packed, nested and oneof fields are not
  covered.

  The decoder here is a reference: it works on the rest of the input as a list of bytes and is
  total by construction.  \<open>Wire_Index\<close> has the loops of the generated code over an index, with all
  their guards, and shows that they return the result of this decoder.  A message decodes to the
  list of its known fields, in the order they occur; a record is built from them by its setters,
  the last occurrence winning.
\<close>

subsection \<open>Varints\<close>

text \<open>\<open>encodeVarintState\<close>, on the value of a \<open>uint64\<close>.\<close>

fun varint_bytes :: "nat \<Rightarrow> bytes" where
  "varint_bytes v =
     (if v < 128 then [char_of v] else char_of (v mod 128 + 128) # varint_bytes (v div 128))"

declare varint_bytes.simps [simp del]

definition encodeVarint :: "u64 \<Rightarrow> bytes" where
  "encodeVarint v = varint_bytes (unat v)"

text \<open>
  The decoding loop, at bit position \<open>shift\<close>: \<open>ErrIntOverflow\<close> when the position reaches 64 and
  \<open>io.ErrUnexpectedEOF\<close> at the end of the input (both \<open>None\<close>).  The groups of seven bits do not
  overlap, so or-ing them is adding them; bits beyond the 64th are lost.
\<close>

function varint_loop :: "nat \<Rightarrow> nat \<Rightarrow> bytes \<Rightarrow> (nat \<times> bytes) option" where
  "varint_loop shift acc bs =
     (if 64 \<le> shift then None
      else case bs of
        [] \<Rightarrow> None
      | b # bs' \<Rightarrow>
          let acc' = (acc + of_char b mod 128 * 2 ^ shift) mod 2 ^ 64 in
          if of_char b < (128 :: nat) then Some (acc', bs') else varint_loop (shift + 7) acc' bs')"
  by pat_completeness auto
termination by (relation "measure (\<lambda>(s, a, bs). length bs)") auto

declare varint_loop.simps [simp del]

definition decodeVarint :: "bytes \<Rightarrow> (u64 \<times> bytes) option" where
  "decodeVarint bs = map_option (\<lambda>(v, r). (of_nat v, r)) (varint_loop 0 0 bs)"

lemma varint_loop_shorter: "varint_loop s a bs = Some (v, r) \<Longrightarrow> length r < length bs"
proof (induction s a bs arbitrary: v r rule: varint_loop.induct)
  case (1 s a bs)
  show ?case
  proof (cases bs)
    case (Cons b bs')
    with 1(2) show ?thesis using 1(1) [OF _ Cons refl, of v r]
      by (auto simp: varint_loop.simps [of s a "b # bs'"] Let_def split: if_splits)
  qed (use 1(2) in \<open>simp add: varint_loop.simps [of s a "[]"] split: if_splits\<close>)
qed

lemma decodeVarint_shorter: "decodeVarint bs = Some (v, r) \<Longrightarrow> length r < length bs"
  using varint_loop_shorter [of 0 0 bs] unfolding decodeVarint_def by auto

lemma varint_loop_bytes:
  assumes "a < 2 ^ s" "a + v * 2 ^ s < 2 ^ 64" "s < 64"
  shows "varint_loop s a (varint_bytes v @ r) = Some (a + v * 2 ^ s, r)"
  using assms
proof (induction v arbitrary: a s rule: varint_bytes.induct)
  case (1 v)
  show ?case
  proof (cases "v < 128")
    case True
    then show ?thesis using 1(2-4)
      by (simp add: varint_bytes.simps [of v] varint_loop.simps [of s])
  next
    case False
    have split: "v mod 128 * 2 ^ s + v div 128 * 2 ^ (s + 7) = v * 2 ^ s"
    proof -
      have "v mod 128 * 2 ^ s + v div 128 * 2 ^ (s + 7) = (v mod 128 + v div 128 * 128) * (2 ^ s :: nat)"
        by (simp only: power_add distrib_right mult.assoc) simp
      then show ?thesis by (simp add: mod_div_mult_eq)
    qed
    have s7: "s + 7 < 64"
    proof (rule ccontr)
      assume "\<not> s + 7 < 64"
      then have "(2 :: nat) ^ 64 \<le> 2 ^ (s + 7)" by (intro power_increasing) auto
      also have "\<dots> = 128 * 2 ^ s" by (simp add: power_add)
      also have "\<dots> \<le> v * 2 ^ s" using False by (intro mult_right_mono) auto
      finally show False using 1(3) by linarith
    qed
    have small: "a + v mod 128 * 2 ^ s < 2 ^ (s + 7)"
    proof -
      have "v mod 128 * 2 ^ s \<le> 127 * (2 ^ s :: nat)"
        by (rule mult_right_mono) (auto simp: less_Suc_eq_le [symmetric])
      moreover have "(2 :: nat) ^ (s + 7) = 128 * 2 ^ s" by (simp add: power_add)
      ultimately show ?thesis using 1(2) by linarith
    qed
    have below: "a + v mod 128 * 2 ^ s + v div 128 * 2 ^ (s + 7) < 2 ^ 64"
      using 1(3) split by linarith
    then have "(a + v mod 128 * 2 ^ s) mod 2 ^ 64 = a + v mod 128 * 2 ^ s" by simp
    moreover have "varint_loop (s + 7) (a + v mod 128 * 2 ^ s) (varint_bytes (v div 128) @ r)
        = Some (a + v mod 128 * 2 ^ s + v div 128 * 2 ^ (s + 7), r)"
      by (rule 1(1) [OF False small below s7])
    ultimately show ?thesis using False 1(4) split
      by (simp add: varint_bytes.simps [of v] varint_loop.simps [of s a] Let_def)
  qed
qed

lemma varint_bytes_nonempty [simp]: "varint_bytes v \<noteq> []"
  by (simp add: varint_bytes.simps [of v])

lemma decodeVarint_encode: "decodeVarint (encodeVarint v @ r) = Some (v, r)"
  using varint_loop_bytes [of 0 0 "unat v" r] unsigned_less [of v, where ?'a = nat]
  by (simp add: decodeVarint_def encodeVarint_def)

subsection \<open>Fields\<close>

text \<open>
  A tag is \<open>fieldNum << 3 | wireType\<close>.  The records of the chain only have fields of wire type 0
  (integers, booleans, enumerations) and 2 (strings, bytes).
\<close>

datatype field_kind = Varint_field | Bytes_field

datatype field = Varint u64 | Bytes bytes

type_synonym schema = "nat \<Rightarrow> field_kind option"

fun wire_type :: "field_kind \<Rightarrow> nat" where
  "wire_type Varint_field = 0"
| "wire_type Bytes_field = 2"

definition encode_tag :: "nat \<Rightarrow> nat \<Rightarrow> bytes" where
  "encode_tag fieldNum wireType = varint_bytes (fieldNum * 8 + wireType)"

text \<open>\<open>l\<close> bytes from the front; \<open>None\<close> when the input is shorter (\<open>io.ErrUnexpectedEOF\<close>) or the
  length is negative as an \<open>int\<close>, which is longer than any input.\<close>

definition take_bytes :: "nat \<Rightarrow> bytes \<Rightarrow> (bytes \<times> bytes) option" where
  "take_bytes l bs = (if l \<le> length bs then Some (take l bs, drop l bs) else None)"

definition decode_bytes :: "bytes \<Rightarrow> (bytes \<times> bytes) option" where
  "decode_bytes bs =
     (case decodeVarint bs of None \<Rightarrow> None | Some (l, r) \<Rightarrow> take_bytes (unat l) r)"

lemma decode_bytes_shorter: "decode_bytes bs = Some (v, r) \<Longrightarrow> length r < length bs"
  by (auto simp: decode_bytes_def take_bytes_def dest!: decodeVarint_shorter split: option.splits if_splits)

text \<open>
  \<open>skipState\<close>: reads whole fields, nested groups included, until the group depth is back at zero,
  and returns what follows.  Wire types 6 and 7 are illegal.
\<close>

definition skip_step :: "nat \<Rightarrow> bytes \<Rightarrow> (nat \<times> bytes) option" where
  "skip_step depth bs =
     (case decodeVarint bs of
        None \<Rightarrow> None
      | Some (wire, r) \<Rightarrow>
          let wireType = unat wire mod 8 in
          if wireType = 0 then map_option (\<lambda>p. (depth, snd p)) (decodeVarint r)
          else if wireType = 1 then map_option (\<lambda>p. (depth, snd p)) (take_bytes 8 r)
          else if wireType = 2 then map_option (\<lambda>p. (depth, snd p)) (decode_bytes r)
          else if wireType = 3 then Some (depth + 1, r)
          else if wireType = 4 then if depth = 0 then None else Some (depth - 1, r)
          else if wireType = 5 then map_option (\<lambda>p. (depth, snd p)) (take_bytes 4 r)
          else None)"

lemma take_bytes_length: "take_bytes l bs = Some (v, r) \<Longrightarrow> length r \<le> length bs"
  by (auto simp: take_bytes_def split: if_splits)

lemma skip_step_shorter: "skip_step d bs = Some (d', r) \<Longrightarrow> length r < length bs"
  unfolding skip_step_def Let_def
  by (auto split: option.splits if_splits dest!: decodeVarint_shorter decode_bytes_shorter
      take_bytes_length)

function skip_field :: "nat \<Rightarrow> bytes \<Rightarrow> bytes option" where
  "skip_field depth bs =
     (case skip_step depth bs of
        None \<Rightarrow> None
      | Some (depth', r) \<Rightarrow> if depth' = 0 then Some r else skip_field depth' r)"
  by pat_completeness auto
termination
  by (relation "measure (\<lambda>(d, bs). length bs)") (auto dest: skip_step_shorter)

declare skip_field.simps [simp del]

text \<open>
  \<open>Unmarshal\<close>: the loop over the fields of a message.  The field number is the \<open>int32\<close> of the
  tag's upper bits; an end-group tag, a field number that is not positive, and a known field
  with the wrong wire type are errors; an unknown field is skipped from its tag on.
\<close>

definition field_number :: "u64 \<Rightarrow> int" where
  "field_number wire = sint (word_of_nat (unat wire div 8) :: i32)"

definition decode_field :: "schema \<Rightarrow> bytes \<Rightarrow> ((nat \<times> field) list \<times> bytes) option" where
  "decode_field sch bs =
     (case decodeVarint bs of
        None \<Rightarrow> None
      | Some (wire, r) \<Rightarrow>
          let fieldNum = field_number wire; wireType = unat wire mod 8 in
          if wireType = 4 then None
          else if fieldNum \<le> 0 then None
          else case sch (nat fieldNum) of
            None \<Rightarrow> map_option (\<lambda>r'. ([], r')) (skip_field 0 bs)
          | Some Varint_field \<Rightarrow>
              if wireType \<noteq> 0 then None
              else map_option (\<lambda>(v, r'). ([(nat fieldNum, Varint v)], r')) (decodeVarint r)
          | Some Bytes_field \<Rightarrow>
              if wireType \<noteq> 2 then None
              else map_option (\<lambda>(v, r'). ([(nat fieldNum, Bytes v)], r')) (decode_bytes r))"

lemma skip_field_shorter: "skip_field d bs = Some r \<Longrightarrow> length r < length bs"
proof (induction d bs arbitrary: r rule: skip_field.induct)
  case (1 d bs)
  obtain d' r' where step: "skip_step d bs = Some (d', r')"
    using 1(2) by (cases "skip_step d bs") (auto simp: skip_field.simps [of d bs])
  then have "length r' < length bs" by (rule skip_step_shorter)
  moreover have "d' \<noteq> 0 \<Longrightarrow> length r < length r'"
    using 1(1) [OF step refl, of r] 1(2) step by (simp add: skip_field.simps [of d bs])
  ultimately show ?case
    using 1(2) step by (cases "d' = 0") (auto simp: skip_field.simps [of d bs])
qed

lemma decode_field_shorter: "decode_field sch bs = Some (fs, r) \<Longrightarrow> length r < length bs"
  unfolding decode_field_def Let_def
  by (auto split: option.splits if_splits field_kind.splits
      dest!: decodeVarint_shorter decode_bytes_shorter skip_field_shorter)

function unmarshal :: "schema \<Rightarrow> bytes \<Rightarrow> (nat \<times> field) list option" where
  "unmarshal sch bs =
     (if bs = [] then Some []
      else case decode_field sch bs of
        None \<Rightarrow> None
      | Some (fs, r) \<Rightarrow> map_option ((@) fs) (unmarshal sch r))"
  by pat_completeness auto
termination
  by (relation "measure (\<lambda>(sch, bs). length bs)") (auto dest: decode_field_shorter)

declare unmarshal.simps [simp del]

lemma unmarshal_Nil [simp]: "unmarshal sch [] = Some []"
  by (simp add: unmarshal.simps)

subsection \<open>Encoding\<close>

text \<open>
  \<open>MarshalToSizedBuffer\<close>: the fields in the order of their numbers, each with its tag; a field
  with its zero value is left out, a repeated field occurs once for each element.
\<close>

definition varint_field :: "nat \<Rightarrow> u64 \<Rightarrow> (nat \<times> field) list" where
  "varint_field n v = (if v = 0 then [] else [(n, Varint v)])"

definition bool_field :: "nat \<Rightarrow> bool \<Rightarrow> (nat \<times> field) list" where
  "bool_field n b = (if b then [(n, Varint 1)] else [])"

definition bytes_field :: "nat \<Rightarrow> bytes \<Rightarrow> (nat \<times> field) list" where
  "bytes_field n b = (if b = [] then [] else [(n, Bytes b)])"

definition repeated_bytes_field :: "nat \<Rightarrow> bytes list \<Rightarrow> (nat \<times> field) list" where
  "repeated_bytes_field n bs = map (\<lambda>b. (n, Bytes b)) bs"

fun encode_field :: "nat \<times> field \<Rightarrow> bytes" where
  "encode_field (n, Varint v) = encode_tag n 0 @ encodeVarint v"
| "encode_field (n, Bytes b) = encode_tag n 2 @ encodeVarint (of_nat (length b)) @ b"

definition marshal :: "(nat \<times> field) list \<Rightarrow> bytes" where
  "marshal fs = concat (map encode_field fs)"

lemma marshal_Nil [simp]: "marshal [] = []"
  by (simp add: marshal_def)

lemma marshal_Cons: "marshal (f # fs) = encode_field f @ marshal fs"
  by (simp add: marshal_def)

text \<open>A field fits a schema when its number is a legal one and it has the kind of its number.\<close>

fun field_fits :: "schema \<Rightarrow> nat \<times> field \<Rightarrow> bool" where
  "field_fits sch (n, Varint v) \<longleftrightarrow> 0 < n \<and> n < 2 ^ 29 \<and> sch n = Some Varint_field"
| "field_fits sch (n, Bytes b) \<longleftrightarrow>
     0 < n \<and> n < 2 ^ 29 \<and> sch n = Some Bytes_field \<and> length b < 2 ^ 63"

definition tag_word :: "nat \<Rightarrow> nat \<Rightarrow> u64" where
  "tag_word n w = word_of_nat (n * 8 + w)"

lemma unat_tag_word: "n < 2 ^ 29 \<Longrightarrow> w < 8 \<Longrightarrow> unat (tag_word n w) = n * 8 + w"
  unfolding tag_word_def unat_of_nat by simp

lemma decode_tag:
  "n < 2 ^ 29 \<Longrightarrow> w < 8 \<Longrightarrow> decodeVarint (encode_tag n w @ r) = Some (tag_word n w, r)"
  using decodeVarint_encode [of "tag_word n w" r]
  by (simp add: encode_tag_def encodeVarint_def unat_tag_word)

lemma unat_tag:
  assumes "n < 2 ^ 29" "w < 8"
  shows "unat (tag_word n w) mod 8 = w" and "field_number (tag_word n w) = int n"
proof -
  show "unat (tag_word n w) mod 8 = w" using assms by (simp add: unat_tag_word)
  have "(n * 8 + w) div 8 = n" using assms(2) by simp
  then have "field_number (tag_word n w) = sint (word_of_nat n :: i32)"
    using assms by (simp add: field_number_def unat_tag_word)
  also have "\<dots> = int n"
    using assms(1) by (simp add: signed_of_nat signed_take_bit_int_eq_self)
  finally show "field_number (tag_word n w) = int n" .
qed

lemma decode_bytes_encode:
  assumes "length b < 2 ^ 63"
  shows "decode_bytes (encodeVarint (of_nat (length b)) @ b @ r) = Some (b, r)"
proof -
  have "unat (of_nat (length b) :: u64) = length b"
    using assms by (simp add: unat_of_nat)
  then show ?thesis by (simp add: decode_bytes_def take_bytes_def decodeVarint_encode)
qed

lemma decode_encode_field:
  assumes "field_fits sch f"
  shows "decode_field sch (encode_field f @ r) = Some ([f], r)"
proof -
  obtain n v where f: "f = (n, v)" by (cases f)
  show ?thesis
    using assms unfolding f
    by (cases v) (auto simp: decode_field_def decode_tag unat_tag decodeVarint_encode
        decode_bytes_encode)
qed

lemma encode_field_nonempty [simp]: "encode_field f \<noteq> []"
  by (cases f rule: encode_field.cases) (simp_all add: encode_tag_def)

text \<open>Decoding is the inverse of encoding, for every list of fields that fits the schema.\<close>

lemma unmarshal_marshal:
  assumes "list_all (field_fits sch) fs"
  shows "unmarshal sch (marshal fs) = Some fs"
  using assms
proof (induction fs)
  case (Cons f fs)
  then show ?case
    by (simp add: marshal_Cons unmarshal.simps [of sch "encode_field f @ marshal fs"]
        decode_encode_field)
qed simp

text \<open>
  A record met by a decoder for another schema: a leading field of the wrong kind makes the
  decoder fail, a field the schema does not know is skipped.
\<close>

fun field_clash :: "schema \<Rightarrow> nat \<times> field \<Rightarrow> bool" where
  "field_clash sch (n, Varint v) \<longleftrightarrow> 0 < n \<and> n < 2 ^ 29 \<and> sch n = Some Bytes_field"
| "field_clash sch (n, Bytes b) \<longleftrightarrow> 0 < n \<and> n < 2 ^ 29 \<and> sch n = Some Varint_field"

fun field_unknown :: "schema \<Rightarrow> nat \<times> field \<Rightarrow> bool" where
  "field_unknown sch (n, Varint v) \<longleftrightarrow> 0 < n \<and> n < 2 ^ 29 \<and> sch n = None"
| "field_unknown sch (n, Bytes b) \<longleftrightarrow> 0 < n \<and> n < 2 ^ 29 \<and> sch n = None \<and> length b < 2 ^ 63"

lemma decode_clash:
  assumes "field_clash sch f"
  shows "decode_field sch (encode_field f @ r) = None"
proof -
  obtain n v where f: "f = (n, v)" by (cases f)
  show ?thesis
    using assms unfolding f
    by (cases v) (auto simp: decode_field_def unat_tag decode_tag)
qed

lemma skip_encode_field:
  assumes "field_unknown sch f"
  shows "skip_field 0 (encode_field f @ r) = Some r"
proof -
  obtain n v where f: "f = (n, v)" by (cases f)
  show ?thesis
    using assms unfolding f
    by (cases v) (auto simp: skip_field.simps [of 0] skip_step_def unat_tag decode_tag
        decodeVarint_encode decode_bytes_encode)
qed

lemma decode_unknown:
  assumes "field_unknown sch f"
  shows "decode_field sch (encode_field f @ r) = Some ([], r)"
proof -
  obtain n v where f: "f = (n, v)" by (cases f)
  show ?thesis
    using assms skip_encode_field [OF assms, of r] unfolding f
    by (cases v) (auto simp: decode_field_def unat_tag decode_tag)
qed

text \<open>
  So a decoder reads the encoding of a record of another type as the list of its fields that fit,
  unless one of them clashes.
\<close>

lemma field_fits_not_unknown: "field_fits sch f \<Longrightarrow> \<not> field_unknown sch f"
  by (cases f rule: encode_field.cases) auto

lemma unmarshal_other:
  assumes "list_all (\<lambda>f. field_fits sch f \<or> field_unknown sch f) fs"
  shows "unmarshal sch (marshal fs) = Some (filter (field_fits sch) fs)"
  using assms
proof (induction fs)
  case (Cons f fs)
  then show ?case
    by (auto simp: marshal_Cons unmarshal.simps [of sch "encode_field f @ marshal fs"]
        decode_encode_field decode_unknown dest: field_fits_not_unknown)
qed simp

lemma unmarshal_clash:
  assumes "list_all (\<lambda>f. field_fits sch f \<or> field_unknown sch f) fs" "field_clash sch f"
  shows "unmarshal sch (marshal (fs @ f # gs)) = None"
  using assms(1)
proof (induction fs)
  case Nil
  show ?case
    by (simp add: marshal_Cons unmarshal.simps [of sch "encode_field f @ marshal gs"]
        decode_clash [OF assms(2)])
next
  case (Cons g fs)
  then show ?case
    by (auto simp: marshal_Cons unmarshal.simps [of sch "encode_field g @ marshal (fs @ f # gs)"]
        decode_encode_field decode_unknown)
qed

text \<open>A first byte below 8 is a tag with field number 0, which no decoder accepts.\<close>

lemma unmarshal_tag_zero:
  assumes "of_char b < (8 :: nat)"
  shows "unmarshal sch (b # bs) = None"
proof -
  have "decodeVarint (b # bs) = Some (of_nat (of_char b), bs)"
    using assms by (simp add: decodeVarint_def varint_loop.simps)
  moreover have "unat (of_nat (of_char b) :: u64) = of_char b"
    using assms by (simp add: unat_of_nat)
  ultimately show ?thesis
    using assms by (simp add: unmarshal.simps [of sch "b # bs"] decode_field_def field_number_def Let_def)
qed

lemmas field_list_defs = varint_field_def bool_field_def bytes_field_def repeated_bytes_field_def

end
