(* ===== verification/Bandwidth.thy ===== *)
theory Bandwidth
  imports KVStore Wire Org
begin

section \<open>Bandwidth: per-epoch budgets of an organisation (x/bandwidth)\<close>

text \<open>
  Every organisation has, for every epoch, a budget of memory submissions and of serves.  The
  budget is created on first use from the organisation's override or the module parameters; a
  consumption that would exceed it is refused.  The records, the keeper, the messages and
  genesis of \<open>x/bandwidth\<close>, with the wire format of its three records: genesis export uses
  iterators without an upper bound, which run into records of the other types.
\<close>

subsection \<open>Data\<close>

record BandwidthState =
  bs_OrgID :: string
  bs_Epoch :: u64
  bs_MemoryUsed :: u64
  bs_MemoryCap :: u64
  bs_ServeUsed :: u64
  bs_ServeCap :: u64

definition NewBandwidthState :: "string \<Rightarrow> u64 \<Rightarrow> u64 \<Rightarrow> u64 \<Rightarrow> BandwidthState" where
  "NewBandwidthState orgID epoch memoryCap serveCap = \<lparr>
     bs_OrgID = orgID, bs_Epoch = epoch, bs_MemoryUsed = 0, bs_MemoryCap = memoryCap,
     bs_ServeUsed = 0, bs_ServeCap = serveCap\<rparr>"

record BandwidthOverride =
  bo_OrgID :: string
  bo_MemoryCap :: u64
  bo_ServeCap :: u64

definition NewBandwidthOverride :: "string \<Rightarrow> u64 \<Rightarrow> u64 \<Rightarrow> BandwidthOverride" where
  "NewBandwidthOverride orgID memoryCap serveCap = \<lparr>
     bo_OrgID = orgID, bo_MemoryCap = memoryCap, bo_ServeCap = serveCap\<rparr>"

record StoredBandwidthState =
  sbs_OrgId :: string
  sbs_Epoch :: u64
  sbs_MemoryUsed :: u64
  sbs_MemoryCap :: u64
  sbs_ServeUsed :: u64
  sbs_ServeCap :: u64

record StoredBandwidthOverride =
  sbo_OrgId :: string
  sbo_MemoryCap :: u64
  sbo_ServeCap :: u64

record bandwidth_Params =
  bp_DefaultMemoryCapPerEpoch :: u64
  bp_DefaultServeCapPerEpoch :: u64

definition bandwidth_DefaultParams :: bandwidth_Params where
  "bandwidth_DefaultParams = \<lparr>
     bp_DefaultMemoryCapPerEpoch = 10000, bp_DefaultServeCapPerEpoch = 50000\<rparr>"

text \<open>\<open>Validate\<close> has a pointer receiver and does not look at it: a nil pointer is valid too.\<close>

definition bandwidth_Params_Validate :: "bandwidth_Params option \<Rightarrow> check" where
  "bandwidth_Params_Validate p = Inr ()"

record bandwidth_GenesisState =
  bg_BandwidthStates :: "BandwidthState list"
  bg_BandwidthOverrides :: "BandwidthOverride list"

definition stateToStored :: "BandwidthState \<Rightarrow> StoredBandwidthState" where
  "stateToStored s = \<lparr>
     sbs_OrgId = bs_OrgID s, sbs_Epoch = bs_Epoch s, sbs_MemoryUsed = bs_MemoryUsed s,
     sbs_MemoryCap = bs_MemoryCap s, sbs_ServeUsed = bs_ServeUsed s, sbs_ServeCap = bs_ServeCap s\<rparr>"

definition storedToState :: "StoredBandwidthState \<Rightarrow> BandwidthState" where
  "storedToState s = \<lparr>
     bs_OrgID = sbs_OrgId s, bs_Epoch = sbs_Epoch s, bs_MemoryUsed = sbs_MemoryUsed s,
     bs_MemoryCap = sbs_MemoryCap s, bs_ServeUsed = sbs_ServeUsed s, bs_ServeCap = sbs_ServeCap s\<rparr>"

definition overrideToStored :: "BandwidthOverride \<Rightarrow> StoredBandwidthOverride" where
  "overrideToStored o' = \<lparr>
     sbo_OrgId = bo_OrgID o', sbo_MemoryCap = bo_MemoryCap o', sbo_ServeCap = bo_ServeCap o'\<rparr>"

definition storedToOverride :: "StoredBandwidthOverride \<Rightarrow> BandwidthOverride" where
  "storedToOverride s = \<lparr>
     bo_OrgID = sbo_OrgId s, bo_MemoryCap = sbo_MemoryCap s, bo_ServeCap = sbo_ServeCap s\<rparr>"

subsection \<open>Wire format\<close>

definition StoredBandwidthState_fields :: "StoredBandwidthState \<Rightarrow> (nat \<times> field) list" where
  "StoredBandwidthState_fields s =
     bytes_field 1 (sbs_OrgId s) @ varint_field 2 (sbs_Epoch s) @ varint_field 3 (sbs_MemoryUsed s) @
     varint_field 4 (sbs_MemoryCap s) @ varint_field 5 (sbs_ServeUsed s) @
     varint_field 6 (sbs_ServeCap s)"

definition StoredBandwidthState_schema :: schema where
  "StoredBandwidthState_schema n =
     (if n = 1 then Some Bytes_field else if 2 \<le> n \<and> n \<le> 6 then Some Varint_field else None)"

definition StoredBandwidthState_set ::
  "nat \<times> field \<Rightarrow> StoredBandwidthState \<Rightarrow> StoredBandwidthState" where
  "StoredBandwidthState_set f s =
     (case f of
        (n, Bytes b) \<Rightarrow> s\<lparr>sbs_OrgId := b\<rparr>
      | (n, Varint v) \<Rightarrow>
          if n = 2 then s\<lparr>sbs_Epoch := v\<rparr> else if n = 3 then s\<lparr>sbs_MemoryUsed := v\<rparr>
          else if n = 4 then s\<lparr>sbs_MemoryCap := v\<rparr> else if n = 5 then s\<lparr>sbs_ServeUsed := v\<rparr>
          else s\<lparr>sbs_ServeCap := v\<rparr>)"

definition StoredBandwidthState_Marshal :: "StoredBandwidthState \<Rightarrow> bytes" where
  "StoredBandwidthState_Marshal s = marshal (StoredBandwidthState_fields s)"

definition StoredBandwidthState_Unmarshal :: "bytes \<Rightarrow> StoredBandwidthState option" where
  "StoredBandwidthState_Unmarshal bz =
     map_option (\<lambda>fs. fold StoredBandwidthState_set fs
       \<lparr>sbs_OrgId = [], sbs_Epoch = 0, sbs_MemoryUsed = 0, sbs_MemoryCap = 0, sbs_ServeUsed = 0,
        sbs_ServeCap = 0\<rparr>)
       (unmarshal StoredBandwidthState_schema bz)"

definition StoredBandwidthOverride_fields :: "StoredBandwidthOverride \<Rightarrow> (nat \<times> field) list" where
  "StoredBandwidthOverride_fields s =
     bytes_field 1 (sbo_OrgId s) @ varint_field 2 (sbo_MemoryCap s) @ varint_field 3 (sbo_ServeCap s)"

definition StoredBandwidthOverride_schema :: schema where
  "StoredBandwidthOverride_schema n =
     (if n = 1 then Some Bytes_field else if n = 2 \<or> n = 3 then Some Varint_field else None)"

definition StoredBandwidthOverride_set ::
  "nat \<times> field \<Rightarrow> StoredBandwidthOverride \<Rightarrow> StoredBandwidthOverride" where
  "StoredBandwidthOverride_set f s =
     (case f of
        (n, Bytes b) \<Rightarrow> s\<lparr>sbo_OrgId := b\<rparr>
      | (n, Varint v) \<Rightarrow> if n = 2 then s\<lparr>sbo_MemoryCap := v\<rparr> else s\<lparr>sbo_ServeCap := v\<rparr>)"

definition StoredBandwidthOverride_Marshal :: "StoredBandwidthOverride \<Rightarrow> bytes" where
  "StoredBandwidthOverride_Marshal s = marshal (StoredBandwidthOverride_fields s)"

definition StoredBandwidthOverride_Unmarshal :: "bytes \<Rightarrow> StoredBandwidthOverride option" where
  "StoredBandwidthOverride_Unmarshal bz =
     map_option (\<lambda>fs. fold StoredBandwidthOverride_set fs
       \<lparr>sbo_OrgId = [], sbo_MemoryCap = 0, sbo_ServeCap = 0\<rparr>)
       (unmarshal StoredBandwidthOverride_schema bz)"

definition bandwidth_Params_Marshal :: "bandwidth_Params \<Rightarrow> bytes" where
  "bandwidth_Params_Marshal p =
     marshal (varint_field 1 (bp_DefaultMemoryCapPerEpoch p) @
              varint_field 2 (bp_DefaultServeCapPerEpoch p))"

subsection \<open>Store and keeper\<close>

text \<open>
  The module's store: the two tables, the parameters, and the marker record that chain
  initialisation writes into every store under the key \<open>FF FF FF FF\<close>.
\<close>

record bandwidth_state =
  bw_states :: "StoredBandwidthState kv"
  bw_overrides :: "StoredBandwidthOverride kv"
  bw_params :: "bandwidth_Params option"
  bw_marker :: bool

definition bandwidth_empty :: bandwidth_state where
  "bandwidth_empty = \<lparr>bw_states = [], bw_overrides = [], bw_params = None, bw_marker = False\<rparr>"

definition stateKey :: "string \<Rightarrow> u64 \<Rightarrow> bytes" where
  "stateKey orgID epoch = ''state/'' @ orgID @ ''/'' @ FormatUint epoch"

definition overrideKey :: "string \<Rightarrow> bytes" where
  "overrideKey orgID = ''override/'' @ orgID"

text \<open>
  The whole store as the iterators see it, in key order: \<open>override/...\<close> before \<open>params\<close> before
  \<open>state/...\<close> before the marker.
\<close>

definition bandwidth_raw :: "bandwidth_state \<Rightarrow> bytes kv" where
  "bandwidth_raw st =
     map (\<lambda>(k, v). (k, StoredBandwidthOverride_Marshal v)) (bw_overrides st) @
     (case bw_params st of None \<Rightarrow> [] | Some p \<Rightarrow> [(''params'', bandwidth_Params_Marshal p)]) @
     map (\<lambda>(k, v). (k, StoredBandwidthState_Marshal v)) (bw_states st) @
     marker_entries (bw_marker st)"

definition bandwidth_SetParams :: "bandwidth_Params \<Rightarrow> bandwidth_state \<Rightarrow> bandwidth_state" where
  "bandwidth_SetParams p st = st\<lparr>bw_params := Some p\<rparr>"

definition bandwidth_GetParams :: "bandwidth_state \<Rightarrow> bandwidth_Params" where
  "bandwidth_GetParams st = (case bw_params st of None \<Rightarrow> bandwidth_DefaultParams | Some p \<Rightarrow> p)"

definition GetOrInitBandwidthState ::
  "bandwidth_state \<Rightarrow> string \<Rightarrow> u64 \<Rightarrow> bandwidth_state \<times> BandwidthState" where
  "GetOrInitBandwidthState st orgID epoch =
     (case kv_get (bw_states st) (stateKey orgID epoch) of
        Some stored \<Rightarrow> (st, storedToState stored)
      | None \<Rightarrow>
          let (memoryCap, serveCap) =
                (case kv_get (bw_overrides st) (overrideKey orgID) of
                   Some override \<Rightarrow> (sbo_MemoryCap override, sbo_ServeCap override)
                 | None \<Rightarrow> (bp_DefaultMemoryCapPerEpoch (bandwidth_GetParams st),
                            bp_DefaultServeCapPerEpoch (bandwidth_GetParams st)));
              state = NewBandwidthState orgID epoch memoryCap serveCap in
          (st\<lparr>bw_states := kv_set (stateKey orgID epoch) (stateToStored state) (bw_states st)\<rparr>, state))"

definition GetOrInitBandwidthStateRaw ::
  "bandwidth_state \<Rightarrow> string \<Rightarrow> u64 \<Rightarrow> bandwidth_state \<times> u64 \<times> u64 \<times> u64 \<times> u64" where
  "GetOrInitBandwidthStateRaw st orgID epoch =
     (case GetOrInitBandwidthState st orgID epoch of
        (st', state) \<Rightarrow>
          (st', bs_MemoryUsed state, bs_MemoryCap state, bs_ServeUsed state, bs_ServeCap state))"

definition GetBandwidthState :: "bandwidth_state \<Rightarrow> string \<Rightarrow> u64 \<Rightarrow> BandwidthState option" where
  "GetBandwidthState st orgID epoch =
     map_option storedToState (kv_get (bw_states st) (stateKey orgID epoch))"

definition ConsumeMemoryBandwidth ::
  "bandwidth_state \<Rightarrow> string \<Rightarrow> u64 \<Rightarrow> bandwidth_state result" where
  "ConsumeMemoryBandwidth st orgID epoch =
     (case GetOrInitBandwidthState st orgID epoch of
        (st', state) \<Rightarrow>
          if bs_MemoryUsed state \<ge> bs_MemoryCap state
            then Inl (E_bandwidth Bw_ErrMemoryBandwidthExhausted)
          else
            let state' = state\<lparr>bs_MemoryUsed := bs_MemoryUsed state + 1\<rparr> in
            Inr (st'\<lparr>bw_states := kv_set (stateKey orgID epoch) (stateToStored state') (bw_states st')\<rparr>))"

definition ConsumeServeBandwidth ::
  "bandwidth_state \<Rightarrow> string \<Rightarrow> u64 \<Rightarrow> u64 \<Rightarrow> bandwidth_state result" where
  "ConsumeServeBandwidth st orgID epoch count =
     (case GetOrInitBandwidthState st orgID epoch of
        (st', state) \<Rightarrow>
          if bs_ServeUsed state + count > bs_ServeCap state
            then Inl (E_bandwidth Bw_ErrServeBandwidthExhausted)
          else
            let state' = state\<lparr>bs_ServeUsed := bs_ServeUsed state + count\<rparr> in
            Inr (st'\<lparr>bw_states := kv_set (stateKey orgID epoch) (stateToStored state') (bw_states st')\<rparr>))"

definition GetBandwidthOverride :: "bandwidth_state \<Rightarrow> string \<Rightarrow> BandwidthOverride result" where
  "GetBandwidthOverride st orgID =
     (case kv_get (bw_overrides st) (overrideKey orgID) of
        None \<Rightarrow> Inl (E_bandwidth Bw_ErrOverrideNotFound)
      | Some stored \<Rightarrow> Inr (storedToOverride stored))"

definition SetBandwidthOverride ::
  "bandwidth_state \<Rightarrow> string \<Rightarrow> u64 \<Rightarrow> u64 \<Rightarrow> bandwidth_state" where
  "SetBandwidthOverride st orgID memoryCap serveCap =
     st\<lparr>bw_overrides := kv_set (overrideKey orgID)
       (overrideToStored (NewBandwidthOverride orgID memoryCap serveCap)) (bw_overrides st)\<rparr>"

definition DeleteBandwidthOverride :: "bandwidth_state \<Rightarrow> string \<Rightarrow> bandwidth_state" where
  "DeleteBandwidthOverride st orgID =
     st\<lparr>bw_overrides := kv_del (overrideKey orgID) (bw_overrides st)\<rparr>"

definition GetRemainingBandwidth ::
  "bandwidth_state \<Rightarrow> string \<Rightarrow> u64 \<Rightarrow> bandwidth_state \<times> u64 \<times> u64" where
  "GetRemainingBandwidth st orgID epoch =
     (case GetOrInitBandwidthState st orgID epoch of
        (st', state) \<Rightarrow>
          (st', bs_MemoryCap state - bs_MemoryUsed state, bs_ServeCap state - bs_ServeUsed state))"

subsection \<open>Genesis\<close>

fun bandwidth_InitGenesis_overrides ::
  "BandwidthOverride list \<Rightarrow> string list \<Rightarrow> StoredBandwidthOverride kv \<Rightarrow> StoredBandwidthOverride kv" where
  "bandwidth_InitGenesis_overrides [] seenOverrides t = t"
| "bandwidth_InitGenesis_overrides (bo # bos) seenOverrides t =
     (if bo_OrgID bo \<in> set seenOverrides then bandwidth_InitGenesis_overrides bos seenOverrides t
      else bandwidth_InitGenesis_overrides bos (bo_OrgID bo # seenOverrides)
        (kv_set (overrideKey (bo_OrgID bo)) (overrideToStored bo) t))"

definition bandwidth_InitGenesis ::
  "bandwidth_GenesisState \<Rightarrow> bandwidth_state \<Rightarrow> bandwidth_state" where
  "bandwidth_InitGenesis g st = st\<lparr>
     bw_states := fold (\<lambda>bs. kv_set (stateKey (bs_OrgID bs) (bs_Epoch bs)) (stateToStored bs))
       (bg_BandwidthStates g) (bw_states st),
     bw_overrides := bandwidth_InitGenesis_overrides (bg_BandwidthOverrides g) [] (bw_overrides st)\<rparr>"

text \<open>Both export loops read from their prefix to the end of the store and drop what does not
  decode.\<close>

fun bandwidth_Export_states :: "bytes kv \<Rightarrow> BandwidthState list" where
  "bandwidth_Export_states [] = []"
| "bandwidth_Export_states ((k, bz) # es) =
     (case StoredBandwidthState_Unmarshal bz of
        None \<Rightarrow> bandwidth_Export_states es
      | Some stored \<Rightarrow> storedToState stored # bandwidth_Export_states es)"

fun bandwidth_Export_overrides :: "bytes kv \<Rightarrow> string list \<Rightarrow> BandwidthOverride list" where
  "bandwidth_Export_overrides [] seenOverrideOrgs = []"
| "bandwidth_Export_overrides ((k, bz) # es) seenOverrideOrgs =
     (case StoredBandwidthOverride_Unmarshal bz of
        None \<Rightarrow> bandwidth_Export_overrides es seenOverrideOrgs
      | Some stored \<Rightarrow>
          if sbo_OrgId stored \<in> set seenOverrideOrgs
            then bandwidth_Export_overrides es seenOverrideOrgs
          else storedToOverride stored
            # bandwidth_Export_overrides es (sbo_OrgId stored # seenOverrideOrgs))"

definition bandwidth_ExportGenesis :: "bandwidth_state \<Rightarrow> bandwidth_GenesisState" where
  "bandwidth_ExportGenesis st = \<lparr>
     bg_BandwidthStates = bandwidth_Export_states (kv_from ''state/'' (bandwidth_raw st)),
     bg_BandwidthOverrides = bandwidth_Export_overrides (kv_from ''override/'' (bandwidth_raw st)) []\<rparr>"

subsection \<open>Messages\<close>

record MsgSetBandwidthOverride =
  mbo_Signer :: string
  mbo_OrgId :: string
  mbo_MemoryCap :: u64
  mbo_ServeCap :: u64

record bandwidth_MsgUpdateParams =
  bmu_Authority :: string
  bmu_Params :: "bandwidth_Params option"

definition MsgSetBandwidthOverride_ValidateBasic :: "MsgSetBandwidthOverride \<Rightarrow> check" where
  "MsgSetBandwidthOverride_ValidateBasic m =
     (if mbo_Signer m = [] then Inl (Errorf ''signer cannot be empty'')
      else if mbo_OrgId m = [] then Inl (E_bandwidth Bw_ErrInvalidOrgID)
      else if mbo_MemoryCap m = 0 \<and> mbo_ServeCap m = 0 then Inl (E_bandwidth Bw_ErrInvalidCap)
      else Inr ())"

definition bandwidth_MsgUpdateParams_ValidateBasic :: "bandwidth_MsgUpdateParams \<Rightarrow> check" where
  "bandwidth_MsgUpdateParams_ValidateBasic m =
     (if bmu_Authority m = [] then Inl (Errorf ''authority cannot be empty'')
      else bandwidth_Params_Validate (bmu_Params m))"

definition Msg_SetBandwidthOverride ::
  "org_state \<Rightarrow> bandwidth_state \<Rightarrow> MsgSetBandwidthOverride \<Rightarrow> bandwidth_state result" where
  "Msg_SetBandwidthOverride os st msg =
     (case MsgSetBandwidthOverride_ValidateBasic msg of
        Inl e \<Rightarrow> Inl e
      | Inr _ \<Rightarrow>
          if \<not> HasOrg os (mbo_OrgId msg) then Inl (E_bandwidth Bw_ErrOrgNotFound)
          else if \<not> IsLeader os (mbo_OrgId msg) (mbo_Signer msg)
            then Inl (E_bandwidth Bw_ErrUnauthorized)
          else Inr (SetBandwidthOverride st (mbo_OrgId msg) (mbo_MemoryCap msg) (mbo_ServeCap msg)))"

definition bandwidth_Msg_UpdateParams ::
  "'x sdk \<Rightarrow> bandwidth_state \<Rightarrow> bandwidth_MsgUpdateParams \<Rightarrow> bandwidth_state result" where
  "bandwidth_Msg_UpdateParams K st msg =
     (if bmu_Authority msg \<noteq> authority K then Inl (E_bandwidth Bw_ErrUnauthorized)
      else case bandwidth_MsgUpdateParams_ValidateBasic msg of
        Inl e \<Rightarrow> Inl e
      | Inr _ \<Rightarrow>
          (case bmu_Params msg of
             None \<Rightarrow> Inl (Panic ''nil pointer dereference'')
           | Some p \<Rightarrow> Inr (bandwidth_SetParams p st)))"

end
