(* ===== verification/Bandwidth_Correct.thy ===== *)
theory Bandwidth_Correct
  imports Bandwidth
begin

section \<open>Bandwidth: correctness\<close>

text \<open>
  The budgets: along every sequence of keeper operations no budget is exceeded, and a sequence of
  consumptions succeeds exactly when its sum fits.  The wire format: the records decode to
  themselves, and a budget record also decodes as an override record, which is what genesis
  export makes of it.
\<close>

lemmas bandwidth_conv_defs =
  stateToStored_def storedToState_def overrideToStored_def storedToOverride_def

lemma storedToState_simps [simp]:
  "storedToState (stateToStored s) = s" "stateToStored (storedToState t) = t"
  "bs_OrgID (storedToState t) = sbs_OrgId t" "bs_Epoch (storedToState t) = sbs_Epoch t"
  "bs_MemoryUsed (storedToState t) = sbs_MemoryUsed t" "bs_MemoryCap (storedToState t) = sbs_MemoryCap t"
  "bs_ServeUsed (storedToState t) = sbs_ServeUsed t" "bs_ServeCap (storedToState t) = sbs_ServeCap t"
  "sbs_OrgId (stateToStored s) = bs_OrgID s" "sbs_Epoch (stateToStored s) = bs_Epoch s"
  "sbs_MemoryUsed (stateToStored s) = bs_MemoryUsed s" "sbs_MemoryCap (stateToStored s) = bs_MemoryCap s"
  "sbs_ServeUsed (stateToStored s) = bs_ServeUsed s" "sbs_ServeCap (stateToStored s) = bs_ServeCap s"
  by (simp_all add: bandwidth_conv_defs)

lemma storedToOverride_simps [simp]:
  "storedToOverride (overrideToStored b) = b" "overrideToStored (storedToOverride t) = t"
  "bo_OrgID (storedToOverride t) = sbo_OrgId t" "sbo_OrgId (overrideToStored b) = bo_OrgID b"
  by (simp_all add: bandwidth_conv_defs)

lemma stateKey_inj [simp]: "stateKey o1 e1 = stateKey o2 e2 \<longleftrightarrow> o1 = o2 \<and> e1 = e2"
  using append_sep_inj_right [of "CHR ''/''" "FormatUint e1" "FormatUint e2" o1 o2]
  by (simp add: stateKey_def)

lemma overrideKey_inj [simp]: "overrideKey o1 = overrideKey o2 \<longleftrightarrow> o1 = o2"
  by (simp add: overrideKey_def)

subsection \<open>Budgets are never exceeded\<close>

text \<open>A Go string or byte slice has a length that fits an \<open>int\<close>.\<close>

definition go_string :: "string \<Rightarrow> bool" where
  "go_string s \<longleftrightarrow> length s < 2 ^ 63"

definition budget_ok :: "StoredBandwidthState \<Rightarrow> bool" where
  "budget_ok s \<longleftrightarrow> sbs_MemoryUsed s \<le> sbs_MemoryCap s \<and> sbs_ServeUsed s \<le> sbs_ServeCap s"

definition bandwidth_inv :: "bandwidth_state \<Rightarrow> bool" where
  "bandwidth_inv st \<longleftrightarrow> kv_ok (bw_states st) \<and> kv_ok (bw_overrides st) \<and>
     (\<forall>(k, s) \<in> set (bw_states st). k = stateKey (sbs_OrgId s) (sbs_Epoch s) \<and> budget_ok s \<and>
        sbs_OrgId s \<noteq> [] \<and> go_string (sbs_OrgId s)) \<and>
     (\<forall>(k, s) \<in> set (bw_overrides st). k = overrideKey (sbo_OrgId s) \<and> sbo_OrgId s \<noteq> [] \<and>
        go_string (sbo_OrgId s))"

text \<open>The operations that change the store, as the other modules and the messages call them.\<close>

inductive bandwidth_step :: "bandwidth_state \<Rightarrow> bandwidth_state \<Rightarrow> bool" where
  bw_init: "i \<noteq> [] \<Longrightarrow> go_string i \<Longrightarrow>
     bandwidth_step st (fst (GetOrInitBandwidthState st i e))"
| bw_memory: "i \<noteq> [] \<Longrightarrow> go_string i \<Longrightarrow> ConsumeMemoryBandwidth st i e = Inr st' \<Longrightarrow>
     bandwidth_step st st'"
| bw_serve: "i \<noteq> [] \<Longrightarrow> go_string i \<Longrightarrow> ConsumeServeBandwidth st i e n = Inr st' \<Longrightarrow>
     bandwidth_step st st'"
| bw_override: "go_string (mbo_OrgId m) \<Longrightarrow> Msg_SetBandwidthOverride os st m = Inr st' \<Longrightarrow>
     bandwidth_step st st'"
| bw_delete: "bandwidth_step st (DeleteBandwidthOverride st i)"
| bw_update_params: "bandwidth_step st (bandwidth_SetParams p st)"

lemma GetOrInit_state:
  assumes "GetOrInitBandwidthState st i e = (st', s)"
  shows "kv_get (bw_states st') (stateKey i e) = Some (stateToStored s)"
    and "bw_overrides st' = bw_overrides st" "bw_params st' = bw_params st" "bw_marker st' = bw_marker st"
    and "k \<noteq> stateKey i e \<Longrightarrow> kv_get (bw_states st') k = kv_get (bw_states st) k"
  using assms by (auto simp: GetOrInitBandwidthState_def Let_def split: option.splits prod.splits)

lemma bandwidth_inv_stateD:
  assumes "bandwidth_inv st" "kv_get (bw_states st) (stateKey i e) = Some s"
  shows "sbs_OrgId s = i" "sbs_Epoch s = e" "budget_ok s" "i \<noteq> []" "go_string i"
proof -
  have "(stateKey i e, s) \<in> set (bw_states st)" using assms(2) by (rule kv_get_SomeD)
  then show "sbs_OrgId s = i" "sbs_Epoch s = e" "budget_ok s" "i \<noteq> []" "go_string i"
    using assms(1) by (auto simp: bandwidth_inv_def)
qed

lemma bandwidth_inv_set:
  assumes "bandwidth_inv st" "i \<noteq> []" "go_string i" "sbs_OrgId s = i" "sbs_Epoch s = e" "budget_ok s"
  shows "bandwidth_inv (st\<lparr>bw_states := kv_set (stateKey i e) s (bw_states st)\<rparr>)"
  using assms set_kv_set_subset [of "stateKey i e" s "bw_states st"]
  unfolding bandwidth_inv_def by auto

lemma bandwidth_inv_override_set:
  assumes "bandwidth_inv st" "i \<noteq> []" "go_string i" "sbo_OrgId s = i"
  shows "bandwidth_inv (st\<lparr>bw_overrides := kv_set (overrideKey i) s (bw_overrides st)\<rparr>)"
  using assms set_kv_set_subset [of "overrideKey i" s "bw_overrides st"]
  unfolding bandwidth_inv_def by auto

lemma GetOrInit_inv:
  assumes "bandwidth_inv st" "i \<noteq> []" "go_string i" "GetOrInitBandwidthState st i e = (st', s)"
  shows "bandwidth_inv st' \<and> bs_OrgID s = i \<and> bs_Epoch s = e \<and> budget_ok (stateToStored s)"
proof (cases "kv_get (bw_states st) (stateKey i e)")
  case None
  with assms show ?thesis
    by (auto simp: GetOrInitBandwidthState_def NewBandwidthState_def budget_ok_def Let_def
        split: option.splits prod.splits intro!: bandwidth_inv_set)
next
  case (Some t)
  with assms bandwidth_inv_stateD [OF assms(1) Some] show ?thesis
    by (auto simp: GetOrInitBandwidthState_def)
qed

lemma bandwidth_step_inv: "bandwidth_step st st' \<Longrightarrow> bandwidth_inv st \<Longrightarrow> bandwidth_inv st'"
proof (induction rule: bandwidth_step.induct)
  case (bw_init i st e)
  then show ?case
    using GetOrInit_inv [of st i e "fst (GetOrInitBandwidthState st i e)"] by (simp add: prod_eq_iff)
next
  case (bw_memory i st e st')
  obtain st1 s where g: "GetOrInitBandwidthState st i e = (st1, s)" by fastforce
  note inv = GetOrInit_inv [OF bw_memory(4,1,2) g]
  show ?case
    using bw_memory(3) inv bw_memory(1,2) unat_Suc_less [of "bs_MemoryUsed s" "bs_MemoryCap s"]
    by (auto simp: ConsumeMemoryBandwidth_def g Let_def budget_ok_def word_le_nat_alt word_less_nat_alt
        split: if_splits intro!: bandwidth_inv_set)
next
  case (bw_serve i st e n st')
  obtain st1 s where g: "GetOrInitBandwidthState st i e = (st1, s)" by fastforce
  note inv = GetOrInit_inv [OF bw_serve(4,1,2) g]
  show ?case
    using bw_serve(3) inv bw_serve(1,2)
    by (auto simp: ConsumeServeBandwidth_def g Let_def budget_ok_def not_less
        split: if_splits intro!: bandwidth_inv_set)
next
  case (bw_override m os st st')
  then show ?case
    by (auto simp: Msg_SetBandwidthOverride_def MsgSetBandwidthOverride_ValidateBasic_def
        SetBandwidthOverride_def NewBandwidthOverride_def split: sum.splits if_splits
        intro!: bandwidth_inv_override_set)
next
  case (bw_delete st i)
  then show ?case by (auto simp: bandwidth_inv_def DeleteBandwidthOverride_def kv_del_def kv_ok_filter)
next
  case (bw_update_params st p)
  then show ?case by (simp add: bandwidth_SetParams_def bandwidth_inv_def)
qed

text \<open>A parameter update is authorised by the governance account and is such a step.\<close>

lemma Msg_UpdateParams_step:
  "bandwidth_Msg_UpdateParams K st u = Inr st' \<Longrightarrow>
     bmu_Authority u = authority K \<and> bandwidth_step st st'"
  by (auto simp: bandwidth_Msg_UpdateParams_def split: sum.splits if_splits option.splits
      intro: bw_update_params)

lemma bandwidth_empty_inv: "bandwidth_inv bandwidth_empty"
  by (simp add: bandwidth_inv_def bandwidth_empty_def)

lemma bandwidth_reachable_inv: "bandwidth_step\<^sup>*\<^sup>* bandwidth_empty st \<Longrightarrow> bandwidth_inv st"
  by (induction rule: rtranclp_induct) (auto intro: bandwidth_empty_inv bandwidth_step_inv)

subsection \<open>Consumption\<close>

fun ConsumeServe_all :: "bandwidth_state \<Rightarrow> string \<Rightarrow> u64 \<Rightarrow> u64 list \<Rightarrow> bandwidth_state result" where
  "ConsumeServe_all st i e [] = Inr st"
| "ConsumeServe_all st i e (n # ns) =
     (case ConsumeServeBandwidth st i e n of Inl x \<Rightarrow> Inl x | Inr st' \<Rightarrow> ConsumeServe_all st' i e ns)"

lemma ConsumeServe_known:
  assumes "GetBandwidthState st i e = Some s" "unat (bs_ServeCap s) + unat n < 2 ^ 64"
    "bs_ServeUsed s \<le> bs_ServeCap s"
  shows "ConsumeServeBandwidth st i e n =
    (if unat (bs_ServeUsed s) + unat n \<le> unat (bs_ServeCap s)
     then Inr (st\<lparr>bw_states := kv_set (stateKey i e)
       (stateToStored (s\<lparr>bs_ServeUsed := bs_ServeUsed s + n\<rparr>)) (bw_states st)\<rparr>)
     else Inl (E_bandwidth Bw_ErrServeBandwidthExhausted))"
proof -
  obtain t where t: "kv_get (bw_states st) (stateKey i e) = Some t" "s = storedToState t"
    using assms(1) by (auto simp: GetBandwidthState_def)
  have "unat (bs_ServeUsed s) \<le> unat (bs_ServeCap s)"
    using assms(3) by (simp add: word_le_nat_alt)
  then have "unat (bs_ServeUsed s + n) = unat (bs_ServeUsed s) + unat n"
    using assms(2) by (intro unat_add_no_overflow) simp
  then show ?thesis
    using t by (simp add: ConsumeServeBandwidth_def GetOrInitBandwidthState_def Let_def
        word_less_nat_alt not_less)
qed

lemma ConsumeServe_all_exact:
  assumes "GetBandwidthState st i e = Some s" "bs_ServeUsed s \<le> bs_ServeCap s"
    "\<forall>n\<in>set ns. unat (bs_ServeCap s) + unat n < 2 ^ 64"
  shows "if unat (bs_ServeUsed s) + sum_list (map unat ns) \<le> unat (bs_ServeCap s)
    then \<exists>st'. ConsumeServe_all st i e ns = Inr st' \<and>
      (\<exists>s'. GetBandwidthState st' i e = Some s' \<and> bs_ServeCap s' = bs_ServeCap s \<and>
        unat (bs_ServeUsed s') = unat (bs_ServeUsed s) + sum_list (map unat ns))
    else ConsumeServe_all st i e ns = Inl (E_bandwidth Bw_ErrServeBandwidthExhausted)"
  using assms
proof (induction ns arbitrary: st s)
  case (Cons n ns)
  let ?u = "unat (bs_ServeUsed s)" and ?c = "unat (bs_ServeCap s)"
  note step = ConsumeServe_known [OF Cons.prems(1) _ Cons.prems(2), of n]
  show ?case
  proof (cases "?u + unat n \<le> ?c")
    case False
    then show ?thesis using step Cons.prems(3) by simp
  next
    case True
    let ?s = "s\<lparr>bs_ServeUsed := bs_ServeUsed s + n\<rparr>"
    let ?st = "st\<lparr>bw_states := kv_set (stateKey i e) (stateToStored ?s) (bw_states st)\<rparr>"
    have "?u + unat n < 2 ^ 64"
      using True unsigned_less [of "bs_ServeCap s", where ?'a = nat] by simp
    then have used: "unat (bs_ServeUsed s + n) = ?u + unat n"
      using unat_add_no_overflow [of "bs_ServeUsed s" n] by simp
    have "GetBandwidthState ?st i e = Some ?s" by (simp add: GetBandwidthState_def)
    moreover have "bs_ServeUsed ?s \<le> bs_ServeCap ?s" using True used by (simp add: word_le_nat_alt)
    ultimately show ?thesis
      using Cons.IH [of ?st ?s] Cons.prems(3) step True used
      by (simp add: add.assoc split: if_splits)
  qed
qed (auto simp: word_le_nat_alt)

subsection \<open>Wire format\<close>

lemma budget_fits:
  "go_string (sbs_OrgId s) \<Longrightarrow>
     list_all (field_fits StoredBandwidthState_schema) (StoredBandwidthState_fields s)"
  by (simp add: StoredBandwidthState_fields_def StoredBandwidthState_schema_def field_list_defs
      go_string_def)

lemma budget_round_trip:
  assumes "go_string (sbs_OrgId s)"
  shows "StoredBandwidthState_Unmarshal (StoredBandwidthState_Marshal s) = Some s"
proof -
  have "fold StoredBandwidthState_set (StoredBandwidthState_fields s) \<lparr>sbs_OrgId = [], sbs_Epoch = 0, sbs_MemoryUsed = 0, sbs_MemoryCap = 0,
      sbs_ServeUsed = 0, sbs_ServeCap = 0\<rparr> = s"
    by (cases s) (simp add: StoredBandwidthState_fields_def StoredBandwidthState_set_def field_list_defs)
  then show ?thesis
    by (simp add: StoredBandwidthState_Unmarshal_def StoredBandwidthState_Marshal_def
        unmarshal_marshal [OF budget_fits [OF assms]])
qed

lemma override_fits:
  "go_string (sbo_OrgId s) \<Longrightarrow>
     list_all (field_fits StoredBandwidthOverride_schema) (StoredBandwidthOverride_fields s)"
  by (simp add: StoredBandwidthOverride_fields_def StoredBandwidthOverride_schema_def field_list_defs
      go_string_def)

lemma override_round_trip:
  assumes "go_string (sbo_OrgId s)"
  shows "StoredBandwidthOverride_Unmarshal (StoredBandwidthOverride_Marshal s) = Some s"
proof -
  have "fold StoredBandwidthOverride_set (StoredBandwidthOverride_fields s) \<lparr>sbo_OrgId = [], sbo_MemoryCap = 0, sbo_ServeCap = 0\<rparr> = s"
    by (cases s) (simp add: StoredBandwidthOverride_fields_def StoredBandwidthOverride_set_def field_list_defs)
  then show ?thesis
    by (simp add: StoredBandwidthOverride_Unmarshal_def StoredBandwidthOverride_Marshal_def
        unmarshal_marshal [OF override_fits [OF assms]])
qed

text \<open>A budget read as an override: the epoch becomes the memory cap and the memory used the
  serve cap, the other fields are unknown and skipped.\<close>

lemma budget_as_override:
  assumes "go_string (sbs_OrgId s)"
  shows "StoredBandwidthOverride_Unmarshal (StoredBandwidthState_Marshal s) =
    Some \<lparr>sbo_OrgId = sbs_OrgId s, sbo_MemoryCap = sbs_Epoch s, sbo_ServeCap = sbs_MemoryUsed s\<rparr>"
proof -
  have "unmarshal StoredBandwidthOverride_schema (marshal (StoredBandwidthState_fields s)) =
      Some (filter (field_fits StoredBandwidthOverride_schema) (StoredBandwidthState_fields s))"
    using assms by (intro unmarshal_other)
      (simp add: StoredBandwidthState_fields_def StoredBandwidthOverride_schema_def field_list_defs
        go_string_def)
  then show ?thesis
    using assms by (simp add: StoredBandwidthOverride_Unmarshal_def StoredBandwidthState_Marshal_def
        StoredBandwidthState_fields_def StoredBandwidthOverride_schema_def field_list_defs
        StoredBandwidthOverride_set_def go_string_def)
qed

lemma marker_not_decoded [simp]:
  "StoredBandwidthState_Unmarshal genesisInitMarkerValue = None"
  "StoredBandwidthOverride_Unmarshal genesisInitMarkerValue = None"
  by (simp_all add: StoredBandwidthState_Unmarshal_def StoredBandwidthOverride_Unmarshal_def
      genesisInitMarkerValue_def unmarshal_tag_zero)

lemma params_as_override:
  "StoredBandwidthOverride_Unmarshal (bandwidth_Params_Marshal p) = Some t \<Longrightarrow> sbo_OrgId t = []"
proof (cases "bp_DefaultMemoryCapPerEpoch p = 0")
  case True
  then show "StoredBandwidthOverride_Unmarshal (bandwidth_Params_Marshal p) = Some t \<Longrightarrow> sbo_OrgId t = []"
    using unmarshal_marshal [of StoredBandwidthOverride_schema "varint_field 2 (bp_DefaultServeCapPerEpoch p)"]
    by (auto simp: StoredBandwidthOverride_Unmarshal_def bandwidth_Params_Marshal_def field_list_defs
        StoredBandwidthOverride_schema_def StoredBandwidthOverride_set_def split: if_splits)
next
  case False
  then have "unmarshal StoredBandwidthOverride_schema (marshal ((1, Varint (bp_DefaultMemoryCapPerEpoch p))
      # varint_field 2 (bp_DefaultServeCapPerEpoch p))) = None"
    using unmarshal_clash [of StoredBandwidthOverride_schema "[]"]
    by (simp add: StoredBandwidthOverride_schema_def)
  with False show "StoredBandwidthOverride_Unmarshal (bandwidth_Params_Marshal p) = Some t \<Longrightarrow> sbo_OrgId t = []"
    by (simp add: StoredBandwidthOverride_Unmarshal_def bandwidth_Params_Marshal_def varint_field_def)
qed

subsection \<open>Genesis export and import\<close>

lemma marker_key_last: "prefix [c] k \<Longrightarrow> of_char c < (255 :: nat) \<Longrightarrow> k < genesisInitMarkerKey"
  by (cases k) (auto simp: genesisInitMarkerKey_def less_char_def)

lemma Export_states_append:
  "bandwidth_Export_states (s @ t) = bandwidth_Export_states s @ bandwidth_Export_states t"
  by (induction s rule: bandwidth_Export_states.induct) (auto split: option.splits)

lemma Export_states_table:
  assumes "\<forall>(k, s) \<in> set t. go_string (sbs_OrgId s)"
  shows "bandwidth_Export_states (map (\<lambda>(k, v). (k, StoredBandwidthState_Marshal v)) t)
    = map (\<lambda>e. storedToState (snd e)) t"
  using assms by (induction t) (auto simp: budget_round_trip)

lemma key_ranges:
  "overrideKey i < ''state/''" "''override/'' \<le> overrideKey i" "''state/'' \<le> stateKey i e"
  "''override/'' \<le> stateKey i e" "''state/'' \<le> genesisInitMarkerKey"
  "''override/'' \<le> genesisInitMarkerKey" "''params'' < ''state/''" "''override/'' \<le> ''params''"
  by (simp_all add: overrideKey_def stateKey_def genesisInitMarkerKey_def less_char_def)

lemma raw_keys:
  assumes "bandwidth_inv st"
  shows "kv_from ''state/'' (bandwidth_raw st) =
      map (\<lambda>(k, v). (k, StoredBandwidthState_Marshal v)) (bw_states st) @ marker_entries (bw_marker st)"
    and "kv_from ''override/'' (bandwidth_raw st) = bandwidth_raw st"
proof -
  let ?O = "map (\<lambda>(k, v). (k, StoredBandwidthOverride_Marshal v)) (bw_overrides st)"
  let ?P = "(case bw_params st of None \<Rightarrow> [] | Some p \<Rightarrow> [(''params'', bandwidth_Params_Marshal p)])"
  let ?S = "map (\<lambda>(k, v). (k, StoredBandwidthState_Marshal v)) (bw_states st)"
  let ?M = "marker_entries (bw_marker st)"
  have O: "fst e < ''state/'' \<and> ''override/'' \<le> fst e" if "e \<in> set ?O" for e
  proof -
    from that assms have "\<exists>i. fst e = overrideKey i" by (fastforce simp: bandwidth_inv_def)
    then show ?thesis using key_ranges(1,2) by metis
  qed
  have S: "''state/'' \<le> fst e \<and> ''override/'' \<le> fst e" if "e \<in> set ?S" for e
  proof -
    from that assms have "\<exists>i n. fst e = stateKey i n" by (fastforce simp: bandwidth_inv_def)
    then show ?thesis using key_ranges(3,4) by metis
  qed
  have P: "fst e < ''state/'' \<and> ''override/'' \<le> fst e" if "e \<in> set ?P" for e
    using that by (auto simp: key_ranges split: option.splits)
  have M: "''state/'' \<le> fst e \<and> ''override/'' \<le> fst e" if "e \<in> set ?M" for e
    using that by (auto simp: marker_entries_def key_ranges split: if_splits)
  show "kv_from ''state/'' (bandwidth_raw st) = ?S @ ?M"
    using kv_from_none [of ?O "''state/''"] kv_from_none [of ?P "''state/''"]
      kv_from_all [of ?S "''state/''"] kv_from_all [of ?M "''state/''"] O P S M
    unfolding bandwidth_raw_def kv_from_append by simp
  show "kv_from ''override/'' (bandwidth_raw st) = bandwidth_raw st"
    using kv_from_all [of ?O "''override/''"] kv_from_all [of ?P "''override/''"]
      kv_from_all [of ?S "''override/''"] kv_from_all [of ?M "''override/''"] O P S M
    unfolding bandwidth_raw_def kv_from_append by simp
qed

text \<open>Only the first record of an organisation that decodes as an override is exported, and only
  the first override of an organisation is imported.\<close>

definition decoded_overrides :: "bytes kv \<Rightarrow> StoredBandwidthOverride list" where
  "decoded_overrides es = List.map_filter (\<lambda>e. StoredBandwidthOverride_Unmarshal (snd e)) es"

lemma find_Export_overrides:
  "i \<notin> set seen \<Longrightarrow> find (\<lambda>b. bo_OrgID b = i) (bandwidth_Export_overrides es seen) =
     map_option storedToOverride (find (\<lambda>s. sbo_OrgId s = i) (decoded_overrides es))"
  by (induction es seen rule: bandwidth_Export_overrides.induct)
    (auto simp: decoded_overrides_def List.map_filter_simps split: option.splits)

lemma get_InitGenesis_overrides:
  "kv_get (bandwidth_InitGenesis_overrides bos seen t) (overrideKey i) =
     (if i \<in> set seen then kv_get t (overrideKey i)
      else case find (\<lambda>b. bo_OrgID b = i) bos of
        None \<Rightarrow> kv_get t (overrideKey i) | Some b \<Rightarrow> Some (overrideToStored b))"
  by (induction bos seen t rule: bandwidth_InitGenesis_overrides.induct)
    (auto simp: kv_get_set split: option.splits)

lemma decoded_append: "decoded_overrides (s @ t) = decoded_overrides s @ decoded_overrides t"
  by (induction s) (auto simp: decoded_overrides_def List.map_filter_simps split: option.splits)

lemma decoded_raw:
  assumes "bandwidth_inv st"
  shows "\<exists>ps. (\<forall>p\<in>set ps. sbo_OrgId p = []) \<and>
    decoded_overrides (bandwidth_raw st) = map snd (bw_overrides st) @ ps @
      map (\<lambda>e. \<lparr>sbo_OrgId = sbs_OrgId (snd e), sbo_MemoryCap = sbs_Epoch (snd e),
        sbo_ServeCap = sbs_MemoryUsed (snd e)\<rparr>) (bw_states st)"
proof -
  have "decoded_overrides (map (\<lambda>(k, v). (k, StoredBandwidthOverride_Marshal v)) t) = map snd t"
    if "\<forall>e\<in>set t. go_string (sbo_OrgId (snd e))" for t
    using that by (induction t) (auto simp: decoded_overrides_def List.map_filter_simps override_round_trip)
  moreover have "\<forall>e\<in>set (bw_overrides st). go_string (sbo_OrgId (snd e))"
    using assms by (auto simp: bandwidth_inv_def)
  moreover have "decoded_overrides (map (\<lambda>(k, v). (k, StoredBandwidthState_Marshal v)) t) =
      map (\<lambda>e. \<lparr>sbo_OrgId = sbs_OrgId (snd e), sbo_MemoryCap = sbs_Epoch (snd e),
        sbo_ServeCap = sbs_MemoryUsed (snd e)\<rparr>) t"
    if "\<forall>e\<in>set t. go_string (sbs_OrgId (snd e))" for t
    using that by (induction t) (auto simp: decoded_overrides_def List.map_filter_simps budget_as_override)
  moreover have "\<forall>e\<in>set (bw_states st). go_string (sbs_OrgId (snd e))"
    using assms by (auto simp: bandwidth_inv_def)
  moreover have "decoded_overrides (marker_entries m) = []" for m
    by (simp add: decoded_overrides_def marker_entries_def List.map_filter_simps)
  moreover have "\<forall>p\<in>set (decoded_overrides
      (case bw_params st of None \<Rightarrow> [] | Some p \<Rightarrow> [(''params'', bandwidth_Params_Marshal p)])). sbo_OrgId p = []"
    by (auto simp: decoded_overrides_def List.map_filter_simps dest: params_as_override
        split: option.splits)
  ultimately show ?thesis
    by (intro exI [of _ "decoded_overrides
        (case bw_params st of None \<Rightarrow> [] | Some p \<Rightarrow> [(''params'', bandwidth_Params_Marshal p)])"])
      (simp add: bandwidth_raw_def decoded_append)
qed

lemma find_SomeD: "find P xs = Some x \<Longrightarrow> x \<in> set xs \<and> P x"
  by (induction xs) (auto split: if_splits)

lemma find_append: "find P (xs @ ys) = (case find P xs of None \<Rightarrow> find P ys | Some x \<Rightarrow> Some x)"
  by (induction xs) auto

lemma find_override:
  assumes "bandwidth_inv st"
  shows "find (\<lambda>s. sbo_OrgId s = i) (map snd (bw_overrides st)) = kv_get (bw_overrides st) (overrideKey i)"
proof -
  have "find (\<lambda>s. sbo_OrgId s = i) (map snd t) = map_of t (overrideKey i)"
    if "\<forall>(k, s) \<in> set t. k = overrideKey (sbo_OrgId s)" for t
    using that by (induction t) auto
  moreover have "\<forall>(k, s) \<in> set (bw_overrides st). k = overrideKey (sbo_OrgId s)"
    using assms by (auto simp: bandwidth_inv_def)
  ultimately show ?thesis by (simp add: kv_get_def)
qed

lemma reimported_override:
  assumes "bandwidth_inv st" "i \<noteq> []"
  shows "GetBandwidthOverride (bandwidth_InitGenesis (bandwidth_ExportGenesis st) bandwidth_empty) i =
    (case kv_get (bw_overrides st) (overrideKey i) of
       Some o' \<Rightarrow> Inr (storedToOverride o')
     | None \<Rightarrow> (case find (\<lambda>e. sbs_OrgId (snd e) = i) (bw_states st) of
         None \<Rightarrow> Inl (E_bandwidth Bw_ErrOverrideNotFound)
       | Some e \<Rightarrow> Inr \<lparr>bo_OrgID = i, bo_MemoryCap = sbs_Epoch (snd e), bo_ServeCap = sbs_MemoryUsed (snd e)\<rparr>))"
proof -
  let ?conv = "\<lambda>e :: bytes \<times> StoredBandwidthState. \<lparr>sbo_OrgId = sbs_OrgId (snd e), sbo_MemoryCap = sbs_Epoch (snd e),
    sbo_ServeCap = sbs_MemoryUsed (snd e)\<rparr> :: StoredBandwidthOverride"
  obtain ps where ps: "\<forall>p\<in>set ps. sbo_OrgId p = []"
    and dec: "decoded_overrides (bandwidth_raw st) = map snd (bw_overrides st) @ ps @
      map ?conv (bw_states st)"
    using decoded_raw [OF assms(1)] by blast
  have "find (\<lambda>s. sbo_OrgId s = i) ps = None"
    using ps assms(2) by (auto simp: find_None_iff)
  moreover have "find (\<lambda>s. sbo_OrgId s = i) (map ?conv t) =
      map_option ?conv (find (\<lambda>e. sbs_OrgId (snd e) = i) t)" for t
    by (induction t) auto
  ultimately have "find (\<lambda>s. sbo_OrgId s = i) (decoded_overrides (bandwidth_raw st)) =
      (case kv_get (bw_overrides st) (overrideKey i) of Some o' \<Rightarrow> Some o'
       | None \<Rightarrow> map_option ?conv (find (\<lambda>e. sbs_OrgId (snd e) = i) (bw_states st)))"
    by (simp add: dec find_append find_override [OF assms(1)] split: option.splits)
  then show ?thesis
    using raw_keys(2) [OF assms(1)] find_Export_overrides [of i "[]" "bandwidth_raw st"]
    by (auto simp: GetBandwidthOverride_def bandwidth_InitGenesis_def bandwidth_ExportGenesis_def
        bandwidth_empty_def get_InitGenesis_overrides storedToOverride_def overrideToStored_def
        dest: find_SomeD split: option.splits)
qed

lemma reimported_states:
  assumes "bandwidth_inv st"
  shows "bw_states (bandwidth_InitGenesis (bandwidth_ExportGenesis st) bandwidth_empty) = bw_states st"
proof -
  have "bandwidth_Export_states (marker_entries m) = []" for m
    by (simp add: marker_entries_def)
  then have "bg_BandwidthStates (bandwidth_ExportGenesis st) = map (\<lambda>e. storedToState (snd e)) (bw_states st)"
    using assms Export_states_table [of "bw_states st"]
    by (auto simp: bandwidth_ExportGenesis_def raw_keys(1) [OF assms] Export_states_append bandwidth_inv_def)
  moreover have "fold (\<lambda>w. kv_set (stateKey (bs_OrgID w) (bs_Epoch w)) (stateToStored w))
      (map (\<lambda>e. storedToState (snd e)) (bw_states st)) [] =
      map (\<lambda>e. (fst e, stateToStored (storedToState (snd e)))) (bw_states st)"
    using assms by (intro kv_reload_map) (auto simp: bandwidth_inv_def)
  ultimately show ?thesis by (simp add: bandwidth_InitGenesis_def bandwidth_empty_def)
qed

subsection \<open>Properties\<close>

text \<open>
  C13: In every state reachable from the empty store by initialising, consuming, overriding or
  reconfiguring budgets, no organisation has used more memory submissions or serves in an epoch
  than the budget recorded for that epoch.
\<close>

theorem bandwidth_within_caps:
  assumes "bandwidth_step\<^sup>*\<^sup>* bandwidth_empty st" "GetBandwidthState st i e = Some s"
  shows "bs_MemoryUsed s \<le> bs_MemoryCap s \<and> bs_ServeUsed s \<le> bs_ServeCap s"
proof -
  obtain t where "kv_get (bw_states st) (stateKey i e) = Some t" "s = storedToState t"
    using assms(2) by (auto simp: GetBandwidthState_def)
  then show ?thesis
    using bandwidth_inv_stateD(3) [OF bandwidth_reachable_inv [OF assms(1)]]
    by (auto simp: budget_ok_def)
qed

definition ex_bw1 :: bandwidth_state where
  "ex_bw1 = (case ConsumeServeBandwidth bandwidth_empty ''o'' 7 3 of Inl e \<Rightarrow> bandwidth_empty | Inr st \<Rightarrow> st)"

lemmas bandwidth_eval = ConsumeServeBandwidth_def ConsumeMemoryBandwidth_def
  GetOrInitBandwidthState_def GetBandwidthState_def
  bandwidth_empty_def bandwidth_GetParams_def bandwidth_DefaultParams_def NewBandwidthState_def
  bandwidth_conv_defs Let_def

lemma ex_bw1_eval:
  "ConsumeServeBandwidth bandwidth_empty ''o'' 7 3 = Inr ex_bw1"
  "GetBandwidthState ex_bw1 ''o'' 7 = Some \<lparr>bs_OrgID = ''o'', bs_Epoch = 7, bs_MemoryUsed = 0,
    bs_MemoryCap = 10000, bs_ServeUsed = 3, bs_ServeCap = 50000\<rparr>"
  by (simp_all add: ex_bw1_def bandwidth_eval)

lemma ex_bw1_reachable: "bandwidth_step\<^sup>*\<^sup>* bandwidth_empty ex_bw1"
  by (rule r_into_rtranclp, rule bw_serve [OF _ _ ex_bw1_eval(1)]) (simp_all add: go_string_def)

theorem bandwidth_within_caps_witness:
  "bandwidth_step\<^sup>*\<^sup>* bandwidth_empty ex_bw1 \<and>
   GetBandwidthState ex_bw1 ''o'' 7 = Some \<lparr>bs_OrgID = ''o'', bs_Epoch = 7, bs_MemoryUsed = 0,
     bs_MemoryCap = 10000, bs_ServeUsed = 3, bs_ServeCap = 50000\<rparr> \<and> (3 :: u64) \<le> 50000"
  using bandwidth_within_caps [OF ex_bw1_reachable ex_bw1_eval(2)] ex_bw1_reachable ex_bw1_eval(2)
  by simp

text \<open>
  C28: As long as the cap plus a single request fits in 64 bits, a sequence of serve consumptions of
  an organisation in one epoch succeeds exactly when the number already used plus the sum of the
  requests is at most the cap; the counter then grows by exactly that sum and the cap is unchanged,
  and otherwise the sequence stops with the exhaustion error.
\<close>

theorem serve_budget_exact:
  assumes "GetBandwidthState st i e = Some s" "bs_ServeUsed s \<le> bs_ServeCap s"
    "\<forall>n\<in>set ns. unat (bs_ServeCap s) + unat n < 2 ^ 64"
  shows "if unat (bs_ServeUsed s) + sum_list (map unat ns) \<le> unat (bs_ServeCap s)
    then \<exists>st'. ConsumeServe_all st i e ns = Inr st' \<and>
      (\<exists>s'. GetBandwidthState st' i e = Some s' \<and> bs_ServeCap s' = bs_ServeCap s \<and>
        unat (bs_ServeUsed s') = unat (bs_ServeUsed s) + sum_list (map unat ns))
    else ConsumeServe_all st i e ns = Inl (E_bandwidth Bw_ErrServeBandwidthExhausted)"
  using assms by (rule ConsumeServe_all_exact)

theorem serve_budget_exact_witness:
  "ConsumeServe_all ex_bw1 ''o'' 7 [49000, 998] = Inl (E_bandwidth Bw_ErrServeBandwidthExhausted) \<and>
   (\<exists>st'. ConsumeServe_all ex_bw1 ''o'' 7 [49000, 997] = Inr st')"
proof
  show "ConsumeServe_all ex_bw1 ''o'' 7 [49000, 998] = Inl (E_bandwidth Bw_ErrServeBandwidthExhausted)"
    using serve_budget_exact [OF ex_bw1_eval(2), of "[49000, 998]"] by simp
  show "\<exists>st'. ConsumeServe_all ex_bw1 ''o'' 7 [49000, 997] = Inr st'"
    using serve_budget_exact [OF ex_bw1_eval(2), of "[49000, 997]"] by auto
qed

text \<open>
  C29: Exporting the bandwidth genesis of a reachable state and importing it restores every budget
  and every override; but an organisation that has a budget record and no override comes back with
  an override made of that budget's epoch and memory counter, because the export loop for
  overrides runs on into the budget records and they decode as overrides.
\<close>

theorem bandwidth_reimport:
  assumes "bandwidth_step\<^sup>*\<^sup>* bandwidth_empty st" "i \<noteq> []"
  shows "bw_states (bandwidth_InitGenesis (bandwidth_ExportGenesis st) bandwidth_empty) = bw_states st \<and>
    GetBandwidthOverride (bandwidth_InitGenesis (bandwidth_ExportGenesis st) bandwidth_empty) i =
      (case kv_get (bw_overrides st) (overrideKey i) of
         Some o' \<Rightarrow> Inr (storedToOverride o')
       | None \<Rightarrow> (case find (\<lambda>e. sbs_OrgId (snd e) = i) (bw_states st) of
           None \<Rightarrow> Inl (E_bandwidth Bw_ErrOverrideNotFound)
         | Some e \<Rightarrow> Inr \<lparr>bo_OrgID = i, bo_MemoryCap = sbs_Epoch (snd e),
             bo_ServeCap = sbs_MemoryUsed (snd e)\<rparr>))"
  using reimported_states reimported_override bandwidth_reachable_inv [OF assms(1)] assms(2) by blast

theorem bandwidth_reimport_witness:
  "GetBandwidthOverride ex_bw1 ''o'' = Inl (E_bandwidth Bw_ErrOverrideNotFound) \<and>
   GetBandwidthOverride (bandwidth_InitGenesis (bandwidth_ExportGenesis ex_bw1) bandwidth_empty) ''o'' =
     Inr \<lparr>bo_OrgID = ''o'', bo_MemoryCap = 7, bo_ServeCap = 0\<rparr>"
  using bandwidth_reimport [OF ex_bw1_reachable, of "''o''"]
  by (simp add: ex_bw1_def bandwidth_eval GetBandwidthOverride_def)

end
