(* ===== verification/Emissions.thy ===== *)
theory Emissions
  imports KVStore Sdk Identity
begin

section \<open>Emissions: the daily mint and contributor rewards (x/emissions)\<close>

text \<open>
  Once per epoch the module takes a share of the validator pool and of the contributor pool,
  splits the contributor share equally among the contributors that had enough memories approved
  in the epoch, mints those coins into the module account and records the rewards; a contributor
  claims a reward to the wallet its passkey is bound to.  The data of \<open>x/emissions/types\<close>, the
  keeper with its auxiliary tables (gates, bootstrap credits), messages, epoch hook and genesis.

  The epoch hook swallows errors, so an operation that fails after a write leaves that write in
  the store.  Such operations return the state together with the outcome.  Rewards are stored as
  decimal text, as the source does.  \<open>ComputeRarityMultiplier\<close>, which nothing calls, computes
  with floating-point numbers and is not modelled.
\<close>

subsection \<open>Data\<close>

record EmissionPool =
  ep_TotalSupply :: u64
  ep_DailyMint :: u64
  ep_OperatorShare :: u64
  ep_ValidatorShare :: u64
  ep_Epoch :: u64
  ep_ValidatorPoolRemainingUvibe :: u64
  ep_ContributorPoolRemainingUvibe :: u64
  ep_ContributorRolloverUvibe :: u64
  ep_StartEpoch :: u64
  ep_TotalEpochsElapsed :: u64

definition EmissionPool_Validate :: "EmissionPool \<Rightarrow> check" where
  "EmissionPool_Validate p =
     (if ep_OperatorShare p + ep_ValidatorShare p \<noteq> 100 then Inl (E_emissions Em_ErrInvalidEmissionPool)
      else Inr ())"

record StoredEmissionPool =
  sep_TotalSupply :: u64
  sep_DailyMint :: u64
  sep_OperatorShare :: u64
  sep_ValidatorShare :: u64
  sep_Epoch :: u64
  sep_ValidatorPoolRemainingUvibe :: u64
  sep_ContributorPoolRemainingUvibe :: u64
  sep_ContributorRolloverUvibe :: u64
  sep_StartEpoch :: u64
  sep_TotalEpochsElapsed :: u64

record DailyEmission =
  de_Epoch :: u64
  de_TotalEmitted :: u64
  de_ValidatorShare :: u64

definition NewDailyEmission :: "u64 \<Rightarrow> u64 \<Rightarrow> u64 \<Rightarrow> DailyEmission" where
  "NewDailyEmission epoch totalEmitted validatorShare =
     \<lparr>de_Epoch = epoch, de_TotalEmitted = totalEmitted, de_ValidatorShare = validatorShare\<rparr>"

record StoredDailyEmission =
  sde_Epoch :: u64
  sde_TotalEmitted :: u64
  sde_ValidatorShare :: u64

record BootstrapCredit =
  bc_OperatorID :: string
  bc_Credits :: u64
  bc_Redeemed :: u64

definition NewBootstrapCredit :: "string \<Rightarrow> u64 \<Rightarrow> BootstrapCredit" where
  "NewBootstrapCredit operatorID credits =
     \<lparr>bc_OperatorID = operatorID, bc_Credits = credits, bc_Redeemed = 0\<rparr>"

definition CanRedeem :: "BootstrapCredit \<Rightarrow> u64 \<Rightarrow> bool" where
  "CanRedeem b amount \<longleftrightarrow> bc_Credits b - bc_Redeemed b \<ge> amount"

definition Redeem :: "BootstrapCredit \<Rightarrow> u64 \<Rightarrow> BootstrapCredit result" where
  "Redeem b amount =
     (if \<not> CanRedeem b amount then Inl (E_emissions Em_ErrInsufficientBalance)
      else Inr (b\<lparr>bc_Redeemed := bc_Redeemed b + amount\<rparr>))"

record StoredBootstrapCredit =
  sbc_OperatorId :: string
  sbc_Credits :: u64
  sbc_Redeemed :: u64

record AsymmetricGate =
  ag_OperatorID :: string
  ag_OrgID :: string
  ag_StoragePassed :: bool
  ag_RetrievalAllowed :: bool
  ag_Epoch :: u64

definition NewAsymmetricGate :: "string \<Rightarrow> string \<Rightarrow> bool \<Rightarrow> u64 \<Rightarrow> AsymmetricGate" where
  "NewAsymmetricGate operatorID orgID storagePassed epoch = \<lparr>
     ag_OperatorID = operatorID, ag_OrgID = orgID, ag_StoragePassed = storagePassed,
     ag_RetrievalAllowed = storagePassed, ag_Epoch = epoch\<rparr>"

record StoredAsymmetricGate =
  sag_OperatorId :: string
  sag_OrgId :: string
  sag_StoragePassed :: bool
  sag_RetrievalAllowed :: bool
  sag_Epoch :: u64

definition EmissionPoolToStored :: "EmissionPool \<Rightarrow> StoredEmissionPool" where
  "EmissionPoolToStored p = \<lparr>
     sep_TotalSupply = ep_TotalSupply p, sep_DailyMint = ep_DailyMint p,
     sep_OperatorShare = ep_OperatorShare p, sep_ValidatorShare = ep_ValidatorShare p,
     sep_Epoch = ep_Epoch p, sep_ValidatorPoolRemainingUvibe = ep_ValidatorPoolRemainingUvibe p,
     sep_ContributorPoolRemainingUvibe = ep_ContributorPoolRemainingUvibe p,
     sep_ContributorRolloverUvibe = ep_ContributorRolloverUvibe p,
     sep_StartEpoch = ep_StartEpoch p, sep_TotalEpochsElapsed = ep_TotalEpochsElapsed p\<rparr>"

definition StoredToEmissionPool :: "StoredEmissionPool \<Rightarrow> EmissionPool" where
  "StoredToEmissionPool s = \<lparr>
     ep_TotalSupply = sep_TotalSupply s, ep_DailyMint = sep_DailyMint s,
     ep_OperatorShare = sep_OperatorShare s, ep_ValidatorShare = sep_ValidatorShare s,
     ep_Epoch = sep_Epoch s, ep_ValidatorPoolRemainingUvibe = sep_ValidatorPoolRemainingUvibe s,
     ep_ContributorPoolRemainingUvibe = sep_ContributorPoolRemainingUvibe s,
     ep_ContributorRolloverUvibe = sep_ContributorRolloverUvibe s,
     ep_StartEpoch = sep_StartEpoch s, ep_TotalEpochsElapsed = sep_TotalEpochsElapsed s\<rparr>"

definition DailyEmissionToStored :: "DailyEmission \<Rightarrow> StoredDailyEmission" where
  "DailyEmissionToStored e = \<lparr>
     sde_Epoch = de_Epoch e, sde_TotalEmitted = de_TotalEmitted e, sde_ValidatorShare = de_ValidatorShare e\<rparr>"

definition StoredToDailyEmission :: "StoredDailyEmission \<Rightarrow> DailyEmission" where
  "StoredToDailyEmission s = \<lparr>
     de_Epoch = sde_Epoch s, de_TotalEmitted = sde_TotalEmitted s, de_ValidatorShare = sde_ValidatorShare s\<rparr>"

definition BootstrapCreditToStored :: "BootstrapCredit \<Rightarrow> StoredBootstrapCredit" where
  "BootstrapCreditToStored b = \<lparr>
     sbc_OperatorId = bc_OperatorID b, sbc_Credits = bc_Credits b, sbc_Redeemed = bc_Redeemed b\<rparr>"

definition StoredToBootstrapCredit :: "StoredBootstrapCredit \<Rightarrow> BootstrapCredit" where
  "StoredToBootstrapCredit s = \<lparr>
     bc_OperatorID = sbc_OperatorId s, bc_Credits = sbc_Credits s, bc_Redeemed = sbc_Redeemed s\<rparr>"

definition AsymmetricGateToStored :: "AsymmetricGate \<Rightarrow> StoredAsymmetricGate" where
  "AsymmetricGateToStored g = \<lparr>
     sag_OperatorId = ag_OperatorID g, sag_OrgId = ag_OrgID g, sag_StoragePassed = ag_StoragePassed g,
     sag_RetrievalAllowed = ag_RetrievalAllowed g, sag_Epoch = ag_Epoch g\<rparr>"

definition StoredToAsymmetricGate :: "StoredAsymmetricGate \<Rightarrow> AsymmetricGate" where
  "StoredToAsymmetricGate s = \<lparr>
     ag_OperatorID = sag_OperatorId s, ag_OrgID = sag_OrgId s, ag_StoragePassed = sag_StoragePassed s,
     ag_RetrievalAllowed = sag_RetrievalAllowed s, ag_Epoch = sag_Epoch s\<rparr>"

record emissions_Params =
  emp_DailyMintAmount :: u64
  emp_OperatorSharePercent :: u64
  emp_ValidatorSharePercent :: u64
  emp_StorageWeightPercent :: u64
  emp_RetrievalWeightPercent :: u64
  emp_RarityMultiplierCap :: string
  emp_BootstrapDurationEpochs :: u64
  emp_TotalSupplyUvibe :: u64
  emp_ValidatorEmissionPoolUvibe :: u64
  emp_ContributorAnnualCapUvibe :: u64
  emp_ScheduleDurationDays :: u64
  emp_ContributorQualifyThreshold :: u64

definition emissions_DefaultParams :: emissions_Params where
  "emissions_DefaultParams = \<lparr>
     emp_DailyMintAmount = 1000000000, emp_OperatorSharePercent = 80, emp_ValidatorSharePercent = 20,
     emp_StorageWeightPercent = 30, emp_RetrievalWeightPercent = 70, emp_RarityMultiplierCap = ''3.0'',
     emp_BootstrapDurationEpochs = 365, emp_TotalSupplyUvibe = 1000000000000000,
     emp_ValidatorEmissionPoolUvibe = 570000000000000, emp_ContributorAnnualCapUvibe = 10000000000000,
     emp_ScheduleDurationDays = 11680, emp_ContributorQualifyThreshold = 1\<rparr>"

definition emissions_Params_Validate :: "emissions_Params \<Rightarrow> check" where
  "emissions_Params_Validate p =
     (if emp_OperatorSharePercent p + emp_ValidatorSharePercent p \<noteq> 100
        then Inl (Errorf ''operator_share_percent + validator_share_percent must equal 100'')
      else if emp_StorageWeightPercent p + emp_RetrievalWeightPercent p \<noteq> 100
        then Inl (Errorf ''storage_weight_percent + retrieval_weight_percent must equal 100'')
      else Inr ())"

definition EmissionsModuleName :: string where "EmissionsModuleName = ''emissions''"
definition EpochsPerYear :: u64 where "EpochsPerYear = 365"

text \<open>The pointers of the slices of a genesis state are not nil.\<close>

record emissions_GenesisState =
  eg_EmissionPool :: "EmissionPool option"
  eg_DailyEmissions :: "DailyEmission list"
  eg_BootstrapCredits :: "BootstrapCredit list"
  eg_AsymmetricGates :: "AsymmetricGate list"
  eg_BootstrapExpiry :: u64

definition DefaultEmissionPool :: EmissionPool where
  "DefaultEmissionPool =
     (let p = emissions_DefaultParams; years = emp_ScheduleDurationDays p div EpochsPerYear in \<lparr>
        ep_TotalSupply = 0, ep_DailyMint = emp_DailyMintAmount p,
        ep_OperatorShare = emp_OperatorSharePercent p, ep_ValidatorShare = emp_ValidatorSharePercent p,
        ep_Epoch = 0, ep_ValidatorPoolRemainingUvibe = emp_ValidatorEmissionPoolUvibe p,
        ep_ContributorPoolRemainingUvibe = emp_ContributorAnnualCapUvibe p * years,
        ep_ContributorRolloverUvibe = 0, ep_StartEpoch = 0, ep_TotalEpochsElapsed = 0\<rparr>)"

definition emissions_DefaultGenesis :: emissions_GenesisState where
  "emissions_DefaultGenesis = \<lparr>
     eg_EmissionPool = Some DefaultEmissionPool, eg_DailyEmissions = [], eg_BootstrapCredits = [],
     eg_AsymmetricGates = [], eg_BootstrapExpiry = 0\<rparr>"

definition emissions_GenesisState_Validate :: "emissions_GenesisState \<Rightarrow> check" where
  "emissions_GenesisState_Validate g =
     (case eg_EmissionPool g of None \<Rightarrow> Inr () | Some p \<Rightarrow> EmissionPool_Validate p)"

subsection \<open>Store\<close>

text \<open>
  One table for each key prefix.  The pool, the bootstrap pool, the expiry and the average volume
  have one key each.
\<close>

record emissions_state =
  es_params :: "emissions_Params option"
  es_pool :: "StoredEmissionPool option"
  es_emissions :: "StoredDailyEmission kv"
  es_gates :: "StoredAsymmetricGate kv"
  es_bootstrap :: "StoredBootstrapCredit kv"
  es_bootstrappool :: "string option"
  es_contribreward :: "string kv"
  es_lifetimereward :: "string kv"
  es_bootstrapExpiry :: "string option"
  es_avgvolume :: "string option"

definition emissions_empty :: emissions_state where
  "emissions_empty = \<lparr>es_params = None, es_pool = None, es_emissions = [], es_gates = [],
     es_bootstrap = [], es_bootstrappool = None, es_contribreward = [], es_lifetimereward = [],
     es_bootstrapExpiry = None, es_avgvolume = None\<rparr>"

definition emissionKey :: "u64 \<Rightarrow> bytes" where
  "emissionKey epoch = ''emission/'' @ FormatUint epoch"

definition gateKey :: "string \<Rightarrow> string \<Rightarrow> u64 \<Rightarrow> bytes" where
  "gateKey operatorID orgID epoch = ''gate/'' @ operatorID @ ''/'' @ orgID @ ''/'' @ FormatUint epoch"

definition bootstrapKey :: "string \<Rightarrow> bytes" where
  "bootstrapKey operatorID = ''bootstrap/'' @ operatorID"

definition contribRewardKey :: "string \<Rightarrow> bytes" where
  "contribRewardKey addr = ''contribreward/'' @ addr"

definition lifetimeRewardKey :: "string \<Rightarrow> bytes" where
  "lifetimeRewardKey addr = ''lifetimereward/'' @ addr"

definition emissions_SetParams :: "emissions_Params \<Rightarrow> emissions_state \<Rightarrow> emissions_state" where
  "emissions_SetParams p st = st\<lparr>es_params := Some p\<rparr>"

definition emissions_GetParams :: "emissions_state \<Rightarrow> emissions_Params" where
  "emissions_GetParams st = (case es_params st of None \<Rightarrow> emissions_DefaultParams | Some p \<Rightarrow> p)"

definition GetEmissionPool :: "emissions_state \<Rightarrow> EmissionPool result" where
  "GetEmissionPool st =
     (case es_pool st of
        None \<Rightarrow> Inl (E_emissions Em_ErrNoEmissionPool)
      | Some stored \<Rightarrow> Inr \<lparr>
          ep_TotalSupply = sep_TotalSupply stored, ep_DailyMint = sep_DailyMint stored,
          ep_OperatorShare = sep_OperatorShare stored, ep_ValidatorShare = sep_ValidatorShare stored,
          ep_Epoch = sep_Epoch stored,
          ep_ValidatorPoolRemainingUvibe = sep_ValidatorPoolRemainingUvibe stored,
          ep_ContributorPoolRemainingUvibe = sep_ContributorPoolRemainingUvibe stored,
          ep_ContributorRolloverUvibe = sep_ContributorRolloverUvibe stored,
          ep_StartEpoch = sep_StartEpoch stored, ep_TotalEpochsElapsed = sep_TotalEpochsElapsed stored\<rparr>)"

definition SetEmissionPool :: "EmissionPool option \<Rightarrow> emissions_state \<Rightarrow> emissions_state result" where
  "SetEmissionPool pool st =
     (case pool of
        None \<Rightarrow> Inl (E_emissions Em_ErrInvalidEmissionPool)
      | Some p \<Rightarrow>
          (case EmissionPool_Validate p of
             Inl e \<Rightarrow> Inl e
           | Inr _ \<Rightarrow> Inr (st\<lparr>es_pool := Some (EmissionPoolToStored p)\<rparr>)))"

subsection \<open>Rewards\<close>

text \<open>A balance of one of the reward tables: absent is zero, text that does not parse an error.\<close>

definition read_balance :: "string kv \<Rightarrow> bytes \<Rightarrow> string \<Rightarrow> u64 result" where
  "read_balance t key msg =
     (case kv_get t key of
        None \<Rightarrow> Inr 0
      | Some bz \<Rightarrow> (case ParseUint bz of None \<Rightarrow> Inl (Errorf msg) | Some v \<Rightarrow> Inr v))"

text \<open>The pending balance is written before the lifetime balance is read.\<close>

definition AddContributorReward :: "emissions_state \<Rightarrow> string \<Rightarrow> u64 \<Rightarrow> emissions_state \<times> check" where
  "AddContributorReward st addr amount =
     (case read_balance (es_contribreward st) (contribRewardKey addr) ''parse contributor reward'' of
        Inl e \<Rightarrow> (st, Inl e)
      | Inr currentPending \<Rightarrow>
          let st1 = st\<lparr>es_contribreward := kv_set (contribRewardKey addr)
                (FormatUint (currentPending + amount)) (es_contribreward st)\<rparr> in
          (case read_balance (es_lifetimereward st1) (lifetimeRewardKey addr)
                  ''parse contributor lifetime reward'' of
             Inl e \<Rightarrow> (st1, Inl e)
           | Inr currentLifetime \<Rightarrow>
               (st1\<lparr>es_lifetimereward := kv_set (lifetimeRewardKey addr)
                  (FormatUint (currentLifetime + amount)) (es_lifetimereward st1)\<rparr>, Inr ())))"

definition SetContributorReward :: "emissions_state \<Rightarrow> string \<Rightarrow> u64 \<Rightarrow> emissions_state" where
  "SetContributorReward st addr amount =
     st\<lparr>es_contribreward := kv_set (contribRewardKey addr) (FormatUint amount) (es_contribreward st)\<rparr>"

definition GetContributorReward :: "emissions_state \<Rightarrow> string \<Rightarrow> u64 result" where
  "GetContributorReward st addr =
     read_balance (es_contribreward st) (contribRewardKey addr) ''parse contributor reward''"

definition GetLifetimeContributorReward :: "emissions_state \<Rightarrow> string \<Rightarrow> u64 result" where
  "GetLifetimeContributorReward st addr =
     read_balance (es_lifetimereward st) (lifetimeRewardKey addr) ''parse contributor lifetime reward''"

text \<open>The Go map of all rewards, listed by address; entries that do not parse are skipped.\<close>

fun GetAllContributorRewards_loop :: "string kv \<Rightarrow> u64 kv" where
  "GetAllContributorRewards_loop [] = []"
| "GetAllContributorRewards_loop ((key, bz) # es) =
     (case ParseUint bz of
        None \<Rightarrow> GetAllContributorRewards_loop es
      | Some amount \<Rightarrow> (drop (length ''contribreward/'') key, amount) # GetAllContributorRewards_loop es)"

definition GetAllContributorRewards :: "emissions_state \<Rightarrow> u64 kv" where
  "GetAllContributorRewards st =
     GetAllContributorRewards_loop (kv_prefix ''contribreward/'' (es_contribreward st))"

subsection \<open>The daily mint\<close>

definition remainingEpochs :: "emissions_Params \<Rightarrow> EmissionPool \<Rightarrow> u64" where
  "remainingEpochs params pool =
     (if emp_ScheduleDurationDays params > ep_TotalEpochsElapsed pool
      then emp_ScheduleDurationDays params - ep_TotalEpochsElapsed pool else 1)"

definition validatorEmission :: "emissions_Params \<Rightarrow> EmissionPool \<Rightarrow> u64" where
  "validatorEmission params pool =
     (if ep_ValidatorPoolRemainingUvibe pool > 0 then
        let v = ep_ValidatorPoolRemainingUvibe pool div remainingEpochs params pool in
        if v > ep_ValidatorPoolRemainingUvibe pool then ep_ValidatorPoolRemainingUvibe pool else v
      else 0)"

definition contributorBudget :: "emissions_Params \<Rightarrow> EmissionPool \<Rightarrow> u64" where
  "contributorBudget params pool =
     (if ep_ContributorPoolRemainingUvibe pool > 0 then
        let b0 = ep_ContributorPoolRemainingUvibe pool div remainingEpochs params pool;
            epochCap = emp_ContributorAnnualCapUvibe params div EpochsPerYear;
            b1 = (if epochCap > 0 \<and> b0 > epochCap then epochCap else b0) in
        if b1 > ep_ContributorPoolRemainingUvibe pool then ep_ContributorPoolRemainingUvibe pool else b1
      else 0)"

text \<open>The qualifying addresses; the order of the Go map does not matter, as they are sorted.\<close>

definition qualifying_contributors :: "emissions_Params \<Rightarrow> (string \<times> u64) list \<Rightarrow> string list" where
  "qualifying_contributors params counts =
     sort (map fst (filter (\<lambda>(addr, count).
       addr \<noteq> [] \<and> count \<ge> emp_ContributorQualifyThreshold params) counts))"

fun pay_contributors :: "emissions_state \<Rightarrow> string list \<Rightarrow> u64 \<Rightarrow> emissions_state \<times> check" where
  "pay_contributors st [] perContributor = (st, Inr ())"
| "pay_contributors st (addr # addrs) perContributor =
     (if perContributor > 0 then
        (case AddContributorReward st addr perContributor of
           (st', Inl e) \<Rightarrow> (st', Inl e)
         | (st', Inr _) \<Rightarrow> pay_contributors st' addrs perContributor)
      else pay_contributors st addrs perContributor)"

definition MintDailyEmission ::
  "'x sdk \<Rightarrow> (string \<times> u64) list result \<Rightarrow> emissions_state \<Rightarrow> 'x \<Rightarrow> u64 \<Rightarrow>
   emissions_state \<times> 'x \<times> DailyEmission result" where
  "MintDailyEmission K approvals st x epoch =
     (case GetEmissionPool st of
        Inl _ \<Rightarrow> (st, x, Inl (E_emissions Em_ErrNoEmissionPool))
      | Inr pool0 \<Rightarrow>
          if epoch \<le> ep_Epoch pool0
            then (st, x, Inl (Errorf ''epoch must be greater than last emission epoch''))
          else
            let params = emissions_GetParams st;
                vEmission = validatorEmission params pool0;
                cBudget = contributorBudget params pool0;
                pool1 = pool0\<lparr>
                  ep_ValidatorPoolRemainingUvibe := ep_ValidatorPoolRemainingUvibe pool0 - vEmission,
                  ep_ContributorPoolRemainingUvibe := ep_ContributorPoolRemainingUvibe pool0 - cBudget\<rparr>;
                counts = (case approvals of Inl _ \<Rightarrow> [] | Inr c \<Rightarrow> c);
                qualifying = qualifying_contributors params counts;
                n = of_nat (length qualifying) :: u64;
                total = cBudget + ep_ContributorRolloverUvibe pool1;
                perContributor = total div n;
                (st1, outcome) =
                  (if qualifying = [] then (st, Inr ())
                   else pay_contributors st qualifying perContributor)
            in case outcome of
              Inl e \<Rightarrow> (st1, x, Inl e)
            | Inr _ \<Rightarrow>
                let distributed = (if qualifying = [] then 0 else perContributor * n);
                    pool2 = pool1\<lparr>ep_ContributorRolloverUvibe :=
                      (if qualifying = [] then ep_ContributorRolloverUvibe pool1 + cBudget else total mod n)\<rparr>
                in (case (if distributed > 0
                            then MintCoins K x EmissionsModuleName (uvibe (unat distributed)) else Some x) of
                      None \<Rightarrow> (st1, x, Inl (E_sdk ''mint coins''))
                    | Some x' \<Rightarrow>
                        let totalEmitted = vEmission + distributed;
                            emission = NewDailyEmission epoch totalEmitted vEmission;
                            st2 = st1\<lparr>es_emissions := kv_set (emissionKey epoch)
                              \<lparr>sde_Epoch = de_Epoch emission, sde_TotalEmitted = de_TotalEmitted emission,
                               sde_ValidatorShare = vEmission\<rparr> (es_emissions st1)\<rparr>;
                            pool3 = pool2\<lparr>
                              ep_StartEpoch := (if ep_StartEpoch pool2 = 0 \<and> ep_TotalEpochsElapsed pool2 = 0
                                then epoch else ep_StartEpoch pool2),
                              ep_TotalEpochsElapsed := ep_TotalEpochsElapsed pool2 + 1,
                              ep_Epoch := epoch,
                              ep_TotalSupply := ep_TotalSupply pool2 + totalEmitted\<rparr>
                        in (case SetEmissionPool (Some pool3) st2 of
                              Inl e \<Rightarrow> (st2, x', Inl e)
                            | Inr st3 \<Rightarrow> (st3, x', Inr emission))))"

definition GetDailyEmission :: "emissions_state \<Rightarrow> u64 \<Rightarrow> DailyEmission result" where
  "GetDailyEmission st epoch =
     (case kv_get (es_emissions st) (emissionKey epoch) of
        None \<Rightarrow> Inl (Errorf ''daily emission not found for epoch'')
      | Some stored \<Rightarrow> Inr (StoredToDailyEmission stored))"

text \<open>The epoch hook: an error is logged and the writes made so far stay.\<close>

definition WeVibeEpochIdentifier :: string where "WeVibeEpochIdentifier = ''wevibe_epoch''"

definition emissions_AfterEpochEnd ::
  "'x sdk \<Rightarrow> (u64 \<Rightarrow> (string \<times> u64) list result) \<Rightarrow> emissions_state \<Rightarrow> 'x \<Rightarrow> string \<Rightarrow> int \<Rightarrow>
   emissions_state \<times> 'x" where
  "emissions_AfterEpochEnd K approvals st x epochIdentifier epochNumber =
     (if epochIdentifier \<noteq> WeVibeEpochIdentifier then (st, x)
      else let epoch = word_of_int epochNumber in
        (case MintDailyEmission K (approvals epoch) st x epoch of (st', x', _) \<Rightarrow> (st', x')))"

subsection \<open>Gates and bootstrap credits\<close>

definition SetAvgRetrievalVolume :: "emissions_state \<Rightarrow> u64 \<Rightarrow> emissions_state" where
  "SetAvgRetrievalVolume st avg = st\<lparr>es_avgvolume := Some (FormatUint avg)\<rparr>"

definition SetAsymmetricGate :: "emissions_state \<Rightarrow> AsymmetricGate option \<Rightarrow> emissions_state result" where
  "SetAsymmetricGate st gate =
     (case gate of
        None \<Rightarrow> Inl (Errorf ''invalid asymmetric gate'')
      | Some g \<Rightarrow> Inr (st\<lparr>es_gates := kv_set (gateKey (ag_OperatorID g) (ag_OrgID g) (ag_Epoch g))
          (AsymmetricGateToStored g) (es_gates st)\<rparr>))"

definition GetAsymmetricGate :: "emissions_state \<Rightarrow> string \<Rightarrow> string \<Rightarrow> u64 \<Rightarrow> AsymmetricGate" where
  "GetAsymmetricGate st operatorID orgID epoch =
     (case kv_get (es_gates st) (gateKey operatorID orgID epoch) of
        None \<Rightarrow> NewAsymmetricGate operatorID orgID True epoch
      | Some stored \<Rightarrow> StoredToAsymmetricGate stored)"

definition CheckRetrievalAllowed :: "emissions_state \<Rightarrow> string \<Rightarrow> string \<Rightarrow> u64 \<Rightarrow> bool" where
  "CheckRetrievalAllowed st operatorID orgID epoch =
     ag_RetrievalAllowed (GetAsymmetricGate st operatorID orgID epoch)"

definition SetBootstrapCredits :: "emissions_state \<Rightarrow> u64 \<Rightarrow> emissions_state" where
  "SetBootstrapCredits st credits = st\<lparr>es_bootstrappool := Some (FormatUint credits)\<rparr>"

definition GetBootstrapCredits :: "emissions_state \<Rightarrow> u64 result" where
  "GetBootstrapCredits st =
     (case es_bootstrappool st of
        None \<Rightarrow> Inl (E_emissions Em_ErrNoBootstrapPool)
      | Some bz \<Rightarrow> (case ParseUint bz of
          None \<Rightarrow> Inl (Errorf ''parse bootstrap credits'') | Some credits \<Rightarrow> Inr credits))"

text \<open>The error of \<open>ParseUint\<close> is ignored here, and the value that comes with it is used.\<close>

definition getBootstrapExpiry :: "emissions_state \<Rightarrow> u64" where
  "getBootstrapExpiry st =
     (case es_bootstrapExpiry st of
        None \<Rightarrow> 0
      | Some bz \<Rightarrow> (case ParseUint bz of None \<Rightarrow> ParseUint_failed 0 bz | Some expiry \<Rightarrow> expiry))"

definition GetBootstrapCredit :: "emissions_state \<Rightarrow> string \<Rightarrow> BootstrapCredit" where
  "GetBootstrapCredit st operatorID =
     (case kv_get (es_bootstrap st) (bootstrapKey operatorID) of
        None \<Rightarrow> NewBootstrapCredit operatorID 0
      | Some stored \<Rightarrow> StoredToBootstrapCredit stored)"

definition RedeemBootstrapCredit :: "emissions_state \<Rightarrow> string \<Rightarrow> u64 \<Rightarrow> emissions_state result" where
  "RedeemBootstrapCredit st operatorID amount =
     (if getBootstrapExpiry st = 0 then Inl (E_emissions Em_ErrBootstrapExpired)
      else
        let credit = (case kv_get (es_bootstrap st) (bootstrapKey operatorID) of
              None \<Rightarrow> NewBootstrapCredit operatorID 0
            | Some existing \<Rightarrow> StoredToBootstrapCredit existing) in
        (case Redeem credit amount of
           Inl e \<Rightarrow> Inl e
         | Inr credit' \<Rightarrow>
             let st1 = st\<lparr>es_bootstrap := kv_set (bootstrapKey operatorID)
                   (BootstrapCreditToStored credit') (es_bootstrap st)\<rparr>;
                 bootstrapPool = (case GetBootstrapCredits st1 of Inl _ \<Rightarrow> 0 | Inr c \<Rightarrow> c) in
             Inr (st1\<lparr>es_bootstrappool := Some (FormatUint (bootstrapPool - amount))\<rparr>)))"

definition AddBootstrapCredit :: "emissions_state \<Rightarrow> string \<Rightarrow> u64 \<Rightarrow> emissions_state" where
  "AddBootstrapCredit st operatorID credits =
     (let credit = (case kv_get (es_bootstrap st) (bootstrapKey operatorID) of
            None \<Rightarrow> NewBootstrapCredit operatorID credits
          | Some existing \<Rightarrow>
              (let ecredit = StoredToBootstrapCredit existing in
               ecredit\<lparr>bc_Credits := bc_Credits ecredit + credits\<rparr>)) in
      st\<lparr>es_bootstrap := kv_set (bootstrapKey operatorID) (BootstrapCreditToStored credit) (es_bootstrap st)\<rparr>)"

definition SetBootstrapExpiry :: "emissions_state \<Rightarrow> u64 \<Rightarrow> emissions_state" where
  "SetBootstrapExpiry st expiry = st\<lparr>es_bootstrapExpiry := Some (FormatUint expiry)\<rparr>"

definition IsBootstrapExpired :: "emissions_state \<Rightarrow> u64 \<Rightarrow> bool" where
  "IsBootstrapExpired st currentEpoch \<longleftrightarrow> currentEpoch > getBootstrapExpiry st"

subsection \<open>Genesis\<close>

definition emissions_InitGenesis :: "emissions_GenesisState \<Rightarrow> emissions_state \<Rightarrow> emissions_state" where
  "emissions_InitGenesis g st = st\<lparr>
     es_pool := (case eg_EmissionPool g of None \<Rightarrow> es_pool st | Some p \<Rightarrow> Some (EmissionPoolToStored p)),
     es_emissions := fold (\<lambda>e. kv_set (emissionKey (de_Epoch e)) (DailyEmissionToStored e))
       (eg_DailyEmissions g) (es_emissions st),
     es_bootstrap := fold (\<lambda>c. kv_set (bootstrapKey (bc_OperatorID c)) (BootstrapCreditToStored c))
       (eg_BootstrapCredits g) (es_bootstrap st),
     es_gates := fold (\<lambda>a. kv_set (gateKey (ag_OperatorID a) (ag_OrgID a) (ag_Epoch a))
       (AsymmetricGateToStored a)) (eg_AsymmetricGates g) (es_gates st),
     es_bootstrapExpiry := (if eg_BootstrapExpiry g > 0 then Some (FormatUint (eg_BootstrapExpiry g))
       else es_bootstrapExpiry st)\<rparr>"

text \<open>The module's \<open>InitGenesis\<close>, on the decoded genesis document (\<open>None\<close> for an empty one).\<close>

definition emissions_module_InitGenesis ::
  "emissions_GenesisState option \<Rightarrow> emissions_state \<Rightarrow> emissions_state" where
  "emissions_module_InitGenesis supplied st =
     (let state = (case supplied of None \<Rightarrow> emissions_DefaultGenesis | Some s \<Rightarrow> s);
          state' = (if eg_EmissionPool state = None
            then state\<lparr>eg_EmissionPool := Some DefaultEmissionPool\<rparr> else state)
      in emissions_InitGenesis state' (emissions_SetParams emissions_DefaultParams st))"

definition emissions_ExportGenesis :: "emissions_state \<Rightarrow> emissions_GenesisState" where
  "emissions_ExportGenesis st = \<lparr>
     eg_EmissionPool = Some (case es_pool st of
        None \<Rightarrow> \<lparr>ep_TotalSupply = 0, ep_DailyMint = 0, ep_OperatorShare = 0, ep_ValidatorShare = 0,
          ep_Epoch = 0, ep_ValidatorPoolRemainingUvibe = 0, ep_ContributorPoolRemainingUvibe = 0,
          ep_ContributorRolloverUvibe = 0, ep_StartEpoch = 0, ep_TotalEpochsElapsed = 0\<rparr>
      | Some stored \<Rightarrow> StoredToEmissionPool stored),
     eg_DailyEmissions = map (\<lambda>e. StoredToDailyEmission (snd e)) (kv_prefix ''emission/'' (es_emissions st)),
     eg_BootstrapCredits = map (\<lambda>e. StoredToBootstrapCredit (snd e)) (kv_prefix ''bootstrap/'' (es_bootstrap st)),
     eg_AsymmetricGates = map (\<lambda>e. StoredToAsymmetricGate (snd e)) (kv_prefix ''gate/'' (es_gates st)),
     eg_BootstrapExpiry = getBootstrapExpiry st\<rparr>"

subsection \<open>Messages\<close>

record MsgMintDailyEmission =
  mmd_Authority :: string
  mmd_Epoch :: u64

record emissions_MsgUpdateParams =
  emu_Authority :: string
  emu_Params :: "emissions_Params option"

record MsgClaimContributorReward =
  mcr_Signer :: string
  mcr_PasskeyPubkey :: string

definition MsgMintDailyEmission_ValidateBasic :: "MsgMintDailyEmission \<Rightarrow> check" where
  "MsgMintDailyEmission_ValidateBasic m =
     (if mmd_Authority m = [] then Inl (Errorf ''authority cannot be empty'')
      else if mmd_Epoch m = 0 then Inl (Errorf ''epoch must be greater than 0'')
      else Inr ())"

definition MsgClaimContributorReward_ValidateBasic :: "MsgClaimContributorReward \<Rightarrow> check" where
  "MsgClaimContributorReward_ValidateBasic m =
     (if mcr_Signer m = [] then Inl (Errorf ''signer cannot be empty'')
      else if mcr_PasskeyPubkey m = [] then Inl (Errorf ''passkey_pubkey cannot be empty'')
      else Inr ())"

definition Msg_MintDailyEmission ::
  "'x sdk \<Rightarrow> (u64 \<Rightarrow> (string \<times> u64) list result) \<Rightarrow> emissions_state \<times> 'x \<Rightarrow> MsgMintDailyEmission \<Rightarrow>
   (emissions_state \<times> 'x) result" where
  "Msg_MintDailyEmission K approvals s msg =
     (case MsgMintDailyEmission_ValidateBasic msg of
        Inl e \<Rightarrow> Inl e
      | Inr _ \<Rightarrow>
          if mmd_Authority msg \<noteq> authority K then Inl (E_emissions Em_ErrUnauthorized)
          else (case MintDailyEmission K (approvals (mmd_Epoch msg)) (fst s) (snd s) (mmd_Epoch msg) of
                  (st', x', Inl e) \<Rightarrow> Inl e
                | (st', x', Inr _) \<Rightarrow> Inr (st', x')))"

definition emissions_Msg_UpdateParams ::
  "'x sdk \<Rightarrow> emissions_state \<Rightarrow> emissions_MsgUpdateParams \<Rightarrow> emissions_state result" where
  "emissions_Msg_UpdateParams K st msg =
     (if emu_Authority msg \<noteq> authority K then Inl (E_emissions Em_ErrUnauthorized)
      else case emu_Params msg of
        None \<Rightarrow> Inl (Panic ''nil pointer dereference'')
      | Some p \<Rightarrow>
          (case emissions_Params_Validate p of
             Inl e \<Rightarrow> Inl e | Inr _ \<Rightarrow> Inr (emissions_SetParams p st)))"

definition Msg_ClaimContributorReward ::
  "'x sdk \<Rightarrow> identity_state \<Rightarrow> emissions_state \<times> 'x \<Rightarrow> MsgClaimContributorReward \<Rightarrow>
   (emissions_state \<times> 'x) result" where
  "Msg_ClaimContributorReward K ids s msg =
     (case MsgClaimContributorReward_ValidateBasic msg of
        Inl e \<Rightarrow> Inl e
      | Inr _ \<Rightarrow>
          (case ResolveIdentity ids (mcr_PasskeyPubkey msg) of
             (wallet, isMigrated, found) \<Rightarrow>
               if \<not> found \<or> \<not> isMigrated then Inl (E_emissions Em_ErrNotMigrated)
               else if wallet \<noteq> mcr_Signer msg then Inl (E_emissions Em_ErrUnauthorizedClaim)
               else (case GetContributorReward (fst s) (mcr_PasskeyPubkey msg) of
                  Inl e \<Rightarrow> Inl e
                | Inr balance \<Rightarrow>
                    if balance = 0 then Inl (E_emissions Em_ErrNothingToClaim)
                    else (case AccAddressFromBech32 K (mcr_Signer msg) of
                       None \<Rightarrow> Inl (E_emissions Em_ErrInvalidWalletAddress)
                     | Some recipient \<Rightarrow>
                         (case SendCoinsFromModuleToAccount K (snd s) EmissionsModuleName recipient
                                 (uvibe (unat balance)) of
                            None \<Rightarrow> Inl (E_sdk ''send coins'')
                          | Some x' \<Rightarrow>
                              Inr (SetContributorReward (fst s) (mcr_PasskeyPubkey msg) 0, x'))))))"

end
