(* ===== verification/Emissions_Correct.thy ===== *)
theory Emissions_Correct
  imports Emissions
begin

section \<open>Emissions: correctness\<close>

text \<open>
  The accounting of the emission schedule: what leaves the two pools is emitted, distributed or
  carried over and nothing else; the rewards a contributor can claim are covered by the coins of
  the module account; the validator pool is exhausted exactly when the schedule ends.  Then the
  epoch hook's behaviour when minting fails.
\<close>

lemmas pool_conv_defs = EmissionPoolToStored_def StoredToEmissionPool_def

lemma GetEmissionPool_iff:
  "GetEmissionPool st = Inr p \<longleftrightarrow> es_pool st = Some (EmissionPoolToStored p)"
  by (cases p) (auto simp: GetEmissionPool_def EmissionPoolToStored_def split: option.splits)

lemma SetEmissionPool_Some:
  "SetEmissionPool (Some p) st =
    (if ep_OperatorShare p + ep_ValidatorShare p = 100 then Inr (st\<lparr>es_pool := Some (EmissionPoolToStored p)\<rparr>)
     else Inl (E_emissions Em_ErrInvalidEmissionPool))"
  by (simp add: SetEmissionPool_def EmissionPool_Validate_def)

lemma contribRewardKey_inj [simp]: "contribRewardKey a = contribRewardKey b \<longleftrightarrow> a = b"
  by (simp add: contribRewardKey_def)

lemma lifetimeRewardKey_inj [simp]: "lifetimeRewardKey a = lifetimeRewardKey b \<longleftrightarrow> a = b"
  by (simp add: lifetimeRewardKey_def)

subsection \<open>Shares of the pools\<close>

lemma word_div_le: "(a :: 'a::len word) div b \<le> a"
  by (simp add: word_le_nat_alt unat_div div_le_dividend)

lemma validatorEmission_le: "validatorEmission p pool \<le> ep_ValidatorPoolRemainingUvibe pool"
  by (simp add: validatorEmission_def Let_def word_div_le not_less)

lemma contributorBudget_le: "contributorBudget p pool \<le> ep_ContributorPoolRemainingUvibe pool"
  by (auto simp: contributorBudget_def Let_def not_less)

subsection \<open>The outcome of a mint\<close>

definition mint_total :: "emissions_Params \<Rightarrow> EmissionPool \<Rightarrow> u64" where
  "mint_total p pool = contributorBudget p pool + ep_ContributorRolloverUvibe pool"

definition mint_share :: "emissions_Params \<Rightarrow> EmissionPool \<Rightarrow> string list \<Rightarrow> u64" where
  "mint_share p pool q = mint_total p pool div of_nat (length q)"

definition mint_distributed :: "emissions_Params \<Rightarrow> EmissionPool \<Rightarrow> string list \<Rightarrow> u64" where
  "mint_distributed p pool q = (if q = [] then 0 else mint_share p pool q * of_nat (length q))"

definition mint_pool :: "emissions_Params \<Rightarrow> EmissionPool \<Rightarrow> string list \<Rightarrow> u64 \<Rightarrow> EmissionPool" where
  "mint_pool p pool q epoch = pool\<lparr>
     ep_ValidatorPoolRemainingUvibe := ep_ValidatorPoolRemainingUvibe pool - validatorEmission p pool,
     ep_ContributorPoolRemainingUvibe := ep_ContributorPoolRemainingUvibe pool - contributorBudget p pool,
     ep_ContributorRolloverUvibe := (if q = [] then ep_ContributorRolloverUvibe pool + contributorBudget p pool
       else mint_total p pool mod of_nat (length q)),
     ep_StartEpoch := (if ep_StartEpoch pool = 0 \<and> ep_TotalEpochsElapsed pool = 0 then epoch
       else ep_StartEpoch pool),
     ep_TotalEpochsElapsed := ep_TotalEpochsElapsed pool + 1,
     ep_Epoch := epoch,
     ep_TotalSupply := ep_TotalSupply pool + (validatorEmission p pool + mint_distributed p pool q)\<rparr>"

definition mint_qualifying :: "(string \<times> u64) list result \<Rightarrow> emissions_Params \<Rightarrow> string list" where
  "mint_qualifying approvals p = qualifying_contributors p (case approvals of Inl _ \<Rightarrow> [] | Inr c \<Rightarrow> c)"

text \<open>The three ways a mint can end, in terms of these: refused, interrupted before the pool is
  written, or completed.\<close>

lemma MintDailyEmission_eq:
  "MintDailyEmission K approvals st x epoch =
    (case GetEmissionPool st of
       Inl _ \<Rightarrow> (st, x, Inl (E_emissions Em_ErrNoEmissionPool))
     | Inr pool \<Rightarrow>
         if epoch \<le> ep_Epoch pool then (st, x, Inl (Errorf ''epoch must be greater than last emission epoch''))
         else
           let p = emissions_GetParams st; q = mint_qualifying approvals p;
               d = mint_distributed p pool q;
               (st1, outcome) = (if q = [] then (st, Inr ()) else pay_contributors st q (mint_share p pool q)) in
           (case outcome of
              Inl e \<Rightarrow> (st1, x, Inl e)
            | Inr _ \<Rightarrow>
                (case (if d > 0 then MintCoins K x EmissionsModuleName (uvibe (unat d)) else Some x) of
                   None \<Rightarrow> (st1, x, Inl (E_sdk ''mint coins''))
                 | Some x' \<Rightarrow>
                     let st2 = st1\<lparr>es_emissions := kv_set (emissionKey epoch)
                       \<lparr>sde_Epoch = epoch, sde_TotalEmitted = validatorEmission p pool + d,
                        sde_ValidatorShare = validatorEmission p pool\<rparr> (es_emissions st1)\<rparr> in
                     if ep_OperatorShare pool + ep_ValidatorShare pool = 100
                     then (st2\<lparr>es_pool := Some (EmissionPoolToStored (mint_pool p pool q epoch))\<rparr>, x',
                           Inr (NewDailyEmission epoch (validatorEmission p pool + d) (validatorEmission p pool)))
                     else (st2, x', Inl (E_emissions Em_ErrInvalidEmissionPool)))))"
  by (auto simp: MintDailyEmission_def Let_def mint_qualifying_def mint_distributed_def mint_share_def
      mint_total_def mint_pool_def SetEmissionPool_Some NewDailyEmission_def
      split: sum.split prod.split option.split)

subsection \<open>Paying rewards\<close>

text \<open>Every balance is the decimal text of a number, under the key of an address.\<close>

definition decimal_texts :: "string kv \<Rightarrow> bool" where
  "decimal_texts t \<longleftrightarrow> (\<forall>e\<in>set t. \<exists>u. snd e = FormatUint u)"

lemma decimal_texts_Nil [simp]: "decimal_texts []"
  by (simp add: decimal_texts_def)

lemma decimal_texts_set [simp]: "decimal_texts t \<Longrightarrow> decimal_texts (kv_set k (FormatUint u) t)"
  unfolding decimal_texts_def using set_kv_set_subset [of k "FormatUint u" t] by auto

lemma decimal_texts_get: "decimal_texts t \<Longrightarrow> kv_get t k = Some v \<Longrightarrow> \<exists>u. v = FormatUint u"
  unfolding decimal_texts_def by (drule kv_get_SomeD, drule (1) bspec) simp

definition rewards_ok :: "emissions_state \<Rightarrow> bool" where
  "rewards_ok st \<longleftrightarrow> kv_ok (es_contribreward st) \<and> decimal_texts (es_contribreward st) \<and>
     decimal_texts (es_lifetimereward st)"

definition balance_value :: "string \<Rightarrow> nat" where
  "balance_value bz = (case ParseUint bz of None \<Rightarrow> 0 | Some v \<Rightarrow> unat v)"

lemma balance_value_Format [simp]: "balance_value (FormatUint v) = unat v"
  by (simp add: balance_value_def)

definition pending :: "emissions_state \<Rightarrow> string \<Rightarrow> nat" where
  "pending st a = (case kv_get (es_contribreward st) (contribRewardKey a) of None \<Rightarrow> 0 | Some v \<Rightarrow> balance_value v)"

definition pending_total :: "emissions_state \<Rightarrow> nat" where
  "pending_total st = (\<Sum>e\<leftarrow>es_contribreward st. balance_value (snd e))"

lemma pending_le_total: "pending st a \<le> pending_total st"
  unfolding pending_def pending_total_def
  by (auto split: option.splits dest: kv_get_le_sum [where f = balance_value])

lemma read_balance_ok:
  assumes "decimal_texts t"
  shows "\<exists>u. read_balance t k msg = Inr u \<and>
    (case kv_get t k of None \<Rightarrow> 0 | Some v \<Rightarrow> balance_value v) = unat u"
  using decimal_texts_get [OF assms, of k] by (auto simp: read_balance_def split: option.splits)

lemma GetContributorReward_ok:
  "rewards_ok st \<Longrightarrow> \<exists>u. GetContributorReward st a = Inr u \<and> pending st a = unat u"
  unfolding GetContributorReward_def pending_def by (rule read_balance_ok) (simp add: rewards_ok_def)

lemma rewards_ok_set:
  assumes "rewards_ok st"
  shows "rewards_ok (st\<lparr>es_contribreward := kv_set k (FormatUint u) (es_contribreward st)\<rparr>)"
    and "rewards_ok (st\<lparr>es_lifetimereward := kv_set k (FormatUint u) (es_lifetimereward st)\<rparr>)"
  using assms by (simp_all add: rewards_ok_def)

text \<open>What a payment leaves alone.\<close>

definition same_books :: "emissions_state \<Rightarrow> emissions_state \<Rightarrow> bool" where
  "same_books st st' \<longleftrightarrow> es_pool st' = es_pool st \<and> es_params st' = es_params st \<and>
     es_emissions st' = es_emissions st \<and> es_gates st' = es_gates st \<and> es_bootstrap st' = es_bootstrap st \<and>
     es_bootstrappool st' = es_bootstrappool st \<and> es_bootstrapExpiry st' = es_bootstrapExpiry st"

lemma same_books_refl [simp]: "same_books st st"
  by (simp add: same_books_def)

lemma AddContributorReward_books: "AddContributorReward st a n = (st', r) \<Longrightarrow> same_books st st'"
  by (auto simp: AddContributorReward_def same_books_def Let_def split: sum.splits)

lemma pay_contributors_books: "pay_contributors st q n = (st', r) \<Longrightarrow> same_books st st'"
proof (induction st q n rule: pay_contributors.induct)
  case (2 st a q n)
  then show ?case
    by (auto simp: same_books_def split: if_splits prod.splits sum.splits dest!: AddContributorReward_books)
qed simp

lemma AddContributorReward_ok:
  assumes "rewards_ok st" "pending st a + unat n < 2 ^ 64"
  shows "\<exists>st'. AddContributorReward st a n = (st', Inr ()) \<and> rewards_ok st' \<and>
    pending st' = (pending st)(a := pending st a + unat n) \<and>
    pending_total st' = pending_total st + unat n"
proof -
  obtain u where u: "read_balance (es_contribreward st) (contribRewardKey a) ''parse contributor reward'' = Inr u"
      "pending st a = unat u"
    using GetContributorReward_ok [OF assms(1), of a] unfolding GetContributorReward_def by blast
  let ?st1 = "st\<lparr>es_contribreward := kv_set (contribRewardKey a) (FormatUint (u + n)) (es_contribreward st)\<rparr>"
  have "rewards_ok ?st1" using assms(1) by (rule rewards_ok_set)
  then obtain l where l: "read_balance (es_lifetimereward ?st1) (lifetimeRewardKey a)
      ''parse contributor lifetime reward'' = Inr l"
    using read_balance_ok [of "es_lifetimereward ?st1"] unfolding rewards_ok_def by blast
  let ?st2 = "?st1\<lparr>es_lifetimereward := kv_set (lifetimeRewardKey a) (FormatUint (l + n)) (es_lifetimereward ?st1)\<rparr>"
  have sum: "unat (u + n) = unat u + unat n"
    using assms(2) u(2) by (intro unat_add_no_overflow) simp
  have "AddContributorReward st a n = (?st2, Inr ())"
    using u(1) l by (simp add: AddContributorReward_def)
  moreover have "rewards_ok ?st2" using \<open>rewards_ok ?st1\<close> by (rule rewards_ok_set)
  moreover have "pending ?st2 = (pending st)(a := pending st a + unat n)"
    using sum u(2) by (auto simp: pending_def fun_eq_iff)
  moreover have "pending_total ?st2 + unat u = pending_total st + unat (u + n)"
    using sum_kv_set [of "es_contribreward st" balance_value "contribRewardKey a" "FormatUint (u + n)"]
      assms(1) u(2) by (simp add: pending_total_def pending_def rewards_ok_def)
  ultimately show ?thesis using sum by auto
qed

lemma pay_contributors_ok:
  assumes "rewards_ok st" "pending_total st + length q * unat n < 2 ^ 64"
  shows "\<exists>st'. pay_contributors st q n = (st', Inr ()) \<and> rewards_ok st' \<and>
    (\<forall>a. pending st' a = pending st a + count_list q a * unat n) \<and>
    pending_total st' = pending_total st + length q * unat n"
  using assms
proof (induction q arbitrary: st)
  case (Cons b q)
  show ?case
  proof (cases "n > 0")
    case False
    then have "n = 0" using word_gt_0 [of n] by blast
    with False Cons show ?thesis by simp
  next
    case True
    have "pending st b + unat n < 2 ^ 64"
      using Cons.prems(2) pending_le_total [of st b] by simp
    from AddContributorReward_ok [OF Cons.prems(1) this] obtain st1 where
      st1: "AddContributorReward st b n = (st1, Inr ())" "rewards_ok st1"
        "pending st1 = (pending st)(b := pending st b + unat n)" "pending_total st1 = pending_total st + unat n"
      by blast
    from Cons.IH [OF st1(2)] st1(4) Cons.prems(2) obtain st' where
      "pay_contributors st1 q n = (st', Inr ())" "rewards_ok st'"
      "\<forall>a. pending st' a = pending st1 a + count_list q a * unat n"
      "pending_total st' = pending_total st1 + length q * unat n"
      by (auto simp: algebra_simps)
    with True st1 show ?thesis by (auto simp: algebra_simps)
  qed
qed simp

subsection \<open>The books balance\<close>

definition pool_sum :: "EmissionPool \<Rightarrow> nat" where
  "pool_sum p = unat (ep_ValidatorPoolRemainingUvibe p) + unat (ep_ContributorPoolRemainingUvibe p) +
     unat (ep_ContributorRolloverUvibe p) + unat (ep_TotalSupply p)"

lemma unat_mult_div_le: "unat ((a :: 'a::len word) div b * b) = unat a div unat b * unat b"
proof -
  have "unat a div unat b * unat b \<le> unat a" by simp
  also have "\<dots> < 2 ^ LENGTH('a)" by (rule unat_less_2p)
  finally show ?thesis unfolding unat_word_ariths(2) [of "a div b" b] unat_div by simp
qed

lemma unat_mint_total:
  assumes "pool_sum pool < 2 ^ 64"
  shows "unat (mint_total p pool) = unat (contributorBudget p pool) + unat (ep_ContributorRolloverUvibe pool)"
    and "unat (mint_total p pool) \<le> unat (ep_ContributorPoolRemainingUvibe pool) + unat (ep_ContributorRolloverUvibe pool)"
proof -
  have "unat (contributorBudget p pool) \<le> unat (ep_ContributorPoolRemainingUvibe pool)"
    using contributorBudget_le by (simp add: word_le_nat_alt)
  then show "unat (mint_total p pool) = unat (contributorBudget p pool) + unat (ep_ContributorRolloverUvibe pool)"
    "unat (mint_total p pool) \<le> unat (ep_ContributorPoolRemainingUvibe pool) + unat (ep_ContributorRolloverUvibe pool)"
    using assms unat_add_no_overflow [of "contributorBudget p pool" "ep_ContributorRolloverUvibe pool"]
    by (simp_all add: mint_total_def pool_sum_def)
qed

lemma unat_mint_distributed:
  "unat (mint_distributed p pool q) =
     (if q = [] then 0 else unat (mint_total p pool) div unat (of_nat (length q) :: u64) * unat (of_nat (length q) :: u64))"
  by (simp add: mint_distributed_def mint_share_def unat_mult_div_le)

lemma mint_rollover:
  assumes "pool_sum pool < 2 ^ 64"
  shows "unat (ep_ContributorRolloverUvibe (mint_pool p pool q e)) + unat (mint_distributed p pool q) =
    unat (mint_total p pool)"
proof (cases "q = []")
  case True
  then show ?thesis by (simp add: mint_pool_def mint_distributed_def mint_total_def add.commute)
next
  case False
  then show ?thesis by (simp add: mint_pool_def unat_mint_distributed unat_mod mod_div_mult_eq)
qed

lemma mint_pool_sum:
  assumes "pool_sum pool < 2 ^ 64"
  shows "pool_sum (mint_pool p pool q e) = pool_sum pool"
    and "unat (ep_TotalSupply (mint_pool p pool q e)) =
      unat (ep_TotalSupply pool) + unat (validatorEmission p pool) + unat (mint_distributed p pool q)"
proof -
  let ?v = "validatorEmission p pool" and ?c = "contributorBudget p pool" and ?d = "mint_distributed p pool q"
  have v: "unat ?v \<le> unat (ep_ValidatorPoolRemainingUvibe pool)"
    "unat (ep_ValidatorPoolRemainingUvibe pool - ?v) = unat (ep_ValidatorPoolRemainingUvibe pool) - unat ?v"
    using validatorEmission_le [of p pool] unat_diff_le [OF validatorEmission_le [of p pool]]
    by (simp_all add: word_le_nat_alt)
  have c: "unat ?c \<le> unat (ep_ContributorPoolRemainingUvibe pool)"
    "unat (ep_ContributorPoolRemainingUvibe pool - ?c) = unat (ep_ContributorPoolRemainingUvibe pool) - unat ?c"
    using contributorBudget_le [of p pool] unat_diff_le [OF contributorBudget_le [of p pool]]
    by (simp_all add: word_le_nat_alt)
  note r = mint_rollover [OF assms, of p q e] and t = unat_mint_total [OF assms, of p]
  have d: "unat ?d \<le> unat ?c + unat (ep_ContributorRolloverUvibe pool)" using r t by linarith
  have "unat (?v + ?d) = unat ?v + unat ?d"
    using v c d assms by (intro unat_add_no_overflow) (simp add: pool_sum_def)
  moreover from this have "unat (ep_TotalSupply pool + (?v + ?d)) = unat (ep_TotalSupply pool) + (unat ?v + unat ?d)"
    using v c d assms by (subst unat_add_no_overflow) (simp_all add: pool_sum_def)
  ultimately show ts: "unat (ep_TotalSupply (mint_pool p pool q e)) =
      unat (ep_TotalSupply pool) + unat ?v + unat ?d"
    by (simp add: mint_pool_def)
  have "unat (ep_ValidatorPoolRemainingUvibe (mint_pool p pool q e)) = unat (ep_ValidatorPoolRemainingUvibe pool) - unat ?v"
    "unat (ep_ContributorPoolRemainingUvibe (mint_pool p pool q e)) = unat (ep_ContributorPoolRemainingUvibe pool) - unat ?c"
    using v c by (simp_all add: mint_pool_def)
  then show "pool_sum (mint_pool p pool q e) = pool_sum pool"
    using v(1) c(1) r t(1) ts unfolding pool_sum_def by linarith
qed

text \<open>The pool of a running chain: the shares are valid, and the four amounts add up to the
  total of the schedule.\<close>

definition schedule_total :: nat where "schedule_total = 890000000000000"

definition pool_inv :: "emissions_state \<Rightarrow> bool" where
  "pool_inv st \<longleftrightarrow> (\<exists>pool. GetEmissionPool st = Inr pool \<and>
     ep_OperatorShare pool + ep_ValidatorShare pool = 100 \<and> pool_sum pool = schedule_total)"

lemma schedule_total_fits [simp]: "schedule_total < 2 ^ 64" "schedule_total < 18446744073709551616"
  by (simp_all add: schedule_total_def)

lemma mint_pool_shares [simp]:
  "ep_OperatorShare (mint_pool p pool q e) = ep_OperatorShare pool"
  "ep_ValidatorShare (mint_pool p pool q e) = ep_ValidatorShare pool"
  by (simp_all add: mint_pool_def)

lemma pay_contributors_pool:
  "pay_contributors st q n = (st', r) \<Longrightarrow> es_pool st' = es_pool st \<and> es_params st' = es_params st"
  using pay_contributors_books by (simp add: same_books_def)

lemma Mint_pool_inv:
  assumes "pool_inv st" "MintDailyEmission K a st x e = (st', x', r)"
  shows "pool_inv st'"
proof -
  obtain pool where pool: "GetEmissionPool st = Inr pool" "ep_OperatorShare pool + ep_ValidatorShare pool = 100"
    "pool_sum pool = schedule_total"
    using assms(1) by (auto simp: pool_inv_def)
  show ?thesis
  proof (cases "es_pool st' = es_pool st")
    case True
    then show ?thesis using assms(1) by (simp add: pool_inv_def GetEmissionPool_iff)
  next
    case False
    then have "GetEmissionPool st' = Inr (mint_pool (emissions_GetParams st) pool
        (mint_qualifying a (emissions_GetParams st)) e)"
      using assms(2) pool(1,2)
      by (auto simp: MintDailyEmission_eq GetEmissionPool_iff Let_def dest!: pay_contributors_pool
          split: if_splits sum.splits prod.splits option.splits)
    then show ?thesis
      using pool(2,3) mint_pool_sum(1) [of pool] by (auto simp: pool_inv_def)
  qed
qed

subsection \<open>Events\<close>

text \<open>
  What can happen to the module: the end of an epoch, and the three messages.  The approvals of
  the epoch come from the memory module and the identities from the identity module, in whatever
  state they are then.  A failed message is rolled back, a failed hook is not.
\<close>

datatype emissions_event =
    Epoch_end string int "(string \<times> u64) list result"
  | Mint_msg MsgMintDailyEmission "(string \<times> u64) list result"
  | Claim_msg identity_state MsgClaimContributorReward
  | Update_msg emissions_MsgUpdateParams

definition keep_or :: "'s \<Rightarrow> 's result \<Rightarrow> 's" where
  "keep_or s r = (case r of Inl _ \<Rightarrow> s | Inr s' \<Rightarrow> s')"

fun emissions_apply :: "'x sdk \<Rightarrow> emissions_event \<Rightarrow> emissions_state \<times> 'x \<Rightarrow> emissions_state \<times> 'x" where
  "emissions_apply K (Epoch_end i n a) s = emissions_AfterEpochEnd K (\<lambda>_. a) (fst s) (snd s) i n"
| "emissions_apply K (Mint_msg m a) s = keep_or s (Msg_MintDailyEmission K (\<lambda>_. a) s m)"
| "emissions_apply K (Claim_msg ids m) s = keep_or s (Msg_ClaimContributorReward K ids s m)"
| "emissions_apply K (Update_msg m) s =
     keep_or s (case emissions_Msg_UpdateParams K (fst s) m of Inl e \<Rightarrow> Inl e | Inr st \<Rightarrow> Inr (st, snd s))"

definition emissions_genesis :: emissions_state where
  "emissions_genesis = emissions_module_InitGenesis None emissions_empty"

lemma emissions_genesis_pool:
  "GetEmissionPool emissions_genesis = Inr DefaultEmissionPool" "emissions_GetParams emissions_genesis = emissions_DefaultParams"
  "es_contribreward emissions_genesis = []" "es_lifetimereward emissions_genesis = []"
  by (simp_all add: emissions_genesis_def emissions_module_InitGenesis_def emissions_InitGenesis_def
      emissions_DefaultGenesis_def GetEmissionPool_iff emissions_SetParams_def emissions_GetParams_def
      emissions_empty_def)

lemma DefaultEmissionPool_simps:
  "ep_ValidatorPoolRemainingUvibe DefaultEmissionPool = 570000000000000"
  "ep_ContributorPoolRemainingUvibe DefaultEmissionPool = 320000000000000"
  "ep_ContributorRolloverUvibe DefaultEmissionPool = 0" "ep_TotalSupply DefaultEmissionPool = 0"
  "ep_OperatorShare DefaultEmissionPool = 80" "ep_ValidatorShare DefaultEmissionPool = 20"
  "ep_Epoch DefaultEmissionPool = 0" "ep_TotalEpochsElapsed DefaultEmissionPool = 0"
  by (simp_all add: DefaultEmissionPool_def emissions_DefaultParams_def EpochsPerYear_def Let_def)

lemma emissions_genesis_inv: "pool_inv emissions_genesis"
  by (simp add: pool_inv_def emissions_genesis_pool pool_sum_def DefaultEmissionPool_simps schedule_total_def)

lemma claim_books:
  "Msg_ClaimContributorReward K ids s m = Inr (st', x') \<Longrightarrow> same_books (fst s) st'"
  by (auto simp: Msg_ClaimContributorReward_def SetContributorReward_def same_books_def
      split: sum.splits prod.splits if_splits option.splits)

lemma pool_inv_cong: "es_pool st' = es_pool st \<Longrightarrow> pool_inv st' = pool_inv st"
  by (simp add: pool_inv_def GetEmissionPool_iff)

lemma emissions_apply_pool_inv:
  assumes inv: "pool_inv (fst s)"
  shows "pool_inv (fst (emissions_apply K ev s))"
proof (cases ev)
  case (Epoch_end i n a)
  obtain st' x' r where M: "MintDailyEmission K a (fst s) (snd s) (word_of_int n) = (st', x', r)"
    by (rule prod_cases3)
  show ?thesis using inv Mint_pool_inv [OF inv M]
    by (simp add: Epoch_end emissions_AfterEpochEnd_def Let_def M)
next
  case (Mint_msg m a)
  obtain st' x' r where M: "MintDailyEmission K a (fst s) (snd s) (mmd_Epoch m) = (st', x', r)"
    by (rule prod_cases3)
  show ?thesis using inv Mint_pool_inv [OF inv M]
    by (simp add: Mint_msg Msg_MintDailyEmission_def keep_or_def M split: sum.split)
next
  case (Claim_msg ids m)
  show ?thesis
  proof (cases "Msg_ClaimContributorReward K ids s m")
    case (Inr s')
    then have "es_pool (fst s') = es_pool (fst s)"
      using claim_books [of K ids s m "fst s'" "snd s'"] by (simp add: same_books_def)
    from pool_inv_cong [OF this] show ?thesis using inv Inr by (simp add: Claim_msg keep_or_def)
  qed (use inv in \<open>simp add: Claim_msg keep_or_def\<close>)
next
  case (Update_msg m)
  have "pool_inv (emissions_SetParams p (fst s))" for p
    using inv by (simp add: emissions_SetParams_def pool_inv_def GetEmissionPool_iff)
  then show ?thesis using inv
    by (simp add: Update_msg keep_or_def emissions_Msg_UpdateParams_def split: sum.split option.split)
qed

lemma emissions_run_pool_inv: "pool_inv (fst s) \<Longrightarrow> pool_inv (fst (fold (emissions_apply K) evs s))"
  by (induction evs arbitrary: s) (simp_all add: emissions_apply_pool_inv)

subsection \<open>Rewards are covered\<close>

text \<open>The documented behaviour of minting that the module relies on: it does not fail.\<close>

definition mint_succeeds :: "'x sdk \<Rightarrow> bool" where
  "mint_succeeds K \<longleftrightarrow> (\<forall>x n. MintCoins K x EmissionsModuleName (uvibe n) \<noteq> None)"

text \<open>The length of a Go map or slice is an \<open>int\<close>.\<close>

fun event_ok :: "emissions_event \<Rightarrow> bool" where
  "event_ok (Epoch_end i n a) \<longleftrightarrow> (case a of Inl _ \<Rightarrow> True | Inr c \<Rightarrow> length c < 2 ^ 63)"
| "event_ok (Mint_msg m a) \<longleftrightarrow> (case a of Inl _ \<Rightarrow> True | Inr c \<Rightarrow> length c < 2 ^ 63)"
| "event_ok _ \<longleftrightarrow> True"

definition covered :: "'x sdk \<Rightarrow> ('x \<Rightarrow> bytes \<Rightarrow> nat) \<Rightarrow> emissions_state \<times> 'x \<Rightarrow> bool" where
  "covered K bal s \<longleftrightarrow> pool_inv (fst s) \<and> rewards_ok (fst s) \<and>
     (\<forall>pool. GetEmissionPool (fst s) = Inr pool \<longrightarrow> pending_total (fst s) \<le> unat (ep_TotalSupply pool)) \<and>
     pending_total (fst s) \<le> bal (snd s) (NewModuleAddress K EmissionsModuleName)"

lemma Mint_completed:
  assumes "GetEmissionPool st = Inr pool" "\<not> e \<le> ep_Epoch pool" "p = emissions_GetParams st"
    "q = mint_qualifying a p" "ep_OperatorShare pool + ep_ValidatorShare pool = 100"
    and paid: "(if q = [] then (st, Inr ()) else pay_contributors st q (mint_share p pool q)) = (st1, Inr ())"
    and minted: "(if mint_distributed p pool q > 0
      then MintCoins K x EmissionsModuleName (uvibe (unat (mint_distributed p pool q))) else Some x) = Some x'"
  shows "MintDailyEmission K a st x e = (st1\<lparr>es_emissions := kv_set (emissionKey e)
      \<lparr>sde_Epoch = e, sde_TotalEmitted = validatorEmission p pool + mint_distributed p pool q,
       sde_ValidatorShare = validatorEmission p pool\<rparr> (es_emissions st1),
      es_pool := Some (EmissionPoolToStored (mint_pool p pool q e))\<rparr>, x', Inr (NewDailyEmission e
      (validatorEmission p pool + mint_distributed p pool q) (validatorEmission p pool)))"
  unfolding MintDailyEmission_eq assms(1) sum.case Let_def assms(3,4) [symmetric] paid prod.case minted
    option.case
  using assms(2,5) by simp

lemma length_qualifying: "length (mint_qualifying a p) \<le> (case a of Inl _ \<Rightarrow> 0 | Inr c \<Rightarrow> length c)"
  by (auto simp: mint_qualifying_def qualifying_contributors_def split: sum.splits)

text \<open>Within these bounds paying the qualifying contributors does not overflow.\<close>

lemma Mint_pays:
  assumes "pool_inv st" "rewards_ok st" "GetEmissionPool st = Inr pool"
    and "pending_total st \<le> unat (ep_TotalSupply pool)"
    and "case a of Inl _ \<Rightarrow> True | Inr c \<Rightarrow> length c < 2 ^ 63"
    and "q = mint_qualifying a p"
  shows "\<exists>st1. (if q = [] then (st, Inr ()) else pay_contributors st q (mint_share p pool q)) = (st1, Inr ()) \<and>
      rewards_ok st1 \<and> same_books st st1 \<and>
      (\<forall>b. pending st1 b = pending st b + count_list q b * unat (mint_share p pool q)) \<and>
      pending_total st1 = pending_total st + unat (mint_distributed p pool q)"
proof -
  have pool: "pool_sum pool = schedule_total" using assms(1,3) by (auto simp: pool_inv_def)
  have len: "length q < 2 ^ 63" using length_qualifying [of a p] assms(5,6) by (auto split: sum.splits)
  have n: "unat (of_nat (length q) :: u64) = length q" using len by (simp add: unat_of_nat)
  have dist: "unat (mint_distributed p pool q) = length q * unat (mint_share p pool q)"
    by (simp add: unat_mint_distributed mint_share_def unat_div n mult.commute)
  have "unat (mint_distributed p pool q) \<le> unat (mint_total p pool)"
    using mint_rollover [of pool p q 0] pool by simp
  also have "\<dots> \<le> unat (ep_ContributorPoolRemainingUvibe pool) + unat (ep_ContributorRolloverUvibe pool)"
    using unat_mint_total(2) [of pool p] pool by simp
  finally have "pending_total st + length q * unat (mint_share p pool q) \<le> schedule_total"
    using assms(4) pool dist by (simp add: pool_sum_def)
  then have "pending_total st + length q * unat (mint_share p pool q) < 2 ^ 64"
    using schedule_total_fits(1) by linarith
  from pay_contributors_ok [OF assms(2) this] obtain st1 where
    st1: "pay_contributors st q (mint_share p pool q) = (st1, Inr ())" "rewards_ok st1"
      "\<forall>b. pending st1 b = pending st b + count_list q b * unat (mint_share p pool q)"
      "pending_total st1 = pending_total st + length q * unat (mint_share p pool q)"
    by blast
  have "(if q = [] then (st, Inr ()) else pay_contributors st q (mint_share p pool q)) = (st1, Inr ())"
    using st1(1) by (cases q) simp_all
  then show ?thesis using st1 pay_contributors_books [OF st1(1)] dist by metis
qed

text \<open>A mint for a new epoch then succeeds.\<close>

lemma Mint_succeeds:
  assumes "pool_inv st" "rewards_ok st" "GetEmissionPool st = Inr pool"
    and "pending_total st \<le> unat (ep_TotalSupply pool)"
    and "case a of Inl _ \<Rightarrow> True | Inr c \<Rightarrow> length c < 2 ^ 63"
    and "mint_succeeds K" "ep_Epoch pool < e"
    and "p = emissions_GetParams st" "q = mint_qualifying a p"
  shows "\<exists>st' x' em. MintDailyEmission K a st x e = (st', x', Inr em) \<and> rewards_ok st' \<and>
      GetEmissionPool st' = Inr (mint_pool p pool q e) \<and> es_params st' = es_params st \<and>
      (\<forall>b. pending st' b = pending st b + count_list q b * unat (mint_share p pool q)) \<and>
      pending_total st' = pending_total st + unat (mint_distributed p pool q) \<and>
      (if mint_distributed p pool q = 0 then x' = x
       else MintCoins K x EmissionsModuleName (uvibe (unat (mint_distributed p pool q))) = Some x')"
proof -
  have shares: "ep_OperatorShare pool + ep_ValidatorShare pool = 100"
    using assms(1,3) by (auto simp: pool_inv_def)
  obtain st1 where
    paid: "(if q = [] then (st, Inr ()) else pay_contributors st q (mint_share p pool q)) = (st1, Inr ())"
    and st1: "rewards_ok st1" "same_books st st1"
      "\<forall>b. pending st1 b = pending st b + count_list q b * unat (mint_share p pool q)"
      "pending_total st1 = pending_total st + unat (mint_distributed p pool q)"
    using Mint_pays [OF assms(1-5,9)] by blast
  have "\<exists>x'. if mint_distributed p pool q = 0 then x' = x
      else MintCoins K x EmissionsModuleName (uvibe (unat (mint_distributed p pool q))) = Some x'"
    using assms(6) by (cases "mint_distributed p pool q = 0") (simp_all add: mint_succeeds_def)
  then obtain x' where x': "if mint_distributed p pool q = 0 then x' = x
      else MintCoins K x EmissionsModuleName (uvibe (unat (mint_distributed p pool q))) = Some x'" ..
  let ?st2 = "st1\<lparr>es_emissions := kv_set (emissionKey e)
      \<lparr>sde_Epoch = e, sde_TotalEmitted = validatorEmission p pool + mint_distributed p pool q,
       sde_ValidatorShare = validatorEmission p pool\<rparr> (es_emissions st1),
      es_pool := Some (EmissionPoolToStored (mint_pool p pool q e))\<rparr>"
  have minted: "(if mint_distributed p pool q > 0
      then MintCoins K x EmissionsModuleName (uvibe (unat (mint_distributed p pool q))) else Some x) = Some x'"
    using x' by (cases "mint_distributed p pool q = 0") (simp_all add: word_gt_0)
  have M: "MintDailyEmission K a st x e = (?st2, x', Inr (NewDailyEmission e
      (validatorEmission p pool + mint_distributed p pool q) (validatorEmission p pool)))"
    by (rule Mint_completed [OF assms(3) _ assms(8,9) shares paid minted]) (use assms(7) in simp)
  have kept: "rewards_ok ?st2" "pending ?st2 = pending st1" "pending_total ?st2 = pending_total st1"
    using st1(1) by (simp_all add: rewards_ok_def pending_def pending_total_def fun_eq_iff)
  have "es_params ?st2 = es_params st" using st1(2) by (simp add: same_books_def)
  moreover have "GetEmissionPool ?st2 = Inr (mint_pool p pool q e)" by (simp add: GetEmissionPool_iff)
  ultimately show ?thesis using M kept st1(3,4) x' by metis
qed

lemma Mint_covered:
  assumes "covered K bal (st, x)" "bank_ok K bal sup'" "mint_succeeds K"
    and "case a of Inl _ \<Rightarrow> True | Inr c \<Rightarrow> length c < 2 ^ 63"
    and M: "MintDailyEmission K a st x e = (st', x', r)"
  shows "covered K bal (st', x')"
proof -
  have inv: "pool_inv st" "rewards_ok st" using assms(1) by (auto simp: covered_def)
  then obtain pool where pool: "GetEmissionPool st = Inr pool" "pool_sum pool = schedule_total"
    by (auto simp: pool_inv_def)
  have pend: "pending_total st \<le> unat (ep_TotalSupply pool)"
    "pending_total st \<le> bal x (NewModuleAddress K EmissionsModuleName)"
    using assms(1) pool(1) by (auto simp: covered_def)
  show ?thesis
  proof (cases "e \<le> ep_Epoch pool")
    case True
    then show ?thesis using assms(1) M pool(1) by (simp add: MintDailyEmission_eq)
  next
    case False
    define p where "p = emissions_GetParams st"
    define q where "q = mint_qualifying a p"
    from False have "ep_Epoch pool < e" by simp
    from Mint_succeeds [OF inv pool(1) pend(1) assms(4,3) this p_def q_def, of x] M
    have st': "rewards_ok st'" "GetEmissionPool st' = Inr (mint_pool p pool q e)"
      "pending_total st' = pending_total st + unat (mint_distributed p pool q)"
      and x': "if mint_distributed p pool q = 0 then x' = x
        else MintCoins K x EmissionsModuleName (uvibe (unat (mint_distributed p pool q))) = Some x'"
      by auto
    have "bal x' (NewModuleAddress K EmissionsModuleName) =
        bal x (NewModuleAddress K EmissionsModuleName) + unat (mint_distributed p pool q)"
    proof (cases "mint_distributed p pool q = 0")
      case False
      then show ?thesis using bank_ok_mint [OF assms(2), of x EmissionsModuleName] x' by simp
    qed (use x' in simp)
    moreover have "pending_total st' \<le> unat (ep_TotalSupply (mint_pool p pool q e))"
      using st'(3) pend(1) mint_pool_sum(2) [of pool p q e] pool(2) by simp
    ultimately show ?thesis
      using Mint_pool_inv [OF inv(1) M] st' pend(2) by (simp add: covered_def)
  qed
qed

lemma claim_Inr:
  assumes "Msg_ClaimContributorReward K ids (st, x) m = Inr (st', x')"
  obtains balance recipient where
    "GetContributorReward st (mcr_PasskeyPubkey m) = Inr balance" "balance \<noteq> 0"
    "ResolveIdentity ids (mcr_PasskeyPubkey m) = (mcr_Signer m, True, True)"
    "AccAddressFromBech32 K (mcr_Signer m) = Some recipient"
    "SendCoinsFromModuleToAccount K x EmissionsModuleName recipient (uvibe (unat balance)) = Some x'"
    "st' = SetContributorReward st (mcr_PasskeyPubkey m) 0"
  using assms
  by (auto simp: Msg_ClaimContributorReward_def split: sum.splits prod.splits if_splits option.splits)

lemma claim_pending:
  assumes "rewards_ok st" "GetContributorReward st a = Inr balance"
  shows "pending (SetContributorReward st a 0) = (pending st)(a := 0)"
    and "pending_total (SetContributorReward st a 0) + unat balance = pending_total st"
    and "pending st a = unat balance"
proof -
  show pa: "pending st a = unat balance"
    using GetContributorReward_ok [OF assms(1), of a] assms(2) by simp
  show "pending (SetContributorReward st a 0) = (pending st)(a := 0)"
    by (auto simp: pending_def SetContributorReward_def fun_eq_iff)
  show "pending_total (SetContributorReward st a 0) + unat balance = pending_total st"
    using sum_kv_set [of "es_contribreward st" balance_value "contribRewardKey a" "FormatUint 0"]
      assms(1) pa by (simp add: pending_total_def pending_def SetContributorReward_def rewards_ok_def)
qed

lemma claim_covered:
  assumes cov: "covered K bal (st, x)" and bank: "bank_ok K bal sup'"
    and claim: "Msg_ClaimContributorReward K ids (st, x) m = Inr (st', x')"
  shows "covered K bal (st', x')"
proof -
  obtain balance recipient where c: "GetContributorReward st (mcr_PasskeyPubkey m) = Inr balance"
    "SendCoinsFromModuleToAccount K x EmissionsModuleName recipient (uvibe (unat balance)) = Some x'"
    "st' = SetContributorReward st (mcr_PasskeyPubkey m) 0"
    using claim by (rule claim_Inr) blast
  have ok: "rewards_ok st" using cov by (simp add: covered_def)
  have "rewards_ok st'" unfolding c(3) SetContributorReward_def by (rule rewards_ok_set) (rule ok)
  moreover have "pool_inv st'" "GetEmissionPool st' = GetEmissionPool st"
    using cov unfolding c(3) by (simp_all add: covered_def SetContributorReward_def pool_inv_def GetEmissionPool_def)
  moreover have "pending_total st' + unat balance = pending_total st"
    unfolding c(3) by (rule claim_pending(2) [OF ok c(1)])
  moreover have "bal x (NewModuleAddress K EmissionsModuleName) \<le>
      bal x' (NewModuleAddress K EmissionsModuleName) + unat balance"
    using bank_ok_from_module [OF bank c(2)] by (auto simp: moves_def)
  ultimately show ?thesis using cov by (fastforce simp: covered_def)
qed

lemma emissions_apply_covered:
  assumes cov: "covered K bal s" and "bank_ok K bal sup'" "mint_succeeds K" "event_ok ev"
  shows "covered K bal (emissions_apply K ev s)"
proof (cases ev)
  case (Epoch_end i n a)
  obtain st' x' r where M: "MintDailyEmission K a (fst s) (snd s) (word_of_int n) = (st', x', r)"
    by (rule prod_cases3)
  show ?thesis
    using Mint_covered [of K bal "fst s" "snd s", OF _ assms(2,3) _ M] cov assms(4)
    by (simp add: Epoch_end emissions_AfterEpochEnd_def Let_def M)
next
  case (Mint_msg m a)
  obtain st' x' r where M: "MintDailyEmission K a (fst s) (snd s) (mmd_Epoch m) = (st', x', r)"
    by (rule prod_cases3)
  show ?thesis
    using Mint_covered [of K bal "fst s" "snd s", OF _ assms(2,3) _ M] cov assms(4)
    by (simp add: Mint_msg Msg_MintDailyEmission_def keep_or_def M split: sum.split)
next
  case (Claim_msg ids m)
  show ?thesis
  proof (cases "Msg_ClaimContributorReward K ids s m")
    case (Inr s')
    then show ?thesis
      using claim_covered [OF _ assms(2), of "fst s" "snd s" ids m "fst s'" "snd s'"] cov
      by (simp add: Claim_msg keep_or_def)
  qed (use cov in \<open>simp add: Claim_msg keep_or_def\<close>)
next
  case (Update_msg m)
  have "covered K bal (emissions_SetParams p (fst s), snd s)" for p
    using cov by (simp add: covered_def emissions_SetParams_def pool_inv_def GetEmissionPool_def
        rewards_ok_def pending_total_def)
  then show ?thesis using cov
    by (simp add: Update_msg keep_or_def emissions_Msg_UpdateParams_def split: sum.split option.split)
qed

lemma emissions_run_covered:
  assumes "bank_ok K bal sup'" "mint_succeeds K"
  shows "covered K bal s \<Longrightarrow> list_all event_ok evs \<Longrightarrow> covered K bal (fold (emissions_apply K) evs s)"
  by (induction evs arbitrary: s) (simp_all add: emissions_apply_covered [OF _ assms])

lemma emissions_genesis_rewards:
  "rewards_ok emissions_genesis" "pending emissions_genesis = (\<lambda>_. 0)" "pending_total emissions_genesis = 0"
  by (simp_all add: rewards_ok_def pending_total_def pending_def emissions_genesis_pool fun_eq_iff)

lemma emissions_genesis_covered: "covered K bal (emissions_genesis, x)"
  by (simp add: covered_def emissions_genesis_inv emissions_genesis_rewards)

subsection \<open>The schedule ends\<close>

text \<open>The epochs \<open>1, ..., n\<close>, each with its own approvals.\<close>

definition epoch_run ::
  "'x sdk \<Rightarrow> (nat \<Rightarrow> (string \<times> u64) list result) \<Rightarrow> nat \<Rightarrow> 'x \<Rightarrow> emissions_state \<times> 'x" where
  "epoch_run K approvals n x =
     fold (\<lambda>i. emissions_apply K (Epoch_end WeVibeEpochIdentifier (int i) (approvals i))) [1..<Suc n]
       (emissions_genesis, x)"

lemma epoch_run_Suc:
  "epoch_run K approvals (Suc n) x =
     emissions_apply K (Epoch_end WeVibeEpochIdentifier (int (Suc n)) (approvals (Suc n))) (epoch_run K approvals n x)"
  by (simp add: epoch_run_def)

lemma mint_pool_epoch [simp]:
  "ep_Epoch (mint_pool p pool q e) = e"
  "ep_TotalEpochsElapsed (mint_pool p pool q e) = ep_TotalEpochsElapsed pool + 1"
  by (simp_all add: mint_pool_def)

lemma validator_pool_last:
  assumes "11679 \<le> unat (ep_TotalEpochsElapsed pool)"
  shows "ep_ValidatorPoolRemainingUvibe (mint_pool emissions_DefaultParams pool q e) = 0"
proof -
  have "remainingEpochs emissions_DefaultParams pool = 1"
  proof (cases "ep_TotalEpochsElapsed pool < 11680")
    case True
    then have "unat (ep_TotalEpochsElapsed pool) = 11679" using assms by (simp add: word_less_nat_alt)
    then have "ep_TotalEpochsElapsed pool = 11679" by (simp add: word_unat_eq_iff)
    then show ?thesis by (simp add: remainingEpochs_def emissions_DefaultParams_def)
  qed (simp add: remainingEpochs_def emissions_DefaultParams_def)
  then have "validatorEmission emissions_DefaultParams pool = ep_ValidatorPoolRemainingUvibe pool"
    by (auto simp: validatorEmission_def Let_def word_gt_0)
  then show ?thesis by (simp add: mint_pool_def)
qed

lemma epoch_run_state:
  assumes "mint_succeeds K" "\<forall>i. case approvals i of Inl _ \<Rightarrow> True | Inr c \<Rightarrow> length c < 2 ^ 63"
    and "n < 2 ^ 63"
  shows "\<exists>pool. GetEmissionPool (fst (epoch_run K approvals n x)) = Inr pool \<and>
    emissions_GetParams (fst (epoch_run K approvals n x)) = emissions_DefaultParams \<and>
    pool_inv (fst (epoch_run K approvals n x)) \<and> rewards_ok (fst (epoch_run K approvals n x)) \<and>
    pending_total (fst (epoch_run K approvals n x)) \<le> unat (ep_TotalSupply pool) \<and>
    unat (ep_Epoch pool) = n \<and> unat (ep_TotalEpochsElapsed pool) = n \<and>
    (11680 \<le> n \<longrightarrow> ep_ValidatorPoolRemainingUvibe pool = 0)"
  using assms(3)
proof (induction n)
  case 0
  show ?case
    by (simp add: epoch_run_def emissions_genesis_pool emissions_genesis_inv emissions_genesis_rewards
        DefaultEmissionPool_simps)
next
  case (Suc n)
  let ?s = "epoch_run K approvals n x"
  from Suc obtain pool where pool: "GetEmissionPool (fst ?s) = Inr pool"
    "emissions_GetParams (fst ?s) = emissions_DefaultParams" "pool_inv (fst ?s)" "rewards_ok (fst ?s)"
    "pending_total (fst ?s) \<le> unat (ep_TotalSupply pool)"
    "unat (ep_Epoch pool) = n" "unat (ep_TotalEpochsElapsed pool) = n"
    by auto
  define e :: u64 where "e = word_of_int (int (Suc n))"
  have ue: "unat e = Suc n" unfolding e_def using Suc.prems by (simp add: unat_of_nat flip: of_nat_Suc)
  then have less: "ep_Epoch pool < e" using pool(6) by (simp add: word_less_nat_alt)
  define q where "q = mint_qualifying (approvals (Suc n)) emissions_DefaultParams"
  obtain st' x' em where M: "MintDailyEmission K (approvals (Suc n)) (fst ?s) (snd ?s) e = (st', x', Inr em)"
    and st': "rewards_ok st'" "GetEmissionPool st' = Inr (mint_pool emissions_DefaultParams pool q e)"
      "es_params st' = es_params (fst ?s)"
      "pending_total st' = pending_total (fst ?s) + unat (mint_distributed emissions_DefaultParams pool q)"
    using Mint_succeeds [OF pool(3,4,1,5) assms(2) [rule_format] assms(1) less pool(2) [symmetric] q_def, of "snd ?s"]
    by blast
  have run: "epoch_run K approvals (Suc n) x = (st', x')"
    using M by (simp add: epoch_run_Suc emissions_AfterEpochEnd_def Let_def e_def)
  have sum: "pool_sum pool < 2 ^ 64" using pool(1,3) by (auto simp: pool_inv_def)
  have "unat (ep_TotalEpochsElapsed pool + 1) = Suc n"
    using unat_add_no_overflow [of "ep_TotalEpochsElapsed pool" 1] pool(7) Suc.prems by simp
  moreover have "11680 \<le> Suc n \<longrightarrow>
      ep_ValidatorPoolRemainingUvibe (mint_pool emissions_DefaultParams pool q e) = 0"
    using validator_pool_last [of pool q e] pool(7) by simp
  moreover have "emissions_GetParams st' = emissions_DefaultParams"
    using st'(3) pool(2) by (simp add: emissions_GetParams_def)
  moreover have "pending_total st' \<le> unat (ep_TotalSupply (mint_pool emissions_DefaultParams pool q e))"
    using st'(4) pool(5) mint_pool_sum(2) [OF sum, of emissions_DefaultParams q e] by simp
  ultimately show ?case
    using st'(1,2) Mint_pool_inv [OF pool(3) M] ue by (simp add: run)
qed

subsection \<open>A mint that fails in the bank\<close>

lemma Mint_bank_failure:
  assumes "pool_inv st" "rewards_ok st" "GetEmissionPool st = Inr pool"
    and "pending_total st \<le> unat (ep_TotalSupply pool)"
    and "case a of Inl _ \<Rightarrow> True | Inr c \<Rightarrow> length c < 2 ^ 63"
    and "ep_Epoch pool < e" "p = emissions_GetParams st" "q = mint_qualifying a p"
    and "mint_distributed p pool q \<noteq> 0" "\<And>n. MintCoins K x EmissionsModuleName (uvibe n) = None"
  shows "\<exists>st1. MintDailyEmission K a st x e = (st1, x, Inl (E_sdk ''mint coins'')) \<and> same_books st st1 \<and>
    (\<forall>b. pending st1 b = pending st b + count_list q b * unat (mint_share p pool q))"
proof -
  obtain st1 where
    paid: "(if q = [] then (st, Inr ()) else pay_contributors st q (mint_share p pool q)) = (st1, Inr ())"
    and st1: "same_books st st1"
      "\<forall>b. pending st1 b = pending st b + count_list q b * unat (mint_share p pool q)"
    using Mint_pays [OF assms(1-5,8)] by blast
  have minted: "(if mint_distributed p pool q > 0
      then MintCoins K x EmissionsModuleName (uvibe (unat (mint_distributed p pool q))) else Some x) = None"
    using assms(9,10) by (simp add: word_gt_0)
  have "MintDailyEmission K a st x e = (st1, x, Inl (E_sdk ''mint coins''))"
    unfolding MintDailyEmission_eq assms(3) sum.case Let_def assms(7,8) [symmetric] paid prod.case minted
      option.case
    using assms(6) by simp
  with st1 show ?thesis by blast
qed

subsection \<open>Properties\<close>

text \<open>
  C2: From the default genesis, along any sequence of epoch ends and messages, whatever the memory,
  identity and bank modules answer, the validator pool, the contributor pool, the rollover and the
  emitted supply always add up to the 890,000,000,000,000 uvibe of the schedule: nothing is
  created, lost or emitted twice.
\<close>

theorem emission_conservation:
  "\<exists>pool. GetEmissionPool (fst (fold (emissions_apply K) evs (emissions_genesis, x))) = Inr pool \<and>
     unat (ep_ValidatorPoolRemainingUvibe pool) + unat (ep_ContributorPoolRemainingUvibe pool) +
     unat (ep_ContributorRolloverUvibe pool) + unat (ep_TotalSupply pool) = 890000000000000"
  using emissions_run_pool_inv [of "(emissions_genesis, x)" K evs] emissions_genesis_inv
  by (auto simp: pool_inv_def pool_sum_def schedule_total_def)

text \<open>
  A recipient the bank does not block: the documented behaviour of a transfer to such an account is
  that it succeeds when the module's balance covers the amount.
\<close>

definition pays_to :: "'x sdk \<Rightarrow> ('x \<Rightarrow> bytes \<Rightarrow> nat) \<Rightarrow> bytes \<Rightarrow> bool" where
  "pays_to K bal w \<longleftrightarrow> (\<forall>x n. n \<le> bal x (NewModuleAddress K EmissionsModuleName) \<longrightarrow>
     SendCoinsFromModuleToAccount K x EmissionsModuleName w (uvibe n) \<noteq> None)"

lemma claim_payable:
  assumes "covered K bal s" "MsgClaimContributorReward_ValidateBasic m = Inr ()"
    and "ResolveIdentity ids (mcr_PasskeyPubkey m) = (mcr_Signer m, True, True)"
    and "AccAddressFromBech32 K (mcr_Signer m) = Some w" "pays_to K bal w"
    and "0 < pending (fst s) (mcr_PasskeyPubkey m)"
  shows "\<exists>s'. Msg_ClaimContributorReward K ids s m = Inr s'"
proof -
  have ok: "rewards_ok (fst s)" using assms(1) by (simp add: covered_def)
  obtain balance where balance: "GetContributorReward (fst s) (mcr_PasskeyPubkey m) = Inr balance"
      "unat balance = pending (fst s) (mcr_PasskeyPubkey m)"
    using GetContributorReward_ok [OF ok, of "mcr_PasskeyPubkey m"] by auto
  then have "unat balance \<le> bal (snd s) (NewModuleAddress K EmissionsModuleName)"
    using pending_le_total [of "fst s" "mcr_PasskeyPubkey m"] assms(1) by (simp add: covered_def)
  then obtain x' where "SendCoinsFromModuleToAccount K (snd s) EmissionsModuleName w (uvibe (unat balance)) = Some x'"
    using assms(5) unfolding pays_to_def by blast
  moreover have "balance \<noteq> 0" using balance(2) assms(6) by auto
  ultimately show ?thesis using assms(2-4) balance(1) by (simp add: Msg_ClaimContributorReward_def)
qed

text \<open>
  C9: While minting does not fail, the rewards are covered and payable.  The hypotheses are that the
  bank keeps its contract, that it never refuses to mint for the module, and that fewer than
  \<open>2 ^ 63\<close> contributors are counted in an epoch.  Then, along any sequence of epoch ends and messages
  from the default genesis, the sum of all pending rewards is at most the balance of the module
  account, and a well-formed claim of a non-zero reward by the wallet the passkey was migrated to
  succeeds whenever the bank pays that wallet amounts the module can afford.
\<close>

theorem rewards_covered:
  assumes "bank_ok K bal sup'" "mint_succeeds K" "list_all event_ok evs"
    and "s = fold (emissions_apply K) evs (emissions_genesis, x)"
  shows "pending_total (fst s) \<le> bal (snd s) (NewModuleAddress K EmissionsModuleName) \<and>
    (\<forall>ids m w. MsgClaimContributorReward_ValidateBasic m = Inr () \<longrightarrow>
       ResolveIdentity ids (mcr_PasskeyPubkey m) = (mcr_Signer m, True, True) \<longrightarrow>
       AccAddressFromBech32 K (mcr_Signer m) = Some w \<longrightarrow> pays_to K bal w \<longrightarrow>
       0 < pending (fst s) (mcr_PasskeyPubkey m) \<longrightarrow>
       (\<exists>s'. Msg_ClaimContributorReward K ids s m = Inr s'))"
proof -
  have cov: "covered K bal s"
    unfolding assms(4) by (rule emissions_run_covered [OF assms(1,2) emissions_genesis_covered assms(3)])
  then have "pending_total (fst s) \<le> bal (snd s) (NewModuleAddress K EmissionsModuleName)"
    by (simp add: covered_def)
  with claim_payable [OF cov] show ?thesis by blast
qed

lemma ledger_mint_succeeds: "mint_succeeds ledger_sdk"
  by (simp add: mint_succeeds_def ledger_sdk_def lg_mint_def Let_def)

lemma ledger_pays_to: "pays_to ledger_sdk lg_bal w"
  by (simp add: pays_to_def ledger_sdk_def lg_move_def Let_def)

definition ex_ids :: identity_state where
  "ex_ids = identity_empty\<lparr>is_aliases := [(AliasKey ''pk'', \<lparr>ia_PasskeyPubkey = ''pk'', ia_WalletAddress = ''w'',
     ia_IsMigrated = True, ia_MigratedAtEpoch = 0\<rparr>)]\<rparr>"

lemma ex_pending:
  assumes mint: "mint_succeeds K"
  shows "pending (fst (emissions_apply K (Epoch_end ''wevibe_epoch'' 1 (Inr [(''pk'', 1)]))
     (emissions_genesis, x))) ''pk'' = 27397260273"
proof -
  let ?p = emissions_DefaultParams and ?a = "Inr [(''pk'', 1)] :: (string \<times> u64) list result"
  have q: "mint_qualifying ?a ?p = [''pk'']"
    by (simp add: mint_qualifying_def qualifying_contributors_def emissions_DefaultParams_def)
  have b: "mint_share ?p DefaultEmissionPool [''pk''] = 27397260273"
    by (simp add: mint_share_def mint_total_def contributorBudget_def Let_def
        DefaultEmissionPool_simps remainingEpochs_def emissions_DefaultParams_def EpochsPerYear_def)
  obtain st' x' em where "MintDailyEmission K ?a emissions_genesis x 1 = (st', x', Inr em)"
      "pending st' ''pk'' = pending emissions_genesis ''pk'' + unat (mint_share ?p DefaultEmissionPool [''pk''])"
    using Mint_succeeds [OF emissions_genesis_inv emissions_genesis_rewards(1) emissions_genesis_pool(1) _ _ mint
        _ emissions_genesis_pool(2) [symmetric] q [symmetric], where e = 1 and x = x]
    by (auto simp: emissions_genesis_rewards DefaultEmissionPool_simps)
  then show ?thesis
    by (simp add: emissions_AfterEpochEnd_def WeVibeEpochIdentifier_def b emissions_genesis_rewards)
qed

theorem rewards_covered_witness:
  "\<exists>s'. Msg_ClaimContributorReward ledger_sdk ex_ids (fold (emissions_apply ledger_sdk)
     [Epoch_end ''wevibe_epoch'' 1 (Inr [(''pk'', 1)])] (emissions_genesis, \<lparr>lg_balances = [], lg_supply = 0, lg_grants = []\<rparr>))
     \<lparr>mcr_Signer = ''w'', mcr_PasskeyPubkey = ''pk''\<rparr> = Inr s'"
proof -
  let ?x = "\<lparr>lg_balances = [], lg_supply = 0, lg_grants = []\<rparr>" and ?m = "\<lparr>mcr_Signer = ''w'', mcr_PasskeyPubkey = ''pk''\<rparr>"
  have "MsgClaimContributorReward_ValidateBasic ?m = Inr ()"
    "ResolveIdentity ex_ids (mcr_PasskeyPubkey ?m) = (mcr_Signer ?m, True, True)"
    "AccAddressFromBech32 ledger_sdk (mcr_Signer ?m) = Some ''w''"
    by (simp_all add: MsgClaimContributorReward_ValidateBasic_def ex_ids_def ResolveIdentity_def GetAlias_def ledger_sdk_def)
  then show ?thesis
    using rewards_covered [OF ledger_sdk_bank_ok ledger_mint_succeeds _ refl,
        of "[Epoch_end ''wevibe_epoch'' 1 (Inr [(''pk'', 1)])]" ?x]
      ex_pending [OF ledger_mint_succeeds, of ?x] ledger_pays_to [of "''w''"]
    by simp
qed

text \<open>
  C14: A successful claim is made by the wallet the passkey was migrated to and pays it exactly the
  pending reward, which was not zero; afterwards that reward is zero, so an immediate second claim
  is refused, and no other contributor's reward has changed.
\<close>

theorem claim_exact:
  assumes "bank_ok K bal sup'" "rewards_ok st"
    and "Msg_ClaimContributorReward K ids (st, x) m = Inr (st', x')"
  shows "ResolveIdentity ids (mcr_PasskeyPubkey m) = (mcr_Signer m, True, True) \<and>
    0 < pending st (mcr_PasskeyPubkey m) \<and>
    pending st' = (pending st)(mcr_PasskeyPubkey m := 0) \<and>
    (\<exists>w. AccAddressFromBech32 K (mcr_Signer m) = Some w \<and>
      moves bal sup' x x' (NewModuleAddress K EmissionsModuleName) w (pending st (mcr_PasskeyPubkey m))) \<and>
    Msg_ClaimContributorReward K ids (st', x') m = Inl (E_emissions Em_ErrNothingToClaim)"
proof -
  obtain balance recipient where c: "GetContributorReward st (mcr_PasskeyPubkey m) = Inr balance" "balance \<noteq> 0"
    "ResolveIdentity ids (mcr_PasskeyPubkey m) = (mcr_Signer m, True, True)"
    "AccAddressFromBech32 K (mcr_Signer m) = Some recipient"
    "SendCoinsFromModuleToAccount K x EmissionsModuleName recipient (uvibe (unat balance)) = Some x'"
    "st' = SetContributorReward st (mcr_PasskeyPubkey m) 0"
    using assms(3) by (rule claim_Inr)
  have "moves bal sup' x x' (NewModuleAddress K EmissionsModuleName) recipient (unat balance)"
    by (rule bank_ok_from_module [OF assms(1) c(5)])
  moreover have "GetContributorReward st' (mcr_PasskeyPubkey m) = Inr 0"
    unfolding c(6) by (simp add: GetContributorReward_def SetContributorReward_def read_balance_def)
  then have "Msg_ClaimContributorReward K ids (st', x') m = Inl (E_emissions Em_ErrNothingToClaim)"
    using assms(3) c(3)
    by (auto simp: Msg_ClaimContributorReward_def split: sum.splits)
  moreover have "0 < unat balance" using c(2) by (simp add: unat_gt_0)
  ultimately show ?thesis
    using claim_pending [OF assms(2) c(1)] c(3,4) by (simp add: c(6))
qed

lemma ledger_fields:
  "NewModuleAddress ledger_sdk = lg_module" "AccAddressFromBech32 ledger_sdk ''w'' = Some ''w''"
  by (simp_all add: ledger_sdk_def)

definition ex_em_state :: emissions_state where
  "ex_em_state = emissions_genesis\<lparr>es_contribreward := [(contribRewardKey ''pk'', FormatUint 5)]\<rparr>"

definition ex_em_ledger :: ledger where
  "ex_em_ledger = \<lparr>lg_balances = [(lg_module ''emissions'', 7)], lg_supply = 7, lg_grants = []\<rparr>"

lemma ex_em_rewards: "rewards_ok ex_em_state" "pending ex_em_state ''pk'' = 5"
  using decimal_texts_set [of "[]" "contribRewardKey ''pk''" 5]
  by (simp_all add: ex_em_state_def rewards_ok_def emissions_genesis_pool kv_ok_Cons pending_def)

theorem claim_exact_witness:
  "\<exists>st' x'. Msg_ClaimContributorReward ledger_sdk ex_ids (ex_em_state, ex_em_ledger)
      \<lparr>mcr_Signer = ''w'', mcr_PasskeyPubkey = ''pk''\<rparr> = Inr (st', x') \<and>
    lg_bal x' ''w'' = 5 \<and> pending st' ''pk'' = 0"
proof -
  have "\<exists>st' x'. Msg_ClaimContributorReward ledger_sdk ex_ids (ex_em_state, ex_em_ledger)
      \<lparr>mcr_Signer = ''w'', mcr_PasskeyPubkey = ''pk''\<rparr> = Inr (st', x')"
    by (simp add: Msg_ClaimContributorReward_def MsgClaimContributorReward_ValidateBasic_def ex_ids_def
        ResolveIdentity_def GetAlias_def GetContributorReward_def read_balance_def ex_em_state_def
        ledger_sdk_def lg_move_def ex_em_ledger_def EmissionsModuleName_def lg_bal_def lg_module_def Let_def)
  then obtain st' x' where c: "Msg_ClaimContributorReward ledger_sdk ex_ids (ex_em_state, ex_em_ledger)
      \<lparr>mcr_Signer = ''w'', mcr_PasskeyPubkey = ''pk''\<rparr> = Inr (st', x')" by blast
  note e = claim_exact [OF ledger_sdk_bank_ok ex_em_rewards(1) c]
  then have "moves lg_bal lg_supply ex_em_ledger x' (lg_module ''emissions'') ''w'' 5"
    by (simp add: ledger_fields EmissionsModuleName_def ex_em_rewards)
  then have "lg_bal x' ''w'' = 5" by (simp add: moves_def lg_module_def ex_em_ledger_def lg_bal_def)
  with c e show ?thesis by auto
qed

text \<open>
  C19: The schedule ends.  Running the epoch hook for the epochs 1 to \<open>n\<close> from the default genesis,
  with any approvals of fewer than \<open>2 ^ 63\<close> contributors, and with a bank that never refuses to mint
  for the module, mints in every one of them, and once \<open>n\<close> reaches the 11680 days of the schedule
  the whole validator pool has been emitted.
\<close>

theorem schedule_completes:
  assumes "mint_succeeds K" "\<forall>i. case approvals i of Inl _ \<Rightarrow> True | Inr c \<Rightarrow> length c < 2 ^ 63"
    and "n < 2 ^ 63"
  shows "\<exists>pool. GetEmissionPool (fst (epoch_run K approvals n x)) = Inr pool \<and>
    unat (ep_Epoch pool) = n \<and> unat (ep_TotalEpochsElapsed pool) = n \<and>
    (11680 \<le> n \<longrightarrow> ep_ValidatorPoolRemainingUvibe pool = 0)"
  using epoch_run_state [OF assms] by blast

theorem schedule_completes_witness:
  "\<exists>pool. GetEmissionPool (fst (epoch_run ledger_sdk (\<lambda>_. Inr []) 11680
      \<lparr>lg_balances = [], lg_supply = 0, lg_grants = []\<rparr>)) = Inr pool \<and>
    ep_ValidatorPoolRemainingUvibe pool = 0"
  using schedule_completes [OF ledger_mint_succeeds, of "\<lambda>_. Inr []" 11680] by auto

lemma count_list_distinct: "distinct q \<Longrightarrow> count_list q b = (if b \<in> set q then 1 else 0)"
  by (induction q) auto

text \<open>
  C30: The equal split.  When the hook runs for a new epoch and the bank does not refuse to mint, every qualifying contributor's reward
  grows by the same share, nobody else's changes, and the shares together with the carried-over
  remainder, which is smaller than the number of contributors, are exactly the epoch's budget plus
  the previous rollover.
\<close>

theorem contributor_split:
  assumes "pool_inv st" "rewards_ok st" "GetEmissionPool st = Inr pool"
    and "pending_total st \<le> unat (ep_TotalSupply pool)" "length counts < 2 ^ 63" "distinct (map fst counts)"
    and "mint_succeeds K" "ep_Epoch pool < word_of_int n"
    and "p = emissions_GetParams st" "q = qualifying_contributors p counts" "q \<noteq> []"
    and "(st', x') = emissions_AfterEpochEnd K (\<lambda>_. Inr counts) st x ''wevibe_epoch'' n"
  shows "\<exists>share rest. share * length q + rest =
      unat (contributorBudget p pool) + unat (ep_ContributorRolloverUvibe pool) \<and> rest < length q \<and>
    (\<forall>b. pending st' b = pending st b + (if b \<in> set q then share else 0)) \<and>
    (\<exists>pool'. GetEmissionPool st' = Inr pool' \<and> unat (ep_ContributorRolloverUvibe pool') = rest)"
proof -
  have q: "q = mint_qualifying (Inr counts) p" by (simp add: assms(10) mint_qualifying_def)
  have "distinct q"
    using assms(6) by (simp add: assms(10) qualifying_contributors_def distinct_map_filter)
  then have cnt: "count_list q b = (if b \<in> set q then 1 else 0)" for b
    by (rule count_list_distinct)
  have sum: "pool_sum pool < 2 ^ 64" using assms(1,3) by (auto simp: pool_inv_def)
  have "length q \<le> length counts"
    using length_qualifying [of "Inr counts" p] by (simp add: q)
  then have n: "unat (of_nat (length q) :: u64) = length q" using assms(5) by (simp add: unat_of_nat)
  obtain st1 x1 em where M: "MintDailyEmission K (Inr counts) st x (word_of_int n) = (st1, x1, Inr em)"
    and st1: "GetEmissionPool st1 = Inr (mint_pool p pool q (word_of_int n))"
      "\<forall>b. pending st1 b = pending st b + count_list q b * unat (mint_share p pool q)"
    using Mint_succeeds [OF assms(1-4) _ assms(7,8,9) q, of x] assms(5) by auto
  have "st' = st1" using assms(12) M by (simp add: emissions_AfterEpochEnd_def WeVibeEpochIdentifier_def Let_def)
  moreover have "unat (mint_share p pool q) * length q + unat (mint_total p pool mod of_nat (length q)) =
      unat (mint_total p pool)"
    by (simp add: mint_share_def unat_div unat_mod n)
  moreover have "unat (mint_total p pool mod of_nat (length q)) < length q"
    using assms(11) by (simp add: unat_mod n)
  moreover have "unat (ep_ContributorRolloverUvibe (mint_pool p pool q (word_of_int n))) =
      unat (mint_total p pool mod of_nat (length q))"
    using assms(11) by (simp add: mint_pool_def)
  ultimately show ?thesis
    using st1 unat_mint_total(1) [OF sum, of p] by (auto simp: cnt)
qed

theorem contributor_split_witness:
  "\<exists>share rest. share * 2 + rest = 27397260273 \<and> rest < 2 \<and>
     pending (fst (emissions_AfterEpochEnd ledger_sdk (\<lambda>_. Inr [(''alice'', 3), (''bob'', 1)]) emissions_genesis
       \<lparr>lg_balances = [], lg_supply = 0, lg_grants = []\<rparr> ''wevibe_epoch'' 1)) ''bob'' = share"
proof -
  let ?p = emissions_DefaultParams and ?c = "[(''alice'', 3), (''bob'', 1)] :: (string \<times> u64) list"
  let ?s = "emissions_AfterEpochEnd ledger_sdk (\<lambda>_. Inr ?c) emissions_genesis
    \<lparr>lg_balances = [], lg_supply = 0, lg_grants = []\<rparr> ''wevibe_epoch'' 1"
  have q: "qualifying_contributors ?p ?c = [''alice'', ''bob'']"
    by (simp add: qualifying_contributors_def emissions_DefaultParams_def)
  have b: "contributorBudget ?p DefaultEmissionPool = 27397260273"
    by (simp add: contributorBudget_def Let_def DefaultEmissionPool_simps remainingEpochs_def
        emissions_DefaultParams_def EpochsPerYear_def)
  have pair: "(fst ?s, snd ?s) = ?s" by simp
  have "\<exists>share rest. share * length [''alice'', ''bob''] + rest =
      unat (contributorBudget ?p DefaultEmissionPool) + unat (ep_ContributorRolloverUvibe DefaultEmissionPool) \<and>
    rest < length [''alice'', ''bob''] \<and>
    (\<forall>b. pending (fst ?s) b = pending emissions_genesis b + (if b \<in> set [''alice'', ''bob''] then share else 0)) \<and>
    (\<exists>pool'. GetEmissionPool (fst ?s) = Inr pool' \<and> unat (ep_ContributorRolloverUvibe pool') = rest)"
    by (rule contributor_split [OF emissions_genesis_inv emissions_genesis_rewards(1) emissions_genesis_pool(1)
      _ _ _ ledger_mint_succeeds _ emissions_genesis_pool(2) [symmetric] q [symmetric] _ pair])
      (simp_all add: emissions_genesis_rewards DefaultEmissionPool_simps)
  then obtain share rest where sr: "share * length [''alice'', ''bob''] + rest =
      unat (contributorBudget ?p DefaultEmissionPool) + unat (ep_ContributorRolloverUvibe DefaultEmissionPool)"
    "rest < length [''alice'', ''bob'']"
    "\<forall>b. pending (fst ?s) b = pending emissions_genesis b + (if b \<in> set [''alice'', ''bob''] then share else 0)"
    by blast
  have "share * 2 + rest = 27397260273" "rest < 2"
    using sr(1,2) by (simp_all add: DefaultEmissionPool_simps b)
  moreover have "pending (fst ?s) ''bob'' = share"
    using sr(3) by (simp add: emissions_genesis_rewards)
  ultimately show ?thesis by blast
qed

text \<open>
  C31: When the bank refuses to mint, the epoch hook still returns without an error and the rewards of
  that epoch stay credited, although no coin was minted and the pool still holds the epoch's budget:
  the next successful mint pays the same budget again.
\<close>

theorem failed_mint_keeps_rewards:
  assumes "pool_inv st" "rewards_ok st" "GetEmissionPool st = Inr pool"
    and "pending_total st \<le> unat (ep_TotalSupply pool)" "length counts < 2 ^ 63"
    and "ep_Epoch pool < word_of_int n" "p = emissions_GetParams st" "q = qualifying_contributors p counts"
    and "mint_distributed p pool q \<noteq> 0" "\<forall>k. MintCoins K x EmissionsModuleName (uvibe k) = None"
    and "(st', x') = emissions_AfterEpochEnd K (\<lambda>_. Inr counts) st x ''wevibe_epoch'' n"
  shows "x' = x \<and> GetEmissionPool st' = Inr pool \<and>
    (\<forall>b. pending st' b = pending st b + count_list q b * unat (mint_share p pool q))"
proof -
  have q: "q = mint_qualifying (Inr counts) p" by (simp add: assms(8) mint_qualifying_def)
  obtain st1 where "MintDailyEmission K (Inr counts) st x (word_of_int n) = (st1, x, Inl (E_sdk ''mint coins''))"
    "same_books st st1" "\<forall>b. pending st1 b = pending st b + count_list q b * unat (mint_share p pool q)"
    using Mint_bank_failure [OF assms(1-4) _ assms(6,7) q assms(9), of K x] assms(5,10) by auto
  moreover from this(1) assms(11) have "st' = st1" "x' = x"
    by (simp_all add: emissions_AfterEpochEnd_def WeVibeEpochIdentifier_def Let_def)
  ultimately show ?thesis using assms(3) by (simp add: same_books_def GetEmissionPool_iff)
qed

theorem failed_mint_keeps_rewards_witness:
  "pending (fst (emissions_AfterEpochEnd (ledger_sdk\<lparr>MintCoins := \<lambda>_ _ _. None\<rparr>) (\<lambda>_. Inr [(''alice'', 1)])
     emissions_genesis ex_em_ledger ''wevibe_epoch'' 1)) ''alice'' = 27397260273"
proof -
  let ?p = emissions_DefaultParams and ?c = "[(''alice'', 1)] :: (string \<times> u64) list"
  let ?s = "emissions_AfterEpochEnd (ledger_sdk\<lparr>MintCoins := \<lambda>_ _ _. None\<rparr>) (\<lambda>_. Inr ?c)
     emissions_genesis ex_em_ledger ''wevibe_epoch'' 1"
  have q: "qualifying_contributors ?p ?c = [''alice'']"
    by (simp add: qualifying_contributors_def emissions_DefaultParams_def)
  have b: "mint_share ?p DefaultEmissionPool [''alice''] = 27397260273"
    by (simp add: mint_share_def mint_total_def contributorBudget_def Let_def DefaultEmissionPool_simps
        remainingEpochs_def emissions_DefaultParams_def EpochsPerYear_def)
  have "(fst ?s, snd ?s) = ?s" by simp
  from failed_mint_keeps_rewards [OF emissions_genesis_inv emissions_genesis_rewards(1) emissions_genesis_pool(1)
      _ _ _ emissions_genesis_pool(2) [symmetric] q [symmetric] _ _ this]
  show ?thesis
    by (simp add: emissions_genesis_rewards DefaultEmissionPool_simps b mint_distributed_def)
qed

end
