(* ===== verification/Reputation.thy ===== *)
theory Reputation
  imports KVStore Sdk
begin

section \<open>Reputation: statistics and profiles (x/reputation)\<close>

text \<open>
  Counters about contributors, moderators and leaders.  A developer's statistics (difficulty
  histogram, domain tags, experience points, serves) are kept per wallet; profiles are kept per
  person and organisation and are updated by the memory and serve modules.  The records, the
  keeper, the messages and genesis of \<open>x/reputation\<close>.

  A Go map of a statistics record is \<open>u64 kv option\<close>: \<open>None\<close> is the nil map.  The distinction
  matters, because a record that is written with empty maps is read back with nil maps, and an
  assignment to an entry of a nil map panics.
\<close>

subsection \<open>Data\<close>

record ReputationStats =
  rs_DeveloperID :: string
  rs_MemoryCount :: u64
  rs_DifficultyBucket :: "u64 list"
  rs_DomainTags :: "u64 kv option"
  rs_ProvenanceBreakdown :: "u64 kv option"
  rs_XP :: u64
  rs_ServeCount :: u64
  rs_SelfServeCount :: u64
  rs_OrgBreadth :: u64
  rs_FirstSeenEpoch :: u64
  rs_ServeXP :: u64

definition NewReputationStats :: "string \<Rightarrow> ReputationStats" where
  "NewReputationStats developerID = \<lparr>
     rs_DeveloperID = developerID, rs_MemoryCount = 0, rs_DifficultyBucket = replicate 11 0,
     rs_DomainTags = Some [], rs_ProvenanceBreakdown = Some [], rs_XP = 0, rs_ServeCount = 0,
     rs_SelfServeCount = 0, rs_OrgBreadth = 0, rs_FirstSeenEpoch = 0, rs_ServeXP = 0\<rparr>"

definition ReputationStats_Validate :: "ReputationStats \<Rightarrow> check" where
  "ReputationStats_Validate r =
     (if rs_DeveloperID r = [] then Inl (E_reputation Rep_ErrInvalidDeveloper) else Inr ())"

text \<open>\<open>m[key]++\<close> on a Go map.\<close>

definition map_increment :: "u64 kv option \<Rightarrow> string \<Rightarrow> u64 kv option result" where
  "map_increment m key =
     (case m of
        None \<Rightarrow> Inl (Panic ''assignment to entry in nil map'')
      | Some t \<Rightarrow> Inr (Some (kv_set key (case kv_get t key of None \<Rightarrow> 1 | Some c \<Rightarrow> c + 1) t)))"

fun count_tags :: "u64 kv option \<Rightarrow> string list \<Rightarrow> u64 kv option result" where
  "count_tags m [] = Inr m"
| "count_tags m (tag # tags) =
     (if tag = [] then count_tags m tags
      else case map_increment m tag of Inl e \<Rightarrow> Inl e | Inr m' \<Rightarrow> count_tags m' tags)"

definition ReputationStats_AddMemory ::
  "ReputationStats \<Rightarrow> 8 word \<Rightarrow> 8 word \<Rightarrow> string list \<Rightarrow> string \<Rightarrow> ReputationStats result" where
  "ReputationStats_AddMemory r difficulty quality domainTags provenance =
     (let bucket = (if difficulty \<le> 10
                    then (rs_DifficultyBucket r)[unat difficulty := rs_DifficultyBucket r ! unat difficulty + 1]
                    else rs_DifficultyBucket r)
      in case count_tags (rs_DomainTags r) domainTags of
           Inl e \<Rightarrow> Inl e
         | Inr tags \<Rightarrow>
             (case (if provenance = [] then Inr (rs_ProvenanceBreakdown r)
                    else map_increment (rs_ProvenanceBreakdown r) provenance) of
                Inl e \<Rightarrow> Inl e
              | Inr prov \<Rightarrow> Inr (r\<lparr>
                  rs_MemoryCount := rs_MemoryCount r + 1,
                  rs_DifficultyBucket := bucket,
                  rs_DomainTags := tags,
                  rs_ProvenanceBreakdown := prov,
                  rs_XP := rs_XP r + ucast difficulty * ucast quality\<rparr>)))"

record AttestedMemory =
  am_Developer :: bytes
  am_MemoryCID :: string
  am_Difficulty :: "8 word"
  am_Quality :: "8 word"
  am_DomainTags :: "string list"
  am_Provenance :: string

definition AttestedMemory_Validate :: "AttestedMemory \<Rightarrow> check" where
  "AttestedMemory_Validate a =
     (if am_Developer a = [] then Inl (E_reputation Rep_ErrInvalidDeveloper)
      else if am_MemoryCID a = [] then Inl (E_reputation Rep_ErrInvalidMemory)
      else if am_Difficulty a > 10 then Inl (E_reputation Rep_ErrInvalidDifficulty)
      else if am_Quality a > 10 then Inl (E_reputation Rep_ErrInvalidQuality)
      else Inr ())"

definition AttestedMemory_GetXP :: "AttestedMemory \<Rightarrow> u64" where
  "AttestedMemory_GetXP a = ucast (am_Difficulty a) * ucast (am_Quality a)"

record DifficultyHistogram =
  dh_Developer :: bytes
  dh_Buckets :: "u64 list"
  dh_TotalCount :: u64

definition NewDifficultyHistogram :: "bytes \<Rightarrow> u64 list \<Rightarrow> DifficultyHistogram" where
  "NewDifficultyHistogram developer buckets = \<lparr>
     dh_Developer = developer, dh_Buckets = buckets, dh_TotalCount = foldl (+) 0 buckets\<rparr>"

record DomainExpertise =
  dx_Developer :: bytes
  dx_DomainTags :: "u64 kv option"
  dx_TotalTags :: u64

text \<open>A \<open>range\<close> over a nil map makes no iteration.\<close>

definition map_entries :: "u64 kv option \<Rightarrow> u64 kv" where
  "map_entries m = (case m of None \<Rightarrow> [] | Some t \<Rightarrow> t)"

definition NewDomainExpertise :: "bytes \<Rightarrow> u64 kv option \<Rightarrow> DomainExpertise" where
  "NewDomainExpertise developer domainTags = \<lparr>
     dx_Developer = developer, dx_DomainTags = domainTags,
     dx_TotalTags = foldl (+) 0 (map snd (map_entries domainTags))\<rparr>"

record ProvenanceStats =
  ps_Developer :: bytes
  ps_Tier1Count :: u64
  ps_Tier2Count :: u64
  ps_UnattestedCount :: u64
  ps_TotalCount :: u64

definition provenance_step :: "ProvenanceStats \<Rightarrow> string \<times> u64 \<Rightarrow> ProvenanceStats" where
  "provenance_step s e =
     (let s' = (if fst e = ''commitllm'' then s\<lparr>ps_Tier1Count := snd e\<rparr>
                else if fst e = ''proxy-attested'' then s\<lparr>ps_Tier2Count := snd e\<rparr>
                else if fst e = ''unattested'' then s\<lparr>ps_UnattestedCount := snd e\<rparr>
                else s)
      in s'\<lparr>ps_TotalCount := ps_TotalCount s' + snd e\<rparr>)"

definition NewProvenanceStats :: "bytes \<Rightarrow> u64 kv option \<Rightarrow> ProvenanceStats" where
  "NewProvenanceStats developer breakdown =
     foldl provenance_step \<lparr>ps_Developer = developer, ps_Tier1Count = 0, ps_Tier2Count = 0,
       ps_UnattestedCount = 0, ps_TotalCount = 0\<rparr> (map_entries breakdown)"

subsection \<open>Stored records\<close>

record StoredReputationStats =
  srs_DeveloperId :: string
  srs_MemoryCount :: u64
  srs_DifficultyBucket :: "u64 list"
  srs_DomainTags :: "u64 kv option"
  srs_ProvenanceBreakdown :: "u64 kv option"
  srs_Xp :: u64
  srs_ServeCount :: u64
  srs_SelfServeCount :: u64
  srs_OrgBreadth :: u64
  srs_FirstSeenEpoch :: u64
  srs_ServeXp :: u64

record StoredAttestedMemory =
  sam_Developer :: bytes
  sam_MemoryCid :: string
  sam_Difficulty :: u32
  sam_Quality :: u32
  sam_DomainTags :: "string list"
  sam_Provenance :: string

record StoredContributorOrgSet =
  cos_ContributorId :: string
  cos_OrgIds :: "string list"

record OrgMembership =
  om_OrgId :: string
  om_Role :: string
  om_JoinedEpoch :: u64
  om_Active :: bool

record StoredContributorProfile =
  scp_ContributorId :: string
  scp_TotalApprovedMemories :: u64
  scp_TotalServesReceived :: u64
  scp_TotalDenialsReceived :: u64
  scp_TotalReportsFiledAgainst :: u64
  scp_TotalReportsUpheldAgainst :: u64
  scp_Memberships :: "OrgMembership list"
  scp_FirstContributionEpoch :: u64
  scp_LastContributionEpoch :: u64

record StoredModeratorProfile =
  smp_ModeratorPubkey :: string
  smp_OrgId :: string
  smp_TotalApprovals :: u64
  smp_ApprovalsLaterUpheldCount :: u64
  smp_ApprovedMemoryHashes :: "bytes list"
  smp_FirstApprovalEpoch :: u64
  smp_LastApprovalEpoch :: u64

record StoredLeaderProfile =
  slp_LeaderPubkey :: string
  slp_OrgId :: string
  slp_TotalChainCommitsSigned :: u64
  slp_TotalUpheldReportsCommitted :: u64
  slp_FirstLeadershipEpoch :: u64
  slp_CurrentLeader :: bool

record reputation_Params =
  rp_Active :: bool
  rp_MaxDifficulty :: u32
  rp_MaxQuality :: u32
  rp_ServeXpPerServe :: u64
  rp_SelfServeXpPerServe :: u64

definition reputation_DefaultParams :: reputation_Params where
  "reputation_DefaultParams = \<lparr>
     rp_Active = True, rp_MaxDifficulty = 10, rp_MaxQuality = 10, rp_ServeXpPerServe = 5,
     rp_SelfServeXpPerServe = 2\<rparr>"

definition reputation_Params_Validate :: "reputation_Params \<Rightarrow> check" where
  "reputation_Params_Validate p =
     (if rp_MaxDifficulty p = 0 then Inl (Errorf ''max_difficulty must be non-zero'')
      else if rp_MaxQuality p = 0 then Inl (Errorf ''max_quality must be non-zero'')
      else Inr ())"

definition reputationStatsToStored :: "ReputationStats \<Rightarrow> StoredReputationStats" where
  "reputationStatsToStored s = \<lparr>
     srs_DeveloperId = rs_DeveloperID s, srs_MemoryCount = rs_MemoryCount s,
     srs_DifficultyBucket = rs_DifficultyBucket s, srs_DomainTags = rs_DomainTags s,
     srs_ProvenanceBreakdown = rs_ProvenanceBreakdown s, srs_Xp = rs_XP s,
     srs_ServeCount = rs_ServeCount s, srs_SelfServeCount = rs_SelfServeCount s,
     srs_OrgBreadth = rs_OrgBreadth s, srs_FirstSeenEpoch = rs_FirstSeenEpoch s,
     srs_ServeXp = rs_ServeXP s\<rparr>"

definition storedToReputationStats :: "StoredReputationStats \<Rightarrow> ReputationStats" where
  "storedToReputationStats s = \<lparr>
     rs_DeveloperID = srs_DeveloperId s, rs_MemoryCount = srs_MemoryCount s,
     rs_DifficultyBucket = take 11 (srs_DifficultyBucket s @ replicate 11 0),
     rs_DomainTags = srs_DomainTags s, rs_ProvenanceBreakdown = srs_ProvenanceBreakdown s,
     rs_XP = srs_Xp s, rs_ServeCount = srs_ServeCount s, rs_SelfServeCount = srs_SelfServeCount s,
     rs_OrgBreadth = srs_OrgBreadth s, rs_FirstSeenEpoch = srs_FirstSeenEpoch s,
     rs_ServeXP = srs_ServeXp s\<rparr>"

definition attestedMemoryToStored :: "AttestedMemory \<Rightarrow> StoredAttestedMemory" where
  "attestedMemoryToStored m = \<lparr>
     sam_Developer = am_Developer m, sam_MemoryCid = am_MemoryCID m,
     sam_Difficulty = ucast (am_Difficulty m), sam_Quality = ucast (am_Quality m),
     sam_DomainTags = am_DomainTags m, sam_Provenance = am_Provenance m\<rparr>"

definition storedToAttestedMemory :: "StoredAttestedMemory \<Rightarrow> AttestedMemory" where
  "storedToAttestedMemory s = \<lparr>
     am_Developer = sam_Developer s, am_MemoryCID = sam_MemoryCid s,
     am_Difficulty = ucast (sam_Difficulty s), am_Quality = ucast (sam_Quality s),
     am_DomainTags = sam_DomainTags s, am_Provenance = sam_Provenance s\<rparr>"

text \<open>
  What \<open>proto.Unmarshal\<close> gives back for a marshalled statistics record: a map without entries has
  no bytes on the wire, so the field is left at its zero value, the nil map.
\<close>

definition reload_map :: "u64 kv option \<Rightarrow> u64 kv option" where
  "reload_map m = (if map_entries m = [] then None else m)"

definition StoredReputationStats_reload :: "StoredReputationStats \<Rightarrow> StoredReputationStats" where
  "StoredReputationStats_reload s =
     s\<lparr>srs_DomainTags := reload_map (srs_DomainTags s),
       srs_ProvenanceBreakdown := reload_map (srs_ProvenanceBreakdown s)\<rparr>"

subsection \<open>State\<close>

record reputation_state =
  rep_active :: "bytes option"
  rep_params :: "reputation_Params option"
  rep_stats :: "StoredReputationStats kv"
  rep_memories :: "StoredAttestedMemory kv"
  rep_orgsets :: "StoredContributorOrgSet kv"
  rep_profiles :: "StoredContributorProfile kv"
  rep_leaders :: "StoredLeaderProfile kv"
  rep_moderators :: "StoredModeratorProfile kv"

definition reputation_empty :: reputation_state where
  "reputation_empty = \<lparr>
     rep_active = None, rep_params = None, rep_stats = [], rep_memories = [], rep_orgsets = [],
     rep_profiles = [], rep_leaders = [], rep_moderators = []\<rparr>"

definition statsKey :: "bytes \<Rightarrow> bytes" where
  "statsKey developer = ''stats/'' @ developer"

definition memoryKey :: "bytes \<Rightarrow> string \<Rightarrow> bytes" where
  "memoryKey developer memoryCID = (''memory/'' @ developer) @ ''/'' @ memoryCID"

definition memoryPrefix :: "bytes \<Rightarrow> bytes" where
  "memoryPrefix developer = ''memory/'' @ developer"

definition contributorOrgSetKey :: "bytes \<Rightarrow> bytes" where
  "contributorOrgSetKey developer = ''orgset/'' @ developer"

definition contributorProfileKey :: "string \<Rightarrow> string \<Rightarrow> bytes" where
  "contributorProfileKey contributorID orgID = ''profile/'' @ contributorID @ ''/'' @ orgID"

definition leaderProfileKey :: "string \<Rightarrow> string \<Rightarrow> bytes" where
  "leaderProfileKey leaderPubkey orgID = ''leaderprofile/'' @ ''/'' @ leaderPubkey @ ''/'' @ orgID"

definition moderatorProfileKey :: "string \<Rightarrow> string \<Rightarrow> bytes" where
  "moderatorProfileKey modPubkey orgID = ''modprofile/'' @ ''/'' @ modPubkey @ ''/'' @ orgID"

definition reputation_SetParams :: "reputation_Params \<Rightarrow> reputation_state \<Rightarrow> reputation_state" where
  "reputation_SetParams p st = st\<lparr>rep_params := Some p\<rparr>"

definition reputation_GetParams :: "reputation_state \<Rightarrow> reputation_Params" where
  "reputation_GetParams st = (case rep_params st of None \<Rightarrow> reputation_DefaultParams | Some p \<Rightarrow> p)"

definition Activate :: "reputation_state \<Rightarrow> reputation_state" where
  "Activate st = st\<lparr>rep_active := Some [CHR 0x01]\<rparr>"

definition Deactivate :: "reputation_state \<Rightarrow> reputation_state" where
  "Deactivate st = st\<lparr>rep_active := Some [CHR 0x00]\<rparr>"

definition IsActive :: "reputation_state \<Rightarrow> bool" where
  "IsActive st =
     (case rep_active st of None \<Rightarrow> False | Some bz \<Rightarrow> bz \<noteq> [] \<and> bz ! 0 = CHR 0x01)"

subsection \<open>Statistics of a developer\<close>

definition load_stats :: "reputation_state \<Rightarrow> bytes \<Rightarrow> ReputationStats option" where
  "load_stats st developer =
     map_option (\<lambda>s. storedToReputationStats (StoredReputationStats_reload s))
       (kv_get (rep_stats st) (statsKey developer))"

definition UpdateReputation ::
  "reputation_state \<Rightarrow> bytes \<Rightarrow> AttestedMemory \<Rightarrow> reputation_state result" where
  "UpdateReputation st developer memory =
     (if \<not> IsActive st then Inl (E_reputation Rep_ErrReputationNotActive)
      else case AttestedMemory_Validate memory of
        Inl e \<Rightarrow> Inl e
      | Inr _ \<Rightarrow>
          (let stats = (case load_stats st developer of
                          Some s \<Rightarrow> s | None \<Rightarrow> NewReputationStats developer)
           in case ReputationStats_AddMemory stats (am_Difficulty memory) (am_Quality memory)
                     (am_DomainTags memory) (am_Provenance memory) of
                Inl e \<Rightarrow> Inl e
              | Inr stats' \<Rightarrow> Inr (st\<lparr>
                  rep_stats := kv_set (statsKey developer) (reputationStatsToStored stats') (rep_stats st),
                  rep_memories := kv_set (memoryKey developer (am_MemoryCID memory))
                    (attestedMemoryToStored memory) (rep_memories st)\<rparr>)))"

definition GetReputation :: "reputation_state \<Rightarrow> bytes \<Rightarrow> ReputationStats result" where
  "GetReputation st developer =
     (case load_stats st developer of None \<Rightarrow> Inl (E_reputation Rep_ErrNoStats) | Some s \<Rightarrow> Inr s)"

definition reputation_AddMemory ::
  "reputation_state \<Rightarrow> bytes \<Rightarrow> AttestedMemory \<Rightarrow> reputation_state result" where
  "reputation_AddMemory st developer memory = UpdateReputation st developer memory"

definition GetDifficultyHistogram :: "reputation_state \<Rightarrow> bytes \<Rightarrow> DifficultyHistogram result" where
  "GetDifficultyHistogram st developer =
     (case GetReputation st developer of
        Inl e \<Rightarrow> Inl e
      | Inr stats \<Rightarrow> Inr (NewDifficultyHistogram developer (rs_DifficultyBucket stats)))"

definition GetDomainExpertise :: "reputation_state \<Rightarrow> bytes \<Rightarrow> DomainExpertise result" where
  "GetDomainExpertise st developer =
     (case GetReputation st developer of
        Inl e \<Rightarrow> Inl e
      | Inr stats \<Rightarrow> Inr (NewDomainExpertise developer (rs_DomainTags stats)))"

definition GetXP :: "reputation_state \<Rightarrow> bytes \<Rightarrow> u64 result" where
  "GetXP st developer =
     (case GetReputation st developer of Inl e \<Rightarrow> Inl e | Inr stats \<Rightarrow> Inr (rs_XP stats))"

definition GetMemoryCount :: "reputation_state \<Rightarrow> bytes \<Rightarrow> u64 result" where
  "GetMemoryCount st developer =
     (case GetReputation st developer of Inl e \<Rightarrow> Inl e | Inr stats \<Rightarrow> Inr (rs_MemoryCount stats))"

definition GetProvenanceStats :: "reputation_state \<Rightarrow> bytes \<Rightarrow> ProvenanceStats result" where
  "GetProvenanceStats st developer =
     (case GetReputation st developer of
        Inl e \<Rightarrow> Inl e
      | Inr stats \<Rightarrow> Inr (NewProvenanceStats developer (rs_ProvenanceBreakdown stats)))"

definition GetDeveloperMemories :: "reputation_state \<Rightarrow> bytes \<Rightarrow> AttestedMemory list" where
  "GetDeveloperMemories st developer =
     map (\<lambda>e. storedToAttestedMemory (snd e)) (kv_prefix (memoryPrefix developer) (rep_memories st))"

definition HasDeveloper :: "reputation_state \<Rightarrow> bytes \<Rightarrow> bool" where
  "HasDeveloper st developer = kv_has (rep_stats st) (statsKey developer)"

definition GetAllDevelopers :: "reputation_state \<Rightarrow> bytes list" where
  "GetAllDevelopers st = map (\<lambda>e. drop (length ''stats/'') (fst e)) (rep_stats st)"

text \<open>
  A Go map keyed by the developer: entries in the order of the keys.  Where the code ranges over
  such a map the order is unspecified, and the function that does so takes it as an argument.
\<close>

definition GetReputationStatsMap :: "reputation_state \<Rightarrow> ReputationStats kv" where
  "GetReputationStatsMap st =
     fold (\<lambda>e m. let stats = storedToReputationStats (StoredReputationStats_reload (snd e))
                 in kv_set (rs_DeveloperID stats) stats m) (rep_stats st) []"

fun InitFromMap :: "reputation_state \<Rightarrow> (string \<times> ReputationStats) list \<Rightarrow> reputation_state \<times> check" where
  "InitFromMap st [] = (st, Inr ())"
| "InitFromMap st ((dev, stats) # rest) =
     (case ReputationStats_Validate stats of
        Inl e \<Rightarrow> (st, Inl e)
      | Inr _ \<Rightarrow>
          InitFromMap (st\<lparr>rep_stats :=
            kv_set (statsKey dev) (reputationStatsToStored stats) (rep_stats st)\<rparr>) rest)"

definition ValidateAttestedMemory :: "reputation_state \<Rightarrow> AttestedMemory \<Rightarrow> check" where
  "ValidateAttestedMemory st memory =
     (if \<not> IsActive st then Inl (E_reputation Rep_ErrReputationNotActive)
      else AttestedMemory_Validate memory)"

text \<open>
  The selection of the most frequent domains.  \<open>order\<close> lists the entries of the map in the order in
  which the Go runtime iterates over it; the double loop sorts them by exchanges.
\<close>

definition exchange :: "nat \<Rightarrow> nat \<Rightarrow> (string \<times> u64) list \<Rightarrow> (string \<times> u64) list" where
  "exchange i j ds = (if snd (ds ! j) > snd (ds ! i) then ds[i := ds ! j, j := ds ! i] else ds)"

definition sort_domains :: "(string \<times> u64) list \<Rightarrow> (string \<times> u64) list" where
  "sort_domains ds =
     fold (\<lambda>i ds. fold (exchange i) [i + 1..<length ds] ds) [0..<length ds - 1] ds"

definition GetTopDomains ::
  "(u64 kv \<Rightarrow> (string \<times> u64) list) \<Rightarrow> reputation_state \<Rightarrow> bytes \<Rightarrow> int \<Rightarrow> string list result" where
  "GetTopDomains order st developer limit =
     (case GetReputation st developer of
        Inl e \<Rightarrow> Inl e
      | Inr stats \<Rightarrow>
          (let domains = order (map_entries (rs_DomainTags stats))
           in if int (length domains) \<le> limit then Inr (map fst domains)
              else if limit < 0 then Inl (Panic ''makeslice: len out of range'')
              else Inr (map fst (take (nat limit) (sort_domains domains)))))"

definition RecordServe ::
  "reputation_state \<Rightarrow> bytes \<Rightarrow> string \<Rightarrow> u64 \<Rightarrow> bool \<Rightarrow> reputation_state result" where
  "RecordServe st contributorWallet orgID epoch isSelfServe =
     (if \<not> IsActive st then Inl (E_reputation Rep_ErrReputationNotActive)
      else
        let stats = (case load_stats st contributorWallet of
                       Some s \<Rightarrow> s | None \<Rightarrow> NewReputationStats contributorWallet);
            stats = stats\<lparr>rs_ServeCount := rs_ServeCount stats + 1\<rparr>;
            stats = (if isSelfServe then stats\<lparr>rs_SelfServeCount := rs_SelfServeCount stats + 1\<rparr> else stats);
            params = reputation_GetParams st;
            stats = stats\<lparr>rs_ServeXP := rs_ServeXP stats +
              (if isSelfServe then rp_SelfServeXpPerServe params else rp_ServeXpPerServe params)\<rparr>;
            stats = (if rs_FirstSeenEpoch stats = 0 then stats\<lparr>rs_FirstSeenEpoch := epoch\<rparr> else stats);
            orgSet = (case kv_get (rep_orgsets st) (contributorOrgSetKey contributorWallet) of
                        Some s \<Rightarrow> s
                      | None \<Rightarrow> \<lparr>cos_ContributorId = contributorWallet, cos_OrgIds = []\<rparr>);
            orgFound = orgID \<in> set (cos_OrgIds orgSet);
            orgSet' = (if orgFound then orgSet else orgSet\<lparr>cos_OrgIds := cos_OrgIds orgSet @ [orgID]\<rparr>);
            stats = (if orgFound then stats else stats\<lparr>rs_OrgBreadth := rs_OrgBreadth stats + 1\<rparr>)
        in Inr (st\<lparr>
             rep_orgsets := kv_set (contributorOrgSetKey contributorWallet) orgSet' (rep_orgsets st),
             rep_stats := kv_set (statsKey contributorWallet) (reputationStatsToStored stats) (rep_stats st)\<rparr>))"

definition GetServeStats :: "reputation_state \<Rightarrow> bytes \<Rightarrow> ReputationStats result" where
  "GetServeStats st developer = GetReputation st developer"

definition GetContributorOrgSet :: "reputation_state \<Rightarrow> bytes \<Rightarrow> StoredContributorOrgSet" where
  "GetContributorOrgSet st developer =
     (case kv_get (rep_orgsets st) (contributorOrgSetKey developer) of
        None \<Rightarrow> \<lparr>cos_ContributorId = developer, cos_OrgIds = []\<rparr>
      | Some s \<Rightarrow> s)"

definition GetCrossOrgProfile :: "reputation_state \<Rightarrow> bytes \<Rightarrow> StoredContributorOrgSet" where
  "GetCrossOrgProfile st developer = GetContributorOrgSet st developer"

subsection \<open>Contributor profiles\<close>

definition new_profile :: "string \<Rightarrow> StoredContributorProfile" where
  "new_profile contributorID = \<lparr>
     scp_ContributorId = contributorID, scp_TotalApprovedMemories = 0, scp_TotalServesReceived = 0,
     scp_TotalDenialsReceived = 0, scp_TotalReportsFiledAgainst = 0,
     scp_TotalReportsUpheldAgainst = 0, scp_Memberships = [], scp_FirstContributionEpoch = 0,
     scp_LastContributionEpoch = 0\<rparr>"

definition GetContributorProfile :: "reputation_state \<Rightarrow> string \<Rightarrow> string \<Rightarrow> StoredContributorProfile" where
  "GetContributorProfile st contributorID orgID =
     (case kv_get (rep_profiles st) (contributorProfileKey contributorID orgID) of
        None \<Rightarrow> new_profile contributorID
      | Some p \<Rightarrow> p)"

text \<open>The opening of every profile update: the stored profile or a zero one, its identifier filled in.\<close>

definition load_profile :: "reputation_state \<Rightarrow> string \<Rightarrow> string \<Rightarrow> StoredContributorProfile" where
  "load_profile st contributorID orgID =
     (let profile = (case kv_get (rep_profiles st) (contributorProfileKey contributorID orgID) of
                       None \<Rightarrow> new_profile [] | Some p \<Rightarrow> p)
      in if scp_ContributorId profile = [] then profile\<lparr>scp_ContributorId := contributorID\<rparr> else profile)"

definition store_profile ::
  "reputation_state \<Rightarrow> string \<Rightarrow> string \<Rightarrow> StoredContributorProfile \<Rightarrow> reputation_state" where
  "store_profile st contributorID orgID profile =
     st\<lparr>rep_profiles := kv_set (contributorProfileKey contributorID orgID) profile (rep_profiles st)\<rparr>"

definition IncrementContribution ::
  "reputation_state \<Rightarrow> string \<Rightarrow> string \<Rightarrow> string \<Rightarrow> reputation_state" where
  "IncrementContribution st contributorID orgID memoryCID =
     (let profile = load_profile st contributorID orgID
      in store_profile st contributorID orgID
           (profile\<lparr>scp_TotalApprovedMemories := scp_TotalApprovedMemories profile + 1\<rparr>))"

definition IncrementServe ::
  "reputation_state \<Rightarrow> string \<Rightarrow> string \<Rightarrow> string \<Rightarrow> u64 \<Rightarrow> reputation_state" where
  "IncrementServe st contributorID orgID memoryCID count =
     (let profile = load_profile st contributorID orgID
      in store_profile st contributorID orgID
           (profile\<lparr>scp_TotalServesReceived := scp_TotalServesReceived profile + count\<rparr>))"

definition RecordBan :: "reputation_state \<Rightarrow> string \<Rightarrow> string \<Rightarrow> string \<Rightarrow> reputation_state" where
  "RecordBan st contributorID orgID memoryCID =
     (let profile = load_profile st contributorID orgID
      in store_profile st contributorID orgID
           (profile\<lparr>scp_TotalReportsUpheldAgainst := scp_TotalReportsUpheldAgainst profile + 1\<rparr>))"

text \<open>The deltas are signed; adding them in two's complement is the addition of words.\<close>

record ContributorDelta =
  cd_ApprovedMemories :: u64
  cd_ServesReceived :: u64
  cd_DenialsReceived :: u64
  cd_ReportsFiledAgainst :: u64
  cd_ReportsUpheldAgainst :: u64

definition UpdateContributorAggregate ::
  "reputation_state \<Rightarrow> string \<Rightarrow> ContributorDelta \<Rightarrow> reputation_state" where
  "UpdateContributorAggregate st contributorID delta =
     (let p = load_profile st contributorID []
      in store_profile st contributorID [] (p\<lparr>
           scp_TotalApprovedMemories := scp_TotalApprovedMemories p + cd_ApprovedMemories delta,
           scp_TotalServesReceived := scp_TotalServesReceived p + cd_ServesReceived delta,
           scp_TotalDenialsReceived := scp_TotalDenialsReceived p + cd_DenialsReceived delta,
           scp_TotalReportsFiledAgainst := scp_TotalReportsFiledAgainst p + cd_ReportsFiledAgainst delta,
           scp_TotalReportsUpheldAgainst := scp_TotalReportsUpheldAgainst p + cd_ReportsUpheldAgainst delta\<rparr>))"

text \<open>The loop over the memberships changes the first one of the organisation; \<open>None\<close>: there is none.\<close>

fun update_membership ::
  "string \<Rightarrow> (OrgMembership \<Rightarrow> OrgMembership) \<Rightarrow> OrgMembership list \<Rightarrow> OrgMembership list option" where
  "update_membership orgID f [] = None"
| "update_membership orgID f (m # ms) =
     (if om_OrgId m = orgID then Some (f m # ms)
      else map_option (\<lambda>ms'. m # ms') (update_membership orgID f ms))"

definition AddContributorOrgMembership ::
  "reputation_state \<Rightarrow> string \<Rightarrow> string \<Rightarrow> string \<Rightarrow> u64 \<Rightarrow> reputation_state" where
  "AddContributorOrgMembership st contributorID orgID role joinedEpoch =
     (let p = load_profile st contributorID []
      in case update_membership orgID (\<lambda>m. m\<lparr>om_Role := role, om_Active := True\<rparr>) (scp_Memberships p) of
           Some ms \<Rightarrow> store_profile st contributorID [] (p\<lparr>scp_Memberships := ms\<rparr>)
         | None \<Rightarrow> store_profile st contributorID [] (p\<lparr>scp_Memberships := scp_Memberships p @
             [\<lparr>om_OrgId = orgID, om_Role = role, om_JoinedEpoch = joinedEpoch, om_Active = True\<rparr>]\<rparr>))"

definition UpdateContributorOrgRole ::
  "reputation_state \<Rightarrow> string \<Rightarrow> string \<Rightarrow> string \<Rightarrow> reputation_state result" where
  "UpdateContributorOrgRole st contributorID orgID newRole =
     (case kv_get (rep_profiles st) (contributorProfileKey contributorID []) of
        None \<Rightarrow> Inl (Errorf ''contributor profile not found'')
      | Some p \<Rightarrow>
          (case update_membership orgID (\<lambda>m. m\<lparr>om_Role := newRole\<rparr>) (scp_Memberships p) of
             None \<Rightarrow> Inl (Errorf (''membership not found for org '' @ orgID))
           | Some ms \<Rightarrow> Inr (store_profile st contributorID [] (p\<lparr>scp_Memberships := ms\<rparr>))))"

definition MarkContributorOrgInactive ::
  "reputation_state \<Rightarrow> string \<Rightarrow> string \<Rightarrow> reputation_state result" where
  "MarkContributorOrgInactive st contributorID orgID =
     (case kv_get (rep_profiles st) (contributorProfileKey contributorID []) of
        None \<Rightarrow> Inl (Errorf ''contributor profile not found'')
      | Some p \<Rightarrow>
          (case update_membership orgID (\<lambda>m. m\<lparr>om_Active := False\<rparr>) (scp_Memberships p) of
             None \<Rightarrow> Inl (Errorf (''membership not found for org '' @ orgID))
           | Some ms \<Rightarrow> Inr (store_profile st contributorID [] (p\<lparr>scp_Memberships := ms\<rparr>))))"

definition RecordContributorActivity :: "reputation_state \<Rightarrow> string \<Rightarrow> u64 \<Rightarrow> reputation_state" where
  "RecordContributorActivity st contributorID epoch =
     (let p = load_profile st contributorID [];
          p = (if scp_FirstContributionEpoch p = 0 then p\<lparr>scp_FirstContributionEpoch := epoch\<rparr> else p)
      in store_profile st contributorID [] (p\<lparr>scp_LastContributionEpoch := epoch\<rparr>))"

subsection \<open>Leader and moderator profiles\<close>

definition GetLeaderProfile :: "reputation_state \<Rightarrow> string \<Rightarrow> string \<Rightarrow> StoredLeaderProfile" where
  "GetLeaderProfile st leaderPubkey orgID =
     (case kv_get (rep_leaders st) (leaderProfileKey leaderPubkey orgID) of
        None \<Rightarrow> \<lparr>slp_LeaderPubkey = leaderPubkey, slp_OrgId = orgID, slp_TotalChainCommitsSigned = 0,
                 slp_TotalUpheldReportsCommitted = 0, slp_FirstLeadershipEpoch = 0,
                 slp_CurrentLeader = False\<rparr>
      | Some p \<Rightarrow> p)"

definition SetLeaderProfile :: "reputation_state \<Rightarrow> StoredLeaderProfile \<Rightarrow> reputation_state" where
  "SetLeaderProfile st p =
     st\<lparr>rep_leaders := kv_set (leaderProfileKey (slp_LeaderPubkey p) (slp_OrgId p)) p (rep_leaders st)\<rparr>"

definition IncrementLeaderChainCommit :: "reputation_state \<Rightarrow> string \<Rightarrow> string \<Rightarrow> reputation_state" where
  "IncrementLeaderChainCommit st leaderPubkey orgID =
     (let p = GetLeaderProfile st leaderPubkey orgID
      in SetLeaderProfile st (p\<lparr>slp_TotalChainCommitsSigned := slp_TotalChainCommitsSigned p + 1\<rparr>))"

definition IncrementLeaderUpheldReport :: "reputation_state \<Rightarrow> string \<Rightarrow> string \<Rightarrow> reputation_state" where
  "IncrementLeaderUpheldReport st leaderPubkey orgID =
     (let p = GetLeaderProfile st leaderPubkey orgID
      in SetLeaderProfile st (p\<lparr>slp_TotalUpheldReportsCommitted := slp_TotalUpheldReportsCommitted p + 1\<rparr>))"

definition SetLeaderCurrent :: "reputation_state \<Rightarrow> string \<Rightarrow> string \<Rightarrow> bool \<Rightarrow> reputation_state" where
  "SetLeaderCurrent st leaderPubkey orgID current =
     (let p = GetLeaderProfile st leaderPubkey orgID
      in SetLeaderProfile st (p\<lparr>slp_CurrentLeader := current\<rparr>))"

definition MaxApprovedHashIndex :: nat where "MaxApprovedHashIndex = 1000"

definition GetModeratorProfile :: "reputation_state \<Rightarrow> string \<Rightarrow> string \<Rightarrow> StoredModeratorProfile" where
  "GetModeratorProfile st modPubkey orgID =
     (case kv_get (rep_moderators st) (moderatorProfileKey modPubkey orgID) of
        None \<Rightarrow> \<lparr>smp_ModeratorPubkey = modPubkey, smp_OrgId = orgID, smp_TotalApprovals = 0,
                 smp_ApprovalsLaterUpheldCount = 0, smp_ApprovedMemoryHashes = [],
                 smp_FirstApprovalEpoch = 0, smp_LastApprovalEpoch = 0\<rparr>
      | Some p \<Rightarrow> p)"

definition SetModeratorProfile :: "reputation_state \<Rightarrow> StoredModeratorProfile \<Rightarrow> reputation_state" where
  "SetModeratorProfile st p =
     st\<lparr>rep_moderators :=
       kv_set (moderatorProfileKey (smp_ModeratorPubkey p) (smp_OrgId p)) p (rep_moderators st)\<rparr>"

definition IncrementModeratorApproval ::
  "reputation_state \<Rightarrow> string \<Rightarrow> string \<Rightarrow> bytes \<Rightarrow> u64 \<Rightarrow> reputation_state" where
  "IncrementModeratorApproval st modPubkey orgID memoryHash epoch =
     (let p = GetModeratorProfile st modPubkey orgID;
          hashes = (if MaxApprovedHashIndex \<le> length (smp_ApprovedMemoryHashes p)
                    then drop 1 (smp_ApprovedMemoryHashes p) else smp_ApprovedMemoryHashes p);
          p = p\<lparr>smp_TotalApprovals := smp_TotalApprovals p + 1,
                smp_ApprovedMemoryHashes := hashes @ [memoryHash]\<rparr>;
          p = (if smp_FirstApprovalEpoch p = 0 then p\<lparr>smp_FirstApprovalEpoch := epoch\<rparr> else p)
      in SetModeratorProfile st (p\<lparr>smp_LastApprovalEpoch := epoch\<rparr>))"

definition IncrementModeratorUpheld :: "reputation_state \<Rightarrow> string \<Rightarrow> string \<Rightarrow> reputation_state" where
  "IncrementModeratorUpheld st modPubkey orgID =
     (let p = GetModeratorProfile st modPubkey orgID
      in SetModeratorProfile st
           (p\<lparr>smp_ApprovalsLaterUpheldCount := smp_ApprovalsLaterUpheldCount p + 1\<rparr>))"

subsection \<open>Genesis\<close>

record reputation_GenesisState =
  rg_Active :: bool
  rg_Stats :: "ReputationStats list"
  rg_ContributorOrgSets :: "StoredContributorOrgSet list"

definition reputation_DefaultGenesis :: reputation_GenesisState where
  "reputation_DefaultGenesis = \<lparr>rg_Active = True, rg_Stats = [], rg_ContributorOrgSets = []\<rparr>"

definition reputation_InitGenesisState ::
  "reputation_GenesisState \<Rightarrow> reputation_state \<Rightarrow> reputation_state" where
  "reputation_InitGenesisState g st =
     (let st = (if rg_Active g then Activate st else st)
      in st\<lparr>
        rep_stats := fold (\<lambda>s. kv_set (statsKey (rs_DeveloperID s)) (reputationStatsToStored s))
          (rg_Stats g) (rep_stats st),
        rep_orgsets := fold (\<lambda>s. kv_set (contributorOrgSetKey (cos_ContributorId s)) s)
          (rg_ContributorOrgSets g) (rep_orgsets st)\<rparr>)"

definition reputation_ExportGenesisState ::
  "(ReputationStats kv \<Rightarrow> (string \<times> ReputationStats) list) \<Rightarrow> reputation_state \<Rightarrow> reputation_GenesisState" where
  "reputation_ExportGenesisState order st = \<lparr>
     rg_Active = IsActive st,
     rg_Stats = map snd (order (GetReputationStatsMap st)),
     rg_ContributorOrgSets = map snd (rep_orgsets st)\<rparr>"

text \<open>The module's \<open>InitGenesis\<close>, after the JSON text has been read; \<open>None\<close> is the empty message.\<close>

definition reputation_module_InitGenesis ::
  "reputation_GenesisState option \<Rightarrow> reputation_state \<Rightarrow> reputation_state" where
  "reputation_module_InitGenesis g st =
     reputation_InitGenesisState (case g of None \<Rightarrow> reputation_DefaultGenesis | Some g \<Rightarrow> g)
       (reputation_SetParams reputation_DefaultParams st)"

subsection \<open>Messages\<close>

record MsgUpdateReputation =
  mur_Signer :: string
  mur_Developer :: bytes
  mur_MemoryCid :: string
  mur_Difficulty :: u32
  mur_Quality :: u32
  mur_DomainTags :: "string list"
  mur_Provenance :: string

record MsgIncrementContribution =
  mic_Authority :: string
  mic_ContributorId :: string
  mic_OrgId :: string
  mic_MemoryCid :: string

record MsgIncrementServe =
  mis_Authority :: string
  mis_ContributorId :: string
  mis_OrgId :: string
  mis_MemoryCid :: string
  mis_ServeCount :: u64

record MsgRecordBan =
  mrb_Authority :: string
  mrb_ContributorId :: string
  mrb_OrgId :: string
  mrb_MemoryCid :: string

record reputation_MsgUpdateParams =
  rmu_Authority :: string
  rmu_Params :: "reputation_Params option"

definition MsgUpdateReputation_ValidateBasic :: "MsgUpdateReputation \<Rightarrow> check" where
  "MsgUpdateReputation_ValidateBasic m =
     (if mur_Signer m = [] then Inl (Errorf ''signer cannot be empty'')
      else if mur_Developer m = [] then Inl (E_reputation Rep_ErrInvalidDeveloper)
      else if mur_MemoryCid m = [] then Inl (E_reputation Rep_ErrInvalidMemory)
      else if mur_Difficulty m > 10 then Inl (E_reputation Rep_ErrInvalidDifficulty)
      else if mur_Quality m > 10 then Inl (E_reputation Rep_ErrInvalidQuality)
      else Inr ())"

definition MsgIncrementContribution_ValidateBasic :: "MsgIncrementContribution \<Rightarrow> check" where
  "MsgIncrementContribution_ValidateBasic m =
     (if mic_Authority m = [] then Inl (Errorf ''authority cannot be empty'')
      else if mic_ContributorId m = [] then Inl (Errorf ''contributor_id cannot be empty'')
      else Inr ())"

definition MsgIncrementServe_ValidateBasic :: "MsgIncrementServe \<Rightarrow> check" where
  "MsgIncrementServe_ValidateBasic m =
     (if mis_Authority m = [] then Inl (Errorf ''authority cannot be empty'')
      else if mis_ContributorId m = [] then Inl (Errorf ''contributor_id cannot be empty'')
      else Inr ())"

definition MsgRecordBan_ValidateBasic :: "MsgRecordBan \<Rightarrow> check" where
  "MsgRecordBan_ValidateBasic m =
     (if mrb_Authority m = [] then Inl (Errorf ''authority cannot be empty'')
      else if mrb_ContributorId m = [] then Inl (Errorf ''contributor_id cannot be empty'')
      else Inr ())"

definition Msg_UpdateReputation ::
  "reputation_state \<Rightarrow> MsgUpdateReputation \<Rightarrow> (reputation_state \<times> u64) result" where
  "Msg_UpdateReputation st msg =
     (case MsgUpdateReputation_ValidateBasic msg of
        Inl e \<Rightarrow> Inl e
      | Inr _ \<Rightarrow>
          (case UpdateReputation st (mur_Developer msg) \<lparr>
                  am_Developer = mur_Developer msg, am_MemoryCID = mur_MemoryCid msg,
                  am_Difficulty = ucast (mur_Difficulty msg), am_Quality = ucast (mur_Quality msg),
                  am_DomainTags = mur_DomainTags msg, am_Provenance = mur_Provenance msg\<rparr> of
             Inl e \<Rightarrow> Inl e
           | Inr st' \<Rightarrow>
               (case GetXP st' (mur_Developer msg) of Inl e \<Rightarrow> Inl e | Inr xp \<Rightarrow> Inr (st', xp))))"

definition reputation_Msg_UpdateParams ::
  "'x sdk \<Rightarrow> reputation_state \<Rightarrow> reputation_MsgUpdateParams \<Rightarrow> reputation_state result" where
  "reputation_Msg_UpdateParams K st msg =
     (if rmu_Authority msg \<noteq> authority K then Inl (E_reputation Rep_ErrUnauthorized)
      else case rmu_Params msg of
        None \<Rightarrow> Inl (Panic ''nil pointer dereference'')
      | Some p \<Rightarrow>
          (case reputation_Params_Validate p of
             Inl e \<Rightarrow> Inl e | Inr _ \<Rightarrow> Inr (reputation_SetParams p st)))"

definition Msg_IncrementContribution ::
  "'x sdk \<Rightarrow> reputation_state \<Rightarrow> MsgIncrementContribution \<Rightarrow> reputation_state result" where
  "Msg_IncrementContribution K st msg =
     (case MsgIncrementContribution_ValidateBasic msg of
        Inl e \<Rightarrow> Inl e
      | Inr _ \<Rightarrow>
          if mic_Authority msg \<noteq> authority K then Inl (E_reputation Rep_ErrUnauthorized)
          else Inr (IncrementContribution st (mic_ContributorId msg) (mic_OrgId msg) (mic_MemoryCid msg)))"

definition Msg_IncrementServe ::
  "'x sdk \<Rightarrow> reputation_state \<Rightarrow> MsgIncrementServe \<Rightarrow> reputation_state result" where
  "Msg_IncrementServe K st msg =
     (case MsgIncrementServe_ValidateBasic msg of
        Inl e \<Rightarrow> Inl e
      | Inr _ \<Rightarrow>
          if mis_Authority msg \<noteq> authority K then Inl (E_reputation Rep_ErrUnauthorized)
          else Inr (IncrementServe st (mis_ContributorId msg) (mis_OrgId msg) (mis_MemoryCid msg)
                 (mis_ServeCount msg)))"

definition Msg_RecordBan ::
  "'x sdk \<Rightarrow> reputation_state \<Rightarrow> MsgRecordBan \<Rightarrow> reputation_state result" where
  "Msg_RecordBan K st msg =
     (case MsgRecordBan_ValidateBasic msg of
        Inl e \<Rightarrow> Inl e
      | Inr _ \<Rightarrow>
          if mrb_Authority msg \<noteq> authority K then Inl (E_reputation Rep_ErrUnauthorized)
          else Inr (RecordBan st (mrb_ContributorId msg) (mrb_OrgId msg) (mrb_MemoryCid msg)))"

end
