(* ===== verification/Reputation_Correct.thy ===== *)
theory Reputation_Correct
  imports Reputation "HOL-Library.Multiset"
begin

section \<open>Correctness of the reputation counters\<close>

text \<open>
  The counters of \<open>x/reputation\<close> along every sequence of messages and of calls by the other
  modules: the histogram adds up to the number of memories, the serve statistics are the summary
  of the log of recorded serves (a refinement: the log is the abstract state), the index of a
  moderator's approvals is the window of the last thousand, the domain selection returns the most
  frequent domains; and the panic a record without tags runs into.
\<close>

subsection \<open>The machine\<close>

text \<open>
  What changes the state of the module: its own messages, each with the context it is delivered
  in, and the keeper functions that the memory and serve modules call.
\<close>

datatype 'x reputation_event =
    Rep_UpdateReputation MsgUpdateReputation
  | Rep_UpdateParams "'x sdk" reputation_MsgUpdateParams
  | Rep_Msg_IncrementContribution "'x sdk" MsgIncrementContribution
  | Rep_Msg_IncrementServe "'x sdk" MsgIncrementServe
  | Rep_Msg_RecordBan "'x sdk" MsgRecordBan
  | Rep_RecordServe bytes string u64 bool
  | Rep_IncrementContribution string string string
  | Rep_IncrementServe string string string u64
  | Rep_RecordBan string string string
  | Rep_LeaderChainCommit string string
  | Rep_LeaderUpheldReport string string
  | Rep_ModeratorApproval string string bytes u64
  | Rep_ModeratorUpheld string string

fun reputation_handle :: "reputation_state \<Rightarrow> 'x reputation_event \<Rightarrow> reputation_state result" where
  "reputation_handle st (Rep_UpdateReputation m) =
     (case Msg_UpdateReputation st m of Inl e \<Rightarrow> Inl e | Inr (st', xp) \<Rightarrow> Inr st')"
| "reputation_handle st (Rep_UpdateParams K m) = reputation_Msg_UpdateParams K st m"
| "reputation_handle st (Rep_Msg_IncrementContribution K m) = Msg_IncrementContribution K st m"
| "reputation_handle st (Rep_Msg_IncrementServe K m) = Msg_IncrementServe K st m"
| "reputation_handle st (Rep_Msg_RecordBan K m) = Msg_RecordBan K st m"
| "reputation_handle st (Rep_RecordServe w org epoch self) = RecordServe st w org epoch self"
| "reputation_handle st (Rep_IncrementContribution c org cid) = Inr (IncrementContribution st c org cid)"
| "reputation_handle st (Rep_IncrementServe c org cid n) = Inr (IncrementServe st c org cid n)"
| "reputation_handle st (Rep_RecordBan c org cid) = Inr (RecordBan st c org cid)"
| "reputation_handle st (Rep_LeaderChainCommit l org) = Inr (IncrementLeaderChainCommit st l org)"
| "reputation_handle st (Rep_LeaderUpheldReport l org) = Inr (IncrementLeaderUpheldReport st l org)"
| "reputation_handle st (Rep_ModeratorApproval p org h epoch) =
     Inr (IncrementModeratorApproval st p org h epoch)"
| "reputation_handle st (Rep_ModeratorUpheld p org) = Inr (IncrementModeratorUpheld st p org)"

definition reputation_genesis :: reputation_state where
  "reputation_genesis = reputation_module_InitGenesis None reputation_empty"

text \<open>Every event but two leaves the statistics alone.\<close>

definition same_stats :: "reputation_state \<Rightarrow> reputation_state \<Rightarrow> bool" where
  "same_stats st st' \<longleftrightarrow> rep_stats st' = rep_stats st \<and> rep_orgsets st' = rep_orgsets st \<and>
     rep_active st' = rep_active st"

lemma reputation_handle_cases:
  assumes "reputation_handle st ev = Inr st'"
  obtains (update) dev mem where "UpdateReputation st dev mem = Inr st'"
      "\<And>w org epoch self. ev \<noteq> Rep_RecordServe w org epoch self"
  | (serve) w org epoch self where "ev = Rep_RecordServe w org epoch self"
      "RecordServe st w org epoch self = Inr st'"
  | (other) "same_stats st st'" "\<And>w org epoch self. ev \<noteq> Rep_RecordServe w org epoch self"
proof (cases ev)
  case (Rep_UpdateReputation m)
  then show thesis using assms update by (auto simp: Msg_UpdateReputation_def split: sum.splits)
next
  case (Rep_UpdateParams K m)
  then have "same_stats st st'" using assms
    by (auto simp: reputation_Msg_UpdateParams_def reputation_SetParams_def same_stats_def
        split: if_splits option.splits sum.splits)
  then show thesis using Rep_UpdateParams other by simp
next
  case (Rep_RecordServe w org epoch self)
  then show thesis using assms serve by simp
next
  case (Rep_Msg_IncrementContribution K m)
  then have "same_stats st st'" using assms
    by (auto simp: Msg_IncrementContribution_def IncrementContribution_def store_profile_def
        same_stats_def Let_def split: if_splits sum.splits)
  then show thesis using Rep_Msg_IncrementContribution other by simp
next
  case (Rep_Msg_IncrementServe K m)
  then have "same_stats st st'" using assms
    by (auto simp: Msg_IncrementServe_def IncrementServe_def store_profile_def
        same_stats_def Let_def split: if_splits sum.splits)
  then show thesis using Rep_Msg_IncrementServe other by simp
next
  case (Rep_Msg_RecordBan K m)
  then have "same_stats st st'" using assms
    by (auto simp: Msg_RecordBan_def RecordBan_def store_profile_def
        same_stats_def Let_def split: if_splits sum.splits)
  then show thesis using Rep_Msg_RecordBan other by simp
qed (use assms other in \<open>auto simp: IncrementContribution_def IncrementServe_def RecordBan_def
  IncrementLeaderChainCommit_def IncrementLeaderUpheldReport_def IncrementModeratorApproval_def
  IncrementModeratorUpheld_def SetLeaderProfile_def SetModeratorProfile_def store_profile_def
  same_stats_def Let_def\<close>)

subsection \<open>Reading back a record\<close>

lemma statsKey_inj [simp]: "statsKey a = statsKey b \<longleftrightarrow> a = b"
  by (simp add: statsKey_def)

lemma contributorOrgSetKey_inj [simp]: "contributorOrgSetKey a = contributorOrgSetKey b \<longleftrightarrow> a = b"
  by (simp add: contributorOrgSetKey_def)

definition reload_stats :: "ReputationStats \<Rightarrow> ReputationStats" where
  "reload_stats s = s\<lparr>rs_DomainTags := reload_map (rs_DomainTags s),
     rs_ProvenanceBreakdown := reload_map (rs_ProvenanceBreakdown s)\<rparr>"

lemma reload_stats_simps [simp]:
  "rs_DeveloperID (reload_stats s) = rs_DeveloperID s"
  "rs_MemoryCount (reload_stats s) = rs_MemoryCount s"
  "rs_DifficultyBucket (reload_stats s) = rs_DifficultyBucket s"
  "rs_XP (reload_stats s) = rs_XP s"
  "rs_ServeCount (reload_stats s) = rs_ServeCount s"
  "rs_SelfServeCount (reload_stats s) = rs_SelfServeCount s"
  "rs_OrgBreadth (reload_stats s) = rs_OrgBreadth s"
  "rs_FirstSeenEpoch (reload_stats s) = rs_FirstSeenEpoch s"
  "rs_ServeXP (reload_stats s) = rs_ServeXP s"
  "rs_DomainTags (reload_stats s) = reload_map (rs_DomainTags s)"
  "rs_ProvenanceBreakdown (reload_stats s) = reload_map (rs_ProvenanceBreakdown s)"
  by (simp_all add: reload_stats_def)

lemma stored_round_trip:
  assumes "length (rs_DifficultyBucket s) = 11"
  shows "storedToReputationStats (StoredReputationStats_reload (reputationStatsToStored s)) = reload_stats s"
  using assms by (simp add: storedToReputationStats_def StoredReputationStats_reload_def
      reputationStatsToStored_def reload_stats_def)

lemma load_stats_bucket: "load_stats st w = Some s \<Longrightarrow> length (rs_DifficultyBucket s) = 11"
  by (auto simp: load_stats_def storedToReputationStats_def)

lemma load_stats_set:
  assumes "length (rs_DifficultyBucket s) = 11"
    and "rep_stats st' = kv_set (statsKey w) (reputationStatsToStored s) (rep_stats st)"
  shows "load_stats st' v = (if v = w then Some (reload_stats s) else load_stats st v)"
  using assms by (simp add: load_stats_def kv_get_set stored_round_trip)

text \<open>The record an update starts from.\<close>

definition current_stats :: "reputation_state \<Rightarrow> bytes \<Rightarrow> ReputationStats" where
  "current_stats st w = (case load_stats st w of Some s \<Rightarrow> s | None \<Rightarrow> NewReputationStats w)"

lemma current_stats_bucket [simp]: "length (rs_DifficultyBucket (current_stats st w)) = 11"
  using load_stats_bucket by (auto simp: current_stats_def NewReputationStats_def split: option.split)

lemma UpdateReputation_ok:
  assumes "UpdateReputation st dev mem = Inr st'"
  obtains s where "am_Difficulty mem \<le> 10"
    "ReputationStats_AddMemory (current_stats st dev) (am_Difficulty mem) (am_Quality mem)
       (am_DomainTags mem) (am_Provenance mem) = Inr s"
    "rep_stats st' = kv_set (statsKey dev) (reputationStatsToStored s) (rep_stats st)"
    "rep_orgsets st' = rep_orgsets st" "rep_active st' = rep_active st"
  using assms
  by (fastforce simp: UpdateReputation_def AttestedMemory_Validate_def current_stats_def Let_def not_less
      split: if_splits sum.splits)

lemma RecordServe_active:
  assumes "RecordServe st w org epoch self = Inr st'"
  shows "IsActive st" "rep_active st' = rep_active st"
  using assms by (auto simp: RecordServe_def Let_def split: if_splits)

lemma IsActive_cong: "rep_active st' = rep_active st \<Longrightarrow> IsActive st' = IsActive st"
  by (simp add: IsActive_def)

lemma reputation_handle_active:
  assumes "reputation_handle st ev = Inr st'"
  shows "rep_active st' = rep_active st"
  using assms
proof (cases rule: reputation_handle_cases)
  case (update dev mem)
  then show ?thesis by (elim UpdateReputation_ok)
next
  case (serve w org epoch self)
  then show ?thesis using RecordServe_active by blast
qed (simp add: same_stats_def)

interpretation rep_active: tx_machine reputation_handle IsActive
  using reputation_handle_active IsActive_cong by unfold_locales blast

lemma reputation_genesis_simps [simp]:
  "IsActive reputation_genesis" "rep_stats reputation_genesis = []" "rep_orgsets reputation_genesis = []"
  by (simp_all add: reputation_genesis_def reputation_module_InitGenesis_def Let_def
      reputation_InitGenesisState_def reputation_DefaultGenesis_def reputation_SetParams_def
      reputation_empty_def Activate_def IsActive_def)

subsection \<open>The difficulty histogram\<close>

lemma foldl_plus_words: "foldl (+) a ns = a + sum_list (ns :: u64 list)"
  by (induction ns arbitrary: a) (simp_all add: ac_simps)

lemma sum_list_bump:
  "i < length xs \<Longrightarrow> sum_list (xs[i := xs ! i + 1]) = sum_list xs + (1 :: u64)"
proof (induction xs arbitrary: i)
  case (Cons x xs)
  then show ?case by (cases i) (simp_all add: ac_simps)
qed simp

definition histogram_ok :: "reputation_state \<Rightarrow> bool" where
  "histogram_ok st \<longleftrightarrow>
     (\<forall>w s. load_stats st w = Some s \<longrightarrow> sum_list (rs_DifficultyBucket s) = rs_MemoryCount s)"

lemma AddMemory_ok:
  assumes "ReputationStats_AddMemory r d q tags prov = Inr s" "length (rs_DifficultyBucket r) = 11"
  shows "length (rs_DifficultyBucket s) = 11"
    "d \<le> 10 \<Longrightarrow> sum_list (rs_DifficultyBucket s) = sum_list (rs_DifficultyBucket r) + 1"
    "rs_MemoryCount s = rs_MemoryCount r + 1"
    "rs_ServeCount s = rs_ServeCount r" "rs_SelfServeCount s = rs_SelfServeCount r"
    "rs_OrgBreadth s = rs_OrgBreadth r" "rs_FirstSeenEpoch s = rs_FirstSeenEpoch r"
proof -
  have "d \<le> 10 \<Longrightarrow> unat d < 11"
    by (simp add: word_le_nat_alt)
  then show "length (rs_DifficultyBucket s) = 11"
    "d \<le> 10 \<Longrightarrow> sum_list (rs_DifficultyBucket s) = sum_list (rs_DifficultyBucket r) + 1"
    "rs_MemoryCount s = rs_MemoryCount r + 1"
    "rs_ServeCount s = rs_ServeCount r" "rs_SelfServeCount s = rs_SelfServeCount r"
    "rs_OrgBreadth s = rs_OrgBreadth r" "rs_FirstSeenEpoch s = rs_FirstSeenEpoch r"
    using assms sum_list_bump
    by (auto simp: ReputationStats_AddMemory_def Let_def split: sum.splits if_splits)
qed

lemma current_stats_histogram:
  "histogram_ok st \<Longrightarrow> sum_list (rs_DifficultyBucket (current_stats st w)) = rs_MemoryCount (current_stats st w)"
  by (auto simp: histogram_ok_def current_stats_def NewReputationStats_def sum_list_replicate
      split: option.split)

text \<open>What a recorded serve writes, from the record and the set of organisations before it.\<close>

definition served_stats :: "reputation_Params \<Rightarrow> ReputationStats \<Rightarrow> string list \<Rightarrow> string \<Rightarrow> u64 \<Rightarrow> bool \<Rightarrow> ReputationStats" where
  "served_stats p s orgs org epoch self = s\<lparr>
     rs_ServeCount := rs_ServeCount s + 1,
     rs_SelfServeCount := rs_SelfServeCount s + (if self then 1 else 0),
     rs_ServeXP := rs_ServeXP s + (if self then rp_SelfServeXpPerServe p else rp_ServeXpPerServe p),
     rs_FirstSeenEpoch := (if rs_FirstSeenEpoch s = 0 then epoch else rs_FirstSeenEpoch s),
     rs_OrgBreadth := rs_OrgBreadth s + (if org \<in> set orgs then 0 else 1)\<rparr>"

lemma served_stats_histogram [simp]:
  "rs_DifficultyBucket (served_stats p s orgs org epoch self) = rs_DifficultyBucket s"
  "rs_MemoryCount (served_stats p s orgs org epoch self) = rs_MemoryCount s"
  by (simp_all add: served_stats_def)

lemma RecordServe_ok:
  assumes "RecordServe st w org epoch self = Inr st'"
  shows "rep_stats st' = kv_set (statsKey w) (reputationStatsToStored
      (served_stats (reputation_GetParams st) (current_stats st w)
        (cos_OrgIds (GetContributorOrgSet st w)) org epoch self)) (rep_stats st)"
    "cos_OrgIds (GetContributorOrgSet st' v) =
      (let orgs = cos_OrgIds (GetContributorOrgSet st v)
       in if v = w \<and> org \<notin> set orgs then orgs @ [org] else orgs)"
proof -
  let ?set = "GetContributorOrgSet st w" and ?s = "current_stats st w"
  have "RecordServe st w org epoch self = Inr (st\<lparr>
      rep_orgsets := kv_set (contributorOrgSetKey w)
        (if org \<in> set (cos_OrgIds ?set) then ?set else ?set\<lparr>cos_OrgIds := cos_OrgIds ?set @ [org]\<rparr>)
        (rep_orgsets st),
      rep_stats := kv_set (statsKey w) (reputationStatsToStored
        (served_stats (reputation_GetParams st) ?s (cos_OrgIds ?set) org epoch self)) (rep_stats st)\<rparr>)"
    using RecordServe_active(1) [OF assms]
    unfolding RecordServe_def Let_def current_stats_def [symmetric]
      GetContributorOrgSet_def [symmetric]
    by (simp add: served_stats_def)
  with assms have st': "st' = st\<lparr>
      rep_orgsets := kv_set (contributorOrgSetKey w)
        (if org \<in> set (cos_OrgIds ?set) then ?set else ?set\<lparr>cos_OrgIds := cos_OrgIds ?set @ [org]\<rparr>)
        (rep_orgsets st),
      rep_stats := kv_set (statsKey w) (reputationStatsToStored
        (served_stats (reputation_GetParams st) ?s (cos_OrgIds ?set) org epoch self)) (rep_stats st)\<rparr>"
    by (simp only: sum.inject)
  then show "rep_stats st' = kv_set (statsKey w) (reputationStatsToStored
      (served_stats (reputation_GetParams st) (current_stats st w)
        (cos_OrgIds (GetContributorOrgSet st w)) org epoch self)) (rep_stats st)" by simp
  show "cos_OrgIds (GetContributorOrgSet st' v) =
      (let orgs = cos_OrgIds (GetContributorOrgSet st v)
       in if v = w \<and> org \<notin> set orgs then orgs @ [org] else orgs)"
    by (cases "v = w") (simp_all add: st' GetContributorOrgSet_def [of "rep_stats_update _ _"] kv_get_set Let_def
      GetContributorOrgSet_def [of st v])
qed

lemma histogram_set:
  assumes "histogram_ok st" "length (rs_DifficultyBucket s) = 11"
    and "rep_stats st' = kv_set (statsKey w) (reputationStatsToStored s) (rep_stats st)"
    and "sum_list (rs_DifficultyBucket s) = rs_MemoryCount s"
  shows "histogram_ok st'"
  using assms(1,4) unfolding histogram_ok_def load_stats_set [OF assms(2,3)]
  by (auto split: if_splits)

lemma histogram_handle:
  assumes "histogram_ok st" "reputation_handle st ev = Inr st'"
  shows "histogram_ok st'"
  using assms(2)
proof (cases rule: reputation_handle_cases)
  case (update dev mem)
  then obtain s where s: "am_Difficulty mem \<le> 10"
    "ReputationStats_AddMemory (current_stats st dev) (am_Difficulty mem) (am_Quality mem)
       (am_DomainTags mem) (am_Provenance mem) = Inr s"
    "rep_stats st' = kv_set (statsKey dev) (reputationStatsToStored s) (rep_stats st)"
    by (elim UpdateReputation_ok)
  note a = AddMemory_ok [OF s(2) current_stats_bucket]
  show ?thesis
    using a(2) [OF s(1)] a(3) current_stats_histogram [OF assms(1), of dev]
    by (intro histogram_set [OF assms(1) a(1) s(3)]) simp
next
  case (serve w org epoch self)
  show ?thesis
    using current_stats_histogram [OF assms(1), of w]
    by (intro histogram_set [OF assms(1) _ RecordServe_ok(1) [OF serve(2)]]) simp_all
next
  case other
  then have "load_stats st' = load_stats st" by (simp add: same_stats_def load_stats_def fun_eq_iff)
  then show ?thesis using assms(1) by (simp add: histogram_ok_def)
qed

interpretation histogram: tx_machine reputation_handle histogram_ok
  using histogram_handle by unfold_locales

subsection \<open>Serve statistics as a summary of the log\<close>

fun first_nonzero :: "u64 list \<Rightarrow> u64" where
  "first_nonzero [] = 0"
| "first_nonzero (n # ns) = (if n = 0 then first_nonzero ns else n)"

lemma first_nonzero_snoc: "first_nonzero (ns @ [n]) = (if first_nonzero ns = 0 then n else first_nonzero ns)"
  by (induction ns) simp_all

text \<open>
  The abstract state is the log of the serves recorded for a wallet; the concrete one holds four
  counters and the list of organisations.
\<close>

type_synonym serve_entry = "string \<times> u64 \<times> bool"

definition event_log :: "bytes \<Rightarrow> 'x reputation_event \<Rightarrow> serve_entry list" where
  "event_log w ev =
     (case ev of Rep_RecordServe v org epoch self \<Rightarrow> if v = w then [(org, epoch, self)] else [] | _ \<Rightarrow> [])"

definition serve_log :: "bytes \<Rightarrow> 'x reputation_event list \<Rightarrow> serve_entry list" where
  "serve_log w evs = concat (map (event_log w) evs)"

record serve_view =
  sv_ServeCount :: u64
  sv_SelfServeCount :: u64
  sv_OrgBreadth :: u64
  sv_FirstSeenEpoch :: u64
  sv_OrgIds :: "string list"

definition stats_view :: "reputation_state \<Rightarrow> bytes \<Rightarrow> serve_view" where
  "stats_view st w =
     (case GetServeStats st w of
        Inl _ \<Rightarrow> \<lparr>sv_ServeCount = 0, sv_SelfServeCount = 0, sv_OrgBreadth = 0, sv_FirstSeenEpoch = 0,
                   sv_OrgIds = cos_OrgIds (GetContributorOrgSet st w)\<rparr>
      | Inr s \<Rightarrow> \<lparr>sv_ServeCount = rs_ServeCount s, sv_SelfServeCount = rs_SelfServeCount s,
                   sv_OrgBreadth = rs_OrgBreadth s, sv_FirstSeenEpoch = rs_FirstSeenEpoch s,
                   sv_OrgIds = cos_OrgIds (GetContributorOrgSet st w)\<rparr>)"

definition log_view :: "serve_entry list \<Rightarrow> serve_view" where
  "log_view es = \<lparr>
     sv_ServeCount = of_nat (length es),
     sv_SelfServeCount = of_nat (length (filter (\<lambda>e. snd (snd e)) es)),
     sv_OrgBreadth = of_nat (card (fst ` set es)),
     sv_FirstSeenEpoch = first_nonzero (map (\<lambda>e. fst (snd e)) es),
     sv_OrgIds = rev (remdups (rev (map fst es)))\<rparr>"

definition view_add :: "serve_view \<Rightarrow> serve_entry \<Rightarrow> serve_view" where
  "view_add v e = (case e of (org, epoch, self) \<Rightarrow> \<lparr>
     sv_ServeCount = sv_ServeCount v + 1,
     sv_SelfServeCount = sv_SelfServeCount v + (if self then 1 else 0),
     sv_OrgBreadth = sv_OrgBreadth v + (if org \<in> set (sv_OrgIds v) then 0 else 1),
     sv_FirstSeenEpoch = (if sv_FirstSeenEpoch v = 0 then epoch else sv_FirstSeenEpoch v),
     sv_OrgIds = (if org \<in> set (sv_OrgIds v) then sv_OrgIds v else sv_OrgIds v @ [org])\<rparr>)"

lemma log_view_snoc: "log_view (es @ [e]) = view_add (log_view es) e"
proof -
  obtain org epoch self where e: "e = (org, epoch, self)" by (cases e)
  have "card (insert org (fst ` set es)) = card (fst ` set es) + (if org \<in> fst ` set es then 0 else 1)"
    by (simp add: insert_absorb)
  then show ?thesis
    by (simp add: log_view_def view_add_def e first_nonzero_snoc)
qed

lemma stats_view_current:
  "stats_view st w = \<lparr>sv_ServeCount = rs_ServeCount (current_stats st w),
     sv_SelfServeCount = rs_SelfServeCount (current_stats st w),
     sv_OrgBreadth = rs_OrgBreadth (current_stats st w),
     sv_FirstSeenEpoch = rs_FirstSeenEpoch (current_stats st w),
     sv_OrgIds = cos_OrgIds (GetContributorOrgSet st w)\<rparr>"
  by (simp add: stats_view_def GetServeStats_def GetReputation_def current_stats_def
      NewReputationStats_def split: option.split)

lemma current_stats_set:
  assumes "length (rs_DifficultyBucket s) = 11"
    and "rep_stats st' = kv_set (statsKey w) (reputationStatsToStored s) (rep_stats st)"
  shows "current_stats st' v = (if v = w then reload_stats s else current_stats st v)"
  using load_stats_set [OF assms] by (simp add: current_stats_def)

lemma GetContributorOrgSet_cong:
  "rep_orgsets st' = rep_orgsets st \<Longrightarrow> GetContributorOrgSet st' w = GetContributorOrgSet st w"
  by (simp add: GetContributorOrgSet_def)

text \<open>The simulation step: an event appends to the log exactly what it adds to the view.\<close>

lemma stats_view_handle:
  assumes "reputation_handle st ev = Inr st'"
  shows "stats_view st' w = foldl view_add (stats_view st w) (event_log w ev)"
  using assms
proof (cases rule: reputation_handle_cases)
  case (update dev mem)
  then obtain s where s: "ReputationStats_AddMemory (current_stats st dev) (am_Difficulty mem) (am_Quality mem)
       (am_DomainTags mem) (am_Provenance mem) = Inr s"
    "rep_stats st' = kv_set (statsKey dev) (reputationStatsToStored s) (rep_stats st)"
    "rep_orgsets st' = rep_orgsets st"
    by (elim UpdateReputation_ok)
  have "event_log w ev = []" using update(2) by (auto simp: event_log_def split: reputation_event.split)
  then show ?thesis
    using AddMemory_ok [OF s(1) current_stats_bucket] current_stats_set [OF _ s(2), of w]
      GetContributorOrgSet_cong [OF s(3)]
    by (simp add: stats_view_current)
next
  case (serve v org epoch self)
  show ?thesis
    using current_stats_set [OF _ RecordServe_ok(1) [OF serve(2)], of w] RecordServe_ok(2) [OF serve(2), of w]
    by (auto simp: stats_view_current served_stats_def event_log_def serve(1) view_add_def Let_def)
next
  case other
  then have "event_log w ev = []" by (auto simp: event_log_def split: reputation_event.split)
  moreover have "current_stats st' w = current_stats st w" "GetContributorOrgSet st' w = GetContributorOrgSet st w"
    using other(1) by (simp_all add: same_stats_def current_stats_def load_stats_def GetContributorOrgSet_def)
  ultimately show ?thesis by (simp add: stats_view_current)
qed

lemma serve_log_Nil_simps [simp]: "serve_log w [] = []" "serve_log w (ev # evs) = event_log w ev @ serve_log w evs"
  by (simp_all add: serve_log_def)

lemma handle_RecordServe_fails:
  "reputation_handle st ev = Inl e \<Longrightarrow> IsActive st \<Longrightarrow> event_log w ev = []"
proof (cases ev)
  case (Rep_RecordServe v org epoch self)
  moreover assume "reputation_handle st ev = Inl e" "IsActive st"
  ultimately show ?thesis by (simp add: RecordServe_def Let_def)
qed (simp_all add: event_log_def)

lemma stats_view_deliver_all:
  assumes "IsActive st"
  shows "stats_view (deliver_all reputation_handle st evs) w = foldl view_add (stats_view st w) (serve_log w evs)"
  using assms
proof (induction evs arbitrary: st)
  case (Cons ev evs)
  show ?case
  proof (cases "reputation_handle st ev")
    case (Inl e)
    then show ?thesis using Cons handle_RecordServe_fails [OF Inl Cons.prems] by simp
  next
    case (Inr st')
    then show ?thesis
      using Cons.IH [OF rep_active.handle_inv [OF Cons.prems Inr]] stats_view_handle [OF Inr] by simp
  qed
qed simp

lemma foldl_view_add: "foldl view_add (log_view es) es' = log_view (es @ es')"
  by (induction es' arbitrary: es) (simp_all flip: log_view_snoc)

lemma stats_view_genesis: "stats_view reputation_genesis w = log_view []"
  by (simp add: stats_view_current current_stats_def load_stats_def GetContributorOrgSet_def log_view_def
      NewReputationStats_def)

subsection \<open>The window of approvals\<close>

definition approve_all :: "reputation_state \<Rightarrow> string \<Rightarrow> string \<Rightarrow> (bytes \<times> u64) list \<Rightarrow> reputation_state" where
  "approve_all st p org as = foldl (\<lambda>st a. IncrementModeratorApproval st p org (fst a) (snd a)) st as"

lemma GetModeratorProfile_approval:
  assumes "smp_ModeratorPubkey (GetModeratorProfile st p org) = p" "smp_OrgId (GetModeratorProfile st p org) = org"
  shows "GetModeratorProfile (IncrementModeratorApproval st p org h n) p org =
    (let m = GetModeratorProfile st p org in m\<lparr>
       smp_TotalApprovals := smp_TotalApprovals m + 1,
       smp_ApprovedMemoryHashes := (if 1000 \<le> length (smp_ApprovedMemoryHashes m)
         then drop 1 (smp_ApprovedMemoryHashes m) else smp_ApprovedMemoryHashes m) @ [h],
       smp_FirstApprovalEpoch := (if smp_FirstApprovalEpoch m = 0 then n else smp_FirstApprovalEpoch m),
       smp_LastApprovalEpoch := n\<rparr>)"
proof -
  let ?m = "GetModeratorProfile st p org"
  have "smp_ModeratorPubkey ?m = p" "smp_OrgId ?m = org" using assms by simp_all
  then show ?thesis
    unfolding IncrementModeratorApproval_def SetModeratorProfile_def Let_def
      GetModeratorProfile_def [of "_\<lparr>rep_moderators := _\<rparr>"]
    by (simp add: MaxApprovedHashIndex_def)
qed

text \<open>The last \<open>n\<close> elements of a list.\<close>

definition window :: "nat \<Rightarrow> 'a list \<Rightarrow> 'a list" where
  "window n xs = drop (length xs - n) xs"

lemma length_window [simp]: "length (window n xs) = min n (length xs)"
  by (simp add: window_def)

lemma window_snoc: "0 < n \<Longrightarrow> window n (xs @ [x]) =
    (if n \<le> length (window n xs) then drop 1 (window n xs) else window n xs) @ [x]"
  by (auto simp: window_def Suc_diff_le)

lemma approve_all_profile:
  assumes "kv_get (rep_moderators st) (moderatorProfileKey p org) = None"
  shows "GetModeratorProfile (approve_all st p org as) p org = \<lparr>
    smp_ModeratorPubkey = p, smp_OrgId = org, smp_TotalApprovals = of_nat (length as),
    smp_ApprovalsLaterUpheldCount = 0, smp_ApprovedMemoryHashes = window 1000 (map fst as),
    smp_FirstApprovalEpoch = first_nonzero (map snd as),
    smp_LastApprovalEpoch = (if as = [] then 0 else snd (last as))\<rparr>"
proof (induction as rule: rev_induct)
  case Nil
  then show ?case using assms by (simp add: approve_all_def GetModeratorProfile_def window_def)
next
  case (snoc a as)
  let ?st = "approve_all st p org as"
  have "approve_all st p org (as @ [a]) = IncrementModeratorApproval ?st p org (fst a) (snd a)"
    by (simp add: approve_all_def)
  then show ?case
    using GetModeratorProfile_approval [of ?st p org "fst a" "snd a"] window_snoc [of 1000 "map fst as" "fst a"]
    by (simp add: snoc Let_def first_nonzero_snoc)
qed

subsection \<open>Selecting the most frequent domains\<close>

definition downward :: "(string \<times> u64) list \<Rightarrow> bool" where
  "downward ds \<longleftrightarrow> (\<forall>a b. a < b \<longrightarrow> b < length ds \<longrightarrow> snd (ds ! b) \<le> snd (ds ! a))"

text \<open>
  One exchange permutes the list and touches two positions: what bounds the counts from position
  \<open>i\<close> on still bounds them, and the count at \<open>i\<close> only grows.
\<close>

lemma exchange_props:
  assumes "i < j" "j < length ds"
  shows "length (exchange i j ds) = length ds" "mset (exchange i j ds) = mset ds"
    "k < i \<Longrightarrow> exchange i j ds ! k = ds ! k"
    "k \<noteq> i \<Longrightarrow> k \<noteq> j \<Longrightarrow> exchange i j ds ! k = ds ! k"
    "snd (ds ! i) \<le> snd (exchange i j ds ! i)" "snd (exchange i j ds ! j) \<le> snd (exchange i j ds ! i)"
    "(\<forall>b. i \<le> b \<longrightarrow> b < length ds \<longrightarrow> snd (ds ! b) \<le> m) \<Longrightarrow>
     i \<le> b \<Longrightarrow> b < length ds \<Longrightarrow> snd (exchange i j ds ! b) \<le> m"
  using assms by (auto simp: exchange_def mset_swap nth_list_update)

definition bounded_from :: "nat \<Rightarrow> (string \<times> u64) list \<Rightarrow> u64 \<Rightarrow> bool" where
  "bounded_from i ds m \<longleftrightarrow> (\<forall>b. i \<le> b \<longrightarrow> b < length ds \<longrightarrow> snd (ds ! b) \<le> m)"

definition inner_done :: "nat \<Rightarrow> nat \<Rightarrow> (string \<times> u64) list \<Rightarrow> (string \<times> u64) list \<Rightarrow> bool" where
  "inner_done i j ds ds' \<longleftrightarrow> length ds' = length ds \<and> mset ds' = mset ds \<and> (\<forall>k<i. ds' ! k = ds ! k) \<and>
     (\<forall>k. i < k \<longrightarrow> k < j \<longrightarrow> snd (ds' ! k) \<le> snd (ds' ! i)) \<and>
     (\<forall>m. bounded_from i ds m \<longrightarrow> bounded_from i ds' m)"

lemma inner_done_exchange:
  assumes "inner_done i j ds ds'" "i < j" "j < length ds"
  shows "inner_done i (Suc j) ds (exchange i j ds')"
proof -
  have d: "length ds' = length ds" "mset ds' = mset ds" "\<forall>k<i. ds' ! k = ds ! k"
    "\<And>k. i < k \<Longrightarrow> k < j \<Longrightarrow> snd (ds' ! k) \<le> snd (ds' ! i)"
    "\<And>m. bounded_from i ds m \<Longrightarrow> bounded_from i ds' m"
    using assms(1) by (simp_all add: inner_done_def)
  have "j < length ds'" using d(1) assms(3) by simp
  note e = exchange_props [OF assms(2) this]
  have "snd (exchange i j ds' ! k) \<le> snd (exchange i j ds' ! i)" if "i < k" "k < Suc j" for k
  proof (cases "k = j")
    case False
    then have "snd (exchange i j ds' ! k) \<le> snd (ds' ! i)" using e(4) [of k] d(4) [of k] that by simp
    then show ?thesis using e(5) order_trans by blast
  qed (simp add: e(6))
  moreover have "bounded_from i (exchange i j ds') m" if "bounded_from i ds m" for m
    using e(1,7) d(5) [OF that] by (simp add: bounded_from_def)
  ultimately show ?thesis using e(1-3) d(1-3) by (simp add: inner_done_def)
qed

lemma inner_loop:
  assumes "i < j" "j \<le> length ds"
  shows "inner_done i j ds (fold (exchange i) [i + 1..<j] ds)"
  using assms(1) [THEN Suc_leI] assms(2)
proof (induction j rule: dec_induct)
  case base
  then show ?case by (simp add: inner_done_def)
next
  case (step j)
  then have "[i + 1..<Suc j] = [i + 1..<j] @ [j]" by simp
  then show ?case using inner_done_exchange [OF step.IH] step by simp
qed

lemma sort_domains_props:
  "length (sort_domains ds) = length ds \<and> mset (sort_domains ds) = mset ds \<and> downward (sort_domains ds)"
proof -
  define run where "run n = fold (\<lambda>i ds. fold (exchange i) [i + 1..<length ds] ds) [0..<n] ds" for n
  have "length (run n) = length ds \<and> mset (run n) = mset ds \<and>
      (\<forall>a b. a < n \<longrightarrow> a < b \<longrightarrow> b < length ds \<longrightarrow> snd (run n ! b) \<le> snd (run n ! a))"
    if "n \<le> length ds - 1" for n
    using that
  proof (induction n)
    case (Suc n)
    let ?d = "run n"
    have IH: "length ?d = length ds" "mset ?d = mset ds"
      "\<forall>a b. a < n \<longrightarrow> a < b \<longrightarrow> b < length ds \<longrightarrow> snd (?d ! b) \<le> snd (?d ! a)"
      using Suc by auto
    have step: "run (Suc n) = fold (exchange n) [n + 1..<length ?d] ?d" by (simp add: run_def)
    have "n < length ?d" using Suc.prems IH(1) by simp
    note inner = inner_loop [OF this order_refl, folded step]
    have same: "run (Suc n) ! a = ?d ! a" if "a < n" for a
      using inner that by (simp add: inner_done_def)
    have bound: "bounded_from n (run (Suc n)) m" if "bounded_from n ?d m" for m
      using inner that by (simp add: inner_done_def)
    have len: "length (run (Suc n)) = length ds" "mset (run (Suc n)) = mset ds"
      using inner IH by (simp_all add: inner_done_def)
    have "snd (run (Suc n) ! b) \<le> snd (run (Suc n) ! a)" if "a < Suc n" "a < b" "b < length ds" for a b
    proof -
      consider "a = n" | "a < n" "b < n" | "a < n" "n \<le> b" using \<open>a < Suc n\<close> by linarith
      then show ?thesis
      proof cases
        case 1
        then show ?thesis using inner that IH(1) by (simp add: inner_done_def)
      next
        case 2
        then show ?thesis using same that IH(3) by simp
      next
        case 3
        then have "bounded_from n ?d (snd (?d ! a))" using IH by (simp add: bounded_from_def)
        then show ?thesis using bound 3 that same len by (simp add: bounded_from_def)
      qed
    qed
    then show ?case using len by blast
  qed (simp add: run_def)
  from this [OF order_refl] have all: "length (run (length ds - 1)) = length ds"
    "mset (run (length ds - 1)) = mset ds"
    "\<And>a b. a < length ds - 1 \<Longrightarrow> a < b \<Longrightarrow> b < length ds \<Longrightarrow>
      snd (run (length ds - 1) ! b) \<le> snd (run (length ds - 1) ! a)"
    by blast+
  have "sort_domains ds = run (length ds - 1)" by (simp add: sort_domains_def run_def)
  moreover have "downward (run (length ds - 1))"
    using all by (simp add: downward_def)
  ultimately show ?thesis using all by simp
qed

lemma top_of_downward:
  assumes "downward ds" "d \<in> set (take n ds)" "e \<in> set (drop n ds)"
  shows "snd e \<le> snd d"
proof -
  obtain a where "a < n" "a < length ds" "d = ds ! a"
    using assms(2) by (auto simp: in_set_conv_nth)
  moreover obtain b where "b < length (drop n ds)" "e = drop n ds ! b"
    using assms(3) by (metis in_set_conv_nth)
  then have "n + b < length ds" "e = ds ! (n + b)" by simp_all
  ultimately show ?thesis using assms(1) by (simp add: downward_def)
qed

subsection \<open>Properties\<close>

text \<open>
  C32: The histogram is complete.  In every state reachable from the default genesis, and for every
  developer, the eleven difficulty buckets add up to the number of memories: the total of the
  difficulty histogram is the memory count (or both queries report that there are no statistics).
\<close>

theorem reputation_histogram:
  "map_sum id dh_TotalCount (GetDifficultyHistogram (deliver_all reputation_handle reputation_genesis evs) dev) =
   GetMemoryCount (deliver_all reputation_handle reputation_genesis evs) dev"
proof -
  let ?st = "deliver_all reputation_handle reputation_genesis evs"
  have "histogram_ok reputation_genesis"
    by (simp add: histogram_ok_def load_stats_def)
  then have "histogram_ok ?st" by (rule histogram.deliver_all_inv)
  then show ?thesis
    by (auto simp: GetDifficultyHistogram_def GetMemoryCount_def GetReputation_def NewDifficultyHistogram_def
        histogram_ok_def foldl_plus_words split: option.split)
qed

text \<open>
  C10: The serve statistics refine the log of serves.  After any sequence of messages and keeper calls
  from the default genesis, what the module stores about a wallet (serve count, self-serve count,
  organisation breadth, first epoch seen, set of organisations) is the summary of the serves that were
  recorded for it: the number of entries, of self-serves and of distinct organisations, the first
  non-zero epoch, and the organisations in order of first appearance.
\<close>

theorem serve_stats_refine_log:
  "stats_view (deliver_all reputation_handle reputation_genesis evs) w = log_view (serve_log w evs)"
  using foldl_view_add [of "[]" "serve_log w evs"]
  by (simp add: stats_view_deliver_all stats_view_genesis)

text \<open>
  C33: The index of approvals is a window.  After a moderator without a profile has approved any list
  of memories, the profile counts all of them, remembers exactly the last thousand hashes in order,
  and holds the first non-zero and the last epoch.
\<close>

theorem moderator_window:
  assumes "kv_get (rep_moderators st) (moderatorProfileKey p org) = None"
  shows "smp_ApprovedMemoryHashes (GetModeratorProfile (approve_all st p org as) p org) = window 1000 (map fst as) \<and>
    length (smp_ApprovedMemoryHashes (GetModeratorProfile (approve_all st p org as) p org)) = min 1000 (length as) \<and>
    smp_TotalApprovals (GetModeratorProfile (approve_all st p org as) p org) = of_nat (length as) \<and>
    smp_FirstApprovalEpoch (GetModeratorProfile (approve_all st p org as) p org) = first_nonzero (map snd as) \<and>
    smp_LastApprovalEpoch (GetModeratorProfile (approve_all st p org as) p org) = (if as = [] then 0 else snd (last as))"
  unfolding approve_all_profile [OF assms] by simp

theorem moderator_window_witness:
  "smp_ApprovedMemoryHashes (GetModeratorProfile (approve_all reputation_genesis ''mod'' ''WeVibe_1''
     (map (\<lambda>n. (FormatUint (of_nat n), of_nat n)) [0..<1002])) ''mod'' ''WeVibe_1'') =
   window 1000 (map fst (map (\<lambda>n. (FormatUint (of_nat n), of_nat n :: u64)) [0..<1002]))"
  using moderator_window [of reputation_genesis "''mod''" "''WeVibe_1''"]
  by (simp add: reputation_genesis_def reputation_module_InitGenesis_def reputation_InitGenesisState_def
      reputation_SetParams_def Activate_def reputation_DefaultGenesis_def reputation_empty_def Let_def)

text \<open>
  C34: The selected domains are the most frequent ones.  In whatever order the Go runtime iterates over
  the map of tags, \<open>GetTopDomains\<close> with a limit that is not negative returns as many distinct domains as it
  was asked for (or all, when there are fewer), and no domain it leaves out has a higher count than one it returns.
\<close>

theorem top_domains:
  assumes "GetReputation st dev = Inr stats" "t = map_entries (rs_DomainTags stats)"
    and "kv_ok t" "mset (order t) = mset t"
  shows "\<exists>r. GetTopDomains order st dev (int limit) = Inr r \<and> length r = min limit (length t) \<and> distinct r \<and>
    set r \<subseteq> fst ` set t \<and>
    (\<forall>d\<in>set t. \<forall>e\<in>set t. fst d \<in> set r \<longrightarrow> fst e \<notin> set r \<longrightarrow> snd e \<le> snd d)"
proof -
  let ?o = "order t"
  define ds where "ds = (if length ?o \<le> limit then ?o else sort_domains ?o)"
  have ds: "mset ds = mset t"
    using sort_domains_props [of ?o] assms(4) by (simp add: ds_def)
  then have set: "set ds = set t" and len: "length ds = length t"
    using mset_eq_setD mset_eq_length by blast+
  have "distinct (map fst t)" using assms(3) by (rule kv_ok_distinct)
  moreover have "mset (map fst ds) = mset (map fst t)" using ds by simp
  ultimately have dist: "distinct (map fst ds)" using mset_eq_imp_distinct_iff by blast
  have res: "GetTopDomains order st dev (int limit) = Inr (map fst (take limit ds))"
    using assms(1,2) len by (simp add: GetTopDomains_def ds_def Let_def)
  have "snd e \<le> snd d" if "d \<in> set t" "e \<in> set t" "fst d \<in> set (map fst (take limit ds))"
    "fst e \<notin> set (map fst (take limit ds))" for d e
  proof -
    have "inj_on fst (set ds)" using dist by (simp add: distinct_map)
    then have "d \<in> set (take limit ds)"
      using that(1,3) set by (auto dest: in_set_takeD inj_onD)
    moreover have "e \<notin> set (take limit ds)" using that(4) by force
    then have "e \<in> set (drop limit ds)" using that(2) set by (metis append_take_drop_id in_set_conv_decomp set_append Un_iff)
    moreover from this have "\<not> length ?o \<le> limit" using ds_def by (metis length_drop diff_is_0_eq length_0_conv empty_iff empty_set len mset_eq_length assms(4))
    then have "downward ds" using sort_domains_props [of ?o] by (simp add: ds_def)
    ultimately show ?thesis by (rule top_of_downward [rotated 1]) 
  qed
  moreover have "distinct (map fst (take limit ds))"
    using dist by (simp flip: take_map)
  moreover have "set (map fst (take limit ds)) \<subseteq> fst ` set t"
    using set in_set_takeD by fastforce
  ultimately show ?thesis using res len by (intro exI [of _ "map fst (take limit ds)"]) auto
qed

theorem top_domains_witness:
  "\<exists>r. GetTopDomains rev (reputation_genesis\<lparr>rep_stats := [(statsKey ''alice'', reputationStatsToStored
       (NewReputationStats ''alice''\<lparr>rs_DomainTags := Some [(''c'', 1), (''go'', 7), (''rust'', 5)]\<rparr>))]\<rparr>) ''alice'' 2 = Inr r \<and>
     length r = 2 \<and> ''go'' \<in> set r"
proof -
  let ?t = "[(''c'', 1), (''go'', 7), (''rust'', 5)] :: u64 kv"
  let ?s = "NewReputationStats ''alice''\<lparr>rs_DomainTags := Some ?t\<rparr>"
  let ?st = "reputation_genesis\<lparr>rep_stats := [(statsKey ''alice'', reputationStatsToStored ?s)]\<rparr>"
  have "GetReputation ?st ''alice'' = Inr (reload_stats ?s)"
    using stored_round_trip [of ?s] by (simp add: GetReputation_def load_stats_def NewReputationStats_def)
  moreover have "?t = map_entries (rs_DomainTags (reload_stats ?s))"
    by (simp add: reload_map_def map_entries_def)
  moreover have "kv_ok ?t" by (simp add: kv_ok_def)
  ultimately obtain r where r: "GetTopDomains rev ?st ''alice'' 2 = Inr r" "length r = min 2 (length ?t)"
    "distinct r" "set r \<subseteq> fst ` set ?t"
    "\<forall>d\<in>set ?t. \<forall>e\<in>set ?t. fst d \<in> set r \<longrightarrow> fst e \<notin> set r \<longrightarrow> snd e \<le> snd d"
    using top_domains [of ?st "''alice''" "reload_stats ?s" ?t rev 2, unfolded of_nat_numeral] by (metis mset_rev)
  have "''go'' \<in> set r"
  proof (rule ccontr)
    assume "''go'' \<notin> set r"
    then have "''c'' \<notin> set r" "''rust'' \<notin> set r" using r(5) by (auto simp: word_le_nat_alt)
    moreover have "xs = []" if "set xs \<subseteq> {a, b, c}" "a \<notin> set xs" "b \<notin> set xs" "c \<notin> set xs" for xs and a b c :: string
      using that by (cases xs) auto
    ultimately have "r = []" using r(4) \<open>''go'' \<notin> set r\<close> by simp
    then show False using r(2) by simp
  qed
  then show ?thesis using r(1,2) by simp
qed

lemma count_tags_nil:
  "count_tags None tags =
    (if \<exists>t\<in>set tags. t \<noteq> [] then Inl (Panic ''assignment to entry in nil map'') else Inr None)"
  by (induction tags) (auto simp: map_increment_def)

text \<open>
  C35: A record without tags cannot be tagged any more.  When a serve creates the statistics of a
  wallet, they are stored with empty maps, which come back as nil maps; from then on every well-formed
  reputation update of that wallet that carries a domain tag or a provenance panics.
\<close>

theorem served_then_tagged_panics:
  assumes "kv_get (rep_stats st) (statsKey (mur_Developer m)) = None"
    and "RecordServe st (mur_Developer m) org epoch self = Inr st'"
    and "MsgUpdateReputation_ValidateBasic m = Inr ()"
    and "mur_Provenance m \<noteq> [] \<or> (\<exists>t\<in>set (mur_DomainTags m). t \<noteq> [])"
  shows "Msg_UpdateReputation st' m = Inl (Panic ''assignment to entry in nil map'')"
proof -
  let ?dev = "mur_Developer m"
  define r where "r = reload_stats (served_stats (reputation_GetParams st) (current_stats st ?dev)
      (cos_OrgIds (GetContributorOrgSet st ?dev)) org epoch self)"
  have new: "current_stats st ?dev = NewReputationStats ?dev"
    using assms(1) by (simp add: current_stats_def load_stats_def)
  have load: "load_stats st' ?dev = Some r"
    using load_stats_set [OF _ RecordServe_ok(1) [OF assms(2)], of ?dev] by (simp add: r_def)
  have nil: "rs_DomainTags r = None" "rs_ProvenanceBreakdown r = None"
    by (simp_all add: r_def new served_stats_def NewReputationStats_def reload_map_def map_entries_def)
  have active: "IsActive st'"
    using RecordServe_active [OF assms(2)] by (simp add: IsActive_def)
  have small: "ucast (n :: u32) \<le> (10 :: 8 word)" if "n \<le> 10" for n
  proof -
    have "unat n \<le> 10" using that by (simp add: word_le_nat_alt)
    then show ?thesis by (simp add: word_le_nat_alt unsigned_ucast_eq take_bit_eq_mod)
  qed
  have valid: "mur_Developer m \<noteq> []" "mur_MemoryCid m \<noteq> []" "mur_Difficulty m \<le> 10" "mur_Quality m \<le> 10"
    using assms(3) by (auto simp: MsgUpdateReputation_ValidateBasic_def not_less split: if_splits)
  have "ReputationStats_AddMemory r d q (mur_DomainTags m) (mur_Provenance m) =
      Inl (Panic ''assignment to entry in nil map'')" for d q
    using assms(4) by (auto simp: ReputationStats_AddMemory_def Let_def count_tags_nil nil map_increment_def)
  then show ?thesis
    using assms(3) active load valid(1,2) small [OF valid(3)] small [OF valid(4)]
    by (simp add: Msg_UpdateReputation_def UpdateReputation_def AttestedMemory_Validate_def Let_def not_less)
qed

definition ex_update :: MsgUpdateReputation where
  "ex_update = \<lparr>mur_Signer = ''signer'', mur_Developer = ''alice'', mur_MemoryCid = ''cid'', mur_Difficulty = 3,
     mur_Quality = 4, mur_DomainTags = [''go''], mur_Provenance = []\<rparr>"

theorem served_then_tagged_panics_witness:
  "\<exists>st'. RecordServe reputation_genesis ''alice'' ''WeVibe_1'' 1 False = Inr st' \<and>
     Msg_UpdateReputation st' ex_update = Inl (Panic ''assignment to entry in nil map'')"
proof -
  obtain st' where st': "RecordServe reputation_genesis ''alice'' ''WeVibe_1'' 1 False = Inr st'"
    by (simp add: RecordServe_def Let_def)
  then show ?thesis
    using served_then_tagged_panics [of reputation_genesis ex_update "''WeVibe_1''" 1 False st']
    by (simp add: ex_update_def MsgUpdateReputation_ValidateBasic_def)
qed

end
