(* ===== verification/Memory.thy ===== *)
theory Memory
  imports KVStore Wire Org Reputation
begin

section \<open>Memory: commitments, approvals and reports (x/memory)\<close>

text \<open>
  The life of a memory: the leader's wallet submits a commitment (the hash of an encrypted
  submission), later approves it with the ciphertext and the contributor's signature, and may
  report it; at the end of every epoch expired memories are archived and a Merkle root is stored
  for every organisation.  The records, the keeper, the messages, the epoch hook and genesis of
  \<open>x/memory\<close>.  The keepers of \<open>x/org\<close> and \<open>x/reputation\<close> are their states.

  Several loops of the module use an iterator without an upper bound and decode whatever they
  meet; \<open>memory_raw\<close> is the part of the store such an iterator can reach, as bytes.
\<close>

subsection \<open>Data\<close>

definition ContentHashLen :: nat where "ContentHashLen = 32"
definition MaxProducerModelIdLen :: nat where "MaxProducerModelIdLen = 128"

definition MemoryType_MEMORY_TYPE_MEMORY :: i32 where "MemoryType_MEMORY_TYPE_MEMORY = 1"
definition MemoryState_MEMORY_STATE_COMMITTED :: i32 where "MemoryState_MEMORY_STATE_COMMITTED = 4"
definition MemoryState_MEMORY_STATE_DENIED :: i32 where "MemoryState_MEMORY_STATE_DENIED = 5"
definition MemoryState_MEMORY_STATE_ARCHIVED :: i32 where "MemoryState_MEMORY_STATE_ARCHIVED = 6"

definition ValidMemoryType :: "i32 \<Rightarrow> bool" where
  "ValidMemoryType mt \<longleftrightarrow> mt = MemoryType_MEMORY_TYPE_MEMORY"

definition CanonicalMemoryType :: "i32 \<Rightarrow> string" where
  "CanonicalMemoryType mt = (if mt = MemoryType_MEMORY_TYPE_MEMORY then ''memory'' else [])"

definition ContentHashToHex :: "bytes \<Rightarrow> string" where
  "ContentHashToHex hash = hex_encode hash"

datatype ProvenanceStatus = ProvenanceUnattested | ProvenanceSelfDeclared | ProvenanceSessionReferenced

definition DeriveProvenanceStatus :: "string \<Rightarrow> bytes \<Rightarrow> ProvenanceStatus" where
  "DeriveProvenanceStatus producerModelID attestationSessionHash =
     (if producerModelID = [] \<and> attestationSessionHash = [] then ProvenanceUnattested
      else if attestationSessionHash = [] then ProvenanceSelfDeclared
      else ProvenanceSessionReferenced)"

record PendingCommitment =
  pc_OrgID :: string
  pc_ContentHash :: bytes
  pc_Keywords :: "string list"
  pc_Contributor :: string
  pc_ContributorAddress :: string
  pc_ProducerModelId :: string
  pc_AttestationSessionHash :: bytes
  pc_Epoch :: u64
  pc_SubmittedAt :: u64
  pc_MemoryType :: i32
  pc_McVersion :: u32

definition NewPendingCommitment ::
  "string \<Rightarrow> bytes \<Rightarrow> string list \<Rightarrow> string \<Rightarrow> u64 \<Rightarrow> u64 \<Rightarrow> i32 \<Rightarrow> PendingCommitment" where
  "NewPendingCommitment orgID contentHash keywords contributor epoch submittedAt memoryType = \<lparr>
     pc_OrgID = orgID, pc_ContentHash = contentHash, pc_Keywords = keywords,
     pc_Contributor = contributor, pc_ContributorAddress = [], pc_ProducerModelId = [],
     pc_AttestationSessionHash = [], pc_Epoch = epoch, pc_SubmittedAt = submittedAt,
     pc_MemoryType = memoryType, pc_McVersion = 0\<rparr>"

definition PendingCommitment_Validate :: "PendingCommitment \<Rightarrow> check" where
  "PendingCommitment_Validate pc =
     (if pc_OrgID pc = [] then Inl (E_memory Mem_ErrInvalidOrgID)
      else if length (pc_ContentHash pc) \<noteq> ContentHashLen then Inl (E_memory Mem_ErrInvalidContentHash)
      else if pc_Contributor pc = [] then Inl (E_memory Mem_ErrInvalidContributor)
      else if \<not> ValidMemoryType (pc_MemoryType pc) then Inl (E_memory Mem_ErrInvalidMemoryType)
      else if [] \<in> set (pc_Keywords pc) then Inl (E_memory Mem_ErrInvalidKeyword)
      else Inr ())"

record MemoryCommitment =
  mc_OrgID :: string
  mc_ContentHash :: bytes
  mc_EncryptedBlob :: bytes
  mc_Keywords :: "string list"
  mc_Contributor :: string
  mc_ContributorAddress :: string
  mc_ProducerModelId :: string
  mc_AttestationSessionHash :: bytes
  mc_Epoch :: u64
  mc_CommittedAtHeight :: u64
  mc_CommittingLeader :: string
  mc_State :: i32
  mc_LastActiveEpoch :: u64
  mc_WrappedDekEnc :: bytes
  mc_PlaintextHash :: bytes
  mc_Salt :: bytes
  mc_CiphertextHash :: bytes
  mc_WrappedDekHash :: bytes
  mc_ContributorSig :: bytes
  mc_MemoryType :: i32
  mc_ApprovedAtEpoch :: u64
  mc_McVersion :: u32

definition MemoryCommitment_ProvenanceStatus :: "MemoryCommitment option \<Rightarrow> ProvenanceStatus" where
  "MemoryCommitment_ProvenanceStatus mc =
     (case mc of
        None \<Rightarrow> ProvenanceUnattested
      | Some mc \<Rightarrow> DeriveProvenanceStatus (mc_ProducerModelId mc) (mc_AttestationSessionHash mc))"

definition MemoryCommitment_Validate :: "MemoryCommitment \<Rightarrow> check" where
  "MemoryCommitment_Validate mc =
     (if mc_OrgID mc = [] then Inl (E_memory Mem_ErrInvalidOrgID)
      else if length (mc_ContentHash mc) \<noteq> ContentHashLen then Inl (E_memory Mem_ErrInvalidContentHash)
      else if mc_EncryptedBlob mc = [] then Inl (E_memory Mem_ErrInvalidBlob)
      else if mc_Contributor mc = [] then Inl (E_memory Mem_ErrInvalidContributor)
      else if \<not> ValidMemoryType (mc_MemoryType mc) then Inl (E_memory Mem_ErrInvalidMemoryType)
      else if [] \<in> set (mc_Keywords mc) then Inl (E_memory Mem_ErrInvalidKeyword)
      else Inr ())"

record EpochMerkleRoot =
  emr_OrgID :: string
  emr_Epoch :: u64
  emr_MerkleRoot :: bytes
  emr_MemoryCount :: u64

text \<open>The hash is over the concatenation of the sorted content hashes; no hashes give the nil root.\<close>

definition ComputeMerkleRoot :: "'x sdk \<Rightarrow> bytes list \<Rightarrow> bytes" where
  "ComputeMerkleRoot K contentHashes =
     (if contentHashes = [] then [] else sha256_Sum256 K (concat (sort contentHashes)))"

record MemoryRelationship =
  rel_SourceCID :: string
  rel_TargetCID :: string
  rel_RelationType :: i32
  rel_OrgID :: string
  rel_Proposer :: string
  rel_Approved :: bool
  rel_Epoch :: u64

record ValidityMetadata =
  vm_ValidAfterEpoch :: u64
  vm_ValidUntilEpoch :: u64
  vm_ScopeTags :: "(string \<times> string) list"

subsection \<open>Stored records\<close>

record StoredPendingCommitment =
  spc_OrgId :: string
  spc_ContentHash :: bytes
  spc_ContributorId :: string
  spc_Epoch :: u64
  spc_SubmittedAtHeight :: u64
  spc_MemoryType :: i32
  spc_ContributorAddress :: string
  spc_Keywords :: "string list"
  spc_McVersion :: u32
  spc_ProducerModelId :: string
  spc_AttestationSessionHash :: bytes

record StoredMemoryCommitment =
  smc_OrgId :: string
  smc_ContentHash :: bytes
  smc_EncryptedBlob :: bytes
  smc_ContributorPubkey :: string
  smc_Epoch :: u64
  smc_CommittedAtHeight :: u64
  smc_CommittingLeaderPubkey :: string
  smc_State :: i32
  smc_LastActiveEpoch :: u64
  smc_WrappedDekEnc :: bytes
  smc_MemoryType :: i32
  smc_ApprovedAtEpoch :: u64
  smc_PlaintextHash :: bytes
  smc_Salt :: bytes
  smc_CiphertextHash :: bytes
  smc_WrappedDekHash :: bytes
  smc_ContributorSig :: bytes
  smc_ContributorAddress :: string
  smc_ProducerModelId :: string
  smc_AttestationSessionHash :: bytes
  smc_McVersion :: u32
  smc_Keywords :: "string list"

record StoredMemoryRelationship =
  smr_OrgId :: string
  smr_SourceCid :: string
  smr_TargetCid :: string
  smr_RelationType :: i32
  smr_Proposer :: string
  smr_Approved :: bool
  smr_Epoch :: u64

record StoredValidityMetadata =
  svm_OrgId :: string
  svm_MemoryCid :: string
  svm_ValidAfterEpoch :: u64
  svm_ValidUntilEpoch :: u64
  svm_ScopeTagsBz :: bytes

record StoredEpochMerkleRoot =
  ser_OrgId :: string
  ser_Epoch :: u64
  ser_MerkleRoot :: bytes
  ser_MemoryCount :: u64

record StoredMemoryReport =
  rpt_OrgId :: string
  rpt_ContentHash :: bytes
  rpt_ContributorPubkey :: string
  rpt_ApprovingModerators :: "string list"
  rpt_UpholdingModerators :: "string list"
  rpt_ReporterPubkey :: string
  rpt_CommittingLeaderPubkey :: string
  rpt_Reason :: string
  rpt_Plaintext :: bytes
  rpt_Ciphertext :: bytes
  rpt_Capsule :: bytes
  rpt_PlaintextHash :: bytes
  rpt_PlaintextOversized :: bool
  rpt_UpheldAtEpoch :: u64
  rpt_UpheldAtTimestamp :: u64

record memory_Params =
  mp_MaxPendingPerOrg :: u64
  mp_PendingRetentionEpochs :: u64
  mp_MaxBlobSizeBytes :: u64
  mp_MaxKeywordsPerMemory :: u32
  mp_ContestWindowEpochs :: u64

definition memory_DefaultParams :: memory_Params where
  "memory_DefaultParams = \<lparr>
     mp_MaxPendingPerOrg = 1000, mp_PendingRetentionEpochs = 7, mp_MaxBlobSizeBytes = 1048576,
     mp_MaxKeywordsPerMemory = 20, mp_ContestWindowEpochs = 10\<rparr>"

definition memory_Params_Validate :: "memory_Params \<Rightarrow> check" where
  "memory_Params_Validate p = Inr ()"

definition pendingToStored :: "PendingCommitment \<Rightarrow> StoredPendingCommitment" where
  "pendingToStored pc = \<lparr>
     spc_OrgId = pc_OrgID pc, spc_ContentHash = pc_ContentHash pc, spc_ContributorId = pc_Contributor pc,
     spc_Epoch = pc_Epoch pc, spc_SubmittedAtHeight = pc_SubmittedAt pc,
     spc_MemoryType = pc_MemoryType pc, spc_ContributorAddress = pc_ContributorAddress pc,
     spc_Keywords = pc_Keywords pc, spc_McVersion = pc_McVersion pc,
     spc_ProducerModelId = pc_ProducerModelId pc,
     spc_AttestationSessionHash = pc_AttestationSessionHash pc\<rparr>"

definition storedToPending :: "StoredPendingCommitment \<Rightarrow> PendingCommitment" where
  "storedToPending s = \<lparr>
     pc_OrgID = spc_OrgId s, pc_ContentHash = spc_ContentHash s, pc_Keywords = spc_Keywords s,
     pc_Contributor = spc_ContributorId s, pc_ContributorAddress = spc_ContributorAddress s,
     pc_ProducerModelId = spc_ProducerModelId s,
     pc_AttestationSessionHash = spc_AttestationSessionHash s, pc_Epoch = spc_Epoch s,
     pc_SubmittedAt = spc_SubmittedAtHeight s, pc_MemoryType = spc_MemoryType s,
     pc_McVersion = spc_McVersion s\<rparr>"

definition memoryToStored :: "MemoryCommitment \<Rightarrow> StoredMemoryCommitment" where
  "memoryToStored c = \<lparr>
     smc_OrgId = mc_OrgID c, smc_ContentHash = mc_ContentHash c, smc_EncryptedBlob = mc_EncryptedBlob c,
     smc_ContributorPubkey = mc_Contributor c, smc_Epoch = mc_Epoch c,
     smc_CommittedAtHeight = mc_CommittedAtHeight c, smc_CommittingLeaderPubkey = mc_CommittingLeader c,
     smc_State = mc_State c, smc_LastActiveEpoch = mc_LastActiveEpoch c,
     smc_WrappedDekEnc = mc_WrappedDekEnc c, smc_MemoryType = mc_MemoryType c,
     smc_ApprovedAtEpoch = mc_ApprovedAtEpoch c, smc_PlaintextHash = mc_PlaintextHash c,
     smc_Salt = mc_Salt c, smc_CiphertextHash = mc_CiphertextHash c,
     smc_WrappedDekHash = mc_WrappedDekHash c, smc_ContributorSig = mc_ContributorSig c,
     smc_ContributorAddress = mc_ContributorAddress c, smc_ProducerModelId = mc_ProducerModelId c,
     smc_AttestationSessionHash = mc_AttestationSessionHash c, smc_McVersion = mc_McVersion c,
     smc_Keywords = mc_Keywords c\<rparr>"

definition storedToMemory :: "StoredMemoryCommitment \<Rightarrow> MemoryCommitment" where
  "storedToMemory s = \<lparr>
     mc_OrgID = smc_OrgId s, mc_ContentHash = smc_ContentHash s, mc_EncryptedBlob = smc_EncryptedBlob s,
     mc_Keywords = smc_Keywords s, mc_Contributor = smc_ContributorPubkey s,
     mc_ContributorAddress = smc_ContributorAddress s, mc_ProducerModelId = smc_ProducerModelId s,
     mc_AttestationSessionHash = smc_AttestationSessionHash s, mc_Epoch = smc_Epoch s,
     mc_CommittedAtHeight = smc_CommittedAtHeight s, mc_CommittingLeader = smc_CommittingLeaderPubkey s,
     mc_State = smc_State s, mc_LastActiveEpoch = smc_LastActiveEpoch s,
     mc_WrappedDekEnc = smc_WrappedDekEnc s, mc_PlaintextHash = smc_PlaintextHash s,
     mc_Salt = smc_Salt s, mc_CiphertextHash = smc_CiphertextHash s,
     mc_WrappedDekHash = smc_WrappedDekHash s, mc_ContributorSig = smc_ContributorSig s,
     mc_MemoryType = smc_MemoryType s, mc_ApprovedAtEpoch = smc_ApprovedAtEpoch s,
     mc_McVersion = smc_McVersion s\<rparr>"

definition relationshipToStored :: "MemoryRelationship \<Rightarrow> StoredMemoryRelationship" where
  "relationshipToStored r = \<lparr>
     smr_OrgId = [], smr_SourceCid = rel_SourceCID r, smr_TargetCid = rel_TargetCID r,
     smr_RelationType = rel_RelationType r, smr_Proposer = rel_Proposer r,
     smr_Approved = rel_Approved r, smr_Epoch = rel_Epoch r\<rparr>"

definition storedToRelationship :: "StoredMemoryRelationship \<Rightarrow> MemoryRelationship" where
  "storedToRelationship s = \<lparr>
     rel_SourceCID = smr_SourceCid s, rel_TargetCID = smr_TargetCid s,
     rel_RelationType = smr_RelationType s, rel_OrgID = smr_OrgId s, rel_Proposer = smr_Proposer s,
     rel_Approved = smr_Approved s, rel_Epoch = smr_Epoch s\<rparr>"

subsection \<open>Wire format\<close>

definition StoredPendingCommitment_fields :: "StoredPendingCommitment \<Rightarrow> (nat \<times> field) list" where
  "StoredPendingCommitment_fields s =
     bytes_field 1 (spc_OrgId s) @ bytes_field 2 (spc_ContentHash s) @
     bytes_field 4 (spc_ContributorId s) @ varint_field 5 (spc_Epoch s) @
     varint_field 6 (spc_SubmittedAtHeight s) @ varint_field 7 (scast (spc_MemoryType s)) @
     bytes_field 8 (spc_ContributorAddress s) @ repeated_bytes_field 9 (spc_Keywords s) @
     varint_field 11 (ucast (spc_McVersion s)) @ bytes_field 24 (spc_ProducerModelId s) @
     bytes_field 25 (spc_AttestationSessionHash s)"

definition StoredPendingCommitment_schema :: schema where
  "StoredPendingCommitment_schema n =
     (if n \<in> {1, 2, 4, 8, 9, 24, 25} then Some Bytes_field
      else if n \<in> {5, 6, 7, 11} then Some Varint_field else None)"

definition StoredPendingCommitment_set ::
  "nat \<times> field \<Rightarrow> StoredPendingCommitment \<Rightarrow> StoredPendingCommitment" where
  "StoredPendingCommitment_set f s =
     (case f of
        (n, Bytes b) \<Rightarrow>
          if n = 1 then s\<lparr>spc_OrgId := b\<rparr> else if n = 2 then s\<lparr>spc_ContentHash := b\<rparr>
          else if n = 4 then s\<lparr>spc_ContributorId := b\<rparr>
          else if n = 8 then s\<lparr>spc_ContributorAddress := b\<rparr>
          else if n = 9 then s\<lparr>spc_Keywords := spc_Keywords s @ [b]\<rparr>
          else if n = 24 then s\<lparr>spc_ProducerModelId := b\<rparr>
          else s\<lparr>spc_AttestationSessionHash := b\<rparr>
      | (n, Varint v) \<Rightarrow>
          if n = 5 then s\<lparr>spc_Epoch := v\<rparr> else if n = 6 then s\<lparr>spc_SubmittedAtHeight := v\<rparr>
          else if n = 7 then s\<lparr>spc_MemoryType := ucast v\<rparr> else s\<lparr>spc_McVersion := ucast v\<rparr>)"

definition StoredPendingCommitment_Marshal :: "StoredPendingCommitment \<Rightarrow> bytes" where
  "StoredPendingCommitment_Marshal s = marshal (StoredPendingCommitment_fields s)"

definition StoredPendingCommitment_zero :: StoredPendingCommitment where
  "StoredPendingCommitment_zero = \<lparr>
     spc_OrgId = [], spc_ContentHash = [], spc_ContributorId = [], spc_Epoch = 0,
     spc_SubmittedAtHeight = 0, spc_MemoryType = 0, spc_ContributorAddress = [], spc_Keywords = [],
     spc_McVersion = 0, spc_ProducerModelId = [], spc_AttestationSessionHash = []\<rparr>"

definition StoredPendingCommitment_Unmarshal :: "bytes \<Rightarrow> StoredPendingCommitment option" where
  "StoredPendingCommitment_Unmarshal bz =
     map_option (\<lambda>fs. fold StoredPendingCommitment_set fs StoredPendingCommitment_zero)
       (unmarshal StoredPendingCommitment_schema bz)"

definition StoredMemoryCommitment_fields :: "StoredMemoryCommitment \<Rightarrow> (nat \<times> field) list" where
  "StoredMemoryCommitment_fields s =
     bytes_field 1 (smc_OrgId s) @ bytes_field 2 (smc_ContentHash s) @
     bytes_field 3 (smc_EncryptedBlob s) @ bytes_field 5 (smc_ContributorPubkey s) @
     varint_field 6 (smc_Epoch s) @ varint_field 7 (smc_CommittedAtHeight s) @
     bytes_field 9 (smc_CommittingLeaderPubkey s) @ varint_field 10 (scast (smc_State s)) @
     varint_field 11 (smc_LastActiveEpoch s) @ bytes_field 12 (smc_WrappedDekEnc s) @
     varint_field 13 (scast (smc_MemoryType s)) @ varint_field 14 (smc_ApprovedAtEpoch s) @
     bytes_field 15 (smc_PlaintextHash s) @ bytes_field 16 (smc_Salt s) @
     bytes_field 17 (smc_CiphertextHash s) @ bytes_field 18 (smc_WrappedDekHash s) @
     bytes_field 19 (smc_ContributorSig s) @ bytes_field 23 (smc_ContributorAddress s) @
     bytes_field 24 (smc_ProducerModelId s) @ bytes_field 25 (smc_AttestationSessionHash s) @
     varint_field 26 (ucast (smc_McVersion s)) @ repeated_bytes_field 27 (smc_Keywords s)"

definition StoredMemoryCommitment_schema :: schema where
  "StoredMemoryCommitment_schema n =
     (if n \<in> {1, 2, 3, 5, 9, 12, 15, 16, 17, 18, 19, 23, 24, 25, 27} then Some Bytes_field
      else if n \<in> {6, 7, 10, 11, 13, 14, 26} then Some Varint_field else None)"

definition StoredMemoryCommitment_set ::
  "nat \<times> field \<Rightarrow> StoredMemoryCommitment \<Rightarrow> StoredMemoryCommitment" where
  "StoredMemoryCommitment_set f s =
     (case f of
        (n, Bytes b) \<Rightarrow>
          if n = 1 then s\<lparr>smc_OrgId := b\<rparr> else if n = 2 then s\<lparr>smc_ContentHash := b\<rparr>
          else if n = 3 then s\<lparr>smc_EncryptedBlob := b\<rparr> else if n = 5 then s\<lparr>smc_ContributorPubkey := b\<rparr>
          else if n = 9 then s\<lparr>smc_CommittingLeaderPubkey := b\<rparr> else if n = 12 then s\<lparr>smc_WrappedDekEnc := b\<rparr>
          else if n = 15 then s\<lparr>smc_PlaintextHash := b\<rparr> else if n = 16 then s\<lparr>smc_Salt := b\<rparr>
          else if n = 17 then s\<lparr>smc_CiphertextHash := b\<rparr> else if n = 18 then s\<lparr>smc_WrappedDekHash := b\<rparr>
          else if n = 19 then s\<lparr>smc_ContributorSig := b\<rparr> else if n = 23 then s\<lparr>smc_ContributorAddress := b\<rparr>
          else if n = 24 then s\<lparr>smc_ProducerModelId := b\<rparr>
          else if n = 25 then s\<lparr>smc_AttestationSessionHash := b\<rparr>
          else s\<lparr>smc_Keywords := smc_Keywords s @ [b]\<rparr>
      | (n, Varint v) \<Rightarrow>
          if n = 6 then s\<lparr>smc_Epoch := v\<rparr> else if n = 7 then s\<lparr>smc_CommittedAtHeight := v\<rparr>
          else if n = 10 then s\<lparr>smc_State := ucast v\<rparr> else if n = 11 then s\<lparr>smc_LastActiveEpoch := v\<rparr>
          else if n = 13 then s\<lparr>smc_MemoryType := ucast v\<rparr> else if n = 14 then s\<lparr>smc_ApprovedAtEpoch := v\<rparr>
          else s\<lparr>smc_McVersion := ucast v\<rparr>)"

definition StoredMemoryCommitment_zero :: StoredMemoryCommitment where
  "StoredMemoryCommitment_zero = \<lparr>
     smc_OrgId = [], smc_ContentHash = [], smc_EncryptedBlob = [], smc_ContributorPubkey = [],
     smc_Epoch = 0, smc_CommittedAtHeight = 0, smc_CommittingLeaderPubkey = [], smc_State = 0,
     smc_LastActiveEpoch = 0, smc_WrappedDekEnc = [], smc_MemoryType = 0, smc_ApprovedAtEpoch = 0,
     smc_PlaintextHash = [], smc_Salt = [], smc_CiphertextHash = [], smc_WrappedDekHash = [],
     smc_ContributorSig = [], smc_ContributorAddress = [], smc_ProducerModelId = [],
     smc_AttestationSessionHash = [], smc_McVersion = 0, smc_Keywords = []\<rparr>"

definition StoredMemoryCommitment_Marshal :: "StoredMemoryCommitment \<Rightarrow> bytes" where
  "StoredMemoryCommitment_Marshal s = marshal (StoredMemoryCommitment_fields s)"

definition StoredMemoryCommitment_Unmarshal :: "bytes \<Rightarrow> StoredMemoryCommitment option" where
  "StoredMemoryCommitment_Unmarshal bz =
     map_option (\<lambda>fs. fold StoredMemoryCommitment_set fs StoredMemoryCommitment_zero)
       (unmarshal StoredMemoryCommitment_schema bz)"

definition StoredEpochMerkleRoot_fields :: "StoredEpochMerkleRoot \<Rightarrow> (nat \<times> field) list" where
  "StoredEpochMerkleRoot_fields s =
     bytes_field 1 (ser_OrgId s) @ varint_field 2 (ser_Epoch s) @ bytes_field 3 (ser_MerkleRoot s) @
     varint_field 4 (ser_MemoryCount s)"

definition memory_Params_fields :: "memory_Params \<Rightarrow> (nat \<times> field) list" where
  "memory_Params_fields p =
     varint_field 1 (mp_MaxPendingPerOrg p) @ varint_field 2 (mp_PendingRetentionEpochs p) @
     varint_field 3 (mp_MaxBlobSizeBytes p) @ varint_field 4 (ucast (mp_MaxKeywordsPerMemory p)) @
     varint_field 10 (mp_ContestWindowEpochs p)"

definition StoredMemoryReport_fields :: "StoredMemoryReport \<Rightarrow> (nat \<times> field) list" where
  "StoredMemoryReport_fields s =
     bytes_field 1 (rpt_OrgId s) @ bytes_field 2 (rpt_ContentHash s) @
     bytes_field 3 (rpt_ContributorPubkey s) @ repeated_bytes_field 4 (rpt_ApprovingModerators s) @
     repeated_bytes_field 5 (rpt_UpholdingModerators s) @ bytes_field 6 (rpt_ReporterPubkey s) @
     bytes_field 7 (rpt_CommittingLeaderPubkey s) @ bytes_field 8 (rpt_Reason s) @
     bytes_field 9 (rpt_Plaintext s) @ bytes_field 10 (rpt_Ciphertext s) @
     bytes_field 11 (rpt_Capsule s) @ bytes_field 12 (rpt_PlaintextHash s) @
     bool_field 13 (rpt_PlaintextOversized s) @ varint_field 14 (rpt_UpheldAtEpoch s) @
     varint_field 15 (rpt_UpheldAtTimestamp s)"

definition StoredMemoryReport_schema :: schema where
  "StoredMemoryReport_schema n =
     (if 1 \<le> n \<and> n \<le> 12 then Some Bytes_field
      else if 13 \<le> n \<and> n \<le> 15 then Some Varint_field else None)"

definition StoredMemoryReport_set :: "nat \<times> field \<Rightarrow> StoredMemoryReport \<Rightarrow> StoredMemoryReport" where
  "StoredMemoryReport_set f s =
     (case f of
        (n, Bytes b) \<Rightarrow>
          if n = 1 then s\<lparr>rpt_OrgId := b\<rparr> else if n = 2 then s\<lparr>rpt_ContentHash := b\<rparr>
          else if n = 3 then s\<lparr>rpt_ContributorPubkey := b\<rparr>
          else if n = 4 then s\<lparr>rpt_ApprovingModerators := rpt_ApprovingModerators s @ [b]\<rparr>
          else if n = 5 then s\<lparr>rpt_UpholdingModerators := rpt_UpholdingModerators s @ [b]\<rparr>
          else if n = 6 then s\<lparr>rpt_ReporterPubkey := b\<rparr> else if n = 7 then s\<lparr>rpt_CommittingLeaderPubkey := b\<rparr>
          else if n = 8 then s\<lparr>rpt_Reason := b\<rparr> else if n = 9 then s\<lparr>rpt_Plaintext := b\<rparr>
          else if n = 10 then s\<lparr>rpt_Ciphertext := b\<rparr> else if n = 11 then s\<lparr>rpt_Capsule := b\<rparr>
          else s\<lparr>rpt_PlaintextHash := b\<rparr>
      | (n, Varint v) \<Rightarrow>
          if n = 13 then s\<lparr>rpt_PlaintextOversized := (v \<noteq> 0)\<rparr>
          else if n = 14 then s\<lparr>rpt_UpheldAtEpoch := v\<rparr> else s\<lparr>rpt_UpheldAtTimestamp := v\<rparr>)"

definition StoredMemoryReport_Unmarshal :: "bytes \<Rightarrow> StoredMemoryReport option" where
  "StoredMemoryReport_Unmarshal bz =
     map_option (\<lambda>fs. fold StoredMemoryReport_set fs \<lparr>
         rpt_OrgId = [], rpt_ContentHash = [], rpt_ContributorPubkey = [], rpt_ApprovingModerators = [],
         rpt_UpholdingModerators = [], rpt_ReporterPubkey = [], rpt_CommittingLeaderPubkey = [],
         rpt_Reason = [], rpt_Plaintext = [], rpt_Ciphertext = [], rpt_Capsule = [],
         rpt_PlaintextHash = [], rpt_PlaintextOversized = False, rpt_UpheldAtEpoch = 0,
         rpt_UpheldAtTimestamp = 0\<rparr>)
       (unmarshal StoredMemoryReport_schema bz)"

subsection \<open>State\<close>

text \<open>
  The tables of the module's store, the two big-endian integers (a count per organisation and the
  current epoch), the parameters, and the marker that chain initialisation writes.
\<close>

record memory_state =
  ms_relationships :: "StoredMemoryRelationship kv"
  ms_validity :: "StoredValidityMetadata kv"
  ms_approved :: "StoredMemoryCommitment kv"
  ms_counts :: "u64 kv"
  ms_epoch :: "u64 option"
  ms_merkle :: "StoredEpochMerkleRoot kv"
  ms_params :: "memory_Params option"
  ms_pending :: "StoredPendingCommitment kv"
  ms_reports :: "StoredMemoryReport kv"
  ms_marker :: bool

definition memory_empty :: memory_state where
  "memory_empty = \<lparr>
     ms_relationships = [], ms_validity = [], ms_approved = [], ms_counts = [], ms_epoch = None,
     ms_merkle = [], ms_params = None, ms_pending = [], ms_reports = [], ms_marker = False\<rparr>"

definition pendingKey :: "string \<Rightarrow> bytes \<Rightarrow> bytes" where
  "pendingKey orgID contentHash = ''pending/'' @ orgID @ ''/'' @ ContentHashToHex contentHash"

definition pendingPrefix :: "string \<Rightarrow> bytes" where
  "pendingPrefix orgID = ''pending/'' @ orgID @ ''/''"

definition approvedKey :: "string \<Rightarrow> bytes \<Rightarrow> bytes" where
  "approvedKey orgID contentHash = ''approved/'' @ orgID @ ''/'' @ ContentHashToHex contentHash"

definition approvedPrefix :: "string \<Rightarrow> bytes" where
  "approvedPrefix orgID = ''approved/'' @ orgID @ ''/''"

definition merkleKey :: "string \<Rightarrow> u64 \<Rightarrow> bytes" where
  "merkleKey orgID epoch = ''merkle/'' @ orgID @ ''/'' @ FormatUint epoch"

definition reportKey :: "string \<Rightarrow> bytes \<Rightarrow> string \<Rightarrow> bytes" where
  "reportKey orgID contentHash reporterID =
     ''report/'' @ orgID @ ''/'' @ ContentHashToHex contentHash @ ''/'' @ reporterID"

definition reportPrefix :: "string \<Rightarrow> bytes \<Rightarrow> bytes" where
  "reportPrefix orgID contentHash = ''report/'' @ orgID @ ''/'' @ ContentHashToHex contentHash @ ''/''"

definition countKey :: "string \<Rightarrow> bytes" where
  "countKey orgID = ''count/'' @ orgID"

definition relationshipKey :: "string \<Rightarrow> string \<Rightarrow> string \<Rightarrow> bytes" where
  "relationshipKey orgID sourceCID targetCID = [CHR 0x10] @ orgID @ '':'' @ sourceCID @ '':'' @ targetCID"

definition relationshipPrefix :: "string \<Rightarrow> bytes" where
  "relationshipPrefix orgID = [CHR 0x10] @ orgID @ '':''"

definition validityKey :: "string \<Rightarrow> string \<Rightarrow> bytes" where
  "validityKey orgID cid = [CHR 0x12] @ orgID @ '':'' @ cid"

text \<open>
  The store from \<open>approved/\<close> on, in key order.  The relationships and the validity records have
  keys that start with the bytes 10 and 12 and lie before it.
\<close>

definition memory_raw :: "memory_state \<Rightarrow> bytes kv" where
  "memory_raw st =
     map (\<lambda>(k, v). (k, StoredMemoryCommitment_Marshal v)) (ms_approved st) @
     map (\<lambda>(k, v). (k, be_uint64 v)) (ms_counts st) @
     (case ms_epoch st of None \<Rightarrow> [] | Some e \<Rightarrow> [(''current_epoch'', be_uint64 e)]) @
     map (\<lambda>(k, v). (k, marshal (StoredEpochMerkleRoot_fields v))) (ms_merkle st) @
     (case ms_params st of None \<Rightarrow> [] | Some p \<Rightarrow> [(''params'', marshal (memory_Params_fields p))]) @
     map (\<lambda>(k, v). (k, StoredPendingCommitment_Marshal v)) (ms_pending st) @
     map (\<lambda>(k, v). (k, marshal (StoredMemoryReport_fields v))) (ms_reports st) @
     marker_entries (ms_marker st)"

definition memory_SetParams :: "memory_Params \<Rightarrow> memory_state \<Rightarrow> memory_state" where
  "memory_SetParams p st = st\<lparr>ms_params := Some p\<rparr>"

definition memory_GetParams :: "memory_state \<Rightarrow> memory_Params" where
  "memory_GetParams st = (case ms_params st of None \<Rightarrow> memory_DefaultParams | Some p \<Rightarrow> p)"

definition memory_getCurrentEpoch :: "memory_state \<Rightarrow> u64" where
  "memory_getCurrentEpoch st = (case ms_epoch st of None \<Rightarrow> 0 | Some e \<Rightarrow> e)"

definition setCurrentEpoch :: "memory_state \<Rightarrow> u64 \<Rightarrow> memory_state" where
  "setCurrentEpoch st epoch = st\<lparr>ms_epoch := Some epoch\<rparr>"

subsection \<open>Reports\<close>

text \<open>The callback returns the new accumulator and whether the iteration goes on.\<close>

fun iterate_reports :: "('a \<Rightarrow> StoredMemoryReport \<Rightarrow> 'a \<times> bool) \<Rightarrow> 'a \<Rightarrow> StoredMemoryReport kv \<Rightarrow> 'a" where
  "iterate_reports cb acc [] = acc"
| "iterate_reports cb acc ((k, report) # rest) =
     (case cb acc report of (acc', goOn) \<Rightarrow> if goOn then iterate_reports cb acc' rest else acc')"

definition IterateUpheldReports ::
  "memory_state \<Rightarrow> ('a \<Rightarrow> StoredMemoryReport \<Rightarrow> 'a \<times> bool) \<Rightarrow> 'a \<Rightarrow> 'a" where
  "IterateUpheldReports st cb acc = iterate_reports cb acc (ms_reports st)"

definition GetUpheldReport :: "memory_state \<Rightarrow> string \<Rightarrow> bytes \<Rightarrow> StoredMemoryReport option" where
  "GetUpheldReport st orgID memoryHash =
     find (\<lambda>report. rpt_OrgId report = orgID \<and>
         ContentHashToHex (rpt_ContentHash report) = ContentHashToHex memoryHash)
       (map snd (ms_reports st))"

definition ReportMemory ::
  "memory_state \<Rightarrow> org_state \<Rightarrow> reputation_state \<Rightarrow> string \<Rightarrow> bytes \<Rightarrow> string \<Rightarrow> string list \<Rightarrow> string list \<Rightarrow>
   string \<Rightarrow> string \<Rightarrow> string \<Rightarrow> bytes \<Rightarrow> bytes \<Rightarrow> bytes \<Rightarrow> bytes \<Rightarrow> bool \<Rightarrow> u64 \<Rightarrow>
   (memory_state \<times> org_state \<times> reputation_state) result" where
  "ReportMemory st os rs orgID contentHash contributorPubkey approvingModerators upholdingModerators
     reporterPubkey committingLeader reason plaintext ciphertext capsule plaintextHash
     plaintextOversized epoch =
     (if plaintextHash = [] then Inl (E_memory Mem_ErrInvalidContentHash)
      else if plaintextOversized \<and> (plaintext \<noteq> [] \<or> ciphertext \<noteq> [] \<or> capsule \<noteq> [])
        then Inl (E_memory Mem_ErrBlobTooLarge)
      else if \<not> plaintextOversized \<and> (length plaintext > 4096 \<or> length ciphertext > 8192 \<or> capsule = [])
        then Inl (E_memory Mem_ErrBlobTooLarge)
      else if \<not> kv_has (ms_approved st) (approvedKey orgID contentHash)
        then Inl (E_memory Mem_ErrMemoryNotFound)
      else if kv_has (ms_reports st) (reportKey orgID contentHash reporterPubkey)
        then Inl (E_memory Mem_ErrReportExists)
      else
        let report = \<lparr>
              rpt_OrgId = orgID, rpt_ContentHash = contentHash, rpt_ContributorPubkey = contributorPubkey,
              rpt_ApprovingModerators = approvingModerators, rpt_UpholdingModerators = upholdingModerators,
              rpt_ReporterPubkey = reporterPubkey, rpt_CommittingLeaderPubkey = committingLeader,
              rpt_Reason = reason, rpt_Plaintext = plaintext, rpt_Ciphertext = ciphertext,
              rpt_Capsule = capsule, rpt_PlaintextHash = plaintextHash,
              rpt_PlaintextOversized = plaintextOversized, rpt_UpheldAtEpoch = epoch,
              rpt_UpheldAtTimestamp = 0\<rparr>;
            st' = st\<lparr>ms_reports := kv_set (reportKey orgID contentHash reporterPubkey) report (ms_reports st)\<rparr>
        in case IncrementOrgUpheldReports os orgID of
             Inl e \<Rightarrow> Inl e
           | Inr os' \<Rightarrow>
               let rs1 = IncrementContribution rs contributorPubkey orgID (ContentHashToHex contentHash);
                   rs2 = foldl (\<lambda>r modPubkey. IncrementModeratorUpheld r modPubkey orgID) rs1 approvingModerators;
                   rs3 = IncrementLeaderUpheldReport rs2 committingLeader orgID
               in Inr (st', os', rs3))"

definition GetMemoryReports :: "memory_state \<Rightarrow> string \<Rightarrow> bytes \<Rightarrow> StoredMemoryReport list" where
  "GetMemoryReports st orgID contentHash =
     List.map_filter (\<lambda>e. StoredMemoryReport_Unmarshal (snd e))
       (kv_from (reportPrefix orgID contentHash) (memory_raw st))"

subsection \<open>Commitments and approvals\<close>

definition SubmitCommitment ::
  "memory_state \<Rightarrow> org_state \<Rightarrow> PendingCommitment \<Rightarrow> memory_state result" where
  "SubmitCommitment st os commitment =
     (case PendingCommitment_Validate commitment of
        Inl e \<Rightarrow> Inl e
      | Inr _ \<Rightarrow>
          if \<not> HasOrg os (pc_OrgID commitment) then Inl (E_memory Mem_ErrOrgNotFound)
          else
            let key = pendingKey (pc_OrgID commitment) (pc_ContentHash commitment)
            in if kv_has (ms_pending st) key then Inl (E_memory Mem_ErrCommitmentExists)
               else
                 let pendingCount = length (kv_from (pendingPrefix (pc_OrgID commitment)) (memory_raw st))
                 in if of_nat pendingCount \<ge> mp_MaxPendingPerOrg (memory_GetParams st)
                    then Inl (E_memory Mem_ErrMaxPendingExceeded)
                    else Inr (st\<lparr>ms_pending := kv_set key (pendingToStored commitment) (ms_pending st)\<rparr>))"

definition ApproveMemory ::
  "memory_state \<Rightarrow> org_state \<Rightarrow> reputation_state \<Rightarrow> string \<Rightarrow> bytes \<Rightarrow> bytes \<Rightarrow> string \<Rightarrow> bytes \<Rightarrow> bytes \<Rightarrow>
   bytes \<Rightarrow> bytes \<Rightarrow> bytes \<Rightarrow> bytes \<Rightarrow> i32 \<Rightarrow> (memory_state \<times> org_state \<times> reputation_state) result" where
  "ApproveMemory st os rs orgID contentHash encryptedBlob committingLeader wrappedDekEnc plaintextHash
     salt ciphertextHash wrappedDekHash contributorSig memoryType =
     (if \<not> ValidMemoryType memoryType then Inl (E_memory Mem_ErrInvalidMemoryType)
      else case kv_get (ms_pending st) (pendingKey orgID contentHash) of
        None \<Rightarrow> Inl (E_memory Mem_ErrCommitmentNotFound)
      | Some pendingStored \<Rightarrow>
          if \<not> IsLeader os orgID committingLeader then Inl (E_memory Mem_ErrUnauthorized)
          else if int (length encryptedBlob) > sint (mp_MaxBlobSizeBytes (memory_GetParams st))
            then Inl (E_memory Mem_ErrBlobTooLarge)
          else
            let pending = storedToPending pendingStored
            in if kv_has (ms_approved st) (approvedKey orgID contentHash)
               then Inl (E_memory Mem_ErrMemoryExists)
               else
                 let currentEpoch = pc_Epoch pending;
                     approved = \<lparr>
                       mc_OrgID = orgID, mc_ContentHash = contentHash, mc_EncryptedBlob = encryptedBlob,
                       mc_Keywords = pc_Keywords pending, mc_Contributor = pc_Contributor pending,
                       mc_ContributorAddress = pc_ContributorAddress pending,
                       mc_ProducerModelId = pc_ProducerModelId pending,
                       mc_AttestationSessionHash = pc_AttestationSessionHash pending,
                       mc_Epoch = currentEpoch, mc_CommittedAtHeight = pc_SubmittedAt pending,
                       mc_CommittingLeader = committingLeader,
                       mc_State = MemoryState_MEMORY_STATE_COMMITTED, mc_LastActiveEpoch = currentEpoch,
                       mc_WrappedDekEnc = wrappedDekEnc, mc_PlaintextHash = plaintextHash, mc_Salt = salt,
                       mc_CiphertextHash = ciphertextHash, mc_WrappedDekHash = wrappedDekHash,
                       mc_ContributorSig = contributorSig, mc_MemoryType = memoryType,
                       mc_ApprovedAtEpoch = memory_getCurrentEpoch st, mc_McVersion = pc_McVersion pending\<rparr>;
                     count = (case kv_get (ms_counts st) (countKey orgID) of None \<Rightarrow> 0 | Some c \<Rightarrow> c);
                     st' = st\<lparr>
                       ms_approved := kv_set (approvedKey orgID contentHash) (memoryToStored approved) (ms_approved st),
                       ms_pending := kv_del (pendingKey orgID contentHash) (ms_pending st),
                       ms_counts := kv_set (countKey orgID) (count + 1) (ms_counts st)\<rparr>
                 in case IncrementOrgCommittedMemories os orgID of
                      Inl e \<Rightarrow> Inl e
                    | Inr os1 \<Rightarrow>
                        (case SetOrgLastActivityEpoch os1 orgID currentEpoch of
                           Inl e \<Rightarrow> Inl e
                         | Inr os2 \<Rightarrow>
                             let rs1 = IncrementContribution rs (pc_Contributor pending) orgID
                                         (ContentHashToHex contentHash);
                                 rs2 = IncrementLeaderChainCommit rs1 committingLeader orgID
                             in Inr (st', os2, rs2)))"

definition GetApprovedMemory :: "memory_state \<Rightarrow> string \<Rightarrow> bytes \<Rightarrow> MemoryCommitment result" where
  "GetApprovedMemory st orgID contentHash =
     (case kv_get (ms_approved st) (approvedKey orgID contentHash) of
        None \<Rightarrow> Inl (E_memory Mem_ErrMemoryNotFound)
      | Some stored \<Rightarrow> Inr (storedToMemory stored))"

definition GetPendingCommitment :: "memory_state \<Rightarrow> string \<Rightarrow> bytes \<Rightarrow> PendingCommitment result" where
  "GetPendingCommitment st orgID contentHash =
     (case kv_get (ms_pending st) (pendingKey orgID contentHash) of
        None \<Rightarrow> Inl (E_memory Mem_ErrCommitmentNotFound)
      | Some stored \<Rightarrow> Inr (storedToPending stored))"

definition GetAllPendingForOrg :: "memory_state \<Rightarrow> string \<Rightarrow> PendingCommitment list" where
  "GetAllPendingForOrg st orgID =
     map storedToPending (List.map_filter (\<lambda>e. StoredPendingCommitment_Unmarshal (snd e))
       (kv_from (pendingPrefix orgID) (memory_raw st)))"

definition GetApprovedCount :: "memory_state \<Rightarrow> string \<Rightarrow> u64" where
  "GetApprovedCount st orgID = (case kv_get (ms_counts st) (countKey orgID) of None \<Rightarrow> 0 | Some c \<Rightarrow> c)"

text \<open>\<open>counts[key]++\<close> on the map of counts.\<close>

definition bump :: "string \<Rightarrow> u64 kv \<Rightarrow> u64 kv" where
  "bump key counts = kv_set key (case kv_get counts key of None \<Rightarrow> 1 | Some c \<Rightarrow> c + 1) counts"

text \<open>What the iterators without an end that look for memories decode.\<close>

definition decoded_memories :: "memory_state \<Rightarrow> string \<Rightarrow> StoredMemoryCommitment list" where
  "decoded_memories st orgID =
     List.map_filter (\<lambda>e. StoredMemoryCommitment_Unmarshal (snd e))
       (kv_from (approvedPrefix orgID) (memory_raw st))"

definition GetApprovedCountByContributor :: "memory_state \<Rightarrow> string \<Rightarrow> u64 \<Rightarrow> u64 kv" where
  "GetApprovedCountByContributor st orgID epoch =
     fold (\<lambda>stored counts. if smc_Epoch stored \<noteq> epoch then counts
             else bump (smc_ContributorPubkey stored) counts)
       (decoded_memories st orgID) []"

definition ComputeAndStoreEpochMerkleRoot :: "'x sdk \<Rightarrow> memory_state \<Rightarrow> string \<Rightarrow> u64 \<Rightarrow> memory_state" where
  "ComputeAndStoreEpochMerkleRoot K st orgID epoch =
     (let contentHashes = map smc_ContentHash
            (filter (\<lambda>stored. smc_Epoch stored = epoch) (decoded_memories st orgID))
      in st\<lparr>ms_merkle := kv_set (merkleKey orgID epoch) \<lparr>
            ser_OrgId = orgID, ser_Epoch = epoch, ser_MerkleRoot = ComputeMerkleRoot K contentHashes,
            ser_MemoryCount = of_nat (length contentHashes)\<rparr> (ms_merkle st)\<rparr>)"

definition GetEpochMerkleRoot :: "memory_state \<Rightarrow> string \<Rightarrow> u64 \<Rightarrow> EpochMerkleRoot result" where
  "GetEpochMerkleRoot st orgID epoch =
     (case kv_get (ms_merkle st) (merkleKey orgID epoch) of
        None \<Rightarrow> Inl (E_memory Mem_ErrMerkleRootNotFound)
      | Some stored \<Rightarrow> Inr \<lparr>
          emr_OrgID = ser_OrgId stored, emr_Epoch = ser_Epoch stored,
          emr_MerkleRoot = ser_MerkleRoot stored, emr_MemoryCount = ser_MemoryCount stored\<rparr>)"

subsection \<open>Life cycle, relationships and validity\<close>

definition saveMemoryCommitment :: "memory_state \<Rightarrow> MemoryCommitment \<Rightarrow> memory_state" where
  "saveMemoryCommitment st memory =
     st\<lparr>ms_approved := kv_set (approvedKey (mc_OrgID memory) (mc_ContentHash memory))
       (memoryToStored memory) (ms_approved st)\<rparr>"

definition decodeCID :: "string \<Rightarrow> bytes result" where
  "decodeCID cid =
     (case hex_decode cid of
        None \<Rightarrow> Inl (Errorf ''decode cid'')
      | Some contentHash \<Rightarrow>
          if length contentHash \<noteq> ContentHashLen then Inl (E_memory Mem_ErrInvalidContentHash)
          else Inr contentHash)"

definition loadMemoryByCID :: "memory_state \<Rightarrow> string \<Rightarrow> string \<Rightarrow> MemoryCommitment result" where
  "loadMemoryByCID st orgID cid =
     (case decodeCID cid of
        Inl e \<Rightarrow> Inl e
      | Inr contentHash \<Rightarrow>
          (case kv_get (ms_approved st) (approvedKey orgID contentHash) of
             None \<Rightarrow> Inl (E_memory Mem_ErrMemoryNotFound)
           | Some stored \<Rightarrow> Inr (storedToMemory stored)))"

definition GetContributorsWithApprovalsInEpoch :: "memory_state \<Rightarrow> u64 \<Rightarrow> u64 kv" where
  "GetContributorsWithApprovalsInEpoch st epoch =
     fold (\<lambda>e counts.
         let stored = snd e in
         if smc_ApprovedAtEpoch stored \<noteq> epoch then counts
         else if smc_State stored \<noteq> MemoryState_MEMORY_STATE_COMMITTED then counts
         else if smc_ContributorPubkey stored = [] then counts
         else bump (smc_ContributorPubkey stored) counts)
       (ms_approved st) []"

definition loadRelationship :: "memory_state \<Rightarrow> string \<Rightarrow> string \<Rightarrow> string \<Rightarrow> MemoryRelationship result" where
  "loadRelationship st orgID sourceCID targetCID =
     (case kv_get (ms_relationships st) (relationshipKey orgID sourceCID targetCID) of
        None \<Rightarrow> Inl (E_memory Mem_ErrRelationshipNotFound)
      | Some stored \<Rightarrow> Inr (storedToRelationship stored))"

definition GetRelationship :: "memory_state \<Rightarrow> string \<Rightarrow> string \<Rightarrow> string \<Rightarrow> MemoryRelationship result" where
  "GetRelationship st orgID sourceCID targetCID = loadRelationship st orgID sourceCID targetCID"

definition ListRelationshipsForMemory :: "memory_state \<Rightarrow> string \<Rightarrow> string \<Rightarrow> MemoryRelationship list" where
  "ListRelationshipsForMemory st orgID cid =
     filter (\<lambda>rel. rel_SourceCID rel = cid \<or> rel_TargetCID rel = cid)
       (map (\<lambda>e. storedToRelationship (snd e))
         (kv_prefix (relationshipPrefix orgID) (ms_relationships st)))"

definition DeleteRelationship :: "memory_state \<Rightarrow> string \<Rightarrow> string \<Rightarrow> string \<Rightarrow> memory_state" where
  "DeleteRelationship st orgID sourceCID targetCID =
     st\<lparr>ms_relationships := kv_del (relationshipKey orgID sourceCID targetCID) (ms_relationships st)\<rparr>"

definition saveRelationship :: "memory_state \<Rightarrow> string \<Rightarrow> MemoryRelationship \<Rightarrow> memory_state" where
  "saveRelationship st orgID relationship =
     st\<lparr>ms_relationships := kv_set
       (relationshipKey orgID (rel_SourceCID relationship) (rel_TargetCID relationship))
       ((relationshipToStored relationship)\<lparr>smr_OrgId := orgID\<rparr>) (ms_relationships st)\<rparr>"

text \<open>
  \<open>json.Unmarshal\<close> into a map of strings is the parameter \<open>parse_tags\<close>; \<open>None\<close> is its error.
\<close>

definition decodeValidityMetadata ::
  "(bytes \<Rightarrow> (string \<times> string) list option) \<Rightarrow> StoredValidityMetadata \<Rightarrow> ValidityMetadata result" where
  "decodeValidityMetadata parse_tags stored =
     (case (if svm_ScopeTagsBz stored = [] then Some [] else parse_tags (svm_ScopeTagsBz stored)) of
        None \<Rightarrow> Inl (Errorf ''unmarshal scope tags'')
      | Some scope \<Rightarrow> Inr \<lparr>
          vm_ValidAfterEpoch = svm_ValidAfterEpoch stored, vm_ValidUntilEpoch = svm_ValidUntilEpoch stored,
          vm_ScopeTags = scope\<rparr>)"

definition GetValidityMetadata ::
  "(bytes \<Rightarrow> (string \<times> string) list option) \<Rightarrow> memory_state \<Rightarrow> string \<Rightarrow> string \<Rightarrow>
   ValidityMetadata option result" where
  "GetValidityMetadata parse_tags st orgID cid =
     (case kv_get (ms_validity st) (validityKey orgID cid) of
        None \<Rightarrow> Inr None
      | Some stored \<Rightarrow>
          (case decodeValidityMetadata parse_tags stored of
             Inl e \<Rightarrow> Inl e | Inr metadata \<Rightarrow> Inr (Some metadata)))"

definition IsValidInEpoch ::
  "(bytes \<Rightarrow> (string \<times> string) list option) \<Rightarrow> memory_state \<Rightarrow> string \<Rightarrow> string \<Rightarrow> u64 \<Rightarrow> bool result" where
  "IsValidInEpoch parse_tags st orgID cid epoch =
     (case GetValidityMetadata parse_tags st orgID cid of
        Inl e \<Rightarrow> Inl e
      | Inr None \<Rightarrow> Inr True
      | Inr (Some metadata) \<Rightarrow>
          if vm_ValidAfterEpoch metadata \<noteq> 0 \<and> epoch < vm_ValidAfterEpoch metadata then Inr False
          else if vm_ValidUntilEpoch metadata \<noteq> 0 \<and> epoch > vm_ValidUntilEpoch metadata then Inr False
          else Inr True)"

text \<open>
  The expired records are collected first, then handled one by one; an error stops the loop with
  the writes made so far.
\<close>

fun expire_all :: "memory_state \<Rightarrow> (bytes \<times> string \<times> string) list \<Rightarrow> memory_state \<times> check" where
  "expire_all st [] = (st, Inr ())"
| "expire_all st ((key, orgID, memoryCid) # rest) =
     (case loadMemoryByCID st orgID memoryCid of
        Inl e \<Rightarrow> (st, Inl e)
      | Inr memory \<Rightarrow>
          let st' = (if mc_State memory \<noteq> MemoryState_MEMORY_STATE_ARCHIVED \<and>
                        mc_State memory \<noteq> MemoryState_MEMORY_STATE_DENIED
                     then saveMemoryCommitment st (memory\<lparr>mc_State := MemoryState_MEMORY_STATE_ARCHIVED\<rparr>)
                     else st)
          in expire_all (st'\<lparr>ms_validity := kv_del key (ms_validity st')\<rparr>) rest)"

definition CheckEpochExpiry :: "memory_state \<Rightarrow> u64 \<Rightarrow> memory_state \<times> check" where
  "CheckEpochExpiry st epoch =
     expire_all st (map (\<lambda>(key, stored). (key, svm_OrgId stored, svm_MemoryCid stored))
       (filter (\<lambda>(key, stored). \<not> (svm_ValidUntilEpoch stored = 0 \<or> epoch \<le> svm_ValidUntilEpoch stored))
         (ms_validity st)))"

subsection \<open>The epoch hook\<close>

definition getAllOrgsWithMemories :: "memory_state \<Rightarrow> string list" where
  "getAllOrgsWithMemories st =
     remdups (sort (filter (\<lambda>part. part \<noteq> [])
       (map (\<lambda>e. takeWhile (\<lambda>c. c \<noteq> CHR ''/'') (drop (length ''approved/'') (fst e))) (ms_approved st))))"

definition memory_AfterEpochEnd :: "'x sdk \<Rightarrow> memory_state \<Rightarrow> string \<Rightarrow> int \<Rightarrow> memory_state" where
  "memory_AfterEpochEnd K st epochIdentifier epochNumber =
     (if epochIdentifier \<noteq> ''wevibe_epoch'' then st
      else let epoch = word_of_int epochNumber;
               st1 = setCurrentEpoch st epoch;
               st2 = fst (CheckEpochExpiry st1 epoch)
           in foldl (\<lambda>s orgID. ComputeAndStoreEpochMerkleRoot K s orgID epoch) st2
                (getAllOrgsWithMemories st2))"

subsection \<open>Genesis\<close>

record memory_GenesisState =
  mg_PendingCommitments :: "PendingCommitment list"
  mg_MemoryCommitments :: "MemoryCommitment list"
  mg_Relationships :: "MemoryRelationship option list"
  mg_ValidityMetadata :: "StoredValidityMetadata option list"
  mg_MerkleRoots :: "EpochMerkleRoot list"
  mg_Params :: memory_Params

definition memory_Params_zero :: memory_Params where
  "memory_Params_zero = \<lparr>
     mp_MaxPendingPerOrg = 0, mp_PendingRetentionEpochs = 0, mp_MaxBlobSizeBytes = 0,
     mp_MaxKeywordsPerMemory = 0, mp_ContestWindowEpochs = 0\<rparr>"

definition memory_InitGenesis :: "memory_GenesisState \<Rightarrow> memory_state \<Rightarrow> memory_state" where
  "memory_InitGenesis g st =
     (let st1 = st\<lparr>
            ms_pending := fold (\<lambda>pc. kv_set (pendingKey (pc_OrgID pc) (pc_ContentHash pc)) (pendingToStored pc))
              (mg_PendingCommitments g) (ms_pending st),
            ms_approved := fold (\<lambda>am. kv_set (approvedKey (mc_OrgID am) (mc_ContentHash am)) (memoryToStored am))
              (mg_MemoryCommitments g) (ms_approved st)\<rparr>;
          st2 = fold (\<lambda>rel s. case rel of None \<Rightarrow> s | Some r \<Rightarrow> saveRelationship s (rel_OrgID r) r)
            (mg_Relationships g) st1;
          st3 = st2\<lparr>
            ms_validity := fold (\<lambda>vm t. case vm of None \<Rightarrow> t
                | Some v \<Rightarrow> kv_set (validityKey (svm_OrgId v) (svm_MemoryCid v)) v t)
              (mg_ValidityMetadata g) (ms_validity st2),
            ms_merkle := fold (\<lambda>mr. kv_set (merkleKey (emr_OrgID mr) (emr_Epoch mr)) \<lparr>
                ser_OrgId = emr_OrgID mr, ser_Epoch = emr_Epoch mr, ser_MerkleRoot = emr_MerkleRoot mr,
                ser_MemoryCount = emr_MemoryCount mr\<rparr>) (mg_MerkleRoots g) (ms_merkle st2)\<rparr>;
          params = (if mg_Params g = memory_Params_zero then memory_DefaultParams else mg_Params g)
      in memory_SetParams params st3)"

definition memory_ExportGenesis :: "memory_state \<Rightarrow> memory_GenesisState" where
  "memory_ExportGenesis st = \<lparr>
     mg_PendingCommitments = map (\<lambda>e. storedToPending (snd e)) (ms_pending st),
     mg_MemoryCommitments = map (\<lambda>e. storedToMemory (snd e)) (ms_approved st),
     mg_Relationships = map (\<lambda>e. Some (storedToRelationship (snd e))) (ms_relationships st),
     mg_ValidityMetadata = map (\<lambda>e. Some (snd e)) (ms_validity st),
     mg_MerkleRoots = map (\<lambda>e. \<lparr>
       emr_OrgID = ser_OrgId (snd e), emr_Epoch = ser_Epoch (snd e),
       emr_MerkleRoot = ser_MerkleRoot (snd e), emr_MemoryCount = ser_MemoryCount (snd e)\<rparr>) (ms_merkle st),
     mg_Params = memory_GetParams st\<rparr>"

subsection \<open>Messages\<close>

record MsgSubmitCommitment =
  msc_Signer :: string
  msc_OrgId :: string
  msc_ContentHash :: bytes
  msc_ContributorId :: string
  msc_ContributorWallet :: string
  msc_MemoryType :: i32
  msc_Keywords :: "string list"
  msc_ProducerModelId :: string
  msc_AttestationSessionHash :: bytes
  msc_McVersion :: u32

record MsgApproveMemory =
  mav_Signer :: string
  mav_OrgId :: string
  mav_ContentHash :: bytes
  mav_EncryptedBlob :: bytes
  mav_CommittingLeader :: string
  mav_WrappedDekEnc :: bytes
  mav_MemoryType :: i32
  mav_PlaintextHash :: bytes
  mav_Salt :: bytes
  mav_CiphertextHash :: bytes
  mav_ContributorSig :: bytes
  mav_McVersion :: u32

record MsgReportMemory =
  mrp_Signer :: string
  mrp_OrgId :: string
  mrp_ContentHash :: bytes
  mrp_ContributorPubkey :: string
  mrp_ApprovingModerators :: "string list"
  mrp_UpholdingModerators :: "string list"
  mrp_ReporterPubkey :: string
  mrp_Reason :: string
  mrp_Plaintext :: bytes
  mrp_Ciphertext :: bytes
  mrp_Capsule :: bytes
  mrp_PlaintextHash :: bytes
  mrp_PlaintextOversized :: bool

record memory_MsgUpdateParams =
  mmu_Authority :: string
  mmu_Params :: "memory_Params option"

definition MsgSubmitCommitment_ValidateBasic :: "MsgSubmitCommitment \<Rightarrow> check" where
  "MsgSubmitCommitment_ValidateBasic m =
     (if msc_Signer m = [] then Inl (Errorf ''signer cannot be empty'')
      else if msc_OrgId m = [] then Inl (E_memory Mem_ErrInvalidOrgID)
      else if length (msc_ContentHash m) \<noteq> ContentHashLen then Inl (E_memory Mem_ErrInvalidContentHash)
      else if msc_ContributorId m = [] then Inl (E_memory Mem_ErrInvalidContributor)
      else if msc_ProducerModelId m \<noteq> [] \<and> length (msc_ProducerModelId m) > MaxProducerModelIdLen
        then Inl (Errorf ''producer_model_id must be <= 128 characters'')
      else if msc_ProducerModelId m \<noteq> [] \<and> TrimSpace_empty (msc_ProducerModelId m)
        then Inl (Errorf ''producer_model_id cannot be whitespace'')
      else if msc_AttestationSessionHash m \<noteq> [] \<and> length (msc_AttestationSessionHash m) \<noteq> 32
        then Inl (Errorf ''attestation_session_hash must be exactly 32 bytes when set'')
      else if msc_AttestationSessionHash m \<noteq> [] \<and> msc_ProducerModelId m = []
        then Inl (Errorf ''producer_model_id is required when attestation_session_hash is set'')
      else Inr ())"

definition MsgApproveMemory_ValidateBasic :: "MsgApproveMemory \<Rightarrow> check" where
  "MsgApproveMemory_ValidateBasic m =
     (if mav_Signer m = [] then Inl (Errorf ''signer cannot be empty'')
      else if mav_OrgId m = [] then Inl (E_memory Mem_ErrInvalidOrgID)
      else if length (mav_ContentHash m) \<noteq> ContentHashLen then Inl (E_memory Mem_ErrInvalidContentHash)
      else if mav_EncryptedBlob m = [] then Inl (E_memory Mem_ErrInvalidBlob)
      else Inr ())"

definition MsgReportMemory_ValidateBasic :: "MsgReportMemory \<Rightarrow> check" where
  "MsgReportMemory_ValidateBasic m =
     (if mrp_Signer m = [] then Inl (Errorf ''signer cannot be empty'')
      else if mrp_OrgId m = [] then Inl (E_memory Mem_ErrInvalidOrgID)
      else if length (mrp_ContentHash m) \<noteq> ContentHashLen then Inl (E_memory Mem_ErrInvalidContentHash)
      else if mrp_ReporterPubkey m = [] then Inl (E_memory Mem_ErrInvalidReporter)
      else if mrp_Reason m = [] then Inl (E_memory Mem_ErrInvalidReportReason)
      else Inr ())"

definition memory_MsgUpdateParams_ValidateBasic :: "memory_MsgUpdateParams \<Rightarrow> check" where
  "memory_MsgUpdateParams_ValidateBasic m =
     (if mmu_Authority m = [] then Inl (Errorf ''authority cannot be empty'')
      else case mmu_Params m of
        None \<Rightarrow> Inl (Panic ''nil pointer dereference'')
      | Some p \<Rightarrow> memory_Params_Validate p)"

definition requireLeaderWallet :: "org_state \<Rightarrow> string \<Rightarrow> string \<Rightarrow> check" where
  "requireLeaderWallet os orgID signer =
     (case GetLeaderWallet os orgID of
        Inl e \<Rightarrow> Inl e
      | Inr wallet \<Rightarrow>
          if wallet = [] \<or> signer \<noteq> wallet then Inl (E_memory Mem_ErrUnauthorized) else Inr ())"

definition buildSubmitMemoryCanonicalBody ::
  "bytes \<Rightarrow> string \<Rightarrow> u64 \<Rightarrow> i32 \<Rightarrow> string \<Rightarrow> bytes \<Rightarrow> bytes \<Rightarrow> bytes \<Rightarrow> bytes \<Rightarrow> bytes" where
  "buildSubmitMemoryCanonicalBody ciphertextHash contributorPubkey epochID memoryType orgID plaintextHash
     salt submissionHash wrappedDekHash =
     join_lines [
       ''wevibe.submit_memory.v1'',
       ''ciphertext_hash:'' @ hex_encode ciphertextHash,
       ''contributor_pubkey:'' @ contributorPubkey,
       ''epoch_id:'' @ FormatUint epochID,
       ''memory_type:'' @ CanonicalMemoryType memoryType,
       ''org_id:'' @ orgID,
       ''plaintext_hash:'' @ hex_encode plaintextHash,
       ''salt:'' @ hex_encode salt,
       ''submission_hash:'' @ hex_encode submissionHash,
       ''wrapped_dek_hash:'' @ hex_encode wrappedDekHash]"

definition Msg_SubmitCommitment ::
  "memory_state \<Rightarrow> org_state \<Rightarrow> MsgSubmitCommitment \<Rightarrow> memory_state result" where
  "Msg_SubmitCommitment st os msg =
     (case MsgSubmitCommitment_ValidateBasic msg of
        Inl e \<Rightarrow> Inl e
      | Inr _ \<Rightarrow>
          (case requireLeaderWallet os (msc_OrgId msg) (msc_Signer msg) of
             Inl e \<Rightarrow> Inl e
           | Inr _ \<Rightarrow>
               (case GetMember os (msc_OrgId msg) (msc_ContributorId msg) of
                  Inl e \<Rightarrow> Inl (E_memory Mem_ErrNotContributor)
                | Inr member \<Rightarrow>
                    if mr_Role member \<noteq> ''leader'' \<and> \<not> mr_CanContribute member
                      then Inl (E_memory Mem_ErrNotContributor)
                    else if \<not> ValidMemoryType (msc_MemoryType msg)
                      then Inl (E_memory Mem_ErrInvalidMemoryType)
                    else SubmitCommitment st os
                      ((NewPendingCommitment (msc_OrgId msg) (msc_ContentHash msg) (msc_Keywords msg)
                          (msc_ContributorId msg) 0 0 (msc_MemoryType msg))\<lparr>
                        pc_ContributorAddress := msc_ContributorWallet msg,
                        pc_McVersion := msc_McVersion msg,
                        pc_ProducerModelId := msc_ProducerModelId msg,
                        pc_AttestationSessionHash := msc_AttestationSessionHash msg\<rparr>))))"

definition Msg_ApproveMemory ::
  "'x sdk \<Rightarrow> memory_state \<Rightarrow> org_state \<Rightarrow> reputation_state \<Rightarrow> MsgApproveMemory \<Rightarrow>
   (memory_state \<times> org_state \<times> reputation_state) result" where
  "Msg_ApproveMemory K st os rs msg =
     (case MsgApproveMemory_ValidateBasic msg of
        Inl e \<Rightarrow> Inl e
      | Inr _ \<Rightarrow>
          (case requireLeaderWallet os (mav_OrgId msg) (mav_Signer msg) of
             Inl e \<Rightarrow> Inl e
           | Inr _ \<Rightarrow>
               if \<not> ValidMemoryType (mav_MemoryType msg) then Inl (E_memory Mem_ErrInvalidMemoryType)
               else (case GetPendingCommitment st (mav_OrgId msg) (mav_ContentHash msg) of
                  Inl e \<Rightarrow> Inl e
                | Inr pending \<Rightarrow>
                    let wrappedDekHash = sha256_Sum256 K (mav_WrappedDekEnc msg);
                        submissionHash = sha256_Sum256 K (mav_EncryptedBlob msg @ mav_WrappedDekEnc msg);
                        canonicalBody = buildSubmitMemoryCanonicalBody (mav_CiphertextHash msg)
                          (pc_Contributor pending) (pc_Epoch pending) (mav_MemoryType msg) (mav_OrgId msg)
                          (mav_PlaintextHash msg) (mav_Salt msg) submissionHash wrappedDekHash
                    in (case hex_decode (pc_Contributor pending) of
                          None \<Rightarrow> Inl (E_memory Mem_ErrInvalidContributor)
                        | Some contributorPubkeyBytes \<Rightarrow>
                            if length contributorPubkeyBytes \<noteq> 32
                              then Inl (E_memory Mem_ErrInvalidContributor)
                            else if \<not> ed25519_Verify K contributorPubkeyBytes canonicalBody (mav_ContributorSig msg)
                              then Inl (E_memory Mem_ErrInvalidContributorSignature)
                            else if mav_CiphertextHash msg \<noteq> sha256_Sum256 K (mav_EncryptedBlob msg)
                              then Inl (E_memory Mem_ErrInvalidBlob)
                            else if mav_ContentHash msg \<noteq> submissionHash
                              then Inl (E_memory Mem_ErrInvalidContentHash)
                            else ApproveMemory st os rs (mav_OrgId msg) (mav_ContentHash msg)
                              (mav_EncryptedBlob msg) (mav_CommittingLeader msg) (mav_WrappedDekEnc msg)
                              (mav_PlaintextHash msg) (mav_Salt msg) (mav_CiphertextHash msg) wrappedDekHash
                              (mav_ContributorSig msg) (mav_MemoryType msg)))))"

definition memory_Msg_UpdateParams ::
  "'x sdk \<Rightarrow> memory_state \<Rightarrow> memory_MsgUpdateParams \<Rightarrow> memory_state result" where
  "memory_Msg_UpdateParams K st msg =
     (if mmu_Authority msg \<noteq> authority K then Inl (E_memory Mem_ErrUnauthorized)
      else case memory_MsgUpdateParams_ValidateBasic msg of
        Inl e \<Rightarrow> Inl e
      | Inr _ \<Rightarrow>
          (case mmu_Params msg of
             None \<Rightarrow> Inl (Panic ''nil pointer dereference'')
           | Some p \<Rightarrow> Inr (memory_SetParams p st)))"

definition Msg_ReportMemory ::
  "memory_state \<Rightarrow> org_state \<Rightarrow> reputation_state \<Rightarrow> MsgReportMemory \<Rightarrow>
   (memory_state \<times> org_state \<times> reputation_state) result" where
  "Msg_ReportMemory st os rs msg =
     (case MsgReportMemory_ValidateBasic msg of
        Inl e \<Rightarrow> Inl e
      | Inr _ \<Rightarrow>
          (case requireLeaderWallet os (mrp_OrgId msg) (mrp_Signer msg) of
             Inl e \<Rightarrow> Inl e
           | Inr _ \<Rightarrow>
               ReportMemory st os rs (mrp_OrgId msg) (mrp_ContentHash msg) (mrp_ContributorPubkey msg)
                 (mrp_ApprovingModerators msg) (mrp_UpholdingModerators msg) (mrp_ReporterPubkey msg)
                 (mrp_Signer msg) (mrp_Reason msg) (mrp_Plaintext msg) (mrp_Ciphertext msg)
                 (mrp_Capsule msg) (mrp_PlaintextHash msg) (mrp_PlaintextOversized msg) 0))"

end
