(* ===== verification/Memory_Correct.thy ===== *)
theory Memory_Correct
  imports Memory "HOL-Library.Multiset"
begin

section \<open>Correctness of the memory module\<close>

text \<open>
  Along every sequence of messages and epoch ends: approved memories are well formed, counted
  exactly and permanent; an approval proves who signed what; the limit on pending commitments; the
  effects of a report; what a Merkle root commits to; and that the roots the epoch hook stores
  commit to nothing, because no memory ever carries the epoch they are computed for.
\<close>

subsection \<open>Keys and conversions\<close>

lemma approvedKey_inj [simp]: "approvedKey o1 h1 = approvedKey o2 h2 \<longleftrightarrow> o1 = o2 \<and> h1 = h2"
  using append_sep_inj_right [of "CHR ''/''" "hex_encode h1" "hex_encode h2" o1 o2]
  by (simp add: approvedKey_def ContentHashToHex_def)

lemma pendingKey_inj [simp]: "pendingKey o1 h1 = pendingKey o2 h2 \<longleftrightarrow> o1 = o2 \<and> h1 = h2"
  using append_sep_inj_right [of "CHR ''/''" "hex_encode h1" "hex_encode h2" o1 o2]
  by (simp add: pendingKey_def ContentHashToHex_def)

lemma countKey_inj [simp]: "countKey o1 = countKey o2 \<longleftrightarrow> o1 = o2"
  by (simp add: countKey_def)

lemma merkleKey_inj [simp]: "merkleKey o1 e1 = merkleKey o2 e2 \<longleftrightarrow> o1 = o2 \<and> e1 = e2"
  using append_sep_inj_right [of "CHR ''/''" "FormatUint e1" "FormatUint e2" o1 o2]
  by (simp add: merkleKey_def)

lemma storedToMemory_memoryToStored [simp]: "storedToMemory (memoryToStored m) = m"
  by (simp add: storedToMemory_def memoryToStored_def)

lemma memoryToStored_storedToMemory [simp]: "memoryToStored (storedToMemory s) = s"
  by (simp add: storedToMemory_def memoryToStored_def)

lemma storedToMemory_simps [simp]:
  "mc_OrgID (storedToMemory s) = smc_OrgId s" "mc_ContentHash (storedToMemory s) = smc_ContentHash s"
  "mc_State (storedToMemory s) = smc_State s"
  "memoryToStored (storedToMemory s\<lparr>mc_State := x\<rparr>) = s\<lparr>smc_State := x\<rparr>"
  by (simp_all add: storedToMemory_def memoryToStored_def)

lemma storedToPending_pendingToStored [simp]: "storedToPending (pendingToStored p) = p"
  by (simp add: storedToPending_def pendingToStored_def)

lemma state_consts [simp]:
  "MemoryState_MEMORY_STATE_COMMITTED \<noteq> MemoryState_MEMORY_STATE_ARCHIVED"
  "MemoryState_MEMORY_STATE_ARCHIVED \<noteq> MemoryState_MEMORY_STATE_COMMITTED"
  "MemoryState_MEMORY_STATE_COMMITTED \<noteq> MemoryState_MEMORY_STATE_DENIED"
  "MemoryState_MEMORY_STATE_DENIED \<noteq> MemoryState_MEMORY_STATE_COMMITTED"
  by (simp_all add: MemoryState_MEMORY_STATE_COMMITTED_def MemoryState_MEMORY_STATE_ARCHIVED_def
      MemoryState_MEMORY_STATE_DENIED_def)

subsection \<open>The machine\<close>

text \<open>Every message comes with the states of the keepers it consults.\<close>

datatype 'x memory_event =
    Mem_Submit org_state MsgSubmitCommitment
  | Mem_Approve "'x sdk" org_state reputation_state MsgApproveMemory
  | Mem_Report org_state reputation_state MsgReportMemory
  | Mem_UpdateParams "'x sdk" memory_MsgUpdateParams
  | Mem_EpochEnd "'x sdk" string int

fun memory_handle :: "memory_state \<Rightarrow> 'x memory_event \<Rightarrow> memory_state result" where
  "memory_handle st (Mem_Submit os m) = Msg_SubmitCommitment st os m"
| "memory_handle st (Mem_Approve K os rs m) =
     (case Msg_ApproveMemory K st os rs m of Inl e \<Rightarrow> Inl e | Inr (st', _) \<Rightarrow> Inr st')"
| "memory_handle st (Mem_Report os rs m) =
     (case Msg_ReportMemory st os rs m of Inl e \<Rightarrow> Inl e | Inr (st', _) \<Rightarrow> Inr st')"
| "memory_handle st (Mem_UpdateParams K m) = memory_Msg_UpdateParams K st m"
| "memory_handle st (Mem_EpochEnd K ident n) = Inr (memory_AfterEpochEnd K st ident n)"

definition memory_genesis :: memory_state where
  "memory_genesis = memory_empty\<lparr>ms_marker := True\<rparr>"

subsection \<open>What the operations do\<close>

lemma SubmitCommitment_ok:
  assumes "SubmitCommitment st os c = Inr st'"
  shows "st' = st\<lparr>ms_pending := kv_set (pendingKey (pc_OrgID c) (pc_ContentHash c)) (pendingToStored c) (ms_pending st)\<rparr>"
    "PendingCommitment_Validate c = Inr ()"
  using assms by (auto simp: SubmitCommitment_def Let_def split: sum.splits if_splits)

lemma Msg_SubmitCommitment_ok:
  assumes "Msg_SubmitCommitment st os m = Inr st'"
  obtains c where "SubmitCommitment st os c = Inr st'" "pc_Epoch c = 0" "pc_SubmittedAt c = 0"
    "pc_OrgID c = msc_OrgId m" "pc_ContentHash c = msc_ContentHash m" "pc_Contributor c = msc_ContributorId m"
    "pc_ContributorAddress c = msc_ContributorWallet m" "pc_Keywords c = msc_Keywords m"
    "pc_ProducerModelId c = msc_ProducerModelId m" "pc_AttestationSessionHash c = msc_AttestationSessionHash m"
  using assms
  by (fastforce simp: Msg_SubmitCommitment_def NewPendingCommitment_def split: sum.splits if_splits)

definition approved_record ::
  "memory_state \<Rightarrow> StoredPendingCommitment \<Rightarrow> string \<Rightarrow> bytes \<Rightarrow> bytes \<Rightarrow> string \<Rightarrow> bytes \<Rightarrow> bytes \<Rightarrow> bytes \<Rightarrow> bytes \<Rightarrow> bytes \<Rightarrow>
   bytes \<Rightarrow> i32 \<Rightarrow> StoredMemoryCommitment" where
  "approved_record st p orgID contentHash blob leader dek plain salt cipher dekHash sig mt = \<lparr>
     smc_OrgId = orgID, smc_ContentHash = contentHash, smc_EncryptedBlob = blob,
     smc_ContributorPubkey = spc_ContributorId p, smc_Epoch = spc_Epoch p,
     smc_CommittedAtHeight = spc_SubmittedAtHeight p, smc_CommittingLeaderPubkey = leader,
     smc_State = MemoryState_MEMORY_STATE_COMMITTED, smc_LastActiveEpoch = spc_Epoch p,
     smc_WrappedDekEnc = dek, smc_MemoryType = mt, smc_ApprovedAtEpoch = memory_getCurrentEpoch st,
     smc_PlaintextHash = plain, smc_Salt = salt, smc_CiphertextHash = cipher,
     smc_WrappedDekHash = dekHash, smc_ContributorSig = sig,
     smc_ContributorAddress = spc_ContributorAddress p, smc_ProducerModelId = spc_ProducerModelId p,
     smc_AttestationSessionHash = spc_AttestationSessionHash p, smc_McVersion = spc_McVersion p,
     smc_Keywords = spc_Keywords p\<rparr>"

lemma ApproveMemory_ok:
  assumes "ApproveMemory st os rs i h blob leader dek plain salt cipher dekHash sig mt = Inr (st', os', rs')"
  obtains p where "kv_get (ms_pending st) (pendingKey i h) = Some p"
    "kv_get (ms_approved st) (approvedKey i h) = None" "IsLeader os i leader"
    "st' = st\<lparr>
       ms_approved := kv_set (approvedKey i h)
         (approved_record st p i h blob leader dek plain salt cipher dekHash sig mt) (ms_approved st),
       ms_pending := kv_del (pendingKey i h) (ms_pending st),
       ms_counts := kv_set (countKey i) (GetApprovedCount st i + 1) (ms_counts st)\<rparr>"
    "rs' = IncrementLeaderChainCommit (IncrementContribution rs (spc_ContributorId p) i (ContentHashToHex h)) leader i"
  using assms
  by (fastforce simp: ApproveMemory_def Let_def approved_record_def memoryToStored_def storedToPending_def
      kv_has_def GetApprovedCount_def split: sum.splits if_splits option.splits)

text \<open>Everything an accepted approval has checked.\<close>

lemma Msg_ApproveMemory_ok:
  assumes "Msg_ApproveMemory K st os rs m = Inr (st', os', rs')"
  obtains p pk where "kv_get (ms_pending st) (pendingKey (mav_OrgId m) (mav_ContentHash m)) = Some p"
    "MsgApproveMemory_ValidateBasic m = Inr ()"
    "requireLeaderWallet os (mav_OrgId m) (mav_Signer m) = Inr ()"
    "hex_decode (spc_ContributorId p) = Some pk" "length pk = 32"
    "ed25519_Verify K pk (buildSubmitMemoryCanonicalBody (mav_CiphertextHash m)
       (spc_ContributorId p) (spc_Epoch p) (mav_MemoryType m) (mav_OrgId m) (mav_PlaintextHash m) (mav_Salt m)
       (mav_ContentHash m) (sha256_Sum256 K (mav_WrappedDekEnc m))) (mav_ContributorSig m)"
    "mav_CiphertextHash m = sha256_Sum256 K (mav_EncryptedBlob m)"
    "mav_ContentHash m = sha256_Sum256 K (mav_EncryptedBlob m @ mav_WrappedDekEnc m)"
    "ApproveMemory st os rs (mav_OrgId m) (mav_ContentHash m) (mav_EncryptedBlob m) (mav_CommittingLeader m)
       (mav_WrappedDekEnc m) (mav_PlaintextHash m) (mav_Salt m) (mav_CiphertextHash m)
       (sha256_Sum256 K (mav_WrappedDekEnc m)) (mav_ContributorSig m) (mav_MemoryType m) = Inr (st', os', rs')"
  using assms
  by (auto simp: Msg_ApproveMemory_def Let_def GetPendingCommitment_def storedToPending_def
      split: sum.splits if_splits option.splits)

definition report_record :: "MsgReportMemory \<Rightarrow> StoredMemoryReport" where
  "report_record m = \<lparr>
     rpt_OrgId = mrp_OrgId m, rpt_ContentHash = mrp_ContentHash m,
     rpt_ContributorPubkey = mrp_ContributorPubkey m, rpt_ApprovingModerators = mrp_ApprovingModerators m,
     rpt_UpholdingModerators = mrp_UpholdingModerators m, rpt_ReporterPubkey = mrp_ReporterPubkey m,
     rpt_CommittingLeaderPubkey = mrp_Signer m, rpt_Reason = mrp_Reason m, rpt_Plaintext = mrp_Plaintext m,
     rpt_Ciphertext = mrp_Ciphertext m, rpt_Capsule = mrp_Capsule m, rpt_PlaintextHash = mrp_PlaintextHash m,
     rpt_PlaintextOversized = mrp_PlaintextOversized m, rpt_UpheldAtEpoch = 0, rpt_UpheldAtTimestamp = 0\<rparr>"

lemma Msg_ReportMemory_ok:
  assumes "Msg_ReportMemory st os rs m = Inr (st', os', rs')"
  shows "MsgReportMemory_ValidateBasic m = Inr ()" "requireLeaderWallet os (mrp_OrgId m) (mrp_Signer m) = Inr ()"
    "kv_get (ms_approved st) (approvedKey (mrp_OrgId m) (mrp_ContentHash m)) \<noteq> None"
    "kv_get (ms_reports st) (reportKey (mrp_OrgId m) (mrp_ContentHash m) (mrp_ReporterPubkey m)) = None"
    "st' = st\<lparr>ms_reports := kv_set (reportKey (mrp_OrgId m) (mrp_ContentHash m) (mrp_ReporterPubkey m))
       (report_record m) (ms_reports st)\<rparr>"
    "IncrementOrgUpheldReports os (mrp_OrgId m) = Inr os'"
    "rs' = IncrementLeaderUpheldReport (foldl (\<lambda>r p. IncrementModeratorUpheld r p (mrp_OrgId m))
       (IncrementContribution rs (mrp_ContributorPubkey m) (mrp_OrgId m) (ContentHashToHex (mrp_ContentHash m)))
       (mrp_ApprovingModerators m)) (mrp_Signer m) (mrp_OrgId m)"
  using assms
  by (auto simp: Msg_ReportMemory_def ReportMemory_def Let_def kv_has_def report_record_def
      split: sum.splits if_splits)

lemma memory_Msg_UpdateParams_ok:
  "memory_Msg_UpdateParams K st m = Inr st' \<Longrightarrow> \<exists>p. st' = st\<lparr>ms_params := Some p\<rparr>"
  by (auto simp: memory_Msg_UpdateParams_def memory_SetParams_def split: if_splits sum.splits option.splits)

subsection \<open>Tables of memories and their ageing\<close>

definition memory_ok :: "bytes \<times> StoredMemoryCommitment \<Rightarrow> bool" where
  "memory_ok e \<longleftrightarrow> fst e = approvedKey (smc_OrgId (snd e)) (smc_ContentHash (snd e)) \<and>
     length (smc_ContentHash (snd e)) = 32 \<and> smc_Epoch (snd e) = 0 \<and>
     smc_State (snd e) \<in> {MemoryState_MEMORY_STATE_COMMITTED, MemoryState_MEMORY_STATE_ARCHIVED}"

definition org_count :: "string \<Rightarrow> StoredMemoryCommitment kv \<Rightarrow> nat" where
  "org_count i t = length (filter (\<lambda>e. smc_OrgId (snd e) = i) t)"

definition approved_ok :: "StoredMemoryCommitment kv \<Rightarrow> bool" where
  "approved_ok t \<longleftrightarrow> kv_ok t \<and> (\<forall>e\<in>set t. memory_ok e)"

text \<open>The only change an approved memory can undergo.\<close>

definition aged :: "StoredMemoryCommitment \<Rightarrow> StoredMemoryCommitment \<Rightarrow> bool" where
  "aged s s' \<longleftrightarrow> s' = s \<or> smc_State s = MemoryState_MEMORY_STATE_COMMITTED \<and>
     s' = s\<lparr>smc_State := MemoryState_MEMORY_STATE_ARCHIVED\<rparr>"

lemma aged_refl [simp]: "aged s s"
  by (simp add: aged_def)

lemma aged_trans: "aged s s' \<Longrightarrow> aged s' s'' \<Longrightarrow> aged s s''"
  by (auto simp: aged_def)

lemma approved_okD:
  "approved_ok t \<Longrightarrow> kv_get t k = Some s \<Longrightarrow> memory_ok (k, s)"
  using kv_get_SomeD by (force simp: approved_ok_def)

lemma approved_ok_set:
  "approved_ok t \<Longrightarrow> memory_ok (k, s) \<Longrightarrow> approved_ok (kv_set k s t)"
  using set_kv_set_subset [of k s t] by (auto simp: approved_ok_def)

definition ages_to :: "StoredMemoryCommitment kv \<Rightarrow> StoredMemoryCommitment kv \<Rightarrow> bool" where
  "ages_to t t' \<longleftrightarrow> approved_ok t' \<and> (\<forall>k. rel_option aged (kv_get t k) (kv_get t' k)) \<and>
     (\<forall>i. org_count i t' = org_count i t)"

lemma ages_to_refl: "approved_ok t \<Longrightarrow> ages_to t t"
  by (simp add: ages_to_def option.rel_refl)

lemma rel_option_aged_trans:
  "rel_option aged a b \<Longrightarrow> rel_option aged b c \<Longrightarrow> rel_option aged a c"
  by (cases a; cases b; cases c) (auto intro: aged_trans)

lemma ages_to_trans:
  assumes "ages_to t t'" "ages_to t' t''"
  shows "ages_to t t''"
  using assms rel_option_aged_trans unfolding ages_to_def by (metis (no_types, lifting))

lemma ages_to_archive:
  assumes "approved_ok t" "kv_get t k = Some s" "smc_State s = MemoryState_MEMORY_STATE_COMMITTED"
  shows "ages_to t (kv_set k (s\<lparr>smc_State := MemoryState_MEMORY_STATE_ARCHIVED\<rparr>) t)"
proof -
  let ?s = "s\<lparr>smc_State := MemoryState_MEMORY_STATE_ARCHIVED\<rparr>"
  have ok: "memory_ok (k, ?s)" using approved_okD [OF assms(1,2)] by (simp add: memory_ok_def)
  have "rel_option aged (kv_get t k') (kv_get (kv_set k ?s t) k')" for k'
    using assms(2,3) by (cases "k' = k") (simp_all add: kv_get_set aged_def option.rel_refl)
  moreover have "org_count i (kv_set k ?s t) = org_count i t" for i
  proof (cases "smc_OrgId s = i")
    case True
    then show ?thesis
      using length_filter_kv_set [of t "\<lambda>e. smc_OrgId (snd e) = i" k ?s] assms(1,2)
      by (simp add: org_count_def approved_ok_def)
  next
    case False
    then show ?thesis
      using filter_kv_set_out [of t "\<lambda>e. smc_OrgId (snd e) = i" k ?s] assms(1,2)
      by (simp add: org_count_def approved_ok_def)
  qed
  ultimately show ?thesis using approved_ok_set [OF assms(1) ok] by (simp add: ages_to_def)
qed

lemma expire_all_props:
  assumes "approved_ok (ms_approved st)"
  shows "\<exists>a v. fst (expire_all st es) = st\<lparr>ms_approved := a, ms_validity := v\<rparr> \<and> ages_to (ms_approved st) a"
  using assms
proof (induction st es rule: expire_all.induct)
  case (1 st)
  then show ?case
    using ages_to_refl by (intro exI [of _ "ms_approved st"] exI [of _ "ms_validity st"]) simp
next
  case (2 st key i cid rest)
  show ?case
  proof (cases "loadMemoryByCID st i cid")
    case (Inl e)
    then show ?thesis using 2(2) ages_to_refl
      by (intro exI [of _ "ms_approved st"] exI [of _ "ms_validity st"]) simp
  next
    case (Inr memory)
    then obtain h s where s: "kv_get (ms_approved st) (approvedKey i h) = Some s" "memory = storedToMemory s"
      by (auto simp: loadMemoryByCID_def split: sum.splits option.splits)
    have ok: "memory_ok (approvedKey i h, s)" using approved_okD [OF 2(2) s(1)] .
    define a where "a = (if smc_State s = MemoryState_MEMORY_STATE_COMMITTED
        then kv_set (approvedKey i h) (s\<lparr>smc_State := MemoryState_MEMORY_STATE_ARCHIVED\<rparr>) (ms_approved st)
        else ms_approved st)"
    have ages: "ages_to (ms_approved st) a"
      using ages_to_archive [OF 2(2) s(1)] ages_to_refl [OF 2(2)] by (simp add: a_def)
    define st1 where "st1 = (if mc_State memory \<noteq> MemoryState_MEMORY_STATE_ARCHIVED \<and>
          mc_State memory \<noteq> MemoryState_MEMORY_STATE_DENIED
        then saveMemoryCommitment st (memory\<lparr>mc_State := MemoryState_MEMORY_STATE_ARCHIVED\<rparr>) else st)"
    have st1: "st1 = st\<lparr>ms_approved := a\<rparr>"
      using ok unfolding st1_def a_def by (auto simp: s(2) memory_ok_def saveMemoryCommitment_def)
    let ?st2 = "st1\<lparr>ms_validity := kv_del key (ms_validity st1)\<rparr>"
    have "approved_ok (ms_approved ?st2)" using ages by (simp add: st1 ages_to_def)
    then obtain a' v' where a': "fst (expire_all ?st2 rest) = ?st2\<lparr>ms_approved := a', ms_validity := v'\<rparr>"
      "ages_to (ms_approved ?st2) a'"
      using 2(1) [OF Inr st1_def] by blast
    moreover have "expire_all st ((key, i, cid) # rest) = expire_all ?st2 rest"
      by (simp add: Inr st1_def Let_def)
    ultimately show ?thesis
      using ages_to_trans [OF ages, of a'] by (intro exI [of _ a'] exI [of _ v']) (simp add: st1)
  qed
qed

lemma merkle_loop:
  "\<exists>m. foldl (\<lambda>s orgID. ComputeAndStoreEpochMerkleRoot K s orgID epoch) st is = st\<lparr>ms_merkle := m\<rparr> \<and>
     (\<forall>e\<in>set m. e \<in> set (ms_merkle st) \<or> (\<exists>i. fst e = merkleKey i epoch \<and> ser_Epoch (snd e) = epoch \<and> ser_OrgId (snd e) = i))"
proof (induction "is" arbitrary: st)
  case Nil
  show ?case by (intro exI [of _ "ms_merkle st"]) simp
next
  case (Cons i "is")
  obtain r where r: "ComputeAndStoreEpochMerkleRoot K st i epoch = st\<lparr>ms_merkle := kv_set (merkleKey i epoch) r (ms_merkle st)\<rparr>"
    "ser_Epoch r = epoch" "ser_OrgId r = i"
    by (simp add: ComputeAndStoreEpochMerkleRoot_def Let_def)
  from Cons [of "st\<lparr>ms_merkle := kv_set (merkleKey i epoch) r (ms_merkle st)\<rparr>"]
  obtain m where "foldl (\<lambda>s orgID. ComputeAndStoreEpochMerkleRoot K s orgID epoch)
      (st\<lparr>ms_merkle := kv_set (merkleKey i epoch) r (ms_merkle st)\<rparr>) is = st\<lparr>ms_merkle := m\<rparr>"
    "\<forall>e\<in>set m. e \<in> set (kv_set (merkleKey i epoch) r (ms_merkle st)) \<or>
       (\<exists>i. fst e = merkleKey i epoch \<and> ser_Epoch (snd e) = epoch \<and> ser_OrgId (snd e) = i)"
    by auto
  then show ?case
    using r set_kv_set_subset [of "merkleKey i epoch" r "ms_merkle st"]
    by (intro exI [of _ m]) fastforce
qed

lemma memory_AfterEpochEnd_ok:
  assumes "approved_ok (ms_approved st)"
  obtains (skip) "memory_AfterEpochEnd K st ident n = st"
  | (run) a v m where "memory_AfterEpochEnd K st ident n =
      st\<lparr>ms_epoch := Some (word_of_int n), ms_approved := a, ms_validity := v, ms_merkle := m\<rparr>"
      "ages_to (ms_approved st) a"
      "\<forall>e\<in>set m. e \<in> set (ms_merkle st) \<or>
         (\<exists>i. fst e = merkleKey i (word_of_int n) \<and> ser_Epoch (snd e) = word_of_int n \<and> ser_OrgId (snd e) = i)"
proof (cases "ident = ''wevibe_epoch''")
  case True
  let ?st1 = "setCurrentEpoch st (word_of_int n)"
  have "approved_ok (ms_approved ?st1)" using assms by (simp add: setCurrentEpoch_def)
  from expire_all_props [OF this] obtain a v where av:
    "fst (CheckEpochExpiry ?st1 (word_of_int n)) = ?st1\<lparr>ms_approved := a, ms_validity := v\<rparr>"
    "ages_to (ms_approved ?st1) a"
    unfolding CheckEpochExpiry_def by blast
  let ?st2 = "?st1\<lparr>ms_approved := a, ms_validity := v\<rparr>"
  from merkle_loop [of K "word_of_int n" ?st2 "getAllOrgsWithMemories ?st2"]
  obtain m where "foldl (\<lambda>s orgID. ComputeAndStoreEpochMerkleRoot K s orgID (word_of_int n)) ?st2
      (getAllOrgsWithMemories ?st2) = ?st2\<lparr>ms_merkle := m\<rparr>"
    "\<forall>e\<in>set m. e \<in> set (ms_merkle ?st2) \<or>
         (\<exists>i. fst e = merkleKey i (word_of_int n) \<and> ser_Epoch (snd e) = word_of_int n \<and> ser_OrgId (snd e) = i)" by blast
  then show thesis
    using True av by (intro run [where a = a and v = v and m = m]) (simp_all add: memory_AfterEpochEnd_def Let_def setCurrentEpoch_def)
qed (use skip in \<open>simp add: memory_AfterEpochEnd_def\<close>)

subsection \<open>The invariant\<close>

definition pending_ok :: "bytes \<times> StoredPendingCommitment \<Rightarrow> bool" where
  "pending_ok e \<longleftrightarrow> fst e = pendingKey (spc_OrgId (snd e)) (spc_ContentHash (snd e)) \<and>
     length (spc_ContentHash (snd e)) = 32 \<and> spc_Epoch (snd e) = 0 \<and> spc_SubmittedAtHeight (snd e) = 0"

definition keys_ok :: "memory_state \<Rightarrow> bool" where
  "keys_ok st \<longleftrightarrow> fst ` set (ms_counts st) \<subseteq> {k. prefix ''count/'' k} \<and>
     fst ` set (ms_merkle st) \<subseteq> {k. prefix ''merkle/'' k} \<and>
     fst ` set (ms_reports st) \<subseteq> {k. prefix ''report/'' k}"

definition memory_inv :: "memory_state \<Rightarrow> bool" where
  "memory_inv st \<longleftrightarrow> approved_ok (ms_approved st) \<and> kv_ok (ms_pending st) \<and>
     (\<forall>e\<in>set (ms_pending st). pending_ok e) \<and>
     (\<forall>i. GetApprovedCount st i = of_nat (org_count i (ms_approved st))) \<and> keys_ok st"

lemma memory_inv_cong:
  assumes "memory_inv st" "ms_approved st' = ms_approved st" "ms_pending st' = ms_pending st"
    "ms_counts st' = ms_counts st" "keys_ok st'"
  shows "memory_inv st'"
  using assms by (simp add: memory_inv_def GetApprovedCount_def)

lemma key_prefixes [simp]:
  "prefix ''count/'' (countKey i)" "prefix ''merkle/'' (merkleKey i n)" "prefix ''report/'' (reportKey i h r)"
  by (simp_all add: countKey_def merkleKey_def reportKey_def)

lemma memory_inv_submit:
  assumes "memory_inv st" "Msg_SubmitCommitment st os m = Inr st'"
  shows "memory_inv st'"
proof -
  obtain c where c: "SubmitCommitment st os c = Inr st'" "pc_Epoch c = 0" "pc_SubmittedAt c = 0"
    using Msg_SubmitCommitment_ok [OF assms(2)] by metis
  note s = SubmitCommitment_ok [OF c(1)]
  have "pending_ok (pendingKey (pc_OrgID c) (pc_ContentHash c), pendingToStored c)"
    using s(2) c(2,3)
    by (auto simp: pending_ok_def pendingToStored_def PendingCommitment_Validate_def ContentHashLen_def
        split: if_splits)
  then show ?thesis
    using assms(1) set_kv_set_subset [of "pendingKey (pc_OrgID c) (pc_ContentHash c)" "pendingToStored c" "ms_pending st"]
    unfolding s(1) memory_inv_def by (auto simp: keys_ok_def GetApprovedCount_def)
qed

lemma kv_del_subset: "set (kv_del k t) \<subseteq> set t"
  by (auto simp: kv_del_def)

lemma memory_inv_approve:
  assumes "memory_inv st" "Msg_ApproveMemory K st os rs m = Inr (st', os', rs')"
  shows "memory_inv st'"
proof -
  let ?i = "mav_OrgId m" and ?h = "mav_ContentHash m"
  from assms(2) obtain p where
    p: "kv_get (ms_pending st) (pendingKey ?i ?h) = Some p" and v: "MsgApproveMemory_ValidateBasic m = Inr ()"
    and a: "ApproveMemory st os rs ?i ?h (mav_EncryptedBlob m) (mav_CommittingLeader m)
       (mav_WrappedDekEnc m) (mav_PlaintextHash m) (mav_Salt m) (mav_CiphertextHash m)
       (sha256_Sum256 K (mav_WrappedDekEnc m)) (mav_ContributorSig m) (mav_MemoryType m) = Inr (st', os', rs')"
    by (elim Msg_ApproveMemory_ok) auto
  define r where "r = approved_record st p ?i ?h (mav_EncryptedBlob m) (mav_CommittingLeader m)
       (mav_WrappedDekEnc m) (mav_PlaintextHash m) (mav_Salt m) (mav_CiphertextHash m)
       (sha256_Sum256 K (mav_WrappedDekEnc m)) (mav_ContributorSig m) (mav_MemoryType m)"
  have st': "st' = st\<lparr>ms_approved := kv_set (approvedKey ?i ?h) r (ms_approved st),
       ms_pending := kv_del (pendingKey ?i ?h) (ms_pending st),
       ms_counts := kv_set (countKey ?i) (GetApprovedCount st ?i + 1) (ms_counts st)\<rparr>"
    and none: "kv_get (ms_approved st) (approvedKey ?i ?h) = None"
    using ApproveMemory_ok [OF a] p by (auto simp: r_def)
  have "pending_ok (pendingKey ?i ?h, p)"
    using assms(1) kv_get_SomeD [OF p] by (auto simp: memory_inv_def)
  then have r: "memory_ok (approvedKey ?i ?h, r)" "smc_OrgId r = ?i"
    by (auto simp: memory_ok_def r_def approved_record_def pending_ok_def)
  have ok: "approved_ok (ms_approved st)" using assms(1) by (simp add: memory_inv_def)
  have "approved_ok (ms_approved st')" using approved_ok_set [OF ok r(1)] by (simp add: st')
  moreover have "GetApprovedCount st' i = of_nat (org_count i (ms_approved st'))" for i
  proof (cases "i = ?i")
    case True
    then have "org_count i (ms_approved st') = Suc (org_count i (ms_approved st))"
      using length_filter_kv_set [of "ms_approved st" "\<lambda>e. smc_OrgId (snd e) = i" "approvedKey ?i ?h" r] none r(2) ok
      by (simp add: org_count_def st' approved_ok_def)
    then show ?thesis using assms(1) True by (simp add: memory_inv_def st' GetApprovedCount_def)
  next
    case False
    then have "org_count i (ms_approved st') = org_count i (ms_approved st)"
      using filter_kv_set_out [of "ms_approved st" "\<lambda>e. smc_OrgId (snd e) = i" "approvedKey ?i ?h" r] none r(2) ok
      by (simp add: org_count_def st' approved_ok_def)
    then show ?thesis using assms(1) False by (simp add: memory_inv_def st' GetApprovedCount_def)
  qed
  moreover have "keys_ok st'"
    using assms(1) by (simp add: memory_inv_def keys_ok_def st' fst_set_kv_set)
  moreover have "kv_ok (ms_pending st')" "\<forall>e\<in>set (ms_pending st'). pending_ok e"
    using assms(1) kv_del_subset [of "pendingKey ?i ?h" "ms_pending st"] by (auto simp: memory_inv_def st')
  ultimately show ?thesis unfolding memory_inv_def by blast
qed

lemma memory_inv_epoch:
  assumes "memory_inv st"
  shows "memory_inv (memory_AfterEpochEnd K st ident n)"
proof -
  have ok: "approved_ok (ms_approved st)" using assms by (simp add: memory_inv_def)
  show ?thesis
  proof (cases rule: memory_AfterEpochEnd_ok [OF ok, of K ident n, case_names skip run])
    case skip
    then show ?thesis using assms by simp
  next
    case (run a v m)
    have "fst ` set m \<subseteq> {k. prefix ''merkle/'' k}"
    proof safe
      fix k r
      assume "(k, r) \<in> set m"
      then show "prefix ''merkle/'' (fst (k, r))"
        using run(3) assms key_prefixes(2) by (fastforce simp: memory_inv_def keys_ok_def)
    qed
    then show ?thesis
      using run(2) assms by (simp add: run(1) memory_inv_def keys_ok_def ages_to_def GetApprovedCount_def)
  qed
qed

lemma memory_handle_inv:
  assumes "memory_inv st" "memory_handle st ev = Inr st'"
  shows "memory_inv st'"
proof (cases ev)
  case (Mem_Submit os m)
  then have "Msg_SubmitCommitment st os m = Inr st'" using assms(2) by simp
  then show ?thesis by (rule memory_inv_submit [OF assms(1)])
next
  case (Mem_Approve K os rs m)
  then obtain os' rs' where "Msg_ApproveMemory K st os rs m = Inr (st', os', rs')"
    using assms(2) by (auto split: sum.splits)
  then show ?thesis by (rule memory_inv_approve [OF assms(1)])
next
  case (Mem_Report os rs m)
  then obtain os' rs' where r: "Msg_ReportMemory st os rs m = Inr (st', os', rs')"
    using assms(2) by (auto split: sum.splits)
  have "keys_ok st'"
    using assms(1) unfolding Msg_ReportMemory_ok(5) [OF r] by (simp add: memory_inv_def keys_ok_def fst_set_kv_set)
  moreover have "ms_approved st' = ms_approved st" "ms_pending st' = ms_pending st" "ms_counts st' = ms_counts st"
    unfolding Msg_ReportMemory_ok(5) [OF r] by simp_all
  ultimately show ?thesis using memory_inv_cong [OF assms(1)] by blast
next
  case (Mem_UpdateParams K m)
  then have "memory_Msg_UpdateParams K st m = Inr st'" using assms(2) by simp
  from memory_Msg_UpdateParams_ok [OF this] obtain p where "st' = st\<lparr>ms_params := Some p\<rparr>" ..
  then show ?thesis using assms(1) by (simp add: memory_inv_def keys_ok_def GetApprovedCount_def)
next
  case (Mem_EpochEnd K ident n)
  then have "st' = memory_AfterEpochEnd K st ident n" using assms(2) by simp
  then show ?thesis using memory_inv_epoch [OF assms(1)] by simp
qed

interpretation memory_tx: tx_machine memory_handle memory_inv
  using memory_handle_inv by unfold_locales

lemma memory_inv_genesis: "memory_inv memory_genesis"
  by (simp add: memory_inv_def memory_genesis_def memory_empty_def approved_ok_def GetApprovedCount_def
      org_count_def keys_ok_def)

end
