(* ===== verification/Memory_Properties.thy ===== *)
theory Memory_Properties
  imports Memory_Correct
begin

section \<open>What the memory module guarantees\<close>

text \<open>
  The properties of \<open>x/memory\<close> over the machine of \<open>Memory_Correct\<close>: counting, permanence,
  authentic approvals, the limit on pending commitments, the effects of a report, and what a
  Merkle root commits to.
\<close>

subsection \<open>Counting and permanence\<close>

lemma memory_run_inv: "memory_inv (deliver_all memory_handle memory_genesis evs)"
  by (rule memory_tx.deliver_all_inv [OF memory_inv_genesis])

lemma memory_handle_marker:
  assumes "ms_marker st" "memory_inv st" "memory_handle st ev = Inr st'"
  shows "ms_marker st'"
proof (cases ev)
  case (Mem_Submit os m)
  then have "Msg_SubmitCommitment st os m = Inr st'" using assms(3) by simp
  then obtain c where "SubmitCommitment st os c = Inr st'" by (elim Msg_SubmitCommitment_ok)
  from SubmitCommitment_ok(1) [OF this] show ?thesis using assms(1) by simp
next
  case (Mem_Approve K os rs m)
  then obtain os' rs' where "Msg_ApproveMemory K st os rs m = Inr (st', os', rs')"
    using assms(3) by (auto split: sum.splits)
  then have "ms_marker st' = ms_marker st" by (elim Msg_ApproveMemory_ok ApproveMemory_ok) simp
  then show ?thesis using assms(1) by simp
next
  case (Mem_Report os rs m)
  then obtain os' rs' where r: "Msg_ReportMemory st os rs m = Inr (st', os', rs')"
    using assms(3) by (auto split: sum.splits)
  show ?thesis unfolding Msg_ReportMemory_ok(5) [OF r] using assms(1) by simp
next
  case (Mem_UpdateParams K m)
  then have "memory_Msg_UpdateParams K st m = Inr st'" using assms(3) by simp
  from memory_Msg_UpdateParams_ok [OF this] show ?thesis using assms(1) by auto
next
  case (Mem_EpochEnd K ident n)
  then have "st' = memory_AfterEpochEnd K st ident n" using assms(3) by simp
  moreover have "approved_ok (ms_approved st)" using assms(2) by (simp add: memory_inv_def)
  then have "ms_marker (memory_AfterEpochEnd K st ident n) = ms_marker st"
    by (rule memory_AfterEpochEnd_ok [of st K ident n]) simp_all
  ultimately show ?thesis using assms(1) by simp
qed

interpretation memory_marked: tx_machine memory_handle "\<lambda>st. memory_inv st \<and> ms_marker st"
  using memory_handle_inv memory_handle_marker by unfold_locales blast

lemma memory_run_marker: "ms_marker (deliver_all memory_handle memory_genesis evs)"
  using memory_marked.deliver_all_inv [of memory_genesis evs] memory_inv_genesis
  by (simp add: memory_genesis_def)

text \<open>
  C11: The approved memories are counted exactly and are well formed.  After any sequence of
  submissions, approvals, reports, parameter changes and epoch ends, the approval counter of an
  organisation is the number of its approved memories (modulo the width of the counter), every
  approved memory has a 32-byte content hash and is committed or archived, and it is stored where a
  lookup by its own organisation and hash finds it.
\<close>

theorem memory_count_exact:
  "GetApprovedCount (deliver_all memory_handle memory_genesis evs) i =
     of_nat (length (filter (\<lambda>m. mc_OrgID m = i)
       (mg_MemoryCommitments (memory_ExportGenesis (deliver_all memory_handle memory_genesis evs))))) \<and>
   list_all (\<lambda>m. length (mc_ContentHash m) = 32 \<and>
       mc_State m \<in> {MemoryState_MEMORY_STATE_COMMITTED, MemoryState_MEMORY_STATE_ARCHIVED} \<and>
       GetApprovedMemory (deliver_all memory_handle memory_genesis evs) (mc_OrgID m) (mc_ContentHash m) = Inr m)
     (mg_MemoryCommitments (memory_ExportGenesis (deliver_all memory_handle memory_genesis evs)))"
proof -
  define st where "st = deliver_all memory_handle memory_genesis evs"
  have inv: "memory_inv st" unfolding st_def by (rule memory_run_inv)
  then have ok: "approved_ok (ms_approved st)" by (simp add: memory_inv_def)
  have "GetApprovedCount st i = of_nat (org_count i (ms_approved st))"
    using inv by (simp add: memory_inv_def)
  moreover have "org_count i (ms_approved st) =
      length (filter (\<lambda>m. mc_OrgID m = i) (mg_MemoryCommitments (memory_ExportGenesis st)))"
    by (simp add: org_count_def memory_ExportGenesis_def filter_map o_def)
  moreover have "length (mc_ContentHash m) = 32 \<and>
       mc_State m \<in> {MemoryState_MEMORY_STATE_COMMITTED, MemoryState_MEMORY_STATE_ARCHIVED} \<and>
       GetApprovedMemory st (mc_OrgID m) (mc_ContentHash m) = Inr m"
    if "m \<in> set (mg_MemoryCommitments (memory_ExportGenesis st))" for m
  proof -
    from that obtain k s where s: "(k, s) \<in> set (ms_approved st)" "m = storedToMemory s"
      by (auto simp: memory_ExportGenesis_def)
    then have "memory_ok (k, s)" "kv_get (ms_approved st) k = Some s"
      using ok by (auto simp: approved_ok_def kv_get_iff)
    then show ?thesis using s(2) by (simp add: memory_ok_def GetApprovedMemory_def)
  qed
  ultimately show ?thesis unfolding st_def [symmetric] list_all_iff by simp
qed

definition memories_age :: "memory_state \<Rightarrow> memory_state \<Rightarrow> bool" where
  "memories_age st st' \<longleftrightarrow> (\<forall>k s. kv_get (ms_approved st) k = Some s \<longrightarrow>
     (\<exists>s'. kv_get (ms_approved st') k = Some s' \<and> aged s s'))"

lemma memories_age_refl: "memories_age st st"
  by (simp add: memories_age_def)

lemma memories_age_trans: "memories_age a b \<Longrightarrow> memories_age b c \<Longrightarrow> memories_age a c"
  unfolding memories_age_def by (meson aged_trans)

lemma memories_age_same: "ms_approved st' = ms_approved st \<Longrightarrow> memories_age st st'"
  by (simp add: memories_age_def)

lemma memories_age_approve:
  assumes "Msg_ApproveMemory K st os rs m = Inr (st', os', rs')"
  shows "memories_age st st'"
proof -
  from assms obtain r where "kv_get (ms_approved st) (approvedKey (mav_OrgId m) (mav_ContentHash m)) = None"
    "ms_approved st' = kv_set (approvedKey (mav_OrgId m) (mav_ContentHash m)) r (ms_approved st)"
    by (elim Msg_ApproveMemory_ok ApproveMemory_ok) auto
  then show ?thesis by (auto simp: memories_age_def kv_get_set)
qed

lemma memories_age_epoch:
  assumes "approved_ok (ms_approved st)"
  shows "memories_age st (memory_AfterEpochEnd K st ident n)"
proof (cases rule: memory_AfterEpochEnd_ok [OF assms, of K ident n, case_names skip run])
  case (run a v m)
  have "rel_option aged (kv_get (ms_approved st) k) (kv_get a k)" for k
    using run(2) by (simp add: ages_to_def)
  then show ?thesis
    unfolding run(1) memories_age_def by (auto simp: option_rel_Some1) (metis option_rel_Some1)
qed (simp add: memories_age_refl)

lemma memory_handle_ages:
  assumes "memory_inv st" "memory_handle st ev = Inr st'"
  shows "memories_age st st'"
proof (cases ev)
  case (Mem_Submit os m)
  then have "Msg_SubmitCommitment st os m = Inr st'" using assms(2) by simp
  then obtain c where "SubmitCommitment st os c = Inr st'" by (elim Msg_SubmitCommitment_ok)
  from SubmitCommitment_ok(1) [OF this] show ?thesis by (intro memories_age_same) simp
next
  case (Mem_Approve K os rs m)
  then obtain os' rs' where "Msg_ApproveMemory K st os rs m = Inr (st', os', rs')"
    using assms(2) by (auto split: sum.splits)
  then show ?thesis by (rule memories_age_approve)
next
  case (Mem_Report os rs m)
  then obtain os' rs' where r: "Msg_ReportMemory st os rs m = Inr (st', os', rs')"
    using assms(2) by (auto split: sum.splits)
  show ?thesis unfolding Msg_ReportMemory_ok(5) [OF r] by (intro memories_age_same) simp
next
  case (Mem_UpdateParams K m)
  then have "memory_Msg_UpdateParams K st m = Inr st'" using assms(2) by simp
  from memory_Msg_UpdateParams_ok [OF this] obtain p where "st' = st\<lparr>ms_params := Some p\<rparr>" ..
  then show ?thesis by (intro memories_age_same) simp
next
  case (Mem_EpochEnd K ident n)
  then have "st' = memory_AfterEpochEnd K st ident n" using assms(2) by simp
  moreover have "approved_ok (ms_approved st)" using assms(1) by (simp add: memory_inv_def)
  ultimately show ?thesis using memories_age_epoch [of st K ident n] by simp
qed

interpretation memory_mono: monotone_machine memory_handle memory_inv memories_age
  using memories_age_refl memories_age_trans memory_handle_ages by unfold_locales

text \<open>
  C21: An approval is permanent.  A memory that has been approved stays under its organisation and
  hash through every later sequence of messages and epoch ends; no field of it ever changes, except
  that a committed memory can become archived, once.
\<close>

theorem approved_permanent:
  assumes "GetApprovedMemory (deliver_all memory_handle memory_genesis evs) i h = Inr m"
  shows "\<exists>x. GetApprovedMemory (deliver_all memory_handle memory_genesis (evs @ later)) i h =
           Inr (m\<lparr>mc_State := x\<rparr>) \<and>
         (x = mc_State m \<or>
          mc_State m = MemoryState_MEMORY_STATE_COMMITTED \<and> x = MemoryState_MEMORY_STATE_ARCHIVED)"
proof -
  define st where "st = deliver_all memory_handle memory_genesis evs"
  have age: "memories_age st (deliver_all memory_handle st later)"
    unfolding st_def by (rule memory_mono.deliver_all_evolves [OF memory_run_inv])
  obtain s where s: "kv_get (ms_approved st) (approvedKey i h) = Some s" "m = storedToMemory s"
    using assms by (auto simp: st_def GetApprovedMemory_def split: option.splits)
  then obtain s' where s': "kv_get (ms_approved (deliver_all memory_handle st later)) (approvedKey i h) = Some s'"
    "aged s s'"
    using age unfolding memories_age_def by blast
  have "storedToMemory s' = m\<lparr>mc_State := smc_State s'\<rparr>"
    using s'(2) s(2) by (auto simp: aged_def storedToMemory_def)
  then show ?thesis
    using s s' unfolding deliver_all_append st_def [symmetric]
    by (intro exI [of _ "smc_State s'"]) (auto simp: GetApprovedMemory_def aged_def)
qed

subsection \<open>Approvals\<close>

lemma canonical_body_unique:
  assumes "one_line k" "one_line k'" "one_line i" "one_line i'"
    and eq: "buildSubmitMemoryCanonicalBody c k e t i p s h d = buildSubmitMemoryCanonicalBody c' k' e' t' i' p' s' h' d'"
  shows "c = c' \<and> k = k' \<and> e = e' \<and> i = i' \<and> p = p' \<and> s = s' \<and> h = h' \<and> d = d'"
proof -
  have "one_line (CanonicalMemoryType u)" for u by (simp add: CanonicalMemoryType_def)
  then show ?thesis
    using join_lines_inj [OF _ _ _ _ eq [unfolded buildSubmitMemoryCanonicalBody_def]] assms(1-4) by simp
qed

lemma requireLeaderWallet_ok:
  "requireLeaderWallet os i w = Inr () \<longleftrightarrow> w \<noteq> [] \<and> GetLeaderWallet os i = Inr w"
  by (auto simp: requireLeaderWallet_def split: sum.splits)

text \<open>
  C5: An accepted approval is authentic.  It is signed by the organisation's leader wallet, and the
  committing leader it names is a member with the leader role; a commitment was pending under the
  content hash and none was approved; the ciphertext hash and the content hash are the hashes of
  the submitted bytes; and the contributor recorded when the commitment was made signed, with a
  32-byte key, a text that no other ciphertext, contributor, epoch, organisation, plaintext hash,
  salt, submission or wrapped key produces.  The memory is then stored exactly as submitted, as
  committed, the pending commitment is gone, the organisation's counter went up by one and every
  other memory is untouched.
\<close>

theorem approval_authentic:
  assumes "Msg_ApproveMemory K st os rs m = Inr (st', os', rs')" and "one_line (mav_OrgId m)"
  shows "\<exists>p pk. GetPendingCommitment st (mav_OrgId m) (mav_ContentHash m) = Inr p \<and>
      GetLeaderWallet os (mav_OrgId m) = Inr (mav_Signer m) \<and> mav_Signer m \<noteq> [] \<and>
      IsLeader os (mav_OrgId m) (mav_CommittingLeader m) \<and>
      mav_CiphertextHash m = sha256_Sum256 K (mav_EncryptedBlob m) \<and>
      mav_ContentHash m = sha256_Sum256 K (mav_EncryptedBlob m @ mav_WrappedDekEnc m) \<and>
      hex_decode (pc_Contributor p) = Some pk \<and> length pk = 32 \<and>
      (\<forall>body. body = buildSubmitMemoryCanonicalBody (mav_CiphertextHash m) (pc_Contributor p) (pc_Epoch p)
            (mav_MemoryType m) (mav_OrgId m) (mav_PlaintextHash m) (mav_Salt m) (mav_ContentHash m)
            (sha256_Sum256 K (mav_WrappedDekEnc m)) \<longrightarrow>
         ed25519_Verify K pk body (mav_ContributorSig m) \<and>
         (\<forall>c k e t i ph s h d. one_line k \<and> one_line i \<and>
              buildSubmitMemoryCanonicalBody c k e t i ph s h d = body \<longrightarrow>
            c = mav_CiphertextHash m \<and> k = pc_Contributor p \<and> e = pc_Epoch p \<and> i = mav_OrgId m \<and>
            ph = mav_PlaintextHash m \<and> s = mav_Salt m \<and> h = mav_ContentHash m \<and>
            d = sha256_Sum256 K (mav_WrappedDekEnc m))) \<and>
      GetPendingCommitment st' (mav_OrgId m) (mav_ContentHash m) = Inl (E_memory Mem_ErrCommitmentNotFound) \<and>
      GetApprovedCount st' (mav_OrgId m) = GetApprovedCount st (mav_OrgId m) + 1 \<and>
      (\<forall>i h. GetApprovedMemory st' i h =
         (if i = mav_OrgId m \<and> h = mav_ContentHash m then Inr \<lparr>
            mc_OrgID = mav_OrgId m, mc_ContentHash = mav_ContentHash m, mc_EncryptedBlob = mav_EncryptedBlob m,
            mc_Keywords = pc_Keywords p, mc_Contributor = pc_Contributor p,
            mc_ContributorAddress = pc_ContributorAddress p, mc_ProducerModelId = pc_ProducerModelId p,
            mc_AttestationSessionHash = pc_AttestationSessionHash p, mc_Epoch = pc_Epoch p,
            mc_CommittedAtHeight = pc_SubmittedAt p, mc_CommittingLeader = mav_CommittingLeader m,
            mc_State = MemoryState_MEMORY_STATE_COMMITTED, mc_LastActiveEpoch = pc_Epoch p,
            mc_WrappedDekEnc = mav_WrappedDekEnc m, mc_PlaintextHash = mav_PlaintextHash m,
            mc_Salt = mav_Salt m, mc_CiphertextHash = mav_CiphertextHash m,
            mc_WrappedDekHash = sha256_Sum256 K (mav_WrappedDekEnc m),
            mc_ContributorSig = mav_ContributorSig m, mc_MemoryType = mav_MemoryType m,
            mc_ApprovedAtEpoch = memory_getCurrentEpoch st, mc_McVersion = pc_McVersion p\<rparr>
          else GetApprovedMemory st i h))"
proof -
  let ?i = "mav_OrgId m" and ?h = "mav_ContentHash m"
  from Msg_ApproveMemory_ok [OF assms(1)] obtain p pk where
    p: "kv_get (ms_pending st) (pendingKey ?i ?h) = Some p"
    and w: "requireLeaderWallet os ?i (mav_Signer m) = Inr ()"
    and pk: "hex_decode (spc_ContributorId p) = Some pk" "length pk = 32"
    and sig: "ed25519_Verify K pk (buildSubmitMemoryCanonicalBody (mav_CiphertextHash m)
       (spc_ContributorId p) (spc_Epoch p) (mav_MemoryType m) ?i (mav_PlaintextHash m) (mav_Salt m)
       ?h (sha256_Sum256 K (mav_WrappedDekEnc m))) (mav_ContributorSig m)"
    and hs: "mav_CiphertextHash m = sha256_Sum256 K (mav_EncryptedBlob m)"
      "?h = sha256_Sum256 K (mav_EncryptedBlob m @ mav_WrappedDekEnc m)"
    and a: "ApproveMemory st os rs ?i ?h (mav_EncryptedBlob m) (mav_CommittingLeader m)
       (mav_WrappedDekEnc m) (mav_PlaintextHash m) (mav_Salt m) (mav_CiphertextHash m)
       (sha256_Sum256 K (mav_WrappedDekEnc m)) (mav_ContributorSig m) (mav_MemoryType m) = Inr (st', os', rs')"
    by blast
  note uniq = canonical_body_unique [OF _ hex_decode_one_line [OF pk(1)] _ assms(2)]
  from ApproveMemory_ok [OF a] p have leader: "IsLeader os ?i (mav_CommittingLeader m)"
    and st': "st' = st\<lparr>
       ms_approved := kv_set (approvedKey ?i ?h)
         (approved_record st p ?i ?h (mav_EncryptedBlob m) (mav_CommittingLeader m) (mav_WrappedDekEnc m)
           (mav_PlaintextHash m) (mav_Salt m) (mav_CiphertextHash m)
           (sha256_Sum256 K (mav_WrappedDekEnc m)) (mav_ContributorSig m) (mav_MemoryType m)) (ms_approved st),
       ms_pending := kv_del (pendingKey ?i ?h) (ms_pending st),
       ms_counts := kv_set (countKey ?i) (GetApprovedCount st ?i + 1) (ms_counts st)\<rparr>"
    by auto
  have pc: "pc_Contributor (storedToPending p) = spc_ContributorId p" "pc_Epoch (storedToPending p) = spc_Epoch p"
    by (simp_all add: storedToPending_def)
  have stored: "GetApprovedMemory st' i h = (if i = ?i \<and> h = ?h
      then Inr (storedToMemory (approved_record st p ?i ?h (mav_EncryptedBlob m) (mav_CommittingLeader m)
        (mav_WrappedDekEnc m) (mav_PlaintextHash m) (mav_Salt m) (mav_CiphertextHash m)
        (sha256_Sum256 K (mav_WrappedDekEnc m)) (mav_ContributorSig m) (mav_MemoryType m)))
      else GetApprovedMemory st i h)" for i h
    by (simp add: st' GetApprovedMemory_def kv_get_set)
  have rest: "GetPendingCommitment st' ?i ?h = Inl (E_memory Mem_ErrCommitmentNotFound)"
    "GetApprovedCount st' ?i = GetApprovedCount st ?i + 1"
    by (simp_all add: st' GetPendingCommitment_def GetApprovedCount_def)
  show ?thesis
  proof (intro exI [of _ "storedToPending p"] exI [of _ pk] conjI)
    show "\<forall>body. body = buildSubmitMemoryCanonicalBody (mav_CiphertextHash m) (pc_Contributor (storedToPending p))
            (pc_Epoch (storedToPending p)) (mav_MemoryType m) ?i (mav_PlaintextHash m) (mav_Salt m) ?h
            (sha256_Sum256 K (mav_WrappedDekEnc m)) \<longrightarrow>
         ed25519_Verify K pk body (mav_ContributorSig m) \<and>
         (\<forall>c k e t i ph s h d. one_line k \<and> one_line i \<and>
              buildSubmitMemoryCanonicalBody c k e t i ph s h d = body \<longrightarrow>
            c = mav_CiphertextHash m \<and> k = pc_Contributor (storedToPending p) \<and> e = pc_Epoch (storedToPending p) \<and>
            i = ?i \<and> ph = mav_PlaintextHash m \<and> s = mav_Salt m \<and> h = ?h \<and>
            d = sha256_Sum256 K (mav_WrappedDekEnc m))"
      using sig uniq unfolding pc by blast
    show "GetPendingCommitment st ?i ?h = Inr (storedToPending p)"
      using p by (simp add: GetPendingCommitment_def)
  qed (use w pk hs leader rest in \<open>simp_all add: stored pc requireLeaderWallet_ok approved_record_def
      storedToMemory_def storedToPending_def\<close>)
qed

text \<open>An organisation with a leader, a commitment and its approval, for the examples.\<close>

definition ex_mem_sdk :: "ledger sdk" where
  "ex_mem_sdk = ledger_sdk\<lparr>sha256_Sum256 := (\<lambda>b. take 32 (b @ replicate 32 (CHR ''.''))),
     ed25519_Verify := (\<lambda>pk msg sig. sig = ''signed'')\<rparr>"

definition ex_contributor :: string where
  "ex_contributor = concat (replicate 32 ''00'')"

definition ex_mem_org :: org_state where
  "ex_mem_org = org_empty\<lparr>
     os_orgs := [(orgKey ''o'', \<lparr>
       so_OrgId = ''o'', so_Leader = ex_contributor, so_CreatedAt = 0, so_RenewalHeight = 0,
       so_StorageQuota = 0, so_RetrievalBudget = 0, so_Status = 1, so_Domain = ''d'',
       so_TotalCommittedMemories = 0, so_TotalActiveMembers = 1, so_TotalUpheldReports = 0,
       so_LastActivityEpoch = 0, so_HubServingAddress = ''hub'', so_LeaderWalletAddress = ''alice'',
       so_Slot = 0, so_AccountAddress = [], so_HubEndpoints = [], so_HubResponsePubkey = [],
       so_Description = [], so_TechStack = [], so_FocusAreas = [], so_Name = ''n''\<rparr>)],
     os_members := [(memberKey ''o'' ex_contributor, \<lparr>
       sm_OrgId = ''o'', sm_Pubkey = ex_contributor, sm_Role = ''leader'', sm_X25519Pubkey = ''x'',
       sm_CanContribute = True, sm_CanModerate = True\<rparr>)]\<rparr>"

definition ex_hash :: bytes where
  "ex_hash = ''blobdek'' @ replicate 25 (CHR ''.'')"

definition ex_submit :: MsgSubmitCommitment where
  "ex_submit = \<lparr>
     msc_Signer = ''alice'', msc_OrgId = ''o'', msc_ContentHash = ex_hash,
     msc_ContributorId = ex_contributor, msc_ContributorWallet = ''bob'', msc_MemoryType = 1,
     msc_Keywords = [''k''], msc_ProducerModelId = [], msc_AttestationSessionHash = [], msc_McVersion = 1\<rparr>"

definition ex_approve :: MsgApproveMemory where
  "ex_approve = \<lparr>
     mav_Signer = ''alice'', mav_OrgId = ''o'', mav_ContentHash = ex_hash, mav_EncryptedBlob = ''blob'',
     mav_CommittingLeader = ex_contributor, mav_WrappedDekEnc = ''dek'', mav_MemoryType = 1,
     mav_PlaintextHash = ''p'', mav_Salt = ''s'',
     mav_CiphertextHash = ''blob'' @ replicate 28 (CHR ''.''), mav_ContributorSig = ''signed'',
     mav_McVersion = 1\<rparr>"

lemmas ex_mem_defs = ex_mem_sdk_def ex_mem_org_def ex_hash_def ex_submit_def ex_approve_def memory_genesis_def
  memory_empty_def org_empty_def ledger_sdk_def

lemmas submit_eval = Msg_SubmitCommitment_def MsgSubmitCommitment_ValidateBasic_def requireLeaderWallet_def
  GetLeaderWallet_def GetOrg_def storedToOrg_def GetMember_def storedToMember_def ContentHashLen_def
  ValidMemoryType_def MemoryType_MEMORY_TYPE_MEMORY_def NewPendingCommitment_def SubmitCommitment_def
  PendingCommitment_Validate_def HasOrg_def kv_has_def memory_raw_def marker_entries_def
  genesisInitMarkerKey_def memory_GetParams_def memory_DefaultParams_def kv_from_def

lemma ex_contributor_hex [simp]:
  "hex_decode ex_contributor = Some (replicate 32 (char_of (0 :: nat)))" "ex_contributor \<noteq> []"
  by (simp_all add: ex_contributor_def eval_nat_numeral hex_val_def)

definition ex_pending :: PendingCommitment where
  "ex_pending = \<lparr>
     pc_OrgID = ''o'', pc_ContentHash = ex_hash, pc_Keywords = [''k''], pc_Contributor = ex_contributor,
     pc_ContributorAddress = ''bob'', pc_ProducerModelId = [], pc_AttestationSessionHash = [],
     pc_Epoch = 0, pc_SubmittedAt = 0, pc_MemoryType = 1, pc_McVersion = 1\<rparr>"

definition ex_submitted :: memory_state where
  "ex_submitted = memory_genesis\<lparr>ms_pending := [(pendingKey ''o'' ex_hash, pendingToStored ex_pending)]\<rparr>"

lemma ex_submit_ok: "Msg_SubmitCommitment memory_genesis ex_mem_org ex_submit = Inr ex_submitted"
  by (simp add: ex_mem_defs submit_eval ex_pending_def ex_submitted_def word_le_nat_alt)

lemmas approve_eval = Msg_ApproveMemory_def MsgApproveMemory_ValidateBasic_def requireLeaderWallet_def
  GetLeaderWallet_def GetOrg_def storedToOrg_def ContentHashLen_def ValidMemoryType_def
  MemoryType_MEMORY_TYPE_MEMORY_def GetPendingCommitment_def ex_submitted_def ex_pending_def ApproveMemory_def
  IsLeader_def GetMember_def storedToMember_def memory_GetParams_def memory_DefaultParams_def kv_has_def
  IncrementOrgCommittedMemories_def SetOrgLastActivityEpoch_def modifyOrgAggregate_def org_getCurrentEpoch_def Let_def

lemma ex_approve_ok:
  "\<exists>st' os' rs'. Msg_ApproveMemory ex_mem_sdk ex_submitted ex_mem_org reputation_empty ex_approve = Inr (st', os', rs')"
  by (simp add: ex_mem_defs approve_eval)

theorem approval_authentic_witness:
  "\<exists>st' os' rs'. Msg_ApproveMemory ex_mem_sdk ex_submitted ex_mem_org reputation_empty ex_approve = Inr (st', os', rs') \<and>
     IsLeader ex_mem_org ''o'' ex_contributor \<and> GetLeaderWallet ex_mem_org ''o'' = Inr ''alice'' \<and>
     GetApprovedCount st' ''o'' = 1"
proof -
  obtain st' os' rs' where run:
    "Msg_ApproveMemory ex_mem_sdk ex_submitted ex_mem_org reputation_empty ex_approve = Inr (st', os', rs')"
    using ex_approve_ok by blast
  have "mav_OrgId ex_approve = ''o''" "mav_CommittingLeader ex_approve = ex_contributor"
    "mav_Signer ex_approve = ''alice''" "GetApprovedCount ex_submitted ''o'' = 0"
    by (simp_all add: ex_approve_def ex_submitted_def memory_genesis_def memory_empty_def GetApprovedCount_def)
  with approval_authentic [OF run] run show ?thesis by auto
qed

definition ex_evs :: "ledger memory_event list" where
  "ex_evs = [Mem_Submit ex_mem_org ex_submit, Mem_Approve ex_mem_sdk ex_mem_org reputation_empty ex_approve]"

theorem approved_permanent_witness:
  "\<exists>m x. GetApprovedMemory (deliver_all memory_handle memory_genesis ex_evs) ''o'' ex_hash = Inr m \<and>
     GetApprovedMemory (deliver_all memory_handle memory_genesis (ex_evs @ [Mem_EpochEnd ex_mem_sdk ''wevibe_epoch'' 1]))
       ''o'' ex_hash = Inr (m\<lparr>mc_State := x\<rparr>)"
proof -
  have "\<exists>m. GetApprovedMemory (deliver_all memory_handle memory_genesis ex_evs) ''o'' ex_hash = Inr m"
    by (simp add: ex_evs_def ex_submit_ok) (simp add: ex_mem_defs approve_eval GetApprovedMemory_def)
  then show ?thesis using approved_permanent [of ex_evs "''o''" ex_hash] by blast
qed

subsection \<open>The limit on pending commitments\<close>

lemma before_pending:
  "prefix ''count/'' k \<Longrightarrow> k < pendingPrefix i" "prefix ''merkle/'' k \<Longrightarrow> k < pendingPrefix i"
  "memory_ok (k, m) \<Longrightarrow> k < pendingPrefix i" "''current_epoch'' < pendingPrefix i" "''params'' < pendingPrefix i"
  by (auto simp: prefix_def pendingPrefix_def memory_ok_def approvedKey_def less_char_def)

lemma after_pending:
  "prefix ''report/'' k \<Longrightarrow> pendingPrefix i \<le> k" "pendingPrefix i \<le> genesisInitMarkerKey"
  by (auto simp: prefix_def pendingPrefix_def genesisInitMarkerKey_def less_char_def less_eq_char_def)

lemma kv_from_map_none:
  "fst ` set t \<subseteq> {k. k < lo} \<Longrightarrow> kv_from lo (map (\<lambda>(k, v). (k, f v)) t) = []"
  by (intro kv_from_none) auto

lemma kv_from_map_all:
  "fst ` set t \<subseteq> {k. lo \<le> k} \<Longrightarrow> kv_from lo (map (\<lambda>(k, v). (k, f v)) t) = map (\<lambda>(k, v). (k, f v)) t"
  by (intro kv_from_all) auto

lemma length_kv_from_map: "length (kv_from lo (map (\<lambda>(k, v). (k, f v)) t)) = length (filter (\<lambda>e. lo \<le> fst e) t)"
  by (simp add: kv_from_def filter_map o_def case_prod_unfold)

lemma pending_iterator_length:
  assumes "memory_inv st"
  shows "length (kv_from (pendingPrefix i) (memory_raw st)) =
    length (filter (\<lambda>e. pendingPrefix i \<le> fst e) (ms_pending st)) + length (ms_reports st) +
    (if ms_marker st then 1 else 0)"
proof -
  let ?f = "kv_from (pendingPrefix i)"
  have keys: "keys_ok st" and ok: "approved_ok (ms_approved st)" using assms by (simp_all add: memory_inv_def)
  have A: "fst ` set (ms_approved st) \<subseteq> {k. k < pendingPrefix i}"
  proof safe
    fix k m
    assume "(k, m) \<in> set (ms_approved st)"
    then have "memory_ok (k, m)" using ok unfolding approved_ok_def by blast
    then show "fst (k, m) < pendingPrefix i" unfolding fst_conv by (rule before_pending(3))
  qed
  have C: "fst ` set (ms_counts st) \<subseteq> {k. k < pendingPrefix i}"
    using keys before_pending(1) [of _ i] unfolding keys_ok_def by blast
  have M: "fst ` set (ms_merkle st) \<subseteq> {k. k < pendingPrefix i}"
    using keys before_pending(2) [of _ i] unfolding keys_ok_def by blast
  have R: "fst ` set (ms_reports st) \<subseteq> {k. pendingPrefix i \<le> k}"
    using keys after_pending(1) [of _ i] unfolding keys_ok_def by blast
  have E: "?f (case ms_epoch st of None \<Rightarrow> [] | Some e \<Rightarrow> [(''current_epoch'', be_uint64 e)]) = []"
    using before_pending(4) [of i] by (cases "ms_epoch st") (simp_all add: kv_from_def not_le)
  have Q: "?f (case ms_params st of None \<Rightarrow> [] | Some q \<Rightarrow> [(''params'', marshal (memory_Params_fields q))]) = []"
    using before_pending(5) [of i] by (cases "ms_params st") (simp_all add: kv_from_def not_le)
  have G: "?f (marker_entries (ms_marker st)) = marker_entries (ms_marker st)"
    using after_pending(2) [of i] by (simp add: marker_entries_def kv_from_def)
  show ?thesis
    unfolding memory_raw_def kv_from_append kv_from_map_none [OF A] kv_from_map_none [OF C]
      kv_from_map_none [OF M] kv_from_map_all [OF R] E Q G
    by (simp add: length_kv_from_map marker_entries_def)
qed

text \<open>
  C36: What the limit on pending commitments counts.  In every reachable state a well-formed new
  commitment of a registered organisation is rejected exactly when the commitments pending for that
  organisation and for every organisation whose key sorts after it, plus all reports of all
  organisations, plus the marker of chain initialisation, reach \<open>MaxPendingPerOrg\<close> (the iterator that
  counts has no end); otherwise it is stored and nothing else changes.
\<close>

theorem pending_limit:
  assumes "st = deliver_all memory_handle memory_genesis evs"
    and "PendingCommitment_Validate c = Inr ()" and "HasOrg os (pc_OrgID c)"
    and "GetPendingCommitment st (pc_OrgID c) (pc_ContentHash c) = Inl e"
  shows "SubmitCommitment st os c =
    (if of_nat (length (filter (\<lambda>p. pendingPrefix (pc_OrgID c) \<le> pendingKey (pc_OrgID p) (pc_ContentHash p))
            (mg_PendingCommitments (memory_ExportGenesis st))) + length (ms_reports st) + 1)
          \<ge> mp_MaxPendingPerOrg (memory_GetParams st)
     then Inl (E_memory Mem_ErrMaxPendingExceeded)
     else Inr (st\<lparr>ms_pending := kv_set (pendingKey (pc_OrgID c) (pc_ContentHash c)) (pendingToStored c) (ms_pending st)\<rparr>))"
proof -
  have inv: "memory_inv st" unfolding assms(1) by (rule memory_run_inv)
  have marker: "ms_marker st" unfolding assms(1) by (rule memory_run_marker)
  have none: "kv_get (ms_pending st) (pendingKey (pc_OrgID c) (pc_ContentHash c)) = None"
    using assms(4) by (simp add: GetPendingCommitment_def split: option.splits)
  have "filter (\<lambda>e. pendingPrefix (pc_OrgID c) \<le> fst e) (ms_pending st) =
      filter (\<lambda>e. pendingPrefix (pc_OrgID c) \<le> pendingKey (spc_OrgId (snd e)) (spc_ContentHash (snd e))) (ms_pending st)"
    using inv by (intro filter_cong) (auto simp: memory_inv_def pending_ok_def)
  then have "length (filter (\<lambda>e. pendingPrefix (pc_OrgID c) \<le> fst e) (ms_pending st)) =
      length (filter (\<lambda>p. pendingPrefix (pc_OrgID c) \<le> pendingKey (pc_OrgID p) (pc_ContentHash p))
            (mg_PendingCommitments (memory_ExportGenesis st)))"
    by (simp add: memory_ExportGenesis_def filter_map o_def storedToPending_def)
  then show ?thesis
    using assms(2,3) none marker
    by (simp add: SubmitCommitment_def Let_def kv_has_def pending_iterator_length [OF inv] add.commute)
qed

theorem pending_limit_witness:
  "SubmitCommitment memory_genesis ex_mem_org ex_pending = Inr ex_submitted"
proof -
  have "PendingCommitment_Validate ex_pending = Inr ()" "HasOrg ex_mem_org (pc_OrgID ex_pending)"
    by (simp_all add: ex_pending_def ex_mem_defs submit_eval)
  moreover have "GetPendingCommitment memory_genesis (pc_OrgID ex_pending) (pc_ContentHash ex_pending) =
      Inl (E_memory Mem_ErrCommitmentNotFound)"
    by (simp add: GetPendingCommitment_def memory_genesis_def memory_empty_def)
  ultimately show ?thesis
    using pending_limit [of memory_genesis "[] :: ledger memory_event list" ex_pending ex_mem_org]
    by (simp add: ex_pending_def ex_submitted_def memory_genesis_def memory_empty_def memory_ExportGenesis_def
        memory_GetParams_def memory_DefaultParams_def word_le_nat_alt)
qed

subsection \<open>Merkle roots\<close>

lemma concat_blocks_inj:
  assumes "list_all (\<lambda>b. length b = n) xs" "list_all (\<lambda>b. length b = n) ys" "0 < n" "concat xs = concat ys"
  shows "xs = ys"
  using assms
proof (induction xs arbitrary: ys)
  case Nil
  then show ?case by (cases ys) auto
next
  case (Cons x xs)
  then obtain y ys' where ys: "ys = y # ys'" by (cases ys) auto
  with Cons.prems have "x = y" "concat xs = concat ys'" by simp_all
  with Cons ys show ?case by simp
qed

lemma sort_eq_iff: "sort xs = sort ys \<longleftrightarrow> mset xs = mset (ys :: 'a :: linorder list)"
  by (metis mset_sort properties_for_sort sorted_sort)

text \<open>
  C20: A Merkle root binds exactly the multiset of content hashes it was computed from.  When the
  digests are not empty and the hash function does not collide on the two inputs it is given here,
  two lists of 32-byte content hashes have the same root exactly when one is a reordering of the
  other; in particular the root does not depend on the order in which the store is read, and only
  the empty list has the empty root.
\<close>

theorem merkle_root_binds:
  assumes "list_all (\<lambda>h. length h = 32) xs" and "list_all (\<lambda>h. length h = 32) ys"
    and "\<And>b. sha256_Sum256 K b \<noteq> []"
    and "inj_on (sha256_Sum256 K) {concat (sort xs), concat (sort ys)}"
  shows "ComputeMerkleRoot K xs = ComputeMerkleRoot K ys \<longleftrightarrow> mset xs = mset ys"
proof (cases "xs = [] \<or> ys = []")
  case True
  then show ?thesis
    by (cases xs; cases ys) (simp_all add: ComputeMerkleRoot_def assms(3) assms(3) [symmetric])
next
  case False
  have "concat (sort xs) = concat (sort ys) \<longleftrightarrow> sort xs = sort ys"
    using concat_blocks_inj [of 32 "sort xs" "sort ys"] assms(1,2) by (auto simp: list_all_iff)
  moreover have "sha256_Sum256 K (concat (sort xs)) = sha256_Sum256 K (concat (sort ys)) \<longleftrightarrow>
      concat (sort xs) = concat (sort ys)"
    by (rule inj_on_eq_iff [OF assms(4)]) simp_all
  ultimately show ?thesis using False by (simp add: ComputeMerkleRoot_def sort_eq_iff)
qed

theorem merkle_root_binds_witness:
  "ComputeMerkleRoot ex_mem_sdk [replicate 32 (CHR ''b''), replicate 32 (CHR ''a'')] =
     ComputeMerkleRoot ex_mem_sdk [replicate 32 (CHR ''a''), replicate 32 (CHR ''b'')]"
proof -
  let ?a = "replicate 32 (CHR ''a'')" and ?b = "replicate 32 (CHR ''b'')"
  have "sort [?b, ?a] = sort [?a, ?b]" unfolding sort_eq_iff by (simp add: add_mset_commute)
  moreover have "sha256_Sum256 ex_mem_sdk x \<noteq> []" for x by (simp add: ex_mem_sdk_def)
  ultimately have "ComputeMerkleRoot ex_mem_sdk [?b, ?a] = ComputeMerkleRoot ex_mem_sdk [?a, ?b] \<longleftrightarrow>
      mset [?b, ?a] = mset [?a, ?b]"
    by (intro merkle_root_binds) (simp_all add: inj_on_def)
  then show ?thesis by (simp add: add_mset_commute)
qed

subsection \<open>Reports\<close>

lemma GetContributorProfile_contribution:
  "scp_TotalApprovedMemories (GetContributorProfile (IncrementContribution rs c i cid) c i) =
     scp_TotalApprovedMemories (GetContributorProfile rs c i) + 1"
  "scp_TotalReportsUpheldAgainst (GetContributorProfile (IncrementContribution rs c i cid) c i) =
     scp_TotalReportsUpheldAgainst (GetContributorProfile rs c i)"
  by (simp_all add: GetContributorProfile_def IncrementContribution_def load_profile_def store_profile_def
      new_profile_def Let_def split: option.split)

lemma profiles_kept:
  "GetContributorProfile (IncrementLeaderUpheldReport rs l i) c j = GetContributorProfile rs c j"
  "GetContributorProfile (foldl (\<lambda>r p. IncrementModeratorUpheld r p i) rs ms) c j = GetContributorProfile rs c j"
  "GetLeaderProfile (IncrementContribution rs c i cid) l j = GetLeaderProfile rs l j"
  "GetLeaderProfile (foldl (\<lambda>r p. IncrementModeratorUpheld r p i) rs ms) l j = GetLeaderProfile rs l j"
proof -
  have "rep_profiles (foldl (\<lambda>r p. IncrementModeratorUpheld r p i) rs ms) = rep_profiles rs"
    "rep_leaders (foldl (\<lambda>r p. IncrementModeratorUpheld r p i) rs ms) = rep_leaders rs"
    by (induction ms arbitrary: rs) (simp_all add: IncrementModeratorUpheld_def SetModeratorProfile_def Let_def)
  then show
    "GetContributorProfile (foldl (\<lambda>r p. IncrementModeratorUpheld r p i) rs ms) c j = GetContributorProfile rs c j"
    "GetLeaderProfile (foldl (\<lambda>r p. IncrementModeratorUpheld r p i) rs ms) l j = GetLeaderProfile rs l j"
    by (simp_all add: GetContributorProfile_def GetLeaderProfile_def)
qed (simp_all add: GetContributorProfile_def GetLeaderProfile_def IncrementContribution_def store_profile_def
    IncrementLeaderUpheldReport_def SetLeaderProfile_def Let_def)

lemma leader_upheld_count:
  assumes "slp_LeaderPubkey (GetLeaderProfile rs l i) = l" "slp_OrgId (GetLeaderProfile rs l i) = i"
  shows "slp_TotalUpheldReportsCommitted (GetLeaderProfile (IncrementLeaderUpheldReport rs l i) l i) =
    slp_TotalUpheldReportsCommitted (GetLeaderProfile rs l i) + 1"
proof -
  define q where "q = GetLeaderProfile rs l i"
  have "kv_get (rep_leaders (IncrementLeaderUpheldReport rs l i)) (leaderProfileKey l i) =
      Some (q\<lparr>slp_TotalUpheldReportsCommitted := slp_TotalUpheldReportsCommitted q + 1\<rparr>)"
    using assms by (simp add: IncrementLeaderUpheldReport_def SetLeaderProfile_def Let_def q_def)
  then show ?thesis unfolding GetLeaderProfile_def [of "IncrementLeaderUpheldReport rs l i"] by (simp add: q_def)
qed

lemma org_upheld_count:
  assumes "IncrementOrgUpheldReports os i = Inr os'"
  shows "\<exists>o1 o2. kv_get (os_orgs os) (orgKey i) = Some o1 \<and> kv_get (os_orgs os') (orgKey i) = Some o2 \<and>
    so_TotalUpheldReports o2 = so_TotalUpheldReports o1 + 1"
  using assms
  by (auto simp: IncrementOrgUpheldReports_def modifyOrgAggregate_def split: option.splits sum.splits)

text \<open>
  C38: What an accepted report does.  Only the organisation's leader wallet can file it, only on an
  approved memory, and only once per reporter; it changes no memory: the reported memory stays
  approved.  The organisation's count of upheld reports goes up by one, and so does that of the
  leader profile under the signer's wallet address.  The contributor's count of upheld reports is
  not touched; what goes up by one is the contributor's count of approved memories.
\<close>

theorem report_effects:
  assumes "Msg_ReportMemory st os rs m = Inr (st', os', rs')"
    and "slp_LeaderPubkey (GetLeaderProfile rs (mrp_Signer m) (mrp_OrgId m)) = mrp_Signer m"
    and "slp_OrgId (GetLeaderProfile rs (mrp_Signer m) (mrp_OrgId m)) = mrp_OrgId m"
  shows "GetLeaderWallet os (mrp_OrgId m) = Inr (mrp_Signer m) \<and>
    (\<exists>a. GetApprovedMemory st (mrp_OrgId m) (mrp_ContentHash m) = Inr a) \<and>
    (\<forall>i h. GetApprovedMemory st' i h = GetApprovedMemory st i h) \<and>
    isl (Msg_ReportMemory st' os' rs' m) \<and>
    (\<exists>o1 o2. kv_get (os_orgs os) (orgKey (mrp_OrgId m)) = Some o1 \<and>
       kv_get (os_orgs os') (orgKey (mrp_OrgId m)) = Some o2 \<and>
       so_TotalUpheldReports o2 = so_TotalUpheldReports o1 + 1) \<and>
    slp_TotalUpheldReportsCommitted (GetLeaderProfile rs' (mrp_Signer m) (mrp_OrgId m)) =
      slp_TotalUpheldReportsCommitted (GetLeaderProfile rs (mrp_Signer m) (mrp_OrgId m)) + 1 \<and>
    scp_TotalReportsUpheldAgainst (GetContributorProfile rs' (mrp_ContributorPubkey m) (mrp_OrgId m)) =
      scp_TotalReportsUpheldAgainst (GetContributorProfile rs (mrp_ContributorPubkey m) (mrp_OrgId m)) \<and>
    scp_TotalApprovedMemories (GetContributorProfile rs' (mrp_ContributorPubkey m) (mrp_OrgId m)) =
      scp_TotalApprovedMemories (GetContributorProfile rs (mrp_ContributorPubkey m) (mrp_OrgId m)) + 1"
proof (intro conjI)
  note r = Msg_ReportMemory_ok [OF assms(1)]
  show "GetLeaderWallet os (mrp_OrgId m) = Inr (mrp_Signer m)"
    using r(2) by (simp add: requireLeaderWallet_ok)
  show "\<exists>a. GetApprovedMemory st (mrp_OrgId m) (mrp_ContentHash m) = Inr a"
    using r(3) by (auto simp: GetApprovedMemory_def)
  show "\<forall>i h. GetApprovedMemory st' i h = GetApprovedMemory st i h"
    by (simp add: r(5) GetApprovedMemory_def)
  have "kv_get (ms_reports st') (reportKey (mrp_OrgId m) (mrp_ContentHash m) (mrp_ReporterPubkey m)) \<noteq> None"
    by (simp add: r(5))
  then show "isl (Msg_ReportMemory st' os' rs' m)"
    using Msg_ReportMemory_ok(4) [of st' os' rs' m] by (cases "Msg_ReportMemory st' os' rs' m") auto
  show "\<exists>o1 o2. kv_get (os_orgs os) (orgKey (mrp_OrgId m)) = Some o1 \<and>
       kv_get (os_orgs os') (orgKey (mrp_OrgId m)) = Some o2 \<and>
       so_TotalUpheldReports o2 = so_TotalUpheldReports o1 + 1"
    by (rule org_upheld_count [OF r(6)])
  show "slp_TotalUpheldReportsCommitted (GetLeaderProfile rs' (mrp_Signer m) (mrp_OrgId m)) =
      slp_TotalUpheldReportsCommitted (GetLeaderProfile rs (mrp_Signer m) (mrp_OrgId m)) + 1"
    unfolding r(7) by (subst leader_upheld_count) (simp_all add: profiles_kept assms(2,3))
qed (simp_all only: Msg_ReportMemory_ok(7) [OF assms(1)] profiles_kept GetContributorProfile_contribution)

definition ex_report :: MsgReportMemory where
  "ex_report = \<lparr>
     mrp_Signer = ''alice'', mrp_OrgId = ''o'', mrp_ContentHash = ex_hash, mrp_ContributorPubkey = ''c'',
     mrp_ApprovingModerators = [''m''], mrp_UpholdingModerators = [], mrp_ReporterPubkey = ''r'',
     mrp_Reason = ''spam'', mrp_Plaintext = [], mrp_Ciphertext = [], mrp_Capsule = [],
     mrp_PlaintextHash = ''h'', mrp_PlaintextOversized = True\<rparr>"

theorem report_effects_witness:
  "\<exists>st os' rs'. Msg_ReportMemory (memory_genesis\<lparr>ms_approved := [(approvedKey ''o'' ex_hash,
       approved_record ex_submitted (pendingToStored ex_pending) ''o'' ex_hash ''blob'' ''l'' ''dek'' ''p'' ''s'' ''c'' ''d'' ''x'' 1)]\<rparr>)
     ex_mem_org reputation_empty ex_report = Inr (st, os', rs') \<and>
     scp_TotalApprovedMemories (GetContributorProfile rs' ''c'' ''o'') = 1"
  (is "\<exists>st os' rs'. Msg_ReportMemory ?st _ _ _ = _ \<and> _")
proof -
  have "\<exists>st os' rs'. Msg_ReportMemory ?st ex_mem_org reputation_empty ex_report = Inr (st, os', rs')"
    by (simp add: Msg_ReportMemory_def MsgReportMemory_ValidateBasic_def ex_report_def ReportMemory_def Let_def
        ex_mem_defs submit_eval IncrementOrgUpheldReports_def modifyOrgAggregate_def org_getCurrentEpoch_def)
  then obtain st os' rs' where run: "Msg_ReportMemory ?st ex_mem_org reputation_empty ex_report = Inr (st, os', rs')"
    by blast
  have "GetLeaderProfile reputation_empty ''alice'' ''o'' = \<lparr>slp_LeaderPubkey = ''alice'', slp_OrgId = ''o'',
      slp_TotalChainCommitsSigned = 0, slp_TotalUpheldReportsCommitted = 0, slp_FirstLeadershipEpoch = 0,
      slp_CurrentLeader = False\<rparr>" "scp_TotalApprovedMemories (GetContributorProfile reputation_empty ''c'' ''o'') = 0"
    by (simp_all add: GetLeaderProfile_def GetContributorProfile_def reputation_empty_def new_profile_def)
  moreover have "mrp_Signer ex_report = ''alice''" "mrp_OrgId ex_report = ''o''" "mrp_ContributorPubkey ex_report = ''c''"
    by (simp_all add: ex_report_def)
  ultimately have "scp_TotalApprovedMemories (GetContributorProfile rs' ''c'' ''o'') = 1"
    using report_effects [OF run] by auto
  then show ?thesis using run by blast
qed

end
