(* ===== verification/Memory_Merkle.thy ===== *)
theory Memory_Merkle
  imports Memory_Properties
begin

section \<open>The Merkle roots of the epoch hook\<close>

text \<open>
  The loop that collects the memories of an epoch reads, with an iterator without an end, the bytes
  of every later record of the store.  This theory shows what a decoder for memories can read in
  the records of the other tables, and concludes what the stored roots commit to.
\<close>

subsection \<open>Decoding records of other types\<close>

fun field_legal :: "nat \<times> field \<Rightarrow> bool" where
  "field_legal (n, Varint v) \<longleftrightarrow> 0 < n \<and> n < 2 ^ 29"
| "field_legal (n, Bytes b) \<longleftrightarrow> 0 < n \<and> n < 2 ^ 29 \<and> length b < 2 ^ 63"

lemma field_legal_cases: "field_legal f \<Longrightarrow> field_fits sch f \<or> field_unknown sch f \<or> field_clash sch f"
  by (cases f rule: field_legal.cases; cases "sch (fst f)"; cases "the (sch (fst f))") auto

lemma legal_no_clash:
  "list_all field_legal fs \<Longrightarrow> \<forall>f\<in>set fs. \<not> field_clash sch f \<Longrightarrow>
   list_all (\<lambda>f. field_fits sch f \<or> field_unknown sch f) fs"
  using field_legal_cases [of _ sch] by (induction fs) auto

text \<open>A decoder that accepts the encoding of a record of any type reads fields of that record.\<close>

lemma unmarshal_legal:
  assumes "list_all field_legal fs" "unmarshal sch (marshal fs) = Some gs"
  shows "set gs \<subseteq> set fs"
proof (cases "\<exists>f\<in>set fs. field_clash sch f")
  case True
  then obtain as f bs where fs: "fs = as @ f # bs" "field_clash sch f" "\<forall>g\<in>set as. \<not> field_clash sch g"
    using split_list_first_prop [of fs "field_clash sch"] by auto
  have "list_all field_legal as" using assms(1) fs(1) by simp
  from unmarshal_clash [OF legal_no_clash [OF this fs(3)] fs(2), of bs] show ?thesis
    using assms(2) fs(1) by simp
next
  case False
  then have "\<forall>f\<in>set fs. \<not> field_clash sch f" by simp
  from unmarshal_other [OF legal_no_clash [OF assms(1) this]] show ?thesis using assms(2) by auto
qed

definition epoch_field :: "nat \<times> field \<Rightarrow> bool" where
  "epoch_field f \<longleftrightarrow> (\<exists>v. f = (6, Varint v) \<and> v \<noteq> 0)"

lemma set_epoch:
  "\<not> epoch_field f \<Longrightarrow> smc_Epoch s = 0 \<Longrightarrow> smc_Epoch (StoredMemoryCommitment_set f s) = 0"
  by (cases f; cases "snd f") (simp_all add: StoredMemoryCommitment_set_def epoch_field_def if_distrib [of smc_Epoch])

lemma fold_set_epoch:
  "\<forall>f\<in>set fs. \<not> epoch_field f \<Longrightarrow> smc_Epoch s = 0 \<Longrightarrow> smc_Epoch (fold StoredMemoryCommitment_set fs s) = 0"
  by (induction fs arbitrary: s) (simp_all add: set_epoch)

text \<open>Bytes that are not the encoding of a memory with an epoch.\<close>

definition no_epoch :: "bytes \<Rightarrow> bool" where
  "no_epoch bz \<longleftrightarrow> (\<forall>s. StoredMemoryCommitment_Unmarshal bz = Some s \<longrightarrow> smc_Epoch s = 0)"

lemma no_epoch_record:
  assumes "list_all field_legal fs" "list_all (\<lambda>f. \<not> epoch_field f) fs"
  shows "no_epoch (marshal fs)"
  unfolding no_epoch_def StoredMemoryCommitment_Unmarshal_def
proof (intro allI impI)
  fix s
  assume "map_option (\<lambda>fs. fold StoredMemoryCommitment_set fs StoredMemoryCommitment_zero)
      (unmarshal StoredMemoryCommitment_schema (marshal fs)) = Some s"
  then obtain gs where gs: "unmarshal StoredMemoryCommitment_schema (marshal fs) = Some gs"
    "s = fold StoredMemoryCommitment_set gs StoredMemoryCommitment_zero"
    by auto
  from unmarshal_legal [OF assms(1) gs(1)] have "\<forall>f\<in>set gs. \<not> epoch_field f" using assms(2) unfolding list_all_iff by blast
  then show "smc_Epoch s = 0"
    unfolding gs(2) by (rule fold_set_epoch) (simp add: StoredMemoryCommitment_zero_def)
qed

lemma no_epoch_tag_zero: "of_char b < (8 :: nat) \<Longrightarrow> no_epoch (b # bs)"
  by (simp add: no_epoch_def StoredMemoryCommitment_Unmarshal_def unmarshal_tag_zero)

lemma epoch_field_simps [simp]:
  "epoch_field (n, Bytes b) \<longleftrightarrow> False" "epoch_field (n, Varint v) \<longleftrightarrow> n = 6 \<and> v \<noteq> 0"
  by (simp_all add: epoch_field_def)

lemma epoch_field_lists [simp]:
  "list_all (\<lambda>f. \<not> epoch_field f) (bytes_field n b)" "list_all (\<lambda>f. \<not> epoch_field f) (repeated_bytes_field n bs)"
  "n \<noteq> 6 \<or> v = 0 \<Longrightarrow> list_all (\<lambda>f. \<not> epoch_field f) (varint_field n v)"
  "n \<noteq> 6 \<Longrightarrow> list_all (\<lambda>f. \<not> epoch_field f) (bool_field n c)"
  by (auto simp: field_list_defs list_all_iff)

lemma no_epoch_fields:
  "smc_Epoch m = 0 \<Longrightarrow> list_all (\<lambda>f. \<not> epoch_field f) (StoredMemoryCommitment_fields m)"
  "list_all (\<lambda>f. \<not> epoch_field f) (StoredEpochMerkleRoot_fields r)"
  "list_all (\<lambda>f. \<not> epoch_field f) (memory_Params_fields q)"
  "spc_SubmittedAtHeight p = 0 \<Longrightarrow> list_all (\<lambda>f. \<not> epoch_field f) (StoredPendingCommitment_fields p)"
  "list_all (\<lambda>f. \<not> epoch_field f) (StoredMemoryReport_fields x)"
  by (simp_all add: StoredMemoryCommitment_fields_def StoredEpochMerkleRoot_fields_def memory_Params_fields_def
      StoredPendingCommitment_fields_def StoredMemoryReport_fields_def)

lemma no_epoch_be_uint64:
  assumes "unat v < 2 ^ 59"
  shows "no_epoch (be_uint64 v)"
proof -
  define c where "c = char_of (unat (drop_bit 56 v) mod 256)"
  have "unat (drop_bit 56 v) = unat v div 2 ^ 56" 
    by (simp only: unat_drop_bit_eq drop_bit_eq_div [of 56 "unat v"])
  then have "(of_char c :: nat) < 8" using assms by (simp add: c_def)
  moreover have "be_uint64 v = c # tl (be_uint64 v)" by (simp add: be_uint64_def c_def)
  ultimately show ?thesis using no_epoch_tag_zero [of c "tl (be_uint64 v)"] by simp
qed

text \<open>
  The lengths that Go strings and slices can have, and counters that keep their highest byte small.
\<close>

definition sizes_ok :: "memory_state \<Rightarrow> bool" where
  "sizes_ok st \<longleftrightarrow>
     list_all (\<lambda>e. list_all field_legal (StoredMemoryCommitment_fields (snd e))) (ms_approved st) \<and>
     list_all (\<lambda>e. list_all field_legal (StoredEpochMerkleRoot_fields (snd e))) (ms_merkle st) \<and>
     list_all (\<lambda>e. list_all field_legal (StoredPendingCommitment_fields (snd e))) (ms_pending st) \<and>
     list_all (\<lambda>e. list_all field_legal (StoredMemoryReport_fields (snd e))) (ms_reports st) \<and>
     list_all (\<lambda>e. unat (snd e) < 2 ^ 59) (ms_counts st)"

definition raw_no_epoch :: "memory_state \<Rightarrow> bool" where
  "raw_no_epoch st \<longleftrightarrow> (\<forall>e\<in>set (memory_raw st). no_epoch (snd e))"

lemma legal_lists [simp]:
  "list_all field_legal (varint_field n v) \<longleftrightarrow> v = 0 \<or> 0 < n \<and> n < 2 ^ 29"
  "list_all field_legal (bytes_field n b) \<longleftrightarrow> b = [] \<or> 0 < n \<and> n < 2 ^ 29 \<and> length b < 2 ^ 63"
  by (auto simp: field_list_defs)

lemma legal_aged:
  "aged s s' \<Longrightarrow> list_all field_legal (StoredMemoryCommitment_fields s) \<Longrightarrow>
   list_all field_legal (StoredMemoryCommitment_fields s')"
proof -
  assume "aged s s'" "list_all field_legal (StoredMemoryCommitment_fields s)"
  moreover have "list_all field_legal (StoredMemoryCommitment_fields (s\<lparr>smc_State := x\<rparr>)) \<longleftrightarrow>
      list_all field_legal (StoredMemoryCommitment_fields s)" for x
    by (simp add: StoredMemoryCommitment_fields_def)
  ultimately show ?thesis unfolding aged_def by metis
qed

lemma legal_params: "list_all field_legal (memory_Params_fields q)"
  by (simp add: memory_Params_fields_def)

lemma list_all_entry: "list_all (\<lambda>e. P (snd e)) t \<Longrightarrow> (k, v) \<in> set t \<Longrightarrow> P v"
  by (force simp: list_all_iff)

lemma raw_no_epoch_intro:
  assumes "sizes_ok st" "list_all (\<lambda>e. smc_Epoch (snd e) = 0) (ms_approved st)"
    "list_all (\<lambda>e. spc_SubmittedAtHeight (snd e) = 0) (ms_pending st)"
    "\<forall>e. ms_epoch st = Some e \<longrightarrow> unat e < 2 ^ 59"
  shows "raw_no_epoch st"
proof -
  note sizes = assms(1) [unfolded sizes_ok_def]
  note legal = sizes [THEN conjunct1] sizes [THEN conjunct2, THEN conjunct1]
    sizes [THEN conjunct2, THEN conjunct2, THEN conjunct1]
    sizes [THEN conjunct2, THEN conjunct2, THEN conjunct2, THEN conjunct1]
    sizes [THEN conjunct2, THEN conjunct2, THEN conjunct2, THEN conjunct2]
  have "no_epoch (StoredMemoryCommitment_Marshal m)" if "(k, m) \<in> set (ms_approved st)" for k m
    unfolding StoredMemoryCommitment_Marshal_def
    by (rule no_epoch_record [OF list_all_entry [OF legal(1) that] no_epoch_fields(1) [OF list_all_entry [OF assms(2) that]]])
  moreover have "no_epoch (StoredPendingCommitment_Marshal p)" if "(k, p) \<in> set (ms_pending st)" for k p
    unfolding StoredPendingCommitment_Marshal_def
    by (rule no_epoch_record [OF list_all_entry [OF legal(3) that] no_epoch_fields(4) [OF list_all_entry [OF assms(3) that]]])
  moreover have "no_epoch (marshal (StoredEpochMerkleRoot_fields r))" if "(k, r) \<in> set (ms_merkle st)" for k r
    by (rule no_epoch_record [OF list_all_entry [OF legal(2) that] no_epoch_fields(2)])
  moreover have "no_epoch (marshal (StoredMemoryReport_fields r))" if "(k, r) \<in> set (ms_reports st)" for k r
    by (rule no_epoch_record [OF list_all_entry [OF legal(4) that] no_epoch_fields(5)])
  moreover have "no_epoch (be_uint64 v)" if "(k, v) \<in> set (ms_counts st)" for k v
    by (rule no_epoch_be_uint64 [OF list_all_entry [OF legal(5) that]])
  moreover have "no_epoch (be_uint64 v)" if "ms_epoch st = Some v" for v
    using that assms(4) no_epoch_be_uint64 by simp
  moreover have "no_epoch (marshal (memory_Params_fields q))" for q
    by (rule no_epoch_record [OF legal_params no_epoch_fields(3)])
  moreover have "no_epoch genesisInitMarkerValue"
    unfolding genesisInitMarkerValue_def by (rule no_epoch_tag_zero) simp
  ultimately show ?thesis
    unfolding raw_no_epoch_def memory_raw_def by (auto simp: marker_entries_def split: option.splits if_splits)
qed

definition empty_root :: "string \<Rightarrow> u64 \<Rightarrow> StoredEpochMerkleRoot" where
  "empty_root i epoch = \<lparr>ser_OrgId = i, ser_Epoch = epoch, ser_MerkleRoot = [], ser_MemoryCount = 0\<rparr>"

lemma decoded_no_epoch: "raw_no_epoch st \<Longrightarrow> s \<in> set (decoded_memories st i) \<Longrightarrow> smc_Epoch s = 0"
  by (auto simp: raw_no_epoch_def no_epoch_def decoded_memories_def kv_from_def map_filter_def)

lemma merkle_root_step:
  assumes "raw_no_epoch st" "epoch \<noteq> 0"
  shows "ComputeAndStoreEpochMerkleRoot K st i epoch =
    st\<lparr>ms_merkle := kv_set (merkleKey i epoch) (empty_root i epoch) (ms_merkle st)\<rparr>"
proof -
  have "filter (\<lambda>stored. smc_Epoch stored = epoch) (decoded_memories st i) = []"
    using decoded_no_epoch [OF assms(1), of _ i] assms(2) by (auto simp: filter_empty_conv)
  then show ?thesis
    by (simp add: ComputeAndStoreEpochMerkleRoot_def ComputeMerkleRoot_def empty_root_def)
qed

lemma raw_no_epoch_root:
  assumes "raw_no_epoch st" "length i < 2 ^ 63"
  shows "raw_no_epoch (st\<lparr>ms_merkle := kv_set k (empty_root i epoch) (ms_merkle st)\<rparr>)"
proof -
  let ?f = "\<lambda>(k, v). (k, marshal (StoredEpochMerkleRoot_fields v))"
  have "list_all field_legal (StoredEpochMerkleRoot_fields (empty_root i epoch))"
    using assms(2) by (simp add: StoredEpochMerkleRoot_fields_def empty_root_def)
  then have "no_epoch (snd (?f (k, empty_root i epoch)))"
    using no_epoch_record [OF _ no_epoch_fields(2)] by simp
  moreover have "set (memory_raw (st\<lparr>ms_merkle := kv_set k (empty_root i epoch) (ms_merkle st)\<rparr>)) \<subseteq>
      insert (?f (k, empty_root i epoch)) (set (memory_raw st))"
    using image_mono [OF set_kv_set_subset [of k "empty_root i epoch" "ms_merkle st"], of ?f]
    unfolding memory_raw_def set_append set_map by (simp, blast)
  ultimately show ?thesis using assms(1) unfolding raw_no_epoch_def by blast
qed

lemma merkle_loop_empty:
  assumes "raw_no_epoch st" "epoch \<noteq> 0" "\<forall>i\<in>set is. length i < 2 ^ 63"
  shows "i \<in> set is \<or> kv_get (ms_merkle st) (merkleKey i epoch) = Some (empty_root i epoch) \<Longrightarrow>
    kv_get (ms_merkle (foldl (\<lambda>s orgID. ComputeAndStoreEpochMerkleRoot K s orgID epoch) st is)) (merkleKey i epoch) =
      Some (empty_root i epoch)"
  using assms
proof (induction "is" arbitrary: st)
  case (Cons j js)
  let ?st = "st\<lparr>ms_merkle := kv_set (merkleKey j epoch) (empty_root j epoch) (ms_merkle st)\<rparr>"
  have "raw_no_epoch ?st" using raw_no_epoch_root Cons.prems by simp
  moreover have "i \<in> set js \<or> kv_get (ms_merkle ?st) (merkleKey i epoch) = Some (empty_root i epoch)"
    using Cons.prems(1) by (auto simp: kv_get_set)
  ultimately show ?case
    using Cons.IH [of ?st] Cons.prems by (simp add: merkle_root_step)
qed simp

lemma org_of_key:
  assumes "memory_ok (k, m)"
  shows "length (takeWhile (\<lambda>c. c \<noteq> CHR ''/'') (drop (length ''approved/'') k)) \<le> length (smc_OrgId m)"
    and "CHR ''/'' \<notin> set (smc_OrgId m) \<Longrightarrow>
      takeWhile (\<lambda>c. c \<noteq> CHR ''/'') (drop (length ''approved/'') k) = smc_OrgId m"
proof -
  have k: "drop (length ''approved/'') k = smc_OrgId m @ CHR ''/'' # ContentHashToHex (smc_ContentHash m)"
    using assms by (simp add: memory_ok_def approvedKey_def)
  show "length (takeWhile (\<lambda>c. c \<noteq> CHR ''/'') (drop (length ''approved/'') k)) \<le> length (smc_OrgId m)"
    unfolding k by (induction "smc_OrgId m") (auto simp: takeWhile_append length_takeWhile_le)
  show "takeWhile (\<lambda>c. c \<noteq> CHR ''/'') (drop (length ''approved/'') k) = smc_OrgId m"
    if "CHR ''/'' \<notin> set (smc_OrgId m)"
    unfolding k using that by (subst takeWhile_append2) auto
qed

lemma getAllOrgsWithMemories_sizes:
  assumes "approved_ok (ms_approved st)"
    "list_all (\<lambda>e. list_all field_legal (StoredMemoryCommitment_fields (snd e))) (ms_approved st)"
    "i \<in> set (getAllOrgsWithMemories st)"
  shows "length i < 2 ^ 63"
proof -
  from assms(3) obtain k m where km: "(k, m) \<in> set (ms_approved st)"
    "i = takeWhile (\<lambda>c. c \<noteq> CHR ''/'') (drop (length ''approved/'') k)"
    by (auto simp: getAllOrgsWithMemories_def)
  have "memory_ok (k, m)" using assms(1) km(1) unfolding approved_ok_def by blast
  from org_of_key(1) [OF this] have "length i \<le> length (smc_OrgId m)" using km(2) by simp
  moreover have "list_all field_legal (bytes_field 1 (smc_OrgId m))"
    using list_all_entry [OF assms(2) km(1)] by (simp add: StoredMemoryCommitment_fields_def)
  ultimately show ?thesis by auto
qed

lemma getAllOrgsWithMemories_complete:
  assumes "memory_ok (k, m)" "(k, m) \<in> set (ms_approved st)" "CHR ''/'' \<notin> set (smc_OrgId m)" "smc_OrgId m \<noteq> []"
  shows "smc_OrgId m \<in> set (getAllOrgsWithMemories st)"
  using org_of_key(2) [OF assms(1,3)] assms(2,4) unfolding getAllOrgsWithMemories_def by force

lemma memory_AfterEpochEnd_unfold:
  assumes "approved_ok (ms_approved st)"
  obtains a v where "ages_to (ms_approved st) a"
    "memory_AfterEpochEnd K st ''wevibe_epoch'' n =
       foldl (\<lambda>s orgID. ComputeAndStoreEpochMerkleRoot K s orgID (word_of_int n))
         (st\<lparr>ms_epoch := Some (word_of_int n), ms_approved := a, ms_validity := v\<rparr>)
         (getAllOrgsWithMemories (st\<lparr>ms_epoch := Some (word_of_int n), ms_approved := a, ms_validity := v\<rparr>))"
proof -
  let ?st1 = "setCurrentEpoch st (word_of_int n)"
  have "approved_ok (ms_approved ?st1)" using assms by (simp add: setCurrentEpoch_def)
  from expire_all_props [OF this] obtain a v where av:
    "fst (CheckEpochExpiry ?st1 (word_of_int n)) = ?st1\<lparr>ms_approved := a, ms_validity := v\<rparr>"
    "ages_to (ms_approved ?st1) a"
    unfolding CheckEpochExpiry_def by blast
  then show thesis
    by (intro that [of a v]) (simp_all add: memory_AfterEpochEnd_def Let_def setCurrentEpoch_def)
qed

lemma ages_to_entry:
  assumes "ages_to t t'" "(k, s') \<in> set t'"
  obtains s where "(k, s) \<in> set t" "aged s s'"
proof -
  have "kv_ok t'" using assms(1) unfolding ages_to_def approved_ok_def by blast
  then have "kv_get t' k = Some s'" using assms(2) by (simp add: kv_get_iff)
  moreover have "rel_option aged (kv_get t k) (kv_get t' k)" using assms(1) unfolding ages_to_def by blast
  ultimately have "\<exists>s. kv_get t k = Some s \<and> aged s s'" by (cases "kv_get t k") simp_all
  then obtain s where "kv_get t k = Some s" "aged s s'" by blast
  then show thesis using that [OF kv_get_SomeD] by blast
qed

lemma aged_state_no_epoch:
  assumes "memory_inv st" "sizes_ok st" "ages_to (ms_approved st) a" "unat e < 2 ^ 59"
  shows "sizes_ok (st\<lparr>ms_epoch := Some e, ms_approved := a, ms_validity := v\<rparr>)"
    and "raw_no_epoch (st\<lparr>ms_epoch := Some e, ms_approved := a, ms_validity := v\<rparr>)"
proof -
  let ?st = "st\<lparr>ms_epoch := Some e, ms_approved := a, ms_validity := v\<rparr>"
  have legal: "list_all (\<lambda>e. list_all field_legal (StoredMemoryCommitment_fields (snd e))) (ms_approved st)"
    using assms(2) by (simp add: sizes_ok_def)
  have "list_all field_legal (StoredMemoryCommitment_fields s')" if "(k, s') \<in> set a" for k s'
    using ages_to_entry [OF assms(3) that] legal_aged list_all_entry [OF legal] by metis
  then have "list_all (\<lambda>e. list_all field_legal (StoredMemoryCommitment_fields (snd e))) a"
    by (auto simp: list_all_iff [of _ a])
  then show sizes: "sizes_ok ?st" using assms(2) by (simp add: sizes_ok_def)
  have "\<forall>e\<in>set a. memory_ok e" using assms(3) by (simp add: ages_to_def approved_ok_def)
  then have "list_all (\<lambda>e. smc_Epoch (snd e) = 0) a" by (simp add: list_all_iff memory_ok_def)
  moreover have "list_all (\<lambda>e. spc_SubmittedAtHeight (snd e) = 0) (ms_pending st)"
    using assms(1) by (simp add: memory_inv_def list_all_iff pending_ok_def)
  ultimately show "raw_no_epoch ?st" using sizes assms(4) by (intro raw_no_epoch_intro) simp_all
qed

text \<open>
  C37: The Merkle roots of the epoch hook commit to nothing.  In every reachable state whose records
  have lengths that Go values can have, the end of epoch \<open>n\<close> stores, for every organisation with an
  approved memory, the empty root with a memory count of zero: the root collects the memories whose
  epoch field is \<open>n\<close>, and that field is zero in every memory there is.
\<close>

theorem merkle_roots_empty:
  assumes "st = deliver_all memory_handle memory_genesis evs" and "sizes_ok st"
    and "0 < n" and "n < 2 ^ 59"
    and "GetApprovedMemory st i h = Inr m" and "CHR ''/'' \<notin> set i" and "i \<noteq> []"
  shows "GetEpochMerkleRoot (memory_AfterEpochEnd K st ''wevibe_epoch'' n) i (word_of_int n) =
    Inr \<lparr>emr_OrgID = i, emr_Epoch = word_of_int n, emr_MerkleRoot = [], emr_MemoryCount = 0\<rparr>"
proof -
  have inv: "memory_inv st" unfolding assms(1) by (rule memory_run_inv)
  then have ok: "approved_ok (ms_approved st)" by (simp add: memory_inv_def)
  define e :: u64 where "e = word_of_int n"
  have "uint e = n" using assms(3,4) by (simp add: e_def unsigned_of_int take_bit_int_eq_self_iff)
  then have "unat e = nat n" by (simp add: unat_eq_nat_uint)
  then have e: "unat e < 2 ^ 59" "e \<noteq> 0" using assms(3,4) by auto
  obtain a v where av: "ages_to (ms_approved st) a"
    "memory_AfterEpochEnd K st ''wevibe_epoch'' n =
       foldl (\<lambda>s orgID. ComputeAndStoreEpochMerkleRoot K s orgID e)
         (st\<lparr>ms_epoch := Some e, ms_approved := a, ms_validity := v\<rparr>)
         (getAllOrgsWithMemories (st\<lparr>ms_epoch := Some e, ms_approved := a, ms_validity := v\<rparr>))"
    using memory_AfterEpochEnd_unfold [OF ok, of K n] unfolding e_def by blast
  let ?st = "st\<lparr>ms_epoch := Some e, ms_approved := a, ms_validity := v\<rparr>"
  note ok' = aged_state_no_epoch [OF inv assms(2) av(1) e(1), of v]
  have oka: "approved_ok a" using av(1) by (simp add: ages_to_def)
  obtain s where s: "kv_get (ms_approved st) (approvedKey i h) = Some s"
    using assms(5) by (auto simp: GetApprovedMemory_def split: option.splits)
  moreover have "rel_option aged (kv_get (ms_approved st) (approvedKey i h)) (kv_get a (approvedKey i h))"
    using av(1) by (simp add: ages_to_def)
  ultimately obtain s' where s': "kv_get a (approvedKey i h) = Some s'" by (auto simp: option_rel_Some1)
  have ms': "memory_ok (approvedKey i h, s')" by (rule approved_okD [OF oka s'])
  then have "smc_OrgId s' = i" by (simp add: memory_ok_def)
  then have "i \<in> set (getAllOrgsWithMemories ?st)"
    using getAllOrgsWithMemories_complete [OF ms', of ?st] kv_get_SomeD [OF s'] assms(6,7) by simp
  moreover have "\<forall>j\<in>set (getAllOrgsWithMemories ?st). length j < 2 ^ 63"
    using getAllOrgsWithMemories_sizes [of ?st] oka ok'(1) by (simp add: sizes_ok_def)
  ultimately have "kv_get (ms_merkle (memory_AfterEpochEnd K st ''wevibe_epoch'' n)) (merkleKey i e) =
      Some (empty_root i e)"
    unfolding av(2) using merkle_loop_empty [OF ok'(2) e(2)] by blast
  then show ?thesis by (simp add: GetEpochMerkleRoot_def empty_root_def e_def)
qed

lemma length_ex_contributor: "length ex_contributor = 64"
  by (simp add: ex_contributor_def length_concat sum_list_replicate)

theorem merkle_roots_empty_witness:
  "GetEpochMerkleRoot (memory_AfterEpochEnd ex_mem_sdk (deliver_all memory_handle memory_genesis ex_evs) ''wevibe_epoch'' 1)
     ''o'' 1 = Inr \<lparr>emr_OrgID = ''o'', emr_Epoch = 1, emr_MerkleRoot = [], emr_MemoryCount = 0\<rparr>"
proof -
  have "\<exists>m. GetApprovedMemory (deliver_all memory_handle memory_genesis ex_evs) ''o'' ex_hash = Inr m"
    by (simp add: ex_evs_def ex_submit_ok) (simp add: ex_mem_defs approve_eval GetApprovedMemory_def)
  then obtain m where "GetApprovedMemory (deliver_all memory_handle memory_genesis ex_evs) ''o'' ex_hash = Inr m" ..
  moreover have "sizes_ok (deliver_all memory_handle memory_genesis ex_evs)"
    by (simp add: ex_evs_def ex_submit_ok)
      (simp add: ex_mem_defs approve_eval sizes_ok_def memoryToStored_def StoredMemoryCommitment_fields_def
        repeated_bytes_field_def length_ex_contributor kv_del_def)
  ultimately show ?thesis
    using merkle_roots_empty [OF refl, of ex_evs 1 "''o''" ex_hash m ex_mem_sdk] by simp
qed

end
