(* ===== verification/Serve_Types.thy ===== *)
theory Serve_Types
  imports Memory
begin

section \<open>Serve: records, canonical texts and fingerprints (x/serve/types)\<close>

text \<open>
  The messages' entries, the stored records and their conversions, the texts that consumers sign
  and the fingerprints under which serves, denials and events are counted once.
\<close>

subsection \<open>Data\<close>

definition FingerprintLen :: nat where "FingerprintLen = 32"
definition ServePubKeyLen :: nat where "ServePubKeyLen = 32"
definition ServeSigLen :: nat where "ServeSigLen = 64"

definition EventType_EVENT_TYPE_SERVE :: i32 where "EventType_EVENT_TYPE_SERVE = 1"
definition EventType_EVENT_TYPE_BLOCK :: i32 where "EventType_EVENT_TYPE_BLOCK = 2"
definition EventType_EVENT_TYPE_OUTCOME :: i32 where "EventType_EVENT_TYPE_OUTCOME = 3"
definition EventType_EVENT_TYPE_CONTEST :: i32 where "EventType_EVENT_TYPE_CONTEST = 4"
definition EventType_EVENT_TYPE_SPONSORSHIP :: i32 where "EventType_EVENT_TYPE_SPONSORSHIP = 5"
definition EventType_EVENT_TYPE_VALIDITY_PREDICATE :: i32 where
  "EventType_EVENT_TYPE_VALIDITY_PREDICATE = 6"
definition EventType_EVENT_TYPE_COST_TO_DISCOVER :: i32 where
  "EventType_EVENT_TYPE_COST_TO_DISCOVER = 7"
definition EventType_EVENT_TYPE_CONVERGENCE :: i32 where "EventType_EVENT_TYPE_CONVERGENCE = 8"

lemmas event_type_defs = EventType_EVENT_TYPE_SERVE_def EventType_EVENT_TYPE_BLOCK_def
  EventType_EVENT_TYPE_OUTCOME_def EventType_EVENT_TYPE_CONTEST_def
  EventType_EVENT_TYPE_SPONSORSHIP_def EventType_EVENT_TYPE_VALIDITY_PREDICATE_def
  EventType_EVENT_TYPE_COST_TO_DISCOVER_def EventType_EVENT_TYPE_CONVERGENCE_def

record OutcomeEventBody =
  oeb_EpisodeRef :: bytes
  oeb_EvidenceRef :: bytes
  oeb_ServeRef :: bytes
  oeb_Resolution :: i32
  oeb_Source :: i32

record ValidityPredicateEventBody =
  vpb_PredicateId :: bytes
  vpb_Result :: i32
  vpb_EvidenceRef :: bytes

record CostToDiscoverEventBody =
  cdb_Cycles :: u64
  cdb_ToolCalls :: u64
  cdb_AttemptsToGreen :: u32
  cdb_EvidenceRef :: bytes

record ConvergenceEventBody =
  cvb_ConvergenceRef :: bytes

text \<open>The \<open>oneof body\<close> of an event.\<close>

datatype EventBody =
    Body_Outcome OutcomeEventBody
  | Body_ValidityPredicate ValidityPredicateEventBody
  | Body_CostToDiscover CostToDiscoverEventBody
  | Body_Convergence ConvergenceEventBody

record EventEntry =
  ee_EventType :: i32
  ee_MemoryContentHash :: bytes
  ee_SignerPubkey :: bytes
  ee_Nonce :: bytes
  ee_Signature :: bytes
  ee_Body :: "EventBody option"

definition GetOutcome :: "EventEntry \<Rightarrow> OutcomeEventBody option" where
  "GetOutcome entry = (case ee_Body entry of Some (Body_Outcome b) \<Rightarrow> Some b | _ \<Rightarrow> None)"

definition GetValidityPredicate :: "EventEntry \<Rightarrow> ValidityPredicateEventBody option" where
  "GetValidityPredicate entry =
     (case ee_Body entry of Some (Body_ValidityPredicate b) \<Rightarrow> Some b | _ \<Rightarrow> None)"

definition GetCostToDiscover :: "EventEntry \<Rightarrow> CostToDiscoverEventBody option" where
  "GetCostToDiscover entry =
     (case ee_Body entry of Some (Body_CostToDiscover b) \<Rightarrow> Some b | _ \<Rightarrow> None)"

definition GetConvergence :: "EventEntry \<Rightarrow> ConvergenceEventBody option" where
  "GetConvergence entry =
     (case ee_Body entry of Some (Body_Convergence b) \<Rightarrow> Some b | _ \<Rightarrow> None)"

record StoredEvent =
  sev_OrgId :: string
  sev_Epoch :: u64
  sev_EventType :: i32
  sev_MemoryContentHash :: bytes
  sev_SignerPubkey :: bytes
  sev_Nonce :: bytes
  sev_Signature :: bytes
  sev_Fingerprint :: bytes
  sev_Body :: "EventBody option"

record StoredPolicyAnchor =
  spa_PolicyVersion :: string
  spa_PolicyHash :: bytes
  spa_AnchoredAtEpoch :: u64
  spa_AnchoredAtHeight :: int

record ServeEntry =
  se_MemoryContentHash :: bytes
  se_ContributorId :: string
  se_ModelId :: string
  se_TurnCount :: u32
  se_ContributorWallet :: string
  se_ServeKeyPubkey :: bytes
  se_ServeSig :: bytes
  se_Nonce :: bytes
  se_EpisodeRef :: bytes

record DenialEntry =
  dne_MemoryHash :: bytes
  dne_Reason :: string
  dne_ServeKeyPubkey :: bytes
  dne_ServeSig :: bytes
  dne_ServeFingerprint :: bytes
  dne_Nonce :: bytes
  dne_NegAnchor :: bytes

record ServeReceipt =
  sr_OrgID :: string
  sr_ContentHash :: bytes
  sr_ServeKey :: string
  sr_ServeKeyPubkey :: bytes
  sr_ContributorID :: string
  sr_Epoch :: u64
  sr_Fingerprint :: bytes
  sr_IsSelfServe :: bool
  sr_ModelID :: string
  sr_TurnCount :: u32
  sr_EpisodeRef :: bytes

definition NewServeReceipt ::
  "string \<Rightarrow> bytes \<Rightarrow> string \<Rightarrow> bytes \<Rightarrow> string \<Rightarrow> u64 \<Rightarrow> bytes \<Rightarrow> bool \<Rightarrow> string \<Rightarrow> u32 \<Rightarrow> bytes \<Rightarrow> ServeReceipt" where
  "NewServeReceipt orgID contentHash serveKey serveKeyPubkey contributorID epoch fingerprint isSelfServe
     modelID turnCount episodeRef = \<lparr>
       sr_OrgID = orgID, sr_ContentHash = contentHash, sr_ServeKey = serveKey,
       sr_ServeKeyPubkey = serveKeyPubkey, sr_ContributorID = contributorID, sr_Epoch = epoch,
       sr_Fingerprint = fingerprint, sr_IsSelfServe = isSelfServe, sr_ModelID = modelID,
       sr_TurnCount = turnCount, sr_EpisodeRef = episodeRef\<rparr>"

definition ServeReceipt_Validate :: "ServeReceipt \<Rightarrow> check" where
  "ServeReceipt_Validate sr =
     (if sr_OrgID sr = [] then Inl (E_serve Srv_ErrInvalidOrgID)
      else if length (sr_ContentHash sr) \<noteq> ContentHashLen then Inl (E_serve Srv_ErrInvalidContentHash)
      else if sr_ServeKey sr = [] then Inl (E_serve Srv_ErrInvalidServeKey)
      else if sr_ContributorID sr = [] then Inl (E_serve Srv_ErrInvalidContributor)
      else if length (sr_ServeKeyPubkey sr) \<noteq> ServePubKeyLen then Inl (E_serve Srv_ErrInvalidServeKeyPubkey)
      else if length (sr_Fingerprint sr) \<noteq> FingerprintLen then Inl (E_serve Srv_ErrInvalidServeFingerprint)
      else Inr ())"

record StoredServeReceipt =
  ssr_OrgId :: string
  ssr_MemoryContentHash :: bytes
  ssr_ContributorId :: string
  ssr_Epoch :: u64
  ssr_IsSelfServe :: bool
  ssr_ModelId :: string
  ssr_TurnCount :: u32
  ssr_ServeKeyPubkey :: bytes
  ssr_Fingerprint :: bytes
  ssr_EpisodeRef :: bytes

record StoredDenialReceipt =
  sdr_OrgId :: string
  sdr_MemoryHash :: bytes
  sdr_DenyKey :: string
  sdr_Reason :: string
  sdr_Epoch :: u64
  sdr_ServeFingerprint :: bytes
  sdr_ServeKeyPubkey :: bytes
  sdr_NegAnchor :: bytes

text \<open>The map \<open>ModelBreakdown\<close> is a table; \<open>nil\<close> and the empty map are not told apart by the code.\<close>

record EpochServeStats =
  ess_OrgID :: string
  ess_Epoch :: u64
  ess_TotalServes :: u64
  ess_TotalDenials :: u64
  ess_UniqueMemoriesServed :: u64
  ess_UniqueServeKeys :: u64
  ess_SelfServes :: u64
  ess_ModelBreakdown :: "u64 kv"

definition NewEpochServeStats :: "string \<Rightarrow> u64 \<Rightarrow> EpochServeStats" where
  "NewEpochServeStats orgID epoch = \<lparr>
     ess_OrgID = orgID, ess_Epoch = epoch, ess_TotalServes = 0, ess_TotalDenials = 0,
     ess_UniqueMemoriesServed = 0, ess_UniqueServeKeys = 0, ess_SelfServes = 0, ess_ModelBreakdown = []\<rparr>"

record StoredEpochServeStats =
  ses_OrgId :: string
  ses_Epoch :: u64
  ses_TotalServes :: u64
  ses_UniqueMemoriesServed :: u64
  ses_UniqueServeKeys :: u64
  ses_SelfServes :: u64
  ses_ModelBreakdown :: "u64 kv"
  ses_TotalDenials :: u64

record ContributorEpochServes =
  ces_ContributorID :: string
  ces_Epoch :: u64
  ces_ServeCount :: u64
  ces_SelfServeCount :: u64
  ces_OrgIDs :: "string list"
  ces_TotalTurns :: u64

definition NewContributorEpochServes :: "string \<Rightarrow> u64 \<Rightarrow> ContributorEpochServes" where
  "NewContributorEpochServes contributorID epoch = \<lparr>
     ces_ContributorID = contributorID, ces_Epoch = epoch, ces_ServeCount = 0, ces_SelfServeCount = 0,
     ces_OrgIDs = [], ces_TotalTurns = 0\<rparr>"

definition AddOrgID :: "ContributorEpochServes \<Rightarrow> string \<Rightarrow> ContributorEpochServes" where
  "AddOrgID cs orgID =
     (if orgID \<in> set (ces_OrgIDs cs) then cs else cs\<lparr>ces_OrgIDs := ces_OrgIDs cs @ [orgID]\<rparr>)"

record StoredContributorEpochServes =
  sce_ContributorId :: string
  sce_Epoch :: u64
  sce_ServeCount :: u64
  sce_SelfServeCount :: u64
  sce_OrgIds :: "string list"
  sce_TotalTurns :: u64

definition ServeReceiptToStored :: "ServeReceipt \<Rightarrow> StoredServeReceipt" where
  "ServeReceiptToStored sr = \<lparr>
     ssr_OrgId = sr_OrgID sr, ssr_MemoryContentHash = sr_ContentHash sr,
     ssr_ContributorId = sr_ContributorID sr, ssr_Epoch = sr_Epoch sr, ssr_IsSelfServe = sr_IsSelfServe sr,
     ssr_ModelId = sr_ModelID sr, ssr_TurnCount = sr_TurnCount sr, ssr_ServeKeyPubkey = sr_ServeKeyPubkey sr,
     ssr_Fingerprint = sr_Fingerprint sr, ssr_EpisodeRef = sr_EpisodeRef sr\<rparr>"

definition StoredToServeReceipt :: "StoredServeReceipt \<Rightarrow> ServeReceipt" where
  "StoredToServeReceipt stored = \<lparr>
     sr_OrgID = ssr_OrgId stored, sr_ContentHash = ssr_MemoryContentHash stored,
     sr_ServeKey = hex_encode (ssr_ServeKeyPubkey stored), sr_ServeKeyPubkey = ssr_ServeKeyPubkey stored,
     sr_ContributorID = ssr_ContributorId stored, sr_Epoch = ssr_Epoch stored,
     sr_Fingerprint = ssr_Fingerprint stored, sr_IsSelfServe = ssr_IsSelfServe stored,
     sr_ModelID = ssr_ModelId stored, sr_TurnCount = ssr_TurnCount stored,
     sr_EpisodeRef = ssr_EpisodeRef stored\<rparr>"

definition EpochServeStatsToStored :: "EpochServeStats \<Rightarrow> StoredEpochServeStats" where
  "EpochServeStatsToStored es = \<lparr>
     ses_OrgId = ess_OrgID es, ses_Epoch = ess_Epoch es, ses_TotalServes = ess_TotalServes es,
     ses_UniqueMemoriesServed = ess_UniqueMemoriesServed es, ses_UniqueServeKeys = ess_UniqueServeKeys es,
     ses_SelfServes = ess_SelfServes es, ses_ModelBreakdown = ess_ModelBreakdown es,
     ses_TotalDenials = ess_TotalDenials es\<rparr>"

definition StoredToEpochServeStats :: "StoredEpochServeStats \<Rightarrow> EpochServeStats" where
  "StoredToEpochServeStats stored = \<lparr>
     ess_OrgID = ses_OrgId stored, ess_Epoch = ses_Epoch stored, ess_TotalServes = ses_TotalServes stored,
     ess_TotalDenials = ses_TotalDenials stored, ess_UniqueMemoriesServed = ses_UniqueMemoriesServed stored,
     ess_UniqueServeKeys = ses_UniqueServeKeys stored, ess_SelfServes = ses_SelfServes stored,
     ess_ModelBreakdown = ses_ModelBreakdown stored\<rparr>"

definition ContributorEpochServesToStored :: "ContributorEpochServes \<Rightarrow> StoredContributorEpochServes" where
  "ContributorEpochServesToStored cs = \<lparr>
     sce_ContributorId = ces_ContributorID cs, sce_Epoch = ces_Epoch cs, sce_ServeCount = ces_ServeCount cs,
     sce_SelfServeCount = ces_SelfServeCount cs, sce_OrgIds = ces_OrgIDs cs, sce_TotalTurns = ces_TotalTurns cs\<rparr>"

definition StoredToContributorEpochServes :: "StoredContributorEpochServes \<Rightarrow> ContributorEpochServes" where
  "StoredToContributorEpochServes stored = \<lparr>
     ces_ContributorID = sce_ContributorId stored, ces_Epoch = sce_Epoch stored,
     ces_ServeCount = sce_ServeCount stored, ces_SelfServeCount = sce_SelfServeCount stored,
     ces_OrgIDs = sce_OrgIds stored, ces_TotalTurns = sce_TotalTurns stored\<rparr>"

record serve_Params =
  svp_MaxServesPerBatch :: u32
  svp_SelfServeDiscountPercent :: u32
  svp_MaxServesPerMemoryPerEpoch :: u32
  svp_MinOrgAgeEpochs :: u64
  svp_DiminishingReturnsThreshold :: u64

definition serve_DefaultParams :: serve_Params where
  "serve_DefaultParams = \<lparr>
     svp_MaxServesPerBatch = 500, svp_SelfServeDiscountPercent = 50, svp_MaxServesPerMemoryPerEpoch = 100,
     svp_MinOrgAgeEpochs = 1, svp_DiminishingReturnsThreshold = 10\<rparr>"

definition serve_Params_Validate :: "serve_Params \<Rightarrow> check" where
  "serve_Params_Validate p = Inr ()"

subsection \<open>Canonical texts and fingerprints\<close>

definition CanonicalServeBody :: "string \<Rightarrow> bytes \<Rightarrow> u64 \<Rightarrow> bytes \<Rightarrow> bytes \<Rightarrow> bytes \<Rightarrow> bytes" where
  "CanonicalServeBody orgID memoryHash epoch serveKeyPubkey nonce episodeRef = join_lines [
     ''wevibe-serve-v3'', orgID, hex_encode memoryHash, FormatUint epoch, hex_encode serveKeyPubkey,
     hex_encode nonce, hex_encode episodeRef]"

definition predicateResultToken :: "i32 \<Rightarrow> string result" where
  "predicateResultToken r =
     (if r = 1 then Inr ''pass'' else if r = 2 then Inr ''fail'' else if r = 3 then Inr ''absent''
      else Inl (Errorf ''predicate result must be pass, fail, or absent''))"

definition outcomeResolutionToken :: "i32 \<Rightarrow> string result" where
  "outcomeResolutionToken r =
     (if r = 1 then Inr ''worked'' else if r = 2 then Inr ''didnt_work'' else if r = 3 then Inr ''unobserved''
      else Inl (Errorf ''outcome resolution must be worked, didnt_work, or unobserved''))"

definition outcomeSourceToken :: "i32 \<Rightarrow> string result" where
  "outcomeSourceToken s =
     (if s = 1 then Inr ''harvested'' else if s = 2 then Inr ''user''
      else Inl (Errorf ''outcome source must be harvested or user''))"

definition canonicalEventSpecificLines :: "i32 \<Rightarrow> EventEntry \<Rightarrow> (string \<times> string list) result" where
  "canonicalEventSpecificLines eventType entry =
     (if eventType = EventType_EVENT_TYPE_OUTCOME then
        (case GetOutcome entry of
           None \<Rightarrow> Inl (Errorf ''outcome event body is required'')
         | Some body \<Rightarrow>
             (case outcomeResolutionToken (oeb_Resolution body) of
                Inl e \<Rightarrow> Inl e
              | Inr resolution \<Rightarrow>
                  (case outcomeSourceToken (oeb_Source body) of
                     Inl e \<Rightarrow> Inl e
                   | Inr source \<Rightarrow> Inr (''outcome'', [
                       hex_encode (oeb_EpisodeRef body), hex_encode (oeb_EvidenceRef body),
                       hex_encode (oeb_ServeRef body), ''resolution='' @ resolution, ''source='' @ source]))))
      else if eventType = EventType_EVENT_TYPE_VALIDITY_PREDICATE then
        (case GetValidityPredicate entry of
           None \<Rightarrow> Inl (Errorf ''validity_predicate event body is required'')
         | Some body \<Rightarrow>
             (case predicateResultToken (vpb_Result body) of
                Inl e \<Rightarrow> Inl e
              | Inr r \<Rightarrow> Inr (''validity_predicate'', [
                  hex_encode (vpb_PredicateId body), ''result='' @ r, hex_encode (vpb_EvidenceRef body)])))
      else if eventType = EventType_EVENT_TYPE_COST_TO_DISCOVER then
        (case GetCostToDiscover entry of
           None \<Rightarrow> Inl (Errorf ''cost_to_discover event body is required'')
         | Some body \<Rightarrow> Inr (''cost_to_discover'', [
             ''cycles='' @ FormatUint (cdb_Cycles body), ''tool_calls='' @ FormatUint (cdb_ToolCalls body),
             ''attempts_to_green='' @ FormatUint (ucast (cdb_AttemptsToGreen body)),
             hex_encode (cdb_EvidenceRef body)]))
      else if eventType = EventType_EVENT_TYPE_CONVERGENCE then
        (case GetConvergence entry of
           None \<Rightarrow> Inl (Errorf ''convergence event body is required'')
         | Some body \<Rightarrow> Inr (''convergence'', [hex_encode (cvb_ConvergenceRef body)]))
      else Inl (E_serve Srv_ErrInvalidEventType))"

definition CanonicalEventBody ::
  "i32 \<Rightarrow> string \<Rightarrow> bytes \<Rightarrow> u64 \<Rightarrow> bytes \<Rightarrow> bytes \<Rightarrow> EventEntry option \<Rightarrow> bytes result" where
  "CanonicalEventBody eventType orgID memoryHash epoch signerPubkey nonce entry =
     (case entry of
        None \<Rightarrow> Inl (Errorf ''event entry body is required'')
      | Some entry \<Rightarrow>
          (case canonicalEventSpecificLines eventType entry of
             Inl e \<Rightarrow> Inl e
           | Inr (token, specific) \<Rightarrow> Inr (join_lines ([
               ''wevibe-event-v1'', token, orgID, hex_encode memoryHash, FormatUint epoch,
               hex_encode signerPubkey] @ specific @ [hex_encode nonce]))))"

definition CanonicalDenialBody :: "string \<Rightarrow> bytes \<Rightarrow> u64 \<Rightarrow> bytes \<Rightarrow> bytes \<Rightarrow> bytes \<Rightarrow> bytes" where
  "CanonicalDenialBody orgID memoryHash epoch serveKeyPubkey serveFingerprint nonce = join_lines [
     ''wevibe-denial-v1'', orgID, hex_encode memoryHash, FormatUint epoch, hex_encode serveKeyPubkey,
     hex_encode serveFingerprint, hex_encode nonce]"

definition ComputeServeFingerprint :: "'x sdk \<Rightarrow> bytes \<Rightarrow> bytes \<Rightarrow> u64 \<Rightarrow> bytes" where
  "ComputeServeFingerprint K memoryHash servePubkey epoch =
     sha256_Sum256 K (memoryHash @ servePubkey @ be_uint64 epoch)"

definition ComputeDenialFingerprint :: "'x sdk \<Rightarrow> string \<Rightarrow> bytes \<Rightarrow> u64 \<Rightarrow> bytes \<Rightarrow> bytes \<Rightarrow> bytes" where
  "ComputeDenialFingerprint K orgID memoryHash epoch servePubkey serveFingerprint =
     sha256_Sum256 K (CanonicalDenialBody orgID memoryHash epoch servePubkey serveFingerprint [])"

definition ComputeEventFingerprint :: "'x sdk \<Rightarrow> bytes \<Rightarrow> bytes" where
  "ComputeEventFingerprint K body = sha256_Sum256 K body"

end
