(* ===== verification/Serve.thy ===== *)
theory Serve
  imports Serve_Types Bandwidth
begin

section \<open>Serve: receipts, denials, events and policy anchors (x/serve)\<close>

text \<open>
  An organisation's hub submits batches of serves, denials and events that consumers signed with
  their serve keys; governance anchors versions of the edge policy.  The keeper, the five messages,
  genesis import and the queries of \<open>x/serve\<close>.  The keepers of \<open>x/org\<close>, \<open>x/memory\<close>,
  \<open>x/bandwidth\<close> and \<open>x/reputation\<close> are their states.
\<close>

subsection \<open>State\<close>

record serve_state =
  svs_contributors :: "StoredContributorEpochServes kv"
  svs_denials :: "StoredDenialReceipt kv"
  svs_denycounts :: "u64 kv"
  svs_denyfps :: "bytes kv"
  svs_events :: "StoredEvent kv"
  svs_eventfps :: "bytes kv"
  svs_fingerprints :: "bytes kv"
  svs_keyfirst :: "bytes kv"
  svs_memcounts :: "u64 kv"
  svs_memfirst :: "bytes kv"
  svs_params :: "serve_Params option"
  svs_anchors :: "StoredPolicyAnchor kv"
  svs_latest_anchor :: "bytes option"
  svs_receipts :: "StoredServeReceipt kv"
  svs_stats :: "StoredEpochServeStats kv"

definition serve_empty :: serve_state where
  "serve_empty = \<lparr>
     svs_contributors = [], svs_denials = [], svs_denycounts = [], svs_denyfps = [], svs_events = [],
     svs_eventfps = [], svs_fingerprints = [], svs_keyfirst = [], svs_memcounts = [], svs_memfirst = [],
     svs_params = None, svs_anchors = [], svs_latest_anchor = None, svs_receipts = [], svs_stats = []\<rparr>"

definition serveFingerprintKey :: "bytes \<Rightarrow> bytes" where
  "serveFingerprintKey fingerprint = ''fingerprint/'' @ ContentHashToHex fingerprint"

definition denialFingerprintKey :: "bytes \<Rightarrow> bytes" where
  "denialFingerprintKey fingerprint = ''denyfingerprint/'' @ ContentHashToHex fingerprint"

definition receiptKey :: "string \<Rightarrow> u64 \<Rightarrow> bytes \<Rightarrow> bytes" where
  "receiptKey orgID epoch fingerprint =
     ''receipt/'' @ orgID @ ''/'' @ FormatUint epoch @ ''/'' @ ContentHashToHex fingerprint"

definition denialReceiptKey :: "string \<Rightarrow> u64 \<Rightarrow> bytes \<Rightarrow> bytes" where
  "denialReceiptKey orgID epoch fingerprint =
     ''denial/'' @ orgID @ ''/'' @ FormatUint epoch @ ''/'' @ ContentHashToHex fingerprint"

definition eventKey :: "string \<Rightarrow> u64 \<Rightarrow> bytes \<Rightarrow> bytes" where
  "eventKey orgID epoch fingerprint =
     ''event/'' @ orgID @ ''/'' @ FormatUint epoch @ ''/'' @ ContentHashToHex fingerprint"

definition eventPrefix :: "string \<Rightarrow> u64 \<Rightarrow> bytes" where
  "eventPrefix orgID epoch = ''event/'' @ orgID @ ''/'' @ FormatUint epoch @ ''/''"

definition eventFingerprintKey :: "bytes \<Rightarrow> bytes" where
  "eventFingerprintKey fingerprint = ''eventfp/'' @ ContentHashToHex fingerprint"

definition policyAnchorKey :: "string \<Rightarrow> bytes" where
  "policyAnchorKey policyVersion = ''policy_anchor/'' @ policyVersion"

definition serve_statsKey :: "string \<Rightarrow> u64 \<Rightarrow> bytes" where
  "serve_statsKey orgID epoch = ''stats/'' @ orgID @ ''/'' @ FormatUint epoch"

definition contributorKey :: "string \<Rightarrow> u64 \<Rightarrow> bytes" where
  "contributorKey contributorID epoch = ''contributor/'' @ contributorID @ ''/'' @ FormatUint epoch"

definition memCountKey :: "string \<Rightarrow> bytes \<Rightarrow> u64 \<Rightarrow> bytes" where
  "memCountKey orgID contentHash epoch =
     ''memcount/'' @ orgID @ ''/'' @ ContentHashToHex contentHash @ ''/'' @ FormatUint epoch"

definition denialCountKey :: "string \<Rightarrow> bytes \<Rightarrow> u64 \<Rightarrow> bytes" where
  "denialCountKey orgID contentHash epoch =
     ''denycount/'' @ orgID @ ''/'' @ ContentHashToHex contentHash @ ''/'' @ FormatUint epoch"

definition memFirstKey :: "string \<Rightarrow> bytes \<Rightarrow> u64 \<Rightarrow> bytes" where
  "memFirstKey orgID contentHash epoch =
     ''memfirst/'' @ orgID @ ''/'' @ ContentHashToHex contentHash @ ''/'' @ FormatUint epoch"

definition keyFirstKey :: "string \<Rightarrow> string \<Rightarrow> u64 \<Rightarrow> bytes" where
  "keyFirstKey orgID serveKey epoch =
     ''keyfirst/'' @ orgID @ ''/'' @ serveKey @ ''/'' @ FormatUint epoch"

definition present_mark :: bytes where
  "present_mark = [char_of (1 :: nat)]"

definition serve_SetParams :: "serve_Params \<Rightarrow> serve_state \<Rightarrow> serve_state" where
  "serve_SetParams p st = st\<lparr>svs_params := Some p\<rparr>"

definition serve_GetParams :: "serve_state \<Rightarrow> serve_Params" where
  "serve_GetParams st = (case svs_params st of None \<Rightarrow> serve_DefaultParams | Some p \<Rightarrow> p)"

subsection \<open>Fingerprints, counters and statistics\<close>

definition HasServeFingerprint :: "serve_state \<Rightarrow> bytes \<Rightarrow> bool" where
  "HasServeFingerprint st fingerprint = kv_has (svs_fingerprints st) (serveFingerprintKey fingerprint)"

definition HasDenialFingerprint :: "serve_state \<Rightarrow> bytes \<Rightarrow> bool" where
  "HasDenialFingerprint st fingerprint = kv_has (svs_denyfps st) (denialFingerprintKey fingerprint)"

text \<open>The index holds the key of a receipt.\<close>

definition GetServeReceiptByFingerprint :: "serve_state \<Rightarrow> bytes \<Rightarrow> StoredServeReceipt option" where
  "GetServeReceiptByFingerprint st fingerprint =
     (case kv_get (svs_fingerprints st) (serveFingerprintKey fingerprint) of
        None \<Rightarrow> None
      | Some receiptStoreKey \<Rightarrow>
          if receiptStoreKey = [] then None else kv_get (svs_receipts st) receiptStoreKey)"

definition StoreDenialReceipt ::
  "serve_state \<Rightarrow> string \<Rightarrow> u64 \<Rightarrow> bytes \<Rightarrow> DenialEntry \<Rightarrow> serve_state" where
  "StoreDenialReceipt st orgID epoch denialFingerprint entry =
     st\<lparr>svs_denials := kv_set (denialReceiptKey orgID epoch denialFingerprint) \<lparr>
         sdr_OrgId = orgID, sdr_MemoryHash = dne_MemoryHash entry,
         sdr_DenyKey = hex_encode (dne_ServeKeyPubkey entry), sdr_Reason = dne_Reason entry,
         sdr_Epoch = epoch, sdr_ServeFingerprint = dne_ServeFingerprint entry,
         sdr_ServeKeyPubkey = dne_ServeKeyPubkey entry, sdr_NegAnchor = []\<rparr> (svs_denials st)\<rparr>"

definition GetMemoryServeCount :: "serve_state \<Rightarrow> string \<Rightarrow> bytes \<Rightarrow> u64 \<Rightarrow> u64" where
  "GetMemoryServeCount st orgID contentHash epoch =
     (case kv_get (svs_memcounts st) (memCountKey orgID contentHash epoch) of None \<Rightarrow> 0 | Some c \<Rightarrow> c)"

definition GetMemoryDenialCount :: "serve_state \<Rightarrow> string \<Rightarrow> bytes \<Rightarrow> u64 \<Rightarrow> u64" where
  "GetMemoryDenialCount st orgID contentHash epoch =
     (case kv_get (svs_denycounts st) (denialCountKey orgID contentHash epoch) of None \<Rightarrow> 0 | Some c \<Rightarrow> c)"

definition incrementMemoryServeCount :: "serve_state \<Rightarrow> string \<Rightarrow> bytes \<Rightarrow> u64 \<Rightarrow> serve_state" where
  "incrementMemoryServeCount st orgID contentHash epoch =
     (let key = memCountKey orgID contentHash epoch;
          count = (case kv_get (svs_memcounts st) key of None \<Rightarrow> 0 | Some c \<Rightarrow> c)
      in st\<lparr>svs_memcounts := kv_set key (count + 1) (svs_memcounts st)\<rparr>)"

definition IncrementDenialCount :: "serve_state \<Rightarrow> string \<Rightarrow> bytes \<Rightarrow> u64 \<Rightarrow> serve_state" where
  "IncrementDenialCount st orgID contentHash epoch =
     (let key = denialCountKey orgID contentHash epoch;
          count = (case kv_get (svs_denycounts st) key of None \<Rightarrow> 0 | Some c \<Rightarrow> c)
      in st\<lparr>svs_denycounts := kv_set key (count + 1) (svs_denycounts st)\<rparr>)"

definition GetEpochServeStats :: "serve_state \<Rightarrow> string \<Rightarrow> u64 \<Rightarrow> EpochServeStats result" where
  "GetEpochServeStats st orgID epoch =
     (case kv_get (svs_stats st) (serve_statsKey orgID epoch) of
        None \<Rightarrow> Inl (E_serve Srv_ErrStatsNotFound)
      | Some stored \<Rightarrow> Inr (StoredToEpochServeStats stored))"

text \<open>The opening and the closing of every update of the statistics.\<close>

definition load_epoch_stats :: "serve_state \<Rightarrow> string \<Rightarrow> u64 \<Rightarrow> EpochServeStats" where
  "load_epoch_stats st orgID epoch =
     (case GetEpochServeStats st orgID epoch of Inl e \<Rightarrow> NewEpochServeStats orgID epoch | Inr stats \<Rightarrow> stats)"

definition store_epoch_stats :: "serve_state \<Rightarrow> string \<Rightarrow> u64 \<Rightarrow> EpochServeStats \<Rightarrow> serve_state" where
  "store_epoch_stats st orgID epoch stats =
     st\<lparr>svs_stats := kv_set (serve_statsKey orgID epoch) (EpochServeStatsToStored stats) (svs_stats st)\<rparr>"

definition count_new_memory :: "serve_state \<Rightarrow> string \<Rightarrow> u64 \<Rightarrow> bytes \<Rightarrow> serve_state" where
  "count_new_memory st orgID epoch contentHash =
     (let memFirst = memFirstKey orgID contentHash epoch
      in if kv_has (svs_memfirst st) memFirst then st
         else let st = st\<lparr>svs_memfirst := kv_set memFirst present_mark (svs_memfirst st)\<rparr>;
                  stats = load_epoch_stats st orgID epoch
              in store_epoch_stats st orgID epoch
                   (stats\<lparr>ess_UniqueMemoriesServed := ess_UniqueMemoriesServed stats + 1\<rparr>))"

definition count_new_key :: "serve_state \<Rightarrow> string \<Rightarrow> u64 \<Rightarrow> string \<Rightarrow> serve_state" where
  "count_new_key st orgID epoch serveKey =
     (let keyFirst = keyFirstKey orgID serveKey epoch
      in if kv_has (svs_keyfirst st) keyFirst then st
         else let st = st\<lparr>svs_keyfirst := kv_set keyFirst present_mark (svs_keyfirst st)\<rparr>;
                  stats = load_epoch_stats st orgID epoch
              in store_epoch_stats st orgID epoch
                   (stats\<lparr>ess_UniqueServeKeys := ess_UniqueServeKeys stats + 1\<rparr>))"

definition count_serve :: "serve_state \<Rightarrow> string \<Rightarrow> u64 \<Rightarrow> bool \<Rightarrow> string \<Rightarrow> serve_state" where
  "count_serve st orgID epoch isSelfServe modelID =
     (let stats = load_epoch_stats st orgID epoch;
          stats = stats\<lparr>ess_TotalServes := ess_TotalServes stats + 1\<rparr>;
          stats = (if isSelfServe then stats\<lparr>ess_SelfServes := ess_SelfServes stats + 1\<rparr> else stats);
          stats = (if modelID \<noteq> [] then stats\<lparr>ess_ModelBreakdown := bump modelID (ess_ModelBreakdown stats)\<rparr>
                   else stats)
      in store_epoch_stats st orgID epoch stats)"

definition updateEpochStats ::
  "serve_state \<Rightarrow> string \<Rightarrow> u64 \<Rightarrow> bytes \<Rightarrow> string \<Rightarrow> bool \<Rightarrow> string \<Rightarrow> serve_state" where
  "updateEpochStats st orgID epoch contentHash serveKey isSelfServe modelID =
     count_serve (count_new_key (count_new_memory st orgID epoch contentHash) orgID epoch serveKey)
       orgID epoch isSelfServe modelID"

definition updateEpochDenialStats :: "serve_state \<Rightarrow> string \<Rightarrow> u64 \<Rightarrow> serve_state" where
  "updateEpochDenialStats st orgID epoch =
     (let stats = load_epoch_stats st orgID epoch
      in store_epoch_stats st orgID epoch (stats\<lparr>ess_TotalDenials := ess_TotalDenials stats + 1\<rparr>))"

definition updateContributorServes ::
  "serve_state \<Rightarrow> string \<Rightarrow> u64 \<Rightarrow> string \<Rightarrow> bool \<Rightarrow> u32 \<Rightarrow> serve_state" where
  "updateContributorServes st contributorID epoch orgID isSelfServe turnCount =
     (let key = contributorKey contributorID epoch;
          cs = (case kv_get (svs_contributors st) key of
                  Some stored \<Rightarrow> StoredToContributorEpochServes stored
                | None \<Rightarrow> NewContributorEpochServes contributorID epoch);
          cs = cs\<lparr>ces_ServeCount := ces_ServeCount cs + 1\<rparr>;
          cs = (if isSelfServe then cs\<lparr>ces_SelfServeCount := ces_SelfServeCount cs + 1\<rparr> else cs);
          cs = AddOrgID cs orgID;
          cs = cs\<lparr>ces_TotalTurns := ces_TotalTurns cs + ucast turnCount\<rparr>
      in st\<lparr>svs_contributors := kv_set key (ContributorEpochServesToStored cs) (svs_contributors st)\<rparr>)"

definition GetContributorEpochServes :: "serve_state \<Rightarrow> string \<Rightarrow> u64 \<Rightarrow> ContributorEpochServes result" where
  "GetContributorEpochServes st contributorID epoch =
     (case kv_get (svs_contributors st) (contributorKey contributorID epoch) of
        None \<Rightarrow> Inl (E_serve Srv_ErrContributorNotFound)
      | Some stored \<Rightarrow> Inr (StoredToContributorEpochServes stored))"

definition GetEpochServeStatsRaw :: "serve_state \<Rightarrow> string \<Rightarrow> u64 \<Rightarrow> (u64 \<times> u64 \<times> u64 \<times> u64 kv) result" where
  "GetEpochServeStatsRaw st orgID epoch =
     (case GetEpochServeStats st orgID epoch of
        Inl e \<Rightarrow> Inl e
      | Inr stats \<Rightarrow> Inr (ess_TotalServes stats, ess_UniqueMemoriesServed stats, ess_SelfServes stats,
          ess_ModelBreakdown stats))"

definition GetContributorEpochServesRaw ::
  "serve_state \<Rightarrow> string \<Rightarrow> u64 \<Rightarrow> (u64 \<times> u64 \<times> u64 \<times> string list) result" where
  "GetContributorEpochServesRaw st contributorID epoch =
     (case GetContributorEpochServes st contributorID epoch of
        Inl e \<Rightarrow> Inl e
      | Inr cs \<Rightarrow> Inr (ces_ServeCount cs, ces_SelfServeCount cs, ces_TotalTurns cs, ces_OrgIDs cs))"

subsection \<open>Batches of serves\<close>

text \<open>
  What a batch has done so far: the stores it writes and the three counters of the response.
\<close>

record batch =
  bt_serve :: serve_state
  bt_reputation :: reputation_state
  bt_accepted :: u64
  bt_duplicate :: u64
  bt_invalid :: u64

definition new_batch :: "serve_state \<Rightarrow> reputation_state \<Rightarrow> batch" where
  "new_batch st rs =
     \<lparr>bt_serve = st, bt_reputation = rs, bt_accepted = 0, bt_duplicate = 0, bt_invalid = 0\<rparr>"

definition reject_invalid :: "batch \<Rightarrow> batch" where
  "reject_invalid b = b\<lparr>bt_invalid := bt_invalid b + 1\<rparr>"

definition reject_duplicate :: "batch \<Rightarrow> batch" where
  "reject_duplicate b = b\<lparr>bt_duplicate := bt_duplicate b + 1\<rparr>"

text \<open>The writes for one accepted serve.\<close>

definition record_serve ::
  "serve_state \<Rightarrow> string \<Rightarrow> u64 \<Rightarrow> bytes \<Rightarrow> ServeEntry \<Rightarrow> serve_state" where
  "record_serve st orgID epoch serveFingerprint serve =
     (let serveKeyID = hex_encode (se_ServeKeyPubkey serve);
          isSelfServe = (serveKeyID = se_ContributorId serve);
          receipt = NewServeReceipt orgID (se_MemoryContentHash serve) serveKeyID (se_ServeKeyPubkey serve)
            (se_ContributorId serve) epoch serveFingerprint isSelfServe (se_ModelId serve)
            (se_TurnCount serve) (se_EpisodeRef serve);
          receiptStoreKey = receiptKey orgID epoch serveFingerprint;
          st = st\<lparr>
            svs_receipts := kv_set receiptStoreKey (ServeReceiptToStored receipt) (svs_receipts st),
            svs_fingerprints := kv_set (serveFingerprintKey serveFingerprint) receiptStoreKey (svs_fingerprints st)\<rparr>;
          st = incrementMemoryServeCount st orgID (se_MemoryContentHash serve) epoch;
          st = updateEpochStats st orgID epoch (se_MemoryContentHash serve) serveKeyID isSelfServe (se_ModelId serve)
      in updateContributorServes st (se_ContributorId serve) epoch orgID isSelfServe (se_TurnCount serve))"

text \<open>
  The reputation of the contributor of the stored memory; an error of the reputation keeper is
  logged and dropped.
\<close>

definition attribute_serve ::
  "memory_state \<Rightarrow> reputation_state \<Rightarrow> string \<Rightarrow> u64 \<Rightarrow> ServeEntry \<Rightarrow> reputation_state" where
  "attribute_serve ms rs orgID epoch serve =
     (case GetApprovedMemory ms orgID (se_MemoryContentHash serve) of
        Inl e \<Rightarrow> rs
      | Inr mem \<Rightarrow>
          if mc_Contributor mem = [] then rs
          else (case RecordServe rs (mc_Contributor mem) orgID epoch
                    (hex_encode (se_ServeKeyPubkey serve) = se_ContributorId serve) of
                  Inl e \<Rightarrow> rs | Inr rs' \<Rightarrow> rs'))"

definition process_serve ::
  "'x sdk \<Rightarrow> (bytes \<Rightarrow> (string \<times> string) list option) \<Rightarrow> memory_state \<Rightarrow> serve_Params \<Rightarrow> string \<Rightarrow> u64 \<Rightarrow>
   batch \<Rightarrow> ServeEntry \<Rightarrow> batch result" where
  "process_serve K parse_tags ms params orgID epoch b serve =
     (if length (se_ServeKeyPubkey serve) \<noteq> 32 \<or> length (se_ServeSig serve) \<noteq> 64 then Inr (reject_invalid b)
      else if \<not> ed25519_Verify K (se_ServeKeyPubkey serve)
          (CanonicalServeBody orgID (se_MemoryContentHash serve) epoch (se_ServeKeyPubkey serve)
             (se_Nonce serve) (se_EpisodeRef serve)) (se_ServeSig serve)
        then Inr (reject_invalid b)
      else
        let serveFingerprint = ComputeServeFingerprint K (se_MemoryContentHash serve) (se_ServeKeyPubkey serve) epoch
        in if HasServeFingerprint (bt_serve b) serveFingerprint then Inr (reject_duplicate b)
           else (case GetApprovedMemory ms orgID (se_MemoryContentHash serve) of
             Inl e \<Rightarrow> Inr (reject_invalid b)
           | Inr _ \<Rightarrow>
               (case IsValidInEpoch parse_tags ms orgID (ContentHashToHex (se_MemoryContentHash serve)) epoch of
                  Inl e \<Rightarrow> Inl e
                | Inr valid \<Rightarrow>
                    if \<not> valid then Inr (reject_invalid b)
                    else if GetMemoryServeCount (bt_serve b) orgID (se_MemoryContentHash serve) epoch
                        \<ge> ucast (svp_MaxServesPerMemoryPerEpoch params)
                      then Inr (reject_invalid b)
                    else Inr (b\<lparr>
                      bt_serve := record_serve (bt_serve b) orgID epoch serveFingerprint serve,
                      bt_accepted := bt_accepted b + 1,
                      bt_reputation := attribute_serve ms (bt_reputation b) orgID epoch serve\<rparr>))))"

fun process_serves ::
  "'x sdk \<Rightarrow> (bytes \<Rightarrow> (string \<times> string) list option) \<Rightarrow> memory_state \<Rightarrow> serve_Params \<Rightarrow> string \<Rightarrow> u64 \<Rightarrow>
   batch \<Rightarrow> ServeEntry list \<Rightarrow> batch result" where
  "process_serves K parse_tags ms params orgID epoch b [] = Inr b"
| "process_serves K parse_tags ms params orgID epoch b (serve # serves) =
     (case process_serve K parse_tags ms params orgID epoch b serve of
        Inl e \<Rightarrow> Inl e
      | Inr b' \<Rightarrow> process_serves K parse_tags ms params orgID epoch b' serves)"

definition ProcessServeBatch ::
  "'x sdk \<Rightarrow> (bytes \<Rightarrow> (string \<times> string) list option) \<Rightarrow> serve_state \<Rightarrow> memory_state \<Rightarrow> bandwidth_state \<Rightarrow>
   reputation_state \<Rightarrow> string \<Rightarrow> u64 \<Rightarrow> ServeEntry list \<Rightarrow> (batch \<times> bandwidth_state) result" where
  "ProcessServeBatch K parse_tags st ms bw rs orgID epoch serves =
     (let params = serve_GetParams st
      in if length serves > unat (svp_MaxServesPerBatch params) then Inl (E_serve Srv_ErrBatchTooLarge)
         else (case ConsumeServeBandwidth bw orgID epoch (of_nat (length serves)) of
           Inl e \<Rightarrow> Inl e
         | Inr bw' \<Rightarrow>
             (case process_serves K parse_tags ms params orgID epoch (new_batch st rs) serves of
                Inl e \<Rightarrow> Inl e
              | Inr b \<Rightarrow> Inr (b, bw'))))"

subsection \<open>Batches of events\<close>

definition storedEventFromEntry :: "string \<Rightarrow> u64 \<Rightarrow> EventEntry \<Rightarrow> bytes \<Rightarrow> StoredEvent" where
  "storedEventFromEntry orgID epoch entry fingerprint = \<lparr>
     sev_OrgId = orgID, sev_Epoch = epoch, sev_EventType = ee_EventType entry,
     sev_MemoryContentHash = ee_MemoryContentHash entry, sev_SignerPubkey = ee_SignerPubkey entry,
     sev_Nonce = ee_Nonce entry, sev_Signature = ee_Signature entry, sev_Fingerprint = fingerprint,
     sev_Body = ee_Body entry\<rparr>"

definition process_event ::
  "'x sdk \<Rightarrow> memory_state \<Rightarrow> string \<Rightarrow> u64 \<Rightarrow> batch \<Rightarrow> EventEntry \<Rightarrow> batch" where
  "process_event K ms orgID epoch b entry =
     (case CanonicalEventBody (ee_EventType entry) orgID (ee_MemoryContentHash entry) epoch
         (ee_SignerPubkey entry) (ee_Nonce entry) (Some entry) of
        Inl e \<Rightarrow> reject_invalid b
      | Inr body \<Rightarrow>
          if \<not> ed25519_Verify K (ee_SignerPubkey entry) body (ee_Signature entry) then reject_invalid b
          else
            let fingerprint = ComputeEventFingerprint K body; st = bt_serve b
            in if kv_has (svs_eventfps st) (eventFingerprintKey fingerprint) then reject_duplicate b
               else (case GetApprovedMemory ms orgID (ee_MemoryContentHash entry) of
                 Inl e \<Rightarrow> reject_invalid b
               | Inr _ \<Rightarrow> b\<lparr>
                   bt_serve := st\<lparr>
                     svs_events := kv_set (eventKey orgID epoch fingerprint)
                       (storedEventFromEntry orgID epoch entry fingerprint) (svs_events st),
                     svs_eventfps := kv_set (eventFingerprintKey fingerprint) present_mark (svs_eventfps st)\<rparr>,
                   bt_accepted := bt_accepted b + 1\<rparr>))"

text \<open>A \<open>nil\<close> entry is dereferenced before anything else.\<close>

fun process_events ::
  "'x sdk \<Rightarrow> memory_state \<Rightarrow> string \<Rightarrow> u64 \<Rightarrow> batch \<Rightarrow> EventEntry option list \<Rightarrow> batch result" where
  "process_events K ms orgID epoch b [] = Inr b"
| "process_events K ms orgID epoch b (None # rest) = Inl (Panic ''nil pointer dereference'')"
| "process_events K ms orgID epoch b (Some entry # rest) =
     process_events K ms orgID epoch (process_event K ms orgID epoch b entry) rest"

definition ProcessEventBatch ::
  "'x sdk \<Rightarrow> serve_state \<Rightarrow> memory_state \<Rightarrow> reputation_state \<Rightarrow> string \<Rightarrow> u64 \<Rightarrow> EventEntry option list \<Rightarrow> batch result" where
  "ProcessEventBatch K st ms rs orgID epoch events =
     process_events K ms orgID epoch (new_batch st rs) events"

definition GetEventsForEpoch :: "serve_state \<Rightarrow> string \<Rightarrow> u64 \<Rightarrow> StoredEvent list" where
  "GetEventsForEpoch st orgID epoch = map snd (kv_prefix (eventPrefix orgID epoch) (svs_events st))"

subsection \<open>Policy anchors\<close>

definition SetPolicyAnchor :: "'x sdk \<Rightarrow> serve_state \<Rightarrow> string \<Rightarrow> bytes \<Rightarrow> serve_state result" where
  "SetPolicyAnchor K st policyVersion policyHash =
     (case kv_get (svs_anchors st) (policyAnchorKey policyVersion) of
        Some existing \<Rightarrow>
          if spa_PolicyHash existing \<noteq> policyHash
            then Inl (Errorf ''policy anchor already exists with different hash'')
          else Inr st
      | None \<Rightarrow> Inr (st\<lparr>
          svs_anchors := kv_set (policyAnchorKey policyVersion) \<lparr>
            spa_PolicyVersion = policyVersion, spa_PolicyHash = policyHash, spa_AnchoredAtEpoch = 0,
            spa_AnchoredAtHeight = block_height K\<rparr> (svs_anchors st),
          svs_latest_anchor := Some policyVersion\<rparr>))"

definition GetPolicyAnchor :: "serve_state \<Rightarrow> string \<Rightarrow> StoredPolicyAnchor option" where
  "GetPolicyAnchor st policyVersion = kv_get (svs_anchors st) (policyAnchorKey policyVersion)"

definition GetLatestPolicyAnchor :: "serve_state \<Rightarrow> StoredPolicyAnchor option" where
  "GetLatestPolicyAnchor st =
     (case svs_latest_anchor st of
        None \<Rightarrow> None
      | Some version \<Rightarrow> if version = [] then None else GetPolicyAnchor st version)"

subsection \<open>Messages\<close>

record MsgSubmitServeBatch =
  msb_Signer :: string
  msb_OrgId :: string
  msb_Epoch :: u64
  msb_Serves :: "ServeEntry list"

record MsgSubmitDenialBatch =
  mdb_Signer :: string
  mdb_OrgId :: string
  mdb_Epoch :: u64
  mdb_Entries :: "DenialEntry list"

record MsgSubmitEventBatch =
  meb_Signer :: string
  meb_OrgId :: string
  meb_Epoch :: u64
  meb_Events :: "EventEntry option list"

record MsgAnchorPolicyVersion =
  mpv_Authority :: string
  mpv_PolicyVersion :: string
  mpv_PolicyHash :: bytes

record serve_MsgUpdateParams =
  svu_Authority :: string
  svu_Params :: "serve_Params option"

text \<open>The first error of a list of checks, as in a loop that returns on the first failure.\<close>

fun first_error :: "('a \<Rightarrow> check) \<Rightarrow> 'a list \<Rightarrow> check" where
  "first_error c [] = Inr ()"
| "first_error c (x # xs) = (case c x of Inl e \<Rightarrow> Inl e | Inr _ \<Rightarrow> first_error c xs)"

definition validate_serve_entry :: "ServeEntry \<Rightarrow> check" where
  "validate_serve_entry serve =
     (if length (se_MemoryContentHash serve) \<noteq> ContentHashLen then Inl (E_serve Srv_ErrInvalidContentHash)
      else if length (se_ServeKeyPubkey serve) \<noteq> ServePubKeyLen then Inl (E_serve Srv_ErrInvalidServeKeyPubkey)
      else if length (se_ServeSig serve) \<noteq> ServeSigLen then Inl (E_serve Srv_ErrInvalidServeSignature)
      else if se_ContributorId serve = [] then Inl (E_serve Srv_ErrInvalidContributor)
      else if se_EpisodeRef serve = [] then Inl (E_serve Srv_ErrInvalidServeEpisodeRef)
      else if length (se_EpisodeRef serve) > 64 then Inl (E_serve Srv_ErrServeEpisodeRefTooLong)
      else Inr ())"

definition MsgSubmitServeBatch_ValidateBasic :: "MsgSubmitServeBatch \<Rightarrow> check" where
  "MsgSubmitServeBatch_ValidateBasic m =
     (if msb_Signer m = [] then Inl (Errorf ''signer cannot be empty'')
      else if msb_OrgId m = [] then Inl (E_serve Srv_ErrInvalidOrgID)
      else if msb_Serves m = [] then Inl (E_serve Srv_ErrBatchEmpty)
      else first_error validate_serve_entry (msb_Serves m))"

definition validate_denial_entry :: "DenialEntry \<Rightarrow> check" where
  "validate_denial_entry entry =
     (if length (dne_MemoryHash entry) \<noteq> ContentHashLen then Inl (E_serve Srv_ErrInvalidContentHash)
      else if length (dne_ServeKeyPubkey entry) \<noteq> ServePubKeyLen then Inl (E_serve Srv_ErrInvalidServeKeyPubkey)
      else if length (dne_ServeSig entry) \<noteq> ServeSigLen then Inl (E_serve Srv_ErrInvalidServeSignature)
      else if length (dne_ServeFingerprint entry) \<noteq> FingerprintLen then Inl (E_serve Srv_ErrInvalidServeFingerprint)
      else if dne_NegAnchor entry \<noteq> [] then Inl (E_serve Srv_ErrNegAnchorInert)
      else Inr ())"

definition MsgSubmitDenialBatch_ValidateBasic :: "MsgSubmitDenialBatch \<Rightarrow> check" where
  "MsgSubmitDenialBatch_ValidateBasic m =
     (if mdb_Signer m = [] then Inl (Errorf ''signer cannot be empty'')
      else if mdb_OrgId m = [] then Inl (E_serve Srv_ErrInvalidOrgID)
      else if mdb_Entries m = [] then Inl (E_serve Srv_ErrBatchEmpty)
      else first_error validate_denial_entry (mdb_Entries m))"

definition validateEventType :: "i32 \<Rightarrow> check" where
  "validateEventType t =
     (if t \<in> {EventType_EVENT_TYPE_OUTCOME, EventType_EVENT_TYPE_VALIDITY_PREDICATE,
              EventType_EVENT_TYPE_COST_TO_DISCOVER, EventType_EVENT_TYPE_CONVERGENCE} then Inr ()
      else if t \<in> {EventType_EVENT_TYPE_CONTEST, EventType_EVENT_TYPE_SPONSORSHIP}
        then Inl (E_serve Srv_ErrEventParked)
      else if t \<in> {EventType_EVENT_TYPE_SERVE, EventType_EVENT_TYPE_BLOCK}
        then Inl (Errorf ''event type recorded via serve/denial receipts'')
      else Inl (E_serve Srv_ErrInvalidEventType))"

definition validateRefCaps :: "bytes list \<Rightarrow> check" where
  "validateRefCaps refs =
     first_error (\<lambda>ref. if length ref > 64 then Inl (Errorf ''event refs must be at most 64 bytes'') else Inr ()) refs"

definition validateEventBody :: "EventEntry \<Rightarrow> check" where
  "validateEventBody entry =
     (if ee_EventType entry = EventType_EVENT_TYPE_OUTCOME then
        (case GetOutcome entry of
           None \<Rightarrow> Inl (Errorf ''outcome event body is required'')
         | Some body \<Rightarrow>
             if length (oeb_ServeRef body) \<noteq> 32 then Inl (Errorf ''outcome serve_ref must be exactly 32 bytes'')
             else (case outcomeResolutionToken (oeb_Resolution body) of
                Inl e \<Rightarrow> Inl e
              | Inr _ \<Rightarrow>
                  (case outcomeSourceToken (oeb_Source body) of
                     Inl e \<Rightarrow> Inl e
                   | Inr _ \<Rightarrow> validateRefCaps [oeb_EpisodeRef body, oeb_EvidenceRef body])))
      else if ee_EventType entry = EventType_EVENT_TYPE_VALIDITY_PREDICATE then
        (case GetValidityPredicate entry of
           None \<Rightarrow> Inl (Errorf ''validity_predicate event body is required'')
         | Some body \<Rightarrow>
             (case predicateResultToken (vpb_Result body) of
                Inl e \<Rightarrow> Inl e
              | Inr _ \<Rightarrow> validateRefCaps [vpb_PredicateId body, vpb_EvidenceRef body]))
      else if ee_EventType entry = EventType_EVENT_TYPE_COST_TO_DISCOVER then
        (case GetCostToDiscover entry of
           None \<Rightarrow> Inl (Errorf ''cost_to_discover event body is required'')
         | Some body \<Rightarrow> validateRefCaps [cdb_EvidenceRef body])
      else if ee_EventType entry = EventType_EVENT_TYPE_CONVERGENCE then
        (case GetConvergence entry of
           None \<Rightarrow> Inl (Errorf ''convergence event body is required'')
         | Some body \<Rightarrow> validateRefCaps [cvb_ConvergenceRef body])
      else Inl (E_serve Srv_ErrInvalidEventType))"

definition validateEventEntry :: "EventEntry option \<Rightarrow> check" where
  "validateEventEntry entry =
     (case entry of
        None \<Rightarrow> Inl (Errorf ''event entry cannot be nil'')
      | Some entry \<Rightarrow>
          (case validateEventType (ee_EventType entry) of
             Inl e \<Rightarrow> Inl e
           | Inr _ \<Rightarrow>
               if length (ee_MemoryContentHash entry) \<noteq> ContentHashLen then Inl (E_serve Srv_ErrInvalidContentHash)
               else if length (ee_SignerPubkey entry) \<noteq> ServePubKeyLen then Inl (E_serve Srv_ErrInvalidServeKeyPubkey)
               else if length (ee_Signature entry) \<noteq> ServeSigLen then Inl (E_serve Srv_ErrInvalidServeSignature)
               else if ee_Nonce entry = [] then Inl (Errorf ''event nonce cannot be empty'')
               else if length (ee_Nonce entry) > 64 then Inl (Errorf ''event nonce must be at most 64 bytes'')
               else validateEventBody entry))"

definition MsgSubmitEventBatch_ValidateBasic :: "MsgSubmitEventBatch \<Rightarrow> check" where
  "MsgSubmitEventBatch_ValidateBasic m =
     (if meb_Signer m = [] then Inl (Errorf ''signer cannot be empty'')
      else if meb_OrgId m = [] then Inl (E_serve Srv_ErrInvalidOrgID)
      else if meb_Events m = [] then Inl (E_serve Srv_ErrBatchEmpty)
      else first_error validateEventEntry (meb_Events m))"

definition MsgAnchorPolicyVersion_ValidateBasic :: "MsgAnchorPolicyVersion \<Rightarrow> check" where
  "MsgAnchorPolicyVersion_ValidateBasic m =
     (if mpv_Authority m = [] then Inl (Errorf ''authority cannot be empty'')
      else if mpv_PolicyVersion m = [] then Inl (Errorf ''policy_version cannot be empty'')
      else if length (mpv_PolicyVersion m) > 128 then Inl (Errorf ''policy_version must be at most 128 chars'')
      else if length (mpv_PolicyHash m) \<noteq> 32 then Inl (Errorf ''policy_hash must be 32 bytes'')
      else Inr ())"

definition serve_MsgUpdateParams_ValidateBasic :: "serve_MsgUpdateParams \<Rightarrow> check" where
  "serve_MsgUpdateParams_ValidateBasic m =
     (if svu_Authority m = [] then Inl (Errorf ''authority cannot be empty'') else Inr ())"

definition requireServingKeySigner :: "org_state \<Rightarrow> string \<Rightarrow> string \<Rightarrow> check" where
  "requireServingKeySigner os orgID signer =
     (case GetServingAddress os orgID of
        Inl e \<Rightarrow> Inl e
      | Inr servingAddr \<Rightarrow>
          if servingAddr = [] \<or> signer \<noteq> servingAddr then Inl (E_serve Srv_ErrUnauthorized) else Inr ())"

definition Msg_SubmitServeBatch ::
  "'x sdk \<Rightarrow> (bytes \<Rightarrow> (string \<times> string) list option) \<Rightarrow> serve_state \<Rightarrow> org_state \<Rightarrow> memory_state \<Rightarrow>
   bandwidth_state \<Rightarrow> reputation_state \<Rightarrow> MsgSubmitServeBatch \<Rightarrow> (batch \<times> bandwidth_state) result" where
  "Msg_SubmitServeBatch K parse_tags st os ms bw rs msg =
     (case MsgSubmitServeBatch_ValidateBasic msg of
        Inl e \<Rightarrow> Inl e
      | Inr _ \<Rightarrow>
          if \<not> HasOrg os (msb_OrgId msg) then Inl (E_serve Srv_ErrOrgNotFound)
          else (case requireServingKeySigner os (msb_OrgId msg) (msb_Signer msg) of
             Inl e \<Rightarrow> Inl e
           | Inr _ \<Rightarrow>
               ProcessServeBatch K parse_tags st ms bw rs (msb_OrgId msg) (msb_Epoch msg) (msb_Serves msg)))"

text \<open>A batch of denials: the store and the two counters of the response.\<close>

record denial_batch =
  db_serve :: serve_state
  db_accepted :: u64
  db_rejected :: u64

definition reject_denial :: "denial_batch \<Rightarrow> denial_batch" where
  "reject_denial b = b\<lparr>db_rejected := db_rejected b + 1\<rparr>"

definition process_denial ::
  "'x sdk \<Rightarrow> memory_state \<Rightarrow> string \<Rightarrow> u64 \<Rightarrow> denial_batch \<Rightarrow> DenialEntry \<Rightarrow> denial_batch" where
  "process_denial K ms orgID epoch b entry =
     (if length (dne_ServeKeyPubkey entry) \<noteq> 32 \<or> length (dne_ServeSig entry) \<noteq> 64 then reject_denial b
      else if \<not> ed25519_Verify K (dne_ServeKeyPubkey entry)
          (CanonicalDenialBody orgID (dne_MemoryHash entry) epoch (dne_ServeKeyPubkey entry)
             (dne_ServeFingerprint entry) (dne_Nonce entry)) (dne_ServeSig entry)
        then reject_denial b
      else
        let denialFingerprint = ComputeDenialFingerprint K orgID (dne_MemoryHash entry) epoch
              (dne_ServeKeyPubkey entry) (dne_ServeFingerprint entry);
            st = db_serve b
        in if HasDenialFingerprint st denialFingerprint then reject_denial b
           else (case GetServeReceiptByFingerprint st (dne_ServeFingerprint entry) of
             None \<Rightarrow> reject_denial b
           | Some originatingReceipt \<Rightarrow>
               if dne_MemoryHash entry \<noteq> ssr_MemoryContentHash originatingReceipt then reject_denial b
               else if dne_ServeKeyPubkey entry \<noteq> ssr_ServeKeyPubkey originatingReceipt then reject_denial b
               else (case GetApprovedMemory ms orgID (dne_MemoryHash entry) of
                 Inl e \<Rightarrow> reject_denial b
               | Inr _ \<Rightarrow>
                   let st = st\<lparr>svs_denyfps := kv_set (denialFingerprintKey denialFingerprint) present_mark (svs_denyfps st)\<rparr>;
                       st = IncrementDenialCount st orgID (ssr_MemoryContentHash originatingReceipt) epoch;
                       st = updateEpochDenialStats st orgID epoch;
                       st = StoreDenialReceipt st orgID epoch denialFingerprint entry
                   in b\<lparr>db_serve := st, db_accepted := db_accepted b + 1\<rparr>)))"

definition Msg_SubmitDenialBatch ::
  "'x sdk \<Rightarrow> serve_state \<Rightarrow> org_state \<Rightarrow> memory_state \<Rightarrow> MsgSubmitDenialBatch \<Rightarrow> denial_batch result" where
  "Msg_SubmitDenialBatch K st os ms msg =
     (case MsgSubmitDenialBatch_ValidateBasic msg of
        Inl e \<Rightarrow> Inl e
      | Inr _ \<Rightarrow>
          if \<not> HasOrg os (mdb_OrgId msg) then Inl (E_serve Srv_ErrOrgNotFound)
          else (case requireServingKeySigner os (mdb_OrgId msg) (mdb_Signer msg) of
             Inl e \<Rightarrow> Inl e
           | Inr _ \<Rightarrow>
               if length (mdb_Entries msg) > unat (svp_MaxServesPerBatch (serve_GetParams st))
                 then Inl (E_serve Srv_ErrBatchTooLarge)
               else Inr (foldl (process_denial K ms (mdb_OrgId msg) (mdb_Epoch msg))
                 \<lparr>db_serve = st, db_accepted = 0, db_rejected = 0\<rparr> (mdb_Entries msg))))"

definition Msg_SubmitEventBatch ::
  "'x sdk \<Rightarrow> serve_state \<Rightarrow> org_state \<Rightarrow> memory_state \<Rightarrow> reputation_state \<Rightarrow> MsgSubmitEventBatch \<Rightarrow> batch result" where
  "Msg_SubmitEventBatch K st os ms rs msg =
     (case MsgSubmitEventBatch_ValidateBasic msg of
        Inl e \<Rightarrow> Inl e
      | Inr _ \<Rightarrow>
          if \<not> HasOrg os (meb_OrgId msg) then Inl (E_serve Srv_ErrOrgNotFound)
          else (case requireServingKeySigner os (meb_OrgId msg) (meb_Signer msg) of
             Inl e \<Rightarrow> Inl e
           | Inr _ \<Rightarrow>
               if length (meb_Events msg) > unat (svp_MaxServesPerBatch (serve_GetParams st))
                 then Inl (E_serve Srv_ErrBatchTooLarge)
               else ProcessEventBatch K st ms rs (meb_OrgId msg) (meb_Epoch msg) (meb_Events msg)))"

definition Msg_AnchorPolicyVersion ::
  "'x sdk \<Rightarrow> serve_state \<Rightarrow> MsgAnchorPolicyVersion \<Rightarrow> serve_state result" where
  "Msg_AnchorPolicyVersion K st msg =
     (case MsgAnchorPolicyVersion_ValidateBasic msg of
        Inl e \<Rightarrow> Inl e
      | Inr _ \<Rightarrow>
          if mpv_Authority msg \<noteq> authority K then Inl (E_serve Srv_ErrUnauthorized)
          else SetPolicyAnchor K st (mpv_PolicyVersion msg) (mpv_PolicyHash msg))"

definition serve_Msg_UpdateParams ::
  "'x sdk \<Rightarrow> serve_state \<Rightarrow> serve_MsgUpdateParams \<Rightarrow> serve_state result" where
  "serve_Msg_UpdateParams K st msg =
     (case serve_MsgUpdateParams_ValidateBasic msg of
        Inl e \<Rightarrow> Inl e
      | Inr _ \<Rightarrow>
          if svu_Authority msg \<noteq> authority K then Inl (E_serve Srv_ErrUnauthorized)
          else (case svu_Params msg of
             None \<Rightarrow> Inl (Panic ''nil pointer dereference'')
           | Some p \<Rightarrow> Inr (serve_SetParams p st)))"

subsection \<open>Genesis\<close>

text \<open>The lists of genesis hold pointers; \<open>None\<close> is a JSON \<open>null\<close>.\<close>

record serve_GenesisState =
  sgs_ServeReceipts :: "ServeReceipt option list"
  sgs_DenialReceipts :: "StoredDenialReceipt option list"
  sgs_Events :: "StoredEvent option list"
  sgs_PolicyAnchors :: "StoredPolicyAnchor option list"
  sgs_EpochStats :: "EpochServeStats option list"
  sgs_ContributorServes :: "ContributorEpochServes option list"

definition genesis_receipt :: "serve_state \<Rightarrow> ServeReceipt \<Rightarrow> serve_state" where
  "genesis_receipt st receipt =
     (let receiptStoreKey = receiptKey (sr_OrgID receipt) (sr_Epoch receipt) (sr_Fingerprint receipt)
      in st\<lparr>
        svs_receipts := kv_set receiptStoreKey (ServeReceiptToStored receipt) (svs_receipts st),
        svs_fingerprints := kv_set (serveFingerprintKey (sr_Fingerprint receipt)) receiptStoreKey (svs_fingerprints st)\<rparr>)"

definition genesis_denial :: "'x sdk \<Rightarrow> serve_state \<Rightarrow> StoredDenialReceipt \<Rightarrow> serve_state" where
  "genesis_denial K st denial =
     (let fingerprint = ComputeDenialFingerprint K (sdr_OrgId denial) (sdr_MemoryHash denial) (sdr_Epoch denial)
            (sdr_ServeKeyPubkey denial) (sdr_ServeFingerprint denial);
          st = st\<lparr>
            svs_denyfps := kv_set (denialFingerprintKey fingerprint) present_mark (svs_denyfps st),
            svs_denials := kv_set (denialReceiptKey (sdr_OrgId denial) (sdr_Epoch denial) fingerprint) denial
              (svs_denials st)\<rparr>;
          st = IncrementDenialCount st (sdr_OrgId denial) (sdr_MemoryHash denial) (sdr_Epoch denial)
      in updateEpochDenialStats st (sdr_OrgId denial) (sdr_Epoch denial))"

definition genesis_event :: "serve_state \<Rightarrow> StoredEvent \<Rightarrow> serve_state" where
  "genesis_event st event = st\<lparr>
     svs_events := kv_set (eventKey (sev_OrgId event) (sev_Epoch event) (sev_Fingerprint event)) event (svs_events st),
     svs_eventfps := kv_set (eventFingerprintKey (sev_Fingerprint event)) present_mark (svs_eventfps st)\<rparr>"

definition genesis_anchor :: "serve_state \<Rightarrow> StoredPolicyAnchor \<Rightarrow> serve_state" where
  "genesis_anchor st anchor = st\<lparr>
     svs_anchors := kv_set (policyAnchorKey (spa_PolicyVersion anchor)) anchor (svs_anchors st),
     svs_latest_anchor := Some (spa_PolicyVersion anchor)\<rparr>"

text \<open>A loop that skips \<open>nil\<close> entries, and one that dereferences them.\<close>

definition skip_nil :: "('s \<Rightarrow> 'a \<Rightarrow> 's) \<Rightarrow> 's \<Rightarrow> 'a option list \<Rightarrow> 's" where
  "skip_nil f st xs = foldl (\<lambda>s x. case x of None \<Rightarrow> s | Some y \<Rightarrow> f s y) st xs"

fun deref_all :: "('s \<Rightarrow> 'a \<Rightarrow> 's) \<Rightarrow> 's \<Rightarrow> 'a option list \<Rightarrow> 's result" where
  "deref_all f st [] = Inr st"
| "deref_all f st (None # xs) = Inl (Panic ''nil pointer dereference'')"
| "deref_all f st (Some x # xs) = deref_all f (f st x) xs"

definition serve_InitGenesis :: "'x sdk \<Rightarrow> serve_state \<Rightarrow> serve_GenesisState \<Rightarrow> serve_state result" where
  "serve_InitGenesis K st g =
     (case deref_all genesis_receipt st (sgs_ServeReceipts g) of
        Inl e \<Rightarrow> Inl e
      | Inr st1 \<Rightarrow>
          let st2 = skip_nil (genesis_denial K) st1 (sgs_DenialReceipts g);
              st3 = skip_nil genesis_event st2 (sgs_Events g);
              st4 = skip_nil genesis_anchor st3 (sgs_PolicyAnchors g)
          in (case deref_all (\<lambda>s es. store_epoch_stats s (ess_OrgID es) (ess_Epoch es) es) st4 (sgs_EpochStats g) of
                Inl e \<Rightarrow> Inl e
              | Inr st5 \<Rightarrow>
                  deref_all (\<lambda>s cs. s\<lparr>svs_contributors :=
                      kv_set (contributorKey (ces_ContributorID cs) (ces_Epoch cs)) (ContributorEpochServesToStored cs)
                        (svs_contributors s)\<rparr>) st5 (sgs_ContributorServes g)))"

subsection \<open>Queries\<close>

text \<open>A request is a pointer; \<open>None\<close> is \<open>nil\<close>.\<close>

definition nil_request :: error where
  "nil_request = Errorf ''request cannot be nil''"

definition Query_GetEpochServeStats :: "serve_state \<Rightarrow> (string \<times> u64) option \<Rightarrow> StoredEpochServeStats result" where
  "Query_GetEpochServeStats st req =
     (case req of
        None \<Rightarrow> Inl nil_request
      | Some (orgId, epoch) \<Rightarrow>
          (case GetEpochServeStats st orgId epoch of
             Inl e \<Rightarrow> Inl e
           | Inr stats \<Rightarrow> Inr \<lparr>
               ses_OrgId = ess_OrgID stats, ses_Epoch = ess_Epoch stats, ses_TotalServes = ess_TotalServes stats,
               ses_UniqueMemoriesServed = ess_UniqueMemoriesServed stats,
               ses_UniqueServeKeys = ess_UniqueServeKeys stats, ses_SelfServes = ess_SelfServes stats,
               ses_ModelBreakdown = ess_ModelBreakdown stats, ses_TotalDenials = 0\<rparr>))"

definition Query_GetContributorServes ::
  "serve_state \<Rightarrow> (string \<times> u64) option \<Rightarrow> StoredContributorEpochServes result" where
  "Query_GetContributorServes st req =
     (case req of
        None \<Rightarrow> Inl nil_request
      | Some (contributorId, epoch) \<Rightarrow>
          (case GetContributorEpochServes st contributorId epoch of
             Inl e \<Rightarrow> Inl e
           | Inr cs \<Rightarrow> Inr \<lparr>
               sce_ContributorId = ces_ContributorID cs, sce_Epoch = ces_Epoch cs,
               sce_ServeCount = ces_ServeCount cs, sce_SelfServeCount = ces_SelfServeCount cs,
               sce_OrgIds = ces_OrgIDs cs, sce_TotalTurns = ces_TotalTurns cs\<rparr>))"

definition Query_GetMemoryServeCount :: "serve_state \<Rightarrow> (string \<times> bytes \<times> u64) option \<Rightarrow> u64 result" where
  "Query_GetMemoryServeCount st req =
     (case req of
        None \<Rightarrow> Inl nil_request
      | Some (orgId, contentHash, epoch) \<Rightarrow> Inr (GetMemoryServeCount st orgId contentHash epoch))"

definition Query_ListEvents :: "serve_state \<Rightarrow> (string \<times> u64) option \<Rightarrow> StoredEvent list result" where
  "Query_ListEvents st req =
     (case req of None \<Rightarrow> Inl nil_request | Some (orgId, epoch) \<Rightarrow> Inr (GetEventsForEpoch st orgId epoch))"

definition Query_GetPolicyAnchor :: "serve_state \<Rightarrow> string option \<Rightarrow> StoredPolicyAnchor option result" where
  "Query_GetPolicyAnchor st req =
     (case req of None \<Rightarrow> Inl nil_request | Some version \<Rightarrow> Inr (GetPolicyAnchor st version))"

definition Query_GetLatestPolicyAnchor :: "serve_state \<Rightarrow> unit option \<Rightarrow> StoredPolicyAnchor option result" where
  "Query_GetLatestPolicyAnchor st req =
     (case req of None \<Rightarrow> Inl nil_request | Some _ \<Rightarrow> Inr (GetLatestPolicyAnchor st))"

definition serve_Query_Params :: "serve_state \<Rightarrow> unit option \<Rightarrow> serve_Params result" where
  "serve_Query_Params st req =
     (case req of None \<Rightarrow> Inl nil_request | Some _ \<Rightarrow> Inr (serve_GetParams st))"

end
