(* ===== verification/Serve_Correct.thy ===== *)
theory Serve_Correct
  imports Serve
begin

section \<open>Correctness of the serve module\<close>

text \<open>
  Along every sequence of batches, anchors and parameter changes: each serve, denial and event is
  recorded once, was signed by the key it names, and never changes; the statistics, counters and
  contributor totals are exactly the numbers of the stored receipts; every denial refers to a
  recorded serve; and every stored event is well typed.
\<close>

subsection \<open>Keys\<close>

lemma serve_key_inj [simp]:
  "serveFingerprintKey a = serveFingerprintKey b \<longleftrightarrow> a = b"
  "denialFingerprintKey a = denialFingerprintKey b \<longleftrightarrow> a = b"
  "eventFingerprintKey a = eventFingerprintKey b \<longleftrightarrow> a = b"
  "policyAnchorKey v = policyAnchorKey w \<longleftrightarrow> v = w"
  by (simp_all add: serveFingerprintKey_def denialFingerprintKey_def eventFingerprintKey_def
      policyAnchorKey_def ContentHashToHex_def)

lemma serve_table_key_inj [simp]:
  "receiptKey o1 e1 f1 = receiptKey o2 e2 f2 \<longleftrightarrow> o1 = o2 \<and> e1 = e2 \<and> f1 = f2"
  "denialReceiptKey o1 e1 f1 = denialReceiptKey o2 e2 f2 \<longleftrightarrow> o1 = o2 \<and> e1 = e2 \<and> f1 = f2"
  "eventKey o1 e1 f1 = eventKey o2 e2 f2 \<longleftrightarrow> o1 = o2 \<and> e1 = e2 \<and> f1 = f2"
  "serve_statsKey o1 e1 = serve_statsKey o2 e2 \<longleftrightarrow> o1 = o2 \<and> e1 = e2"
  "contributorKey o1 e1 = contributorKey o2 e2 \<longleftrightarrow> o1 = o2 \<and> e1 = e2"
  "memCountKey o1 h1 e1 = memCountKey o2 h2 e2 \<longleftrightarrow> o1 = o2 \<and> h1 = h2 \<and> e1 = e2"
  "denialCountKey o1 h1 e1 = denialCountKey o2 h2 e2 \<longleftrightarrow> o1 = o2 \<and> h1 = h2 \<and> e1 = e2"
  "memFirstKey o1 h1 e1 = memFirstKey o2 h2 e2 \<longleftrightarrow> o1 = o2 \<and> h1 = h2 \<and> e1 = e2"
  "keyFirstKey o1 (hex_encode h1) e1 = keyFirstKey o2 (hex_encode h2) e2 \<longleftrightarrow> o1 = o2 \<and> h1 = h2 \<and> e1 = e2"
  using sep_uint_hex_inj [of o1 e1 f1 o2 e2 f2] sep_hex_uint_inj [of o1 h1 e1 o2 h2 e2] sep_uint_inj [of o1 e1 o2 e2]
  by (simp_all add: receiptKey_def denialReceiptKey_def eventKey_def serve_statsKey_def contributorKey_def
      memCountKey_def denialCountKey_def memFirstKey_def keyFirstKey_def ContentHashToHex_def)

lemma receiptKey_nonempty [simp]: "receiptKey i e f \<noteq> []"
  by (simp add: receiptKey_def)

subsection \<open>Counting records\<close>

definition tally :: "('v \<Rightarrow> bool) \<Rightarrow> 'v kv \<Rightarrow> nat" where
  "tally P t = length (filter (\<lambda>e. P (snd e)) t)"

lemma tally_insert:
  assumes "kv_ok t" "kv_get t k = None"
  shows "tally P (kv_set k v t) = tally P t + (if P v then 1 else 0)"
proof (cases "P v")
  case True
  then show ?thesis
    using length_filter_kv_set [of t "\<lambda>e. P (snd e)" k v] assms by (simp add: tally_def)
next
  case False
  then show ?thesis
    using filter_kv_set_out [of t "\<lambda>e. P (snd e)" k v] assms by (simp add: tally_def)
qed

definition kinds :: "('v \<Rightarrow> bool) \<Rightarrow> ('v \<Rightarrow> 'b) \<Rightarrow> 'v kv \<Rightarrow> 'b set" where
  "kinds P f t = {f v |v k. (k, v) \<in> set t \<and> P v}"

lemma finite_kinds [simp]: "finite (kinds P f t)"
proof -
  have "kinds P f t \<subseteq> (\<lambda>e. f (snd e)) ` set t" by (force simp: kinds_def)
  then show ?thesis by (rule finite_subset) simp
qed

lemma kinds_insert:
  "kv_get t k = None \<Longrightarrow> kinds P f (kv_set k v t) = (if P v then insert (f v) (kinds P f t) else kinds P f t)"
  by (auto simp: kinds_def set_kv_set_new)

subsection \<open>Statistics\<close>

lemma StoredToEpochServeStats_ToStored [simp]: "StoredToEpochServeStats (EpochServeStatsToStored s) = s"
  by (simp add: StoredToEpochServeStats_def EpochServeStatsToStored_def)

lemma StoredToContributorEpochServes_ToStored [simp]:
  "StoredToContributorEpochServes (ContributorEpochServesToStored s) = s"
  by (simp add: StoredToContributorEpochServes_def ContributorEpochServesToStored_def)

lemma load_store_epoch_stats [simp]:
  "load_epoch_stats (store_epoch_stats st i e s) j f = (if j = i \<and> f = e then s else load_epoch_stats st j f)"
  by (simp add: load_epoch_stats_def GetEpochServeStats_def store_epoch_stats_def kv_get_set)

lemma load_epoch_stats_cong:
  "svs_stats st' = svs_stats st \<Longrightarrow> load_epoch_stats st' i e = load_epoch_stats st i e"
  by (simp add: load_epoch_stats_def GetEpochServeStats_def)

lemma load_epoch_stats_update [simp]:
  "load_epoch_stats (st\<lparr>svs_memfirst := x\<rparr>) i e = load_epoch_stats st i e"
  "load_epoch_stats (st\<lparr>svs_keyfirst := x\<rparr>) i e = load_epoch_stats st i e"
  by (simp_all add: load_epoch_stats_def GetEpochServeStats_def)

lemma store_epoch_stats_other [simp]:
  "svs_receipts (store_epoch_stats st i e s) = svs_receipts st"
  "svs_fingerprints (store_epoch_stats st i e s) = svs_fingerprints st"
  "svs_memcounts (store_epoch_stats st i e s) = svs_memcounts st"
  "svs_denycounts (store_epoch_stats st i e s) = svs_denycounts st"
  "svs_denials (store_epoch_stats st i e s) = svs_denials st"
  "svs_denyfps (store_epoch_stats st i e s) = svs_denyfps st"
  "svs_events (store_epoch_stats st i e s) = svs_events st"
  "svs_eventfps (store_epoch_stats st i e s) = svs_eventfps st"
  "svs_memfirst (store_epoch_stats st i e s) = svs_memfirst st"
  "svs_keyfirst (store_epoch_stats st i e s) = svs_keyfirst st"
  "svs_contributors (store_epoch_stats st i e s) = svs_contributors st"
  "svs_anchors (store_epoch_stats st i e s) = svs_anchors st"
  "svs_params (store_epoch_stats st i e s) = svs_params st"
  by (simp_all add: store_epoch_stats_def)

lemmas stats_steps = count_new_memory_def count_new_key_def count_serve_def Let_def

lemma updateEpochStats_other [simp]:
  "svs_receipts (updateEpochStats st i e h k b m) = svs_receipts st"
  "svs_fingerprints (updateEpochStats st i e h k b m) = svs_fingerprints st"
  "svs_memcounts (updateEpochStats st i e h k b m) = svs_memcounts st"
  "svs_denycounts (updateEpochStats st i e h k b m) = svs_denycounts st"
  "svs_denials (updateEpochStats st i e h k b m) = svs_denials st"
  "svs_denyfps (updateEpochStats st i e h k b m) = svs_denyfps st"
  "svs_events (updateEpochStats st i e h k b m) = svs_events st"
  "svs_eventfps (updateEpochStats st i e h k b m) = svs_eventfps st"
  "svs_contributors (updateEpochStats st i e h k b m) = svs_contributors st"
  "svs_anchors (updateEpochStats st i e h k b m) = svs_anchors st"
  "svs_params (updateEpochStats st i e h k b m) = svs_params st"
  by (simp_all add: updateEpochStats_def stats_steps)

lemma updateEpochStats_firsts:
  "kv_has (svs_memfirst (updateEpochStats st i e h k b m)) x \<longleftrightarrow>
     x = memFirstKey i h e \<or> kv_has (svs_memfirst st) x"
  "kv_has (svs_keyfirst (updateEpochStats st i e h k b m)) x \<longleftrightarrow>
     x = keyFirstKey i k e \<or> kv_has (svs_keyfirst st) x"
  by (auto simp: updateEpochStats_def stats_steps kv_has_def kv_get_set)

lemma load_updateEpochStats:
  "load_epoch_stats (updateEpochStats st i e h k b m) j f =
     (if j = i \<and> f = e then
        let s = load_epoch_stats st i e in s\<lparr>
          ess_TotalServes := ess_TotalServes s + 1,
          ess_UniqueMemoriesServed := ess_UniqueMemoriesServed s +
            (if kv_has (svs_memfirst st) (memFirstKey i h e) then 0 else 1),
          ess_UniqueServeKeys := ess_UniqueServeKeys s +
            (if kv_has (svs_keyfirst st) (keyFirstKey i k e) then 0 else 1),
          ess_SelfServes := ess_SelfServes s + (if b then 1 else 0),
          ess_ModelBreakdown := (if m = [] then ess_ModelBreakdown s else bump m (ess_ModelBreakdown s))\<rparr>
      else load_epoch_stats st j f)"
  by (simp add: updateEpochStats_def stats_steps)

lemma updateContributorServes_other [simp]:
  "svs_receipts (updateContributorServes st c e i b n) = svs_receipts st"
  "svs_fingerprints (updateContributorServes st c e i b n) = svs_fingerprints st"
  "svs_memcounts (updateContributorServes st c e i b n) = svs_memcounts st"
  "svs_denycounts (updateContributorServes st c e i b n) = svs_denycounts st"
  "svs_denials (updateContributorServes st c e i b n) = svs_denials st"
  "svs_denyfps (updateContributorServes st c e i b n) = svs_denyfps st"
  "svs_events (updateContributorServes st c e i b n) = svs_events st"
  "svs_eventfps (updateContributorServes st c e i b n) = svs_eventfps st"
  "svs_memfirst (updateContributorServes st c e i b n) = svs_memfirst st"
  "svs_keyfirst (updateContributorServes st c e i b n) = svs_keyfirst st"
  "svs_stats (updateContributorServes st c e i b n) = svs_stats st"
  "svs_anchors (updateContributorServes st c e i b n) = svs_anchors st"
  "svs_params (updateContributorServes st c e i b n) = svs_params st"
  by (simp_all add: updateContributorServes_def Let_def)

definition contributor_count :: "serve_state \<Rightarrow> string \<Rightarrow> u64 \<Rightarrow> u64" where
  "contributor_count st c e =
     (case GetContributorEpochServes st c e of Inl _ \<Rightarrow> 0 | Inr cs \<Rightarrow> ces_ServeCount cs)"

lemma contributor_count_update:
  "contributor_count (updateContributorServes st c e i b n) c' e' =
     (if c' = c \<and> e' = e then contributor_count st c e + 1 else contributor_count st c' e')"
  by (simp add: contributor_count_def GetContributorEpochServes_def updateContributorServes_def Let_def
      kv_get_set AddOrgID_def NewContributorEpochServes_def split: option.split)

lemma contributor_count_cong:
  "svs_contributors st' = svs_contributors st \<Longrightarrow> contributor_count st' c e = contributor_count st c e"
  by (simp add: contributor_count_def GetContributorEpochServes_def)

subsection \<open>One accepted serve\<close>

definition receipt_of :: "string \<Rightarrow> u64 \<Rightarrow> bytes \<Rightarrow> ServeEntry \<Rightarrow> StoredServeReceipt" where
  "receipt_of i e fp serve = \<lparr>
     ssr_OrgId = i, ssr_MemoryContentHash = se_MemoryContentHash serve, ssr_ContributorId = se_ContributorId serve,
     ssr_Epoch = e, ssr_IsSelfServe = (hex_encode (se_ServeKeyPubkey serve) = se_ContributorId serve),
     ssr_ModelId = se_ModelId serve, ssr_TurnCount = se_TurnCount serve,
     ssr_ServeKeyPubkey = se_ServeKeyPubkey serve, ssr_Fingerprint = fp, ssr_EpisodeRef = se_EpisodeRef serve\<rparr>"

lemma receipt_of_simps [simp]:
  "ssr_OrgId (receipt_of i e fp s) = i" "ssr_Epoch (receipt_of i e fp s) = e"
  "ssr_Fingerprint (receipt_of i e fp s) = fp"
  "ssr_MemoryContentHash (receipt_of i e fp s) = se_MemoryContentHash s"
  "ssr_ContributorId (receipt_of i e fp s) = se_ContributorId s"
  "ssr_ServeKeyPubkey (receipt_of i e fp s) = se_ServeKeyPubkey s"
  "ssr_IsSelfServe (receipt_of i e fp s) \<longleftrightarrow> hex_encode (se_ServeKeyPubkey s) = se_ContributorId s"
  by (simp_all add: receipt_of_def)

lemma incrementMemoryServeCount_simp:
  "incrementMemoryServeCount st i h e =
     st\<lparr>svs_memcounts := kv_set (memCountKey i h e) (GetMemoryServeCount st i h e + 1) (svs_memcounts st)\<rparr>"
  by (simp add: incrementMemoryServeCount_def GetMemoryServeCount_def Let_def)

lemma record_serve_tables:
  "svs_receipts (record_serve st i e fp s) = kv_set (receiptKey i e fp) (receipt_of i e fp s) (svs_receipts st)"
  "svs_fingerprints (record_serve st i e fp s) =
     kv_set (serveFingerprintKey fp) (receiptKey i e fp) (svs_fingerprints st)"
  "svs_denials (record_serve st i e fp s) = svs_denials st" "svs_denyfps (record_serve st i e fp s) = svs_denyfps st"
  "svs_denycounts (record_serve st i e fp s) = svs_denycounts st"
  "svs_events (record_serve st i e fp s) = svs_events st" "svs_eventfps (record_serve st i e fp s) = svs_eventfps st"
  "svs_anchors (record_serve st i e fp s) = svs_anchors st" "svs_params (record_serve st i e fp s) = svs_params st"
  by (simp_all add: record_serve_def Let_def incrementMemoryServeCount_simp receipt_of_def ServeReceiptToStored_def
      NewServeReceipt_def)

lemma record_serve_firsts:
  "kv_has (svs_memfirst (record_serve st i e fp s)) x \<longleftrightarrow>
     x = memFirstKey i (se_MemoryContentHash s) e \<or> kv_has (svs_memfirst st) x"
  "kv_has (svs_keyfirst (record_serve st i e fp s)) x \<longleftrightarrow>
     x = keyFirstKey i (hex_encode (se_ServeKeyPubkey s)) e \<or> kv_has (svs_keyfirst st) x"
  by (simp_all add: record_serve_def Let_def updateEpochStats_firsts incrementMemoryServeCount_simp)

lemma record_serve_memcount:
  "GetMemoryServeCount (record_serve st i e fp s) j h f = GetMemoryServeCount st j h f +
     (if i = j \<and> se_MemoryContentHash s = h \<and> e = f then 1 else 0)"
  by (auto simp: record_serve_def Let_def GetMemoryServeCount_def incrementMemoryServeCount_simp kv_get_set)

lemma record_serve_contributor:
  "contributor_count (record_serve st i e fp s) c f = contributor_count st c f +
     (if se_ContributorId s = c \<and> e = f then 1 else 0)"
proof -
  have "contributor_count (updateEpochStats st1 i e h k b m) c f = contributor_count st1 c f" for st1 h k b m
    by (rule contributor_count_cong) simp
  then show ?thesis
    by (simp add: record_serve_def Let_def contributor_count_update incrementMemoryServeCount_simp)
      (auto simp: contributor_count_def GetContributorEpochServes_def)
qed

lemma record_serve_stats:
  "load_epoch_stats (record_serve st i e fp s) j f =
     (if j = i \<and> f = e then
        let x = load_epoch_stats st i e in x\<lparr>
          ess_TotalServes := ess_TotalServes x + 1,
          ess_UniqueMemoriesServed := ess_UniqueMemoriesServed x +
            (if kv_has (svs_memfirst st) (memFirstKey i (se_MemoryContentHash s) e) then 0 else 1),
          ess_UniqueServeKeys := ess_UniqueServeKeys x +
            (if kv_has (svs_keyfirst st) (keyFirstKey i (hex_encode (se_ServeKeyPubkey s)) e) then 0 else 1),
          ess_SelfServes := ess_SelfServes x +
            (if hex_encode (se_ServeKeyPubkey s) = se_ContributorId s then 1 else 0),
          ess_ModelBreakdown := (if se_ModelId s = [] then ess_ModelBreakdown x
            else bump (se_ModelId s) (ess_ModelBreakdown x))\<rparr>
      else load_epoch_stats st j f)"
proof -
  have "load_epoch_stats (updateContributorServes st1 c f1 i1 b n) j f = load_epoch_stats st1 j f" for st1 c f1 i1 b n
    by (rule load_epoch_stats_cong) simp
  moreover have "load_epoch_stats (st\<lparr>svs_receipts := x, svs_fingerprints := y, svs_memcounts := z\<rparr>) j f =
      load_epoch_stats st j f" for x y z j f
    by (rule load_epoch_stats_cong) simp
  ultimately show ?thesis
    by (simp add: record_serve_def Let_def load_updateEpochStats incrementMemoryServeCount_simp)
qed

subsection \<open>Invariants\<close>

definition receipt_ok :: "'x sdk \<Rightarrow> serve_state \<Rightarrow> bytes \<Rightarrow> StoredServeReceipt \<Rightarrow> bool" where
  "receipt_ok K st k r \<longleftrightarrow> k = receiptKey (ssr_OrgId r) (ssr_Epoch r) (ssr_Fingerprint r) \<and>
     kv_get (svs_fingerprints st) (serveFingerprintKey (ssr_Fingerprint r)) = Some k \<and>
     ssr_Fingerprint r = ComputeServeFingerprint K (ssr_MemoryContentHash r) (ssr_ServeKeyPubkey r) (ssr_Epoch r)"

definition receipts_inv :: "'x sdk \<Rightarrow> serve_state \<Rightarrow> bool" where
  "receipts_inv K st \<longleftrightarrow> kv_ok (svs_receipts st) \<and>
     (\<forall>k r. kv_get (svs_receipts st) k = Some r \<longrightarrow> receipt_ok K st k r) \<and>
     (\<forall>fp k. kv_get (svs_fingerprints st) (serveFingerprintKey fp) = Some k \<longrightarrow>
        (\<exists>r. kv_get (svs_receipts st) k = Some r \<and> ssr_Fingerprint r = fp))"

abbreviation of_memory :: "string \<Rightarrow> bytes \<Rightarrow> u64 \<Rightarrow> StoredServeReceipt \<Rightarrow> bool" where
  "of_memory i h e r \<equiv> ssr_OrgId r = i \<and> ssr_MemoryContentHash r = h \<and> ssr_Epoch r = e"

abbreviation in_epoch :: "string \<Rightarrow> u64 \<Rightarrow> StoredServeReceipt \<Rightarrow> bool" where
  "in_epoch i e r \<equiv> ssr_OrgId r = i \<and> ssr_Epoch r = e"

definition counts_inv :: "serve_state \<Rightarrow> bool" where
  "counts_inv st \<longleftrightarrow>
     (\<forall>i h e. GetMemoryServeCount st i h e = of_nat (tally (of_memory i h e) (svs_receipts st))) \<and>
     (\<forall>c e. contributor_count st c e =
        of_nat (tally (\<lambda>r. ssr_ContributorId r = c \<and> ssr_Epoch r = e) (svs_receipts st)))"

definition firsts_inv :: "serve_state \<Rightarrow> bool" where
  "firsts_inv st \<longleftrightarrow>
     (\<forall>i h e. kv_has (svs_memfirst st) (memFirstKey i h e) \<longleftrightarrow>
        h \<in> kinds (in_epoch i e) ssr_MemoryContentHash (svs_receipts st)) \<and>
     (\<forall>i p e. kv_has (svs_keyfirst st) (keyFirstKey i (hex_encode p) e) \<longleftrightarrow>
        p \<in> kinds (in_epoch i e) ssr_ServeKeyPubkey (svs_receipts st))"

definition stats_inv :: "serve_state \<Rightarrow> bool" where
  "stats_inv st \<longleftrightarrow> (\<forall>i e.
     ess_TotalServes (load_epoch_stats st i e) = of_nat (tally (in_epoch i e) (svs_receipts st)) \<and>
     ess_SelfServes (load_epoch_stats st i e) =
       of_nat (tally (\<lambda>r. in_epoch i e r \<and> ssr_IsSelfServe r) (svs_receipts st)) \<and>
     ess_UniqueMemoriesServed (load_epoch_stats st i e) =
       of_nat (card (kinds (in_epoch i e) ssr_MemoryContentHash (svs_receipts st))) \<and>
     ess_UniqueServeKeys (load_epoch_stats st i e) =
       of_nat (card (kinds (in_epoch i e) ssr_ServeKeyPubkey (svs_receipts st))))"

lemma fresh_receipt:
  assumes "receipts_inv K st" "\<not> HasServeFingerprint st fp"
  shows "kv_get (svs_receipts st) (receiptKey i e fp) = None"
proof (rule ccontr)
  assume "kv_get (svs_receipts st) (receiptKey i e fp) \<noteq> None"
  then obtain r where "kv_get (svs_receipts st) (receiptKey i e fp) = Some r" by blast
  with assms(1) have "receipt_ok K st (receiptKey i e fp) r" unfolding receipts_inv_def by blast
  then show False using assms(2) by (auto simp: receipt_ok_def HasServeFingerprint_def kv_has_def)
qed

lemma receipts_inv_serve:
  assumes "receipts_inv K st" "\<not> HasServeFingerprint st fp"
    "fp = ComputeServeFingerprint K (se_MemoryContentHash s) (se_ServeKeyPubkey s) e"
  shows "receipts_inv K (record_serve st i e fp s)"
proof -
  have new: "kv_get (svs_fingerprints st) (serveFingerprintKey fp) = None"
    using assms(2) by (simp add: HasServeFingerprint_def kv_has_def)
  note none = fresh_receipt [OF assms(1,2), of i e]
  have "receipt_ok K (record_serve st i e fp s) k r"
    if "kv_get (svs_receipts (record_serve st i e fp s)) k = Some r" for k r
  proof (cases "k = receiptKey i e fp")
    case True
    then have "r = receipt_of i e fp s" using that by (simp add: record_serve_tables)
    then show ?thesis using True assms(3) by (simp add: receipt_ok_def record_serve_tables)
  next
    case False
    then have "receipt_ok K st k r"
      using that assms(1) by (simp add: record_serve_tables receipts_inv_def)
    then show ?thesis using new by (auto simp: receipt_ok_def record_serve_tables kv_get_set)
  qed
  moreover have "\<exists>r. kv_get (svs_receipts (record_serve st i e fp s)) k = Some r \<and> ssr_Fingerprint r = fp'"
    if "kv_get (svs_fingerprints (record_serve st i e fp s)) (serveFingerprintKey fp') = Some k" for fp' k
  proof (cases "fp' = fp")
    case True
    then show ?thesis using that by (auto simp: record_serve_tables)
  next
    case False
    then have "kv_get (svs_fingerprints st) (serveFingerprintKey fp') = Some k"
      using that by (simp add: record_serve_tables)
    then obtain r where "kv_get (svs_receipts st) k = Some r" "ssr_Fingerprint r = fp'"
      using assms(1) unfolding receipts_inv_def by blast
    then show ?thesis using none by (auto simp: record_serve_tables kv_get_set)
  qed
  moreover have "kv_ok (svs_receipts (record_serve st i e fp s))"
    using assms(1) by (simp add: record_serve_tables receipts_inv_def)
  ultimately show ?thesis unfolding receipts_inv_def by blast
qed

lemma counts_inv_serve:
  assumes "counts_inv st" "kv_ok (svs_receipts st)" "kv_get (svs_receipts st) (receiptKey i e fp) = None"
  shows "counts_inv (record_serve st i e fp s)"
  using assms(1) unfolding counts_inv_def
  by (simp add: record_serve_tables record_serve_memcount record_serve_contributor tally_insert [OF assms(2,3)])

lemma firsts_inv_serve:
  assumes "firsts_inv st" "kv_get (svs_receipts st) (receiptKey i e fp) = None"
  shows "firsts_inv (record_serve st i e fp s)"
  unfolding firsts_inv_def
proof (intro conjI allI)
  fix j h f p
  have "kv_has (svs_memfirst st) (memFirstKey j h f) \<longleftrightarrow>
      h \<in> kinds (in_epoch j f) ssr_MemoryContentHash (svs_receipts st)"
    using assms(1) by (simp add: firsts_inv_def)
  then show "kv_has (svs_memfirst (record_serve st i e fp s)) (memFirstKey j h f) \<longleftrightarrow>
      h \<in> kinds (in_epoch j f) ssr_MemoryContentHash (svs_receipts (record_serve st i e fp s))"
    by (auto simp: record_serve_tables record_serve_firsts kinds_insert [OF assms(2)])
  have "kv_has (svs_keyfirst st) (keyFirstKey j (hex_encode p) f) \<longleftrightarrow>
      p \<in> kinds (in_epoch j f) ssr_ServeKeyPubkey (svs_receipts st)"
    using assms(1) by (simp add: firsts_inv_def)
  then show "kv_has (svs_keyfirst (record_serve st i e fp s)) (keyFirstKey j (hex_encode p) f) \<longleftrightarrow>
      p \<in> kinds (in_epoch j f) ssr_ServeKeyPubkey (svs_receipts (record_serve st i e fp s))"
    by (auto simp: record_serve_tables record_serve_firsts kinds_insert [OF assms(2)])
qed

lemma card_kinds_insert:
  "kv_get t k = None \<Longrightarrow> card (kinds P f (kv_set k v t)) =
     card (kinds P f t) + (if P v \<and> f v \<notin> kinds P f t then 1 else 0)"
  by (simp add: kinds_insert card_insert_if)

lemma stats_inv_serve:
  assumes "stats_inv st" "firsts_inv st" "kv_ok (svs_receipts st)"
    "kv_get (svs_receipts st) (receiptKey i e fp) = None"
  shows "stats_inv (record_serve st i e fp s)"
proof -
  note ins = tally_insert [OF assms(3,4)] card_kinds_insert [OF assms(4)]
  have firsts: "kv_has (svs_memfirst st) (memFirstKey i (se_MemoryContentHash s) e) \<longleftrightarrow>
      se_MemoryContentHash s \<in> kinds (in_epoch i e) ssr_MemoryContentHash (svs_receipts st)"
    "kv_has (svs_keyfirst st) (keyFirstKey i (hex_encode (se_ServeKeyPubkey s)) e) \<longleftrightarrow>
      se_ServeKeyPubkey s \<in> kinds (in_epoch i e) ssr_ServeKeyPubkey (svs_receipts st)"
    using assms(2) by (simp_all add: firsts_inv_def)
  show ?thesis
    unfolding stats_inv_def
  proof (intro allI)
    fix j f
    have here: "ess_TotalServes (load_epoch_stats st j f) = of_nat (tally (in_epoch j f) (svs_receipts st))"
      "ess_SelfServes (load_epoch_stats st j f) =
         of_nat (tally (\<lambda>r. in_epoch j f r \<and> ssr_IsSelfServe r) (svs_receipts st))"
      "ess_UniqueMemoriesServed (load_epoch_stats st j f) =
         of_nat (card (kinds (in_epoch j f) ssr_MemoryContentHash (svs_receipts st)))"
      "ess_UniqueServeKeys (load_epoch_stats st j f) =
         of_nat (card (kinds (in_epoch j f) ssr_ServeKeyPubkey (svs_receipts st)))"
      using assms(1) by (simp_all add: stats_inv_def)
    let ?st = "record_serve st i e fp s"
    show "ess_TotalServes (load_epoch_stats ?st j f) = of_nat (tally (in_epoch j f) (svs_receipts ?st)) \<and>
      ess_SelfServes (load_epoch_stats ?st j f) =
        of_nat (tally (\<lambda>r. in_epoch j f r \<and> ssr_IsSelfServe r) (svs_receipts ?st)) \<and>
      ess_UniqueMemoriesServed (load_epoch_stats ?st j f) =
        of_nat (card (kinds (in_epoch j f) ssr_MemoryContentHash (svs_receipts ?st))) \<and>
      ess_UniqueServeKeys (load_epoch_stats ?st j f) =
        of_nat (card (kinds (in_epoch j f) ssr_ServeKeyPubkey (svs_receipts ?st)))"
    proof (cases "j = i \<and> f = e")
      case True
      then show ?thesis
        using here firsts by (simp add: record_serve_tables record_serve_stats ins Let_def)
    next
      case False
      then have out: "\<not> in_epoch j f (receipt_of i e fp s)" by auto
      have tallies: "tally P (svs_receipts ?st) = tally P (svs_receipts st)" if "\<not> P (receipt_of i e fp s)" for P
        using that by (simp add: record_serve_tables ins)
      have same: "kinds (in_epoch j f) g (svs_receipts ?st) = kinds (in_epoch j f) g (svs_receipts st)"
        for g :: "StoredServeReceipt \<Rightarrow> bytes"
        unfolding record_serve_tables kinds_insert [OF assms(4)] by (rule if_not_P [OF out])
      have "load_epoch_stats ?st j f = load_epoch_stats st j f"
        unfolding record_serve_stats by (rule if_not_P [OF False])
      moreover have "tally (\<lambda>r. in_epoch j f r \<and> ssr_IsSelfServe r) (svs_receipts ?st) =
          tally (\<lambda>r. in_epoch j f r \<and> ssr_IsSelfServe r) (svs_receipts st)"
        by (rule tallies) (use out in blast)
      ultimately show ?thesis
        unfolding same tallies [of "in_epoch j f", OF out] using here by simp
    qed
  qed
qed

subsection \<open>One accepted denial\<close>

definition denial_of :: "string \<Rightarrow> u64 \<Rightarrow> DenialEntry \<Rightarrow> StoredDenialReceipt" where
  "denial_of i e entry = \<lparr>
     sdr_OrgId = i, sdr_MemoryHash = dne_MemoryHash entry, sdr_DenyKey = hex_encode (dne_ServeKeyPubkey entry),
     sdr_Reason = dne_Reason entry, sdr_Epoch = e, sdr_ServeFingerprint = dne_ServeFingerprint entry,
     sdr_ServeKeyPubkey = dne_ServeKeyPubkey entry, sdr_NegAnchor = []\<rparr>"

definition record_denial :: "serve_state \<Rightarrow> string \<Rightarrow> u64 \<Rightarrow> bytes \<Rightarrow> DenialEntry \<Rightarrow> serve_state" where
  "record_denial st i e fp entry =
     StoreDenialReceipt (updateEpochDenialStats (IncrementDenialCount
       (st\<lparr>svs_denyfps := kv_set (denialFingerprintKey fp) present_mark (svs_denyfps st)\<rparr>)
         i (dne_MemoryHash entry) e) i e) i e fp entry"

lemma IncrementDenialCount_simp:
  "IncrementDenialCount st i h e =
     st\<lparr>svs_denycounts := kv_set (denialCountKey i h e) (GetMemoryDenialCount st i h e + 1) (svs_denycounts st)\<rparr>"
  by (simp add: IncrementDenialCount_def GetMemoryDenialCount_def Let_def)

lemmas record_denial_unfold = record_denial_def StoreDenialReceipt_def updateEpochDenialStats_def
  IncrementDenialCount_simp Let_def

lemma record_denial_tables:
  "svs_denials (record_denial st i e fp d) = kv_set (denialReceiptKey i e fp) (denial_of i e d) (svs_denials st)"
  "svs_denyfps (record_denial st i e fp d) = kv_set (denialFingerprintKey fp) present_mark (svs_denyfps st)"
  "svs_receipts (record_denial st i e fp d) = svs_receipts st"
  "svs_fingerprints (record_denial st i e fp d) = svs_fingerprints st"
  "svs_memcounts (record_denial st i e fp d) = svs_memcounts st"
  "svs_memfirst (record_denial st i e fp d) = svs_memfirst st" "svs_keyfirst (record_denial st i e fp d) = svs_keyfirst st"
  "svs_contributors (record_denial st i e fp d) = svs_contributors st"
  "svs_events (record_denial st i e fp d) = svs_events st" "svs_eventfps (record_denial st i e fp d) = svs_eventfps st"
  "svs_anchors (record_denial st i e fp d) = svs_anchors st" "svs_params (record_denial st i e fp d) = svs_params st"
  by (simp_all add: record_denial_unfold denial_of_def)

lemma record_denial_count:
  "GetMemoryDenialCount (record_denial st i e fp d) j h f = GetMemoryDenialCount st j h f +
     (if i = j \<and> dne_MemoryHash d = h \<and> e = f then 1 else 0)"
  by (auto simp: record_denial_unfold GetMemoryDenialCount_def kv_get_set)

lemma record_denial_stats:
  "load_epoch_stats (record_denial st i e fp d) j f = (load_epoch_stats st j f)\<lparr>
     ess_TotalDenials := ess_TotalDenials (load_epoch_stats st j f) + (if i = j \<and> e = f then 1 else 0)\<rparr>"
proof -
  have "load_epoch_stats (st1\<lparr>svs_denials := x\<rparr>) j f = load_epoch_stats st1 j f" for st1 x
    by (rule load_epoch_stats_cong) simp
  moreover have "load_epoch_stats (st\<lparr>svs_denyfps := x, svs_denycounts := y\<rparr>) j f = load_epoch_stats st j f" for x y j f
    by (rule load_epoch_stats_cong) simp
  ultimately show ?thesis by (auto simp: record_denial_unfold)
qed

definition denial_linked :: "serve_state \<Rightarrow> StoredDenialReceipt \<Rightarrow> bool" where
  "denial_linked st d \<longleftrightarrow> (\<exists>r. GetServeReceiptByFingerprint st (sdr_ServeFingerprint d) = Some r \<and>
     ssr_MemoryContentHash r = sdr_MemoryHash d \<and> ssr_ServeKeyPubkey r = sdr_ServeKeyPubkey d)"

definition denial_fp :: "'x sdk \<Rightarrow> StoredDenialReceipt \<Rightarrow> bytes" where
  "denial_fp K d = ComputeDenialFingerprint K (sdr_OrgId d) (sdr_MemoryHash d) (sdr_Epoch d)
     (sdr_ServeKeyPubkey d) (sdr_ServeFingerprint d)"

definition denials_inv :: "'x sdk \<Rightarrow> serve_state \<Rightarrow> bool" where
  "denials_inv K st \<longleftrightarrow> kv_ok (svs_denials st) \<and>
     (\<forall>k d. kv_get (svs_denials st) k = Some d \<longrightarrow>
        k = denialReceiptKey (sdr_OrgId d) (sdr_Epoch d) (denial_fp K d) \<and>
        HasDenialFingerprint st (denial_fp K d) \<and> denial_linked st d) \<and>
     (\<forall>i e. ess_TotalDenials (load_epoch_stats st i e) =
        of_nat (tally (\<lambda>d. sdr_OrgId d = i \<and> sdr_Epoch d = e) (svs_denials st))) \<and>
     (\<forall>i h e. GetMemoryDenialCount st i h e =
        of_nat (tally (\<lambda>d. sdr_OrgId d = i \<and> sdr_MemoryHash d = h \<and> sdr_Epoch d = e) (svs_denials st)))"

lemma denials_inv_denial:
  assumes "denials_inv K st" "denial_linked st (denial_of i e d)"
    "fp = denial_fp K (denial_of i e d)" "\<not> HasDenialFingerprint st fp"
  shows "denials_inv K (record_denial st i e fp d)"
proof -
  let ?st = "record_denial st i e fp d"
  have "GetServeReceiptByFingerprint ?st x = GetServeReceiptByFingerprint st x" for x
    by (simp add: GetServeReceiptByFingerprint_def record_denial_tables split: option.split)
  then have link: "denial_linked ?st x = denial_linked st x" for x by (simp add: denial_linked_def)
  have has: "HasDenialFingerprint ?st x \<longleftrightarrow> x = fp \<or> HasDenialFingerprint st x" for x
    by (auto simp: HasDenialFingerprint_def record_denial_tables kv_has_def kv_get_set)
  have ok: "kv_ok (svs_denials st)" using assms(1) by (simp add: denials_inv_def)
  have old: "k = denialReceiptKey (sdr_OrgId x) (sdr_Epoch x) (denial_fp K x) \<and>
      HasDenialFingerprint st (denial_fp K x) \<and> denial_linked st x"
    if "kv_get (svs_denials st) k = Some x" for k x
    using assms(1) that by (simp add: denials_inv_def)
  have none: "kv_get (svs_denials st) (denialReceiptKey i e fp) = None"
    using old [of "denialReceiptKey i e fp"] assms(4) by (cases "kv_get (svs_denials st) (denialReceiptKey i e fp)") auto
  note ins = tally_insert [OF ok none]
  have "k = denialReceiptKey (sdr_OrgId x) (sdr_Epoch x) (denial_fp K x) \<and>
      HasDenialFingerprint ?st (denial_fp K x) \<and> denial_linked ?st x"
    if "kv_get (svs_denials ?st) k = Some x" for k x
  proof (cases "k = denialReceiptKey i e fp")
    case True
    then have "x = denial_of i e d" using that by (simp add: record_denial_tables)
    moreover have "sdr_OrgId (denial_of i e d) = i" "sdr_Epoch (denial_of i e d) = e" by (simp_all add: denial_of_def)
    moreover have "HasDenialFingerprint ?st (denial_fp K (denial_of i e d))"
      unfolding has using assms(3) by simp
    ultimately show ?thesis using True assms(2) assms(3) [symmetric] by (simp only: link)
  next
    case False
    then show ?thesis using that old by (simp add: record_denial_tables has link)
  qed
  moreover have "ess_TotalDenials (load_epoch_stats ?st j f) =
      of_nat (tally (\<lambda>d. sdr_OrgId d = j \<and> sdr_Epoch d = f) (svs_denials ?st))" for j f
    using assms(1) by (simp add: denials_inv_def record_denial_stats record_denial_tables ins denial_of_def)
  moreover have "GetMemoryDenialCount ?st j h f =
      of_nat (tally (\<lambda>d. sdr_OrgId d = j \<and> sdr_MemoryHash d = h \<and> sdr_Epoch d = f) (svs_denials ?st))" for j h f
    using assms(1) by (simp add: denials_inv_def record_denial_count record_denial_tables ins denial_of_def)
  moreover have "kv_ok (svs_denials ?st)" using ok by (simp add: record_denial_tables)
  ultimately show ?thesis unfolding denials_inv_def by blast
qed

lemma denials_inv_serve:
  assumes "denials_inv K st" "receipts_inv K st" "\<not> HasServeFingerprint st fp"
  shows "denials_inv K (record_serve st i e fp s)"
proof -
  let ?st = "record_serve st i e fp s"
  have new: "kv_get (svs_fingerprints st) (serveFingerprintKey fp) = None"
    using assms(3) by (simp add: HasServeFingerprint_def kv_has_def)
  note none = fresh_receipt [OF assms(2,3), of i e]
  have "denial_linked st d \<Longrightarrow> denial_linked ?st d" for d
    using new none
    by (auto simp: denial_linked_def GetServeReceiptByFingerprint_def record_serve_tables kv_get_set
        split: option.splits if_splits)
  moreover have "ess_TotalDenials (load_epoch_stats ?st j f) = ess_TotalDenials (load_epoch_stats st j f)" for j f
    by (simp add: record_serve_stats Let_def)
  moreover have "GetMemoryDenialCount ?st j h f = GetMemoryDenialCount st j h f"
    "HasDenialFingerprint ?st x = HasDenialFingerprint st x" for j h f x
    by (simp_all add: GetMemoryDenialCount_def HasDenialFingerprint_def record_serve_tables)
  ultimately show ?thesis using assms(1) by (simp add: denials_inv_def record_serve_tables)
qed

end
