(* ===== verification/Serve_Machine.thy ===== *)
theory Serve_Machine
  imports Serve_Correct
begin

section \<open>The serve module as a state machine\<close>

text \<open>
  A step of the serve store records one serve, one denial or one event, anchors a policy or sets
  the parameters.  Every message of the module is a sequence of such steps (its batch loop), and
  the invariants of the store hold along every sequence of steps.
\<close>

subsection \<open>One accepted event\<close>

definition record_event :: "serve_state \<Rightarrow> string \<Rightarrow> u64 \<Rightarrow> bytes \<Rightarrow> EventEntry \<Rightarrow> serve_state" where
  "record_event st i e fp entry = st\<lparr>
     svs_events := kv_set (eventKey i e fp) (storedEventFromEntry i e entry fp) (svs_events st),
     svs_eventfps := kv_set (eventFingerprintKey fp) present_mark (svs_eventfps st)\<rparr>"

lemma record_event_tables [simp]:
  "svs_events (record_event st i e fp x) = kv_set (eventKey i e fp) (storedEventFromEntry i e x fp) (svs_events st)"
  "svs_eventfps (record_event st i e fp x) = kv_set (eventFingerprintKey fp) present_mark (svs_eventfps st)"
  "svs_receipts (record_event st i e fp x) = svs_receipts st" "svs_denials (record_event st i e fp x) = svs_denials st"
  "svs_fingerprints (record_event st i e fp x) = svs_fingerprints st" "svs_denyfps (record_event st i e fp x) = svs_denyfps st"
  "svs_memcounts (record_event st i e fp x) = svs_memcounts st" "svs_denycounts (record_event st i e fp x) = svs_denycounts st"
  "svs_memfirst (record_event st i e fp x) = svs_memfirst st" "svs_keyfirst (record_event st i e fp x) = svs_keyfirst st"
  "svs_stats (record_event st i e fp x) = svs_stats st" "svs_contributors (record_event st i e fp x) = svs_contributors st"
  "svs_anchors (record_event st i e fp x) = svs_anchors st" "svs_params (record_event st i e fp x) = svs_params st"
  by (simp_all add: record_event_def)

definition entry_of :: "StoredEvent \<Rightarrow> EventEntry" where
  "entry_of v = \<lparr>
     ee_EventType = sev_EventType v, ee_MemoryContentHash = sev_MemoryContentHash v,
     ee_SignerPubkey = sev_SignerPubkey v, ee_Nonce = sev_Nonce v, ee_Signature = sev_Signature v,
     ee_Body = sev_Body v\<rparr>"

lemma entry_of_stored [simp]: "entry_of (storedEventFromEntry i e x fp) = x"
  by (simp add: entry_of_def storedEventFromEntry_def)

definition event_signed :: "'x sdk \<Rightarrow> StoredEvent \<Rightarrow> bool" where
  "event_signed K v \<longleftrightarrow> (\<exists>body.
     CanonicalEventBody (sev_EventType v) (sev_OrgId v) (sev_MemoryContentHash v) (sev_Epoch v)
       (sev_SignerPubkey v) (sev_Nonce v) (Some (entry_of v)) = Inr body \<and>
     ed25519_Verify K (sev_SignerPubkey v) body (sev_Signature v) \<and>
     sev_Fingerprint v = ComputeEventFingerprint K body)"

text \<open>
  What it means for a stored event to be well typed: the body is the one its type announces, and
  every field has the range the signed text and the consumers of the log rely on.
\<close>

fun body_typed :: "i32 \<Rightarrow> EventBody option \<Rightarrow> bool" where
  "body_typed t None \<longleftrightarrow> False"
| "body_typed t (Some (Body_Outcome b)) \<longleftrightarrow> t = 3 \<and> length (oeb_ServeRef b) = 32 \<and>
     oeb_Resolution b \<in> {1, 2, 3} \<and> oeb_Source b \<in> {1, 2} \<and>
     length (oeb_EpisodeRef b) \<le> 64 \<and> length (oeb_EvidenceRef b) \<le> 64"
| "body_typed t (Some (Body_ValidityPredicate b)) \<longleftrightarrow> t = 6 \<and> vpb_Result b \<in> {1, 2, 3} \<and>
     length (vpb_PredicateId b) \<le> 64 \<and> length (vpb_EvidenceRef b) \<le> 64"
| "body_typed t (Some (Body_CostToDiscover b)) \<longleftrightarrow> t = 7 \<and> length (cdb_EvidenceRef b) \<le> 64"
| "body_typed t (Some (Body_Convergence b)) \<longleftrightarrow> t = 8 \<and> length (cvb_ConvergenceRef b) \<le> 64"

definition event_typed :: "StoredEvent \<Rightarrow> bool" where
  "event_typed v \<longleftrightarrow> body_typed (sev_EventType v) (sev_Body v) \<and> length (sev_MemoryContentHash v) = 32 \<and>
     length (sev_SignerPubkey v) = 32 \<and> length (sev_Signature v) = 64 \<and> length (sev_Nonce v) \<in> {1..64}"

lemma validateRefCaps_ok: "validateRefCaps refs = Inr () \<longleftrightarrow> (\<forall>r\<in>set refs. length r \<le> 64)"
  by (induction refs) (auto simp: validateRefCaps_def)

lemma token_ok:
  "outcomeResolutionToken r = Inr t \<Longrightarrow> r \<in> {1, 2, 3}"
  "outcomeSourceToken r = Inr t \<Longrightarrow> r \<in> {1, 2}"
  "predicateResultToken r = Inr t \<Longrightarrow> r \<in> {1, 2, 3}"
  by (auto simp: outcomeResolutionToken_def outcomeSourceToken_def predicateResultToken_def split: if_splits)

lemma validateEventBody_typed:
  "validateEventBody x = Inr () \<Longrightarrow> body_typed (ee_EventType x) (ee_Body x)"
  by (auto simp: validateEventBody_def event_type_defs GetOutcome_def GetValidityPredicate_def
      GetCostToDiscover_def GetConvergence_def validateRefCaps_ok
      split: if_splits option.splits sum.splits EventBody.splits dest: token_ok)

lemma validateEventEntry_typed:
  assumes "validateEventEntry (Some x) = Inr ()"
  shows "event_typed (storedEventFromEntry i e x fp)"
proof -
  have "validateEventBody x = Inr ()" "length (ee_MemoryContentHash x) = 32" "length (ee_SignerPubkey x) = 32"
    "length (ee_Signature x) = 64" "ee_Nonce x \<noteq> []" "length (ee_Nonce x) \<le> 64"
    using assms by (simp_all add: validateEventEntry_def ContentHashLen_def ServePubKeyLen_def ServeSigLen_def
        split: sum.splits if_splits)
  with validateEventBody_typed show ?thesis
    by (simp add: event_typed_def storedEventFromEntry_def Suc_le_eq)
qed

definition event_ok :: "'x sdk \<Rightarrow> serve_state \<Rightarrow> bytes \<Rightarrow> StoredEvent \<Rightarrow> bool" where
  "event_ok K st k v \<longleftrightarrow> k = eventKey (sev_OrgId v) (sev_Epoch v) (sev_Fingerprint v) \<and>
     kv_has (svs_eventfps st) (eventFingerprintKey (sev_Fingerprint v)) \<and> event_signed K v \<and> event_typed v"

definition events_inv :: "'x sdk \<Rightarrow> serve_state \<Rightarrow> bool" where
  "events_inv K st \<longleftrightarrow> kv_ok (svs_events st) \<and>
     (\<forall>k v. kv_get (svs_events st) k = Some v \<longrightarrow> event_ok K st k v)"

lemma events_inv_event:
  assumes "events_inv K st" "event_signed K (storedEventFromEntry i e x fp)" "validateEventEntry (Some x) = Inr ()"
  shows "events_inv K (record_event st i e fp x)"
proof -
  have "event_ok K (record_event st i e fp x) k v"
    if "kv_get (svs_events (record_event st i e fp x)) k = Some v" for k v
  proof (cases "k = eventKey i e fp")
    case True
    then have "v = storedEventFromEntry i e x fp" using that by simp
    then show ?thesis
      using True assms(2) validateEventEntry_typed [OF assms(3)]
      by (simp add: event_ok_def) (simp add: storedEventFromEntry_def kv_has_def)
  next
    case False
    then have "event_ok K st k v" using that assms(1) by (simp add: events_inv_def kv_get_set)
    then show ?thesis by (auto simp: event_ok_def kv_has_def kv_get_set)
  qed
  then show ?thesis using assms(1) by (simp add: events_inv_def)
qed

subsection \<open>Steps\<close>

definition serve_signed :: "'x sdk \<Rightarrow> StoredServeReceipt \<Rightarrow> bool" where
  "serve_signed K r \<longleftrightarrow> length (ssr_ServeKeyPubkey r) = 32 \<and> (\<exists>nonce sig. length sig = 64 \<and>
     ed25519_Verify K (ssr_ServeKeyPubkey r)
       (CanonicalServeBody (ssr_OrgId r) (ssr_MemoryContentHash r) (ssr_Epoch r) (ssr_ServeKeyPubkey r)
          nonce (ssr_EpisodeRef r)) sig)"

inductive serve_step :: "'x sdk \<Rightarrow> serve_state \<Rightarrow> serve_state \<Rightarrow> bool" for K :: "'x sdk" where
  step_serve: "\<lbrakk>fp = ComputeServeFingerprint K (se_MemoryContentHash s) (se_ServeKeyPubkey s) e;
     \<not> HasServeFingerprint st fp; serve_signed K (receipt_of i e fp s)\<rbrakk>
   \<Longrightarrow> serve_step K st (record_serve st i e fp s)"
| step_denial: "\<lbrakk>fp = denial_fp K (denial_of i e d); \<not> HasDenialFingerprint st fp;
     denial_linked st (denial_of i e d)\<rbrakk>
   \<Longrightarrow> serve_step K st (record_denial st i e fp d)"
| step_event: "\<lbrakk>\<not> kv_has (svs_eventfps st) (eventFingerprintKey fp);
     event_signed K (storedEventFromEntry i e x fp); validateEventEntry (Some x) = Inr ()\<rbrakk>
   \<Longrightarrow> serve_step K st (record_event st i e fp x)"
| step_anchor: "SetPolicyAnchor (K\<lparr>block_height := h\<rparr>) st v p = Inr st' \<Longrightarrow> serve_step K st st'"
| step_params: "serve_step K st (serve_SetParams p st)"

inductive_cases serve_stepE: "serve_step K st st'"

definition serve_inv :: "'x sdk \<Rightarrow> serve_state \<Rightarrow> bool" where
  "serve_inv K st \<longleftrightarrow> receipts_inv K st \<and> counts_inv st \<and> firsts_inv st \<and> stats_inv st \<and>
     denials_inv K st \<and> events_inv K st"

text \<open>The part of the store the invariants read.\<close>

definition same_records :: "serve_state \<Rightarrow> serve_state \<Rightarrow> bool" where
  "same_records st st' \<longleftrightarrow> svs_receipts st' = svs_receipts st \<and> svs_fingerprints st' = svs_fingerprints st \<and>
     svs_memcounts st' = svs_memcounts st \<and> svs_contributors st' = svs_contributors st \<and>
     svs_memfirst st' = svs_memfirst st \<and> svs_keyfirst st' = svs_keyfirst st \<and> svs_stats st' = svs_stats st \<and>
     svs_denials st' = svs_denials st \<and> svs_denyfps st' = svs_denyfps st \<and> svs_denycounts st' = svs_denycounts st"

lemma same_records_inv:
  assumes "same_records st st'"
  shows "receipts_inv K st' \<longleftrightarrow> receipts_inv K st" "counts_inv st' \<longleftrightarrow> counts_inv st"
    "firsts_inv st' \<longleftrightarrow> firsts_inv st" "stats_inv st' \<longleftrightarrow> stats_inv st" "denials_inv K st' \<longleftrightarrow> denials_inv K st"
proof -
  note same = assms [unfolded same_records_def]
  have "load_epoch_stats st' = load_epoch_stats st" "contributor_count st' = contributor_count st"
    "GetMemoryServeCount st' = GetMemoryServeCount st" "GetMemoryDenialCount st' = GetMemoryDenialCount st"
    "HasDenialFingerprint st' = HasDenialFingerprint st"
    "GetServeReceiptByFingerprint st' = GetServeReceiptByFingerprint st"
    using same
    by (auto simp: fun_eq_iff load_epoch_stats_def GetEpochServeStats_def contributor_count_def
        GetContributorEpochServes_def GetMemoryServeCount_def GetMemoryDenialCount_def HasDenialFingerprint_def
        GetServeReceiptByFingerprint_def split: option.split)
  then show "receipts_inv K st' \<longleftrightarrow> receipts_inv K st" "counts_inv st' \<longleftrightarrow> counts_inv st"
    "firsts_inv st' \<longleftrightarrow> firsts_inv st" "stats_inv st' \<longleftrightarrow> stats_inv st" "denials_inv K st' \<longleftrightarrow> denials_inv K st"
    using same by (simp_all add: receipts_inv_def receipt_ok_def counts_inv_def firsts_inv_def stats_inv_def
        denials_inv_def denial_linked_def)
qed

lemma events_inv_cong:
  "svs_events st' = svs_events st \<Longrightarrow> svs_eventfps st' = svs_eventfps st \<Longrightarrow> events_inv K st' \<longleftrightarrow> events_inv K st"
  by (simp add: events_inv_def event_ok_def)

lemma serve_inv_same:
  assumes "serve_inv K st" "same_records st st'" "events_inv K st'"
  shows "serve_inv K st'"
  using assms(1,3) by (simp add: serve_inv_def same_records_inv [OF assms(2)])

lemma serve_inv_unchanged:
  assumes "serve_inv K st" "same_records st st'" "svs_events st' = svs_events st" "svs_eventfps st' = svs_eventfps st"
  shows "serve_inv K st'"
  by (rule serve_inv_same [OF assms(1,2)])
    (use assms(1) events_inv_cong [OF assms(3,4), of K] in \<open>simp add: serve_inv_def\<close>)

lemma SetPolicyAnchor_cases:
  assumes "SetPolicyAnchor K st v p = Inr st'"
  obtains "st' = st" "\<exists>a. GetPolicyAnchor st v = Some a \<and> spa_PolicyHash a = p"
  | a where "GetPolicyAnchor st v = None" "spa_PolicyHash a = p" "spa_PolicyVersion a = v"
      "st' = st\<lparr>svs_anchors := kv_set (policyAnchorKey v) a (svs_anchors st), svs_latest_anchor := Some v\<rparr>"
proof (cases "GetPolicyAnchor st v")
  case None
  show thesis
    by (rule that(2) [of "\<lparr>spa_PolicyVersion = v, spa_PolicyHash = p, spa_AnchoredAtEpoch = 0,
        spa_AnchoredAtHeight = block_height K\<rparr>"])
      (use assms None in \<open>simp_all add: SetPolicyAnchor_def GetPolicyAnchor_def\<close>)
next
  case (Some a)
  then show thesis
    using assms by (intro that(1)) (simp_all add: SetPolicyAnchor_def GetPolicyAnchor_def split: if_splits)
qed

lemma record_denial_inv:
  assumes "serve_inv K st" "fp = denial_fp K (denial_of i e d)" "\<not> HasDenialFingerprint st fp"
    "denial_linked st (denial_of i e d)"
  shows "serve_inv K (record_denial st i e fp d)"
proof -
  let ?st = "record_denial st i e fp d"
  have inv: "receipts_inv K st" "counts_inv st" "firsts_inv st" "stats_inv st" "events_inv K st"
    using assms(1) by (simp_all add: serve_inv_def)
  have count: "contributor_count ?st = contributor_count st" "GetMemoryServeCount ?st = GetMemoryServeCount st"
    by (auto simp: fun_eq_iff record_denial_tables GetMemoryServeCount_def intro: contributor_count_cong)
  have "receipts_inv K ?st" using inv(1) unfolding receipts_inv_def receipt_ok_def record_denial_tables .
  moreover have "counts_inv ?st" using inv(2) by (simp add: counts_inv_def record_denial_tables count)
  moreover have "firsts_inv ?st" using inv(3) by (simp add: firsts_inv_def record_denial_tables)
  moreover have "stats_inv ?st" using inv(4) by (simp add: stats_inv_def record_denial_tables record_denial_stats)
  moreover have "events_inv K ?st" using inv(5) by (subst events_inv_cong [of _ st]) (simp_all add: record_denial_tables)
  moreover have "denials_inv K ?st"
    using denials_inv_denial [of K st i e d fp] assms by (simp add: serve_inv_def)
  ultimately show ?thesis by (simp add: serve_inv_def)
qed

lemma record_serve_inv:
  assumes "serve_inv K st" "\<not> HasServeFingerprint st fp"
    "fp = ComputeServeFingerprint K (se_MemoryContentHash s) (se_ServeKeyPubkey s) e"
  shows "serve_inv K (record_serve st i e fp s)"
proof -
  have inv: "receipts_inv K st" "counts_inv st" "firsts_inv st" "stats_inv st" "denials_inv K st" "events_inv K st"
    using assms(1) by (simp_all add: serve_inv_def)
  have ok: "kv_ok (svs_receipts st)" using inv(1) by (simp add: receipts_inv_def)
  note new = fresh_receipt [OF inv(1) assms(2), of i e]
  have "events_inv K (record_serve st i e fp s)"
    using inv(6) by (subst events_inv_cong [of _ st]) (simp_all add: record_serve_tables)
  then show ?thesis
    using receipts_inv_serve [OF inv(1) assms(2,3)] counts_inv_serve [OF inv(2) ok new]
      firsts_inv_serve [OF inv(3) new] stats_inv_serve [OF inv(4,3) ok new] denials_inv_serve [OF inv(5,1) assms(2)]
    by (simp add: serve_inv_def)
qed

lemma serve_step_inv:
  assumes "serve_step K st st'" "serve_inv K st"
  shows "serve_inv K st'"
  using assms
proof (induction rule: serve_step.induct)
  case (step_event st fp i e x)
  then have "events_inv K (record_event st i e fp x)" by (simp add: serve_inv_def events_inv_event)
  then show ?case using step_event by (auto intro: serve_inv_same simp: same_records_def)
next
  case (step_anchor h st v p st')
  then have "same_records st st' \<and> svs_events st' = svs_events st \<and> svs_eventfps st' = svs_eventfps st"
    by (cases rule: SetPolicyAnchor_cases) (auto simp: same_records_def)
  then show ?case using serve_inv_unchanged step_anchor(2) by blast
next
  case (step_params st p)
  then show ?case
    by (rule serve_inv_unchanged) (simp_all add: same_records_def serve_SetParams_def)
qed (simp_all add: record_serve_inv record_denial_inv)

subsection \<open>Batches\<close>

text \<open>The conditions under which a serve of a batch is recorded.\<close>

definition serve_accepted ::
  "'x sdk \<Rightarrow> (bytes \<Rightarrow> (string \<times> string) list option) \<Rightarrow> memory_state \<Rightarrow> string \<Rightarrow> u64 \<Rightarrow> serve_state \<Rightarrow> ServeEntry \<Rightarrow> bool" where
  "serve_accepted K parse_tags ms i e st s \<longleftrightarrow>
     length (se_ServeKeyPubkey s) = 32 \<and> length (se_ServeSig s) = 64 \<and>
     ed25519_Verify K (se_ServeKeyPubkey s)
       (CanonicalServeBody i (se_MemoryContentHash s) e (se_ServeKeyPubkey s) (se_Nonce s) (se_EpisodeRef s)) (se_ServeSig s) \<and>
     \<not> HasServeFingerprint st (ComputeServeFingerprint K (se_MemoryContentHash s) (se_ServeKeyPubkey s) e) \<and>
     (\<exists>m. GetApprovedMemory ms i (se_MemoryContentHash s) = Inr m) \<and>
     IsValidInEpoch parse_tags ms i (ContentHashToHex (se_MemoryContentHash s)) e = Inr True"

lemma process_serve_cases:
  assumes "process_serve K parse_tags ms p i e b s = Inr b'"
  obtains "bt_serve b' = bt_serve b"
  | "serve_accepted K parse_tags ms i e (bt_serve b) s"
    "bt_serve b' = record_serve (bt_serve b) i e
       (ComputeServeFingerprint K (se_MemoryContentHash s) (se_ServeKeyPubkey s) e) s"
  using assms
  by (auto simp: process_serve_def serve_accepted_def reject_invalid_def reject_duplicate_def Let_def
      split: if_splits sum.splits)

text \<open>A property of the store that every accepted serve keeps is kept by the batch.\<close>

lemma process_serves_keep:
  assumes "process_serves K parse_tags ms p i e b serves = Inr b'" "Q (bt_serve b)"
    and "\<And>st s. s \<in> set serves \<Longrightarrow> Q st \<Longrightarrow> serve_accepted K parse_tags ms i e st s \<Longrightarrow>
      Q (record_serve st i e (ComputeServeFingerprint K (se_MemoryContentHash s) (se_ServeKeyPubkey s) e) s)"
  shows "Q (bt_serve b')"
  using assms
proof (induction serves arbitrary: b)
  case (Cons s serves)
  then obtain b1 where one: "process_serve K parse_tags ms p i e b s = Inr b1"
    and rest: "process_serves K parse_tags ms p i e b1 serves = Inr b'"
    by (auto split: sum.splits)
  have "Q (bt_serve b1)"
    using one by (cases rule: process_serve_cases) (simp_all add: Cons.prems)
  then show ?case using Cons.IH [OF rest] Cons.prems(3) by simp
qed simp

lemma process_denial_changes:
  assumes "db_serve (process_denial K ms i e b d) \<noteq> db_serve b"
  shows "\<not> HasDenialFingerprint (db_serve b) (denial_fp K (denial_of i e d))" (is ?new)
    and "denial_linked (db_serve b) (denial_of i e d)" (is ?linked)
    and "db_serve (process_denial K ms i e b d) = record_denial (db_serve b) i e (denial_fp K (denial_of i e d)) d" (is ?res)
proof -
  have fp: "denial_fp K (denial_of i e d) = ComputeDenialFingerprint K i (dne_MemoryHash d) e
      (dne_ServeKeyPubkey d) (dne_ServeFingerprint d)"
    by (simp add: denial_fp_def denial_of_def)
  have linked: "denial_linked st (denial_of i e d) \<longleftrightarrow> (\<exists>r. GetServeReceiptByFingerprint st (dne_ServeFingerprint d) = Some r \<and>
      ssr_MemoryContentHash r = dne_MemoryHash d \<and> ssr_ServeKeyPubkey r = dne_ServeKeyPubkey d)" for st
    by (simp add: denial_linked_def denial_of_def)
  have "?new \<and> ?linked \<and> ?res"
    using assms unfolding fp linked process_denial_def Let_def
    by (auto simp: reject_denial_def record_denial_def split: if_split_asm sum.split_asm option.split_asm)
  then show ?new ?linked ?res by blast+
qed

lemma process_denials_steps:
  "(serve_step K)\<^sup>*\<^sup>* (db_serve b) (db_serve (foldl (process_denial K ms i e) b ds))"
proof (induction ds arbitrary: b)
  case (Cons d ds)
  have "(serve_step K)\<^sup>*\<^sup>* (db_serve b) (db_serve (process_denial K ms i e b d))"
    using process_denial_changes [of K ms i e b d]
    by (cases "db_serve (process_denial K ms i e b d) = db_serve b") (auto intro: step_denial)
  then show ?case using Cons [of "process_denial K ms i e b d"] by simp
qed simp

lemma process_event_cases:
  assumes "validateEventEntry (Some x) = Inr ()"
  obtains "bt_serve (process_event K ms i e b x) = bt_serve b"
  | fp where "serve_step K (bt_serve b) (record_event (bt_serve b) i e fp x)"
    "bt_serve (process_event K ms i e b x) = record_event (bt_serve b) i e fp x"
proof (cases "bt_serve (process_event K ms i e b x) = bt_serve b")
  case False
  then obtain body where body: "CanonicalEventBody (ee_EventType x) i (ee_MemoryContentHash x) e
      (ee_SignerPubkey x) (ee_Nonce x) (Some x) = Inr body"
    and sig: "ed25519_Verify K (ee_SignerPubkey x) body (ee_Signature x)"
    and new: "\<not> kv_has (svs_eventfps (bt_serve b)) (eventFingerprintKey (ComputeEventFingerprint K body))"
    and res: "bt_serve (process_event K ms i e b x) = record_event (bt_serve b) i e (ComputeEventFingerprint K body) x"
    by (auto simp: process_event_def reject_invalid_def reject_duplicate_def Let_def record_event_def
        split: if_splits sum.splits)
  have "event_signed K (storedEventFromEntry i e x (ComputeEventFingerprint K body))"
    unfolding event_signed_def entry_of_stored using body sig by (auto simp: storedEventFromEntry_def)
  from step_event [OF new this assms] res show thesis by (rule that(2))
qed

lemma process_events_steps:
  assumes "process_events K ms i e b xs = Inr b'" "first_error validateEventEntry xs = Inr ()"
  shows "(serve_step K)\<^sup>*\<^sup>* (bt_serve b) (bt_serve b')"
  using assms
proof (induction K ms i e b xs rule: process_events.induct)
  case (3 K ms i e b x rest)
  have valid: "validateEventEntry (Some x) = Inr ()" "first_error validateEventEntry rest = Inr ()"
    using 3(3) by (auto split: sum.splits)
  have "(serve_step K)\<^sup>*\<^sup>* (bt_serve b) (bt_serve (process_event K ms i e b x))"
    by (cases rule: process_event_cases [OF valid(1), of K ms i e b]) auto
  then show ?case using 3(1) 3(2) valid(2) by simp
qed simp_all

lemma Msg_SubmitServeBatch_accepts:
  assumes "Msg_SubmitServeBatch K parse_tags st os ms bw rs msg = Inr (b, bw')"
  shows "GetServingAddress os (msb_OrgId msg) = Inr (msb_Signer msg)" "msb_Signer msg \<noteq> []"
    "first_error validate_serve_entry (msb_Serves msg) = Inr ()"
    "\<exists>p. process_serves K parse_tags ms p (msb_OrgId msg) (msb_Epoch msg) (new_batch st rs) (msb_Serves msg) = Inr b"
  using assms
  by (auto simp: Msg_SubmitServeBatch_def requireServingKeySigner_def ProcessServeBatch_def Let_def
      MsgSubmitServeBatch_ValidateBasic_def split: sum.splits if_splits)

lemma serve_batch_steps:
  assumes "Msg_SubmitServeBatch K parse_tags st os ms bw rs msg = Inr (b, bw')"
  shows "(serve_step K)\<^sup>*\<^sup>* st (bt_serve b)"
proof -
  obtain p where "process_serves K parse_tags ms p (msb_OrgId msg) (msb_Epoch msg) (new_batch st rs) (msb_Serves msg) = Inr b"
    using Msg_SubmitServeBatch_accepts(4) [OF assms] by blast
  then show ?thesis
  proof (rule process_serves_keep)
    fix st1 s
    assume reach: "(serve_step K)\<^sup>*\<^sup>* st st1" and acc: "serve_accepted K parse_tags ms (msb_OrgId msg) (msb_Epoch msg) st1 s"
    let ?fp = "ComputeServeFingerprint K (se_MemoryContentHash s) (se_ServeKeyPubkey s) (msb_Epoch msg)"
    have "serve_step K st1 (record_serve st1 (msb_OrgId msg) (msb_Epoch msg) ?fp s)"
      by (rule step_serve [OF refl]) (use acc in \<open>auto simp: serve_accepted_def serve_signed_def receipt_of_def\<close>)
    with reach show "(serve_step K)\<^sup>*\<^sup>* st (record_serve st1 (msb_OrgId msg) (msb_Epoch msg) ?fp s)"
      by (rule rtranclp.rtrancl_into_rtrancl)
  qed (simp add: new_batch_def)
qed

lemma denial_batch_steps:
  assumes "Msg_SubmitDenialBatch K st os ms msg = Inr b"
  shows "(serve_step K)\<^sup>*\<^sup>* st (db_serve b)"
proof -
  have "b = foldl (process_denial K ms (mdb_OrgId msg) (mdb_Epoch msg))
      \<lparr>db_serve = st, db_accepted = 0, db_rejected = 0\<rparr> (mdb_Entries msg)"
    using assms by (simp add: Msg_SubmitDenialBatch_def split: sum.splits if_splits)
  with process_denials_steps [of K "\<lparr>db_serve = st, db_accepted = 0, db_rejected = 0\<rparr>" ms "mdb_OrgId msg" "mdb_Epoch msg"]
  show ?thesis by simp
qed

lemma event_batch_steps:
  assumes "Msg_SubmitEventBatch K st os ms rs msg = Inr b"
  shows "(serve_step K)\<^sup>*\<^sup>* st (bt_serve b)"
proof -
  have "process_events K ms (meb_OrgId msg) (meb_Epoch msg) (new_batch st rs) (meb_Events msg) = Inr b"
    "first_error validateEventEntry (meb_Events msg) = Inr ()"
    using assms by (simp_all add: Msg_SubmitEventBatch_def ProcessEventBatch_def MsgSubmitEventBatch_ValidateBasic_def
        split: sum.splits if_splits)
  from process_events_steps [OF this] show ?thesis by (simp add: new_batch_def)
qed

subsection \<open>The module's machine\<close>

datatype serve_event =
    Srv_Serves org_state memory_state bandwidth_state reputation_state MsgSubmitServeBatch
  | Srv_Denials org_state memory_state MsgSubmitDenialBatch
  | Srv_Events org_state memory_state reputation_state MsgSubmitEventBatch
  | Srv_Anchor int MsgAnchorPolicyVersion
  | Srv_Params serve_MsgUpdateParams

fun serve_handle ::
  "'x sdk \<Rightarrow> (bytes \<Rightarrow> (string \<times> string) list option) \<Rightarrow> serve_state \<Rightarrow> serve_event \<Rightarrow> serve_state result" where
  "serve_handle K parse_tags st (Srv_Serves os ms bw rs m) =
     (case Msg_SubmitServeBatch K parse_tags st os ms bw rs m of Inl e \<Rightarrow> Inl e | Inr (b, bw') \<Rightarrow> Inr (bt_serve b))"
| "serve_handle K parse_tags st (Srv_Denials os ms m) =
     (case Msg_SubmitDenialBatch K st os ms m of Inl e \<Rightarrow> Inl e | Inr b \<Rightarrow> Inr (db_serve b))"
| "serve_handle K parse_tags st (Srv_Events os ms rs m) =
     (case Msg_SubmitEventBatch K st os ms rs m of Inl e \<Rightarrow> Inl e | Inr b \<Rightarrow> Inr (bt_serve b))"
| "serve_handle K parse_tags st (Srv_Anchor h m) = Msg_AnchorPolicyVersion (K\<lparr>block_height := h\<rparr>) st m"
| "serve_handle K parse_tags st (Srv_Params m) = serve_Msg_UpdateParams K st m"

lemma serve_handle_steps:
  assumes "serve_handle K parse_tags st ev = Inr st'"
  shows "(serve_step K)\<^sup>*\<^sup>* st st'"
proof (cases ev)
  case (Srv_Serves os ms bw rs m)
  then show ?thesis using assms by (auto split: sum.splits intro: serve_batch_steps)
next
  case (Srv_Denials os ms m)
  then obtain b where "Msg_SubmitDenialBatch K st os ms m = Inr b" "st' = db_serve b"
    using assms by (auto split: sum.splits)
  then show ?thesis using denial_batch_steps by blast
next
  case (Srv_Events os ms rs m)
  then obtain b where "Msg_SubmitEventBatch K st os ms rs m = Inr b" "st' = bt_serve b"
    using assms by (auto split: sum.splits)
  then show ?thesis using event_batch_steps by blast
next
  case (Srv_Anchor h m)
  then show ?thesis
    using assms by (auto simp: Msg_AnchorPolicyVersion_def split: sum.splits if_splits intro: step_anchor)
next
  case (Srv_Params m)
  then show ?thesis
    using assms by (auto simp: serve_Msg_UpdateParams_def split: sum.splits if_splits option.splits intro: step_params)
qed

end
