(* ===== verification/Serve_Properties.thy ===== *)
theory Serve_Properties
  imports Serve_Machine Memory_Properties
begin

section \<open>Properties of the serve module\<close>

text \<open>
  The machine of the serve module keeps its invariants from the empty store on, and its logs only
  grow.  The properties below are read off these two facts and the cases of an accepted serve.
\<close>

subsection \<open>Interpretations of the machine\<close>

lemma serve_empty_inv: "serve_inv K serve_empty"
proof -
  have "load_epoch_stats serve_empty i e = NewEpochServeStats i e" for i e
    by (simp add: load_epoch_stats_def GetEpochServeStats_def serve_empty_def)
  then show ?thesis
    by (simp add: serve_inv_def receipts_inv_def counts_inv_def firsts_inv_def stats_inv_def denials_inv_def
        events_inv_def contributor_count_def GetContributorEpochServes_def GetMemoryServeCount_def
        GetMemoryDenialCount_def NewEpochServeStats_def kinds_def tally_def kv_has_def)
      (simp add: serve_empty_def)
qed

lemma serve_steps_inv: "(serve_step K)\<^sup>*\<^sup>* st st' \<Longrightarrow> serve_inv K st \<Longrightarrow> serve_inv K st'"
  by (induction rule: rtranclp_induct) (blast intro: serve_step_inv)+

text \<open>The logs of the store, as maps that only grow.\<close>

definition serve_log_grows :: "serve_state \<Rightarrow> serve_state \<Rightarrow> bool" where
  "serve_log_grows st st' \<longleftrightarrow>
     kv_get (svs_receipts st) \<subseteq>\<^sub>m kv_get (svs_receipts st') \<and>
     kv_get (svs_fingerprints st) \<subseteq>\<^sub>m kv_get (svs_fingerprints st') \<and>
     kv_get (svs_denials st) \<subseteq>\<^sub>m kv_get (svs_denials st') \<and>
     kv_get (svs_events st) \<subseteq>\<^sub>m kv_get (svs_events st') \<and>
     kv_get (svs_anchors st) \<subseteq>\<^sub>m kv_get (svs_anchors st')"

lemma serve_log_grows_refl: "serve_log_grows st st"
  by (simp add: serve_log_grows_def)

lemma serve_log_grows_trans: "serve_log_grows st st' \<Longrightarrow> serve_log_grows st' st'' \<Longrightarrow> serve_log_grows st st''"
  unfolding serve_log_grows_def by (blast intro: map_le_trans)

lemma kv_get_set_grows: "kv_get t k = None \<Longrightarrow> kv_get t \<subseteq>\<^sub>m kv_get (kv_set k v t)"
  by (auto simp: map_le_def kv_get_set)

lemma fresh_denial:
  assumes "denials_inv K st" "\<not> HasDenialFingerprint st (denial_fp K d)"
  shows "kv_get (svs_denials st) (denialReceiptKey i e (denial_fp K d)) = None"
proof (rule ccontr)
  assume "kv_get (svs_denials st) (denialReceiptKey i e (denial_fp K d)) \<noteq> None"
  then obtain x where "kv_get (svs_denials st) (denialReceiptKey i e (denial_fp K d)) = Some x" by blast
  with assms(1) have "denialReceiptKey i e (denial_fp K d) = denialReceiptKey (sdr_OrgId x) (sdr_Epoch x) (denial_fp K x)"
    "HasDenialFingerprint st (denial_fp K x)"
    unfolding denials_inv_def by blast+
  then show False using assms(2) by simp
qed

lemma fresh_event:
  assumes "events_inv K st" "\<not> kv_has (svs_eventfps st) (eventFingerprintKey fp)"
  shows "kv_get (svs_events st) (eventKey i e fp) = None"
proof (rule ccontr)
  assume "kv_get (svs_events st) (eventKey i e fp) \<noteq> None"
  then obtain v where "kv_get (svs_events st) (eventKey i e fp) = Some v" by blast
  with assms(1) have "event_ok K st (eventKey i e fp) v" unfolding events_inv_def by blast
  then show False using assms(2) by (simp add: event_ok_def)
qed

lemma serve_step_grows:
  assumes "serve_step K st st'" "serve_inv K st"
  shows "serve_log_grows st st'"
  using assms
proof (induction rule: serve_step.induct)
  case (step_serve fp s e st i)
  then have "kv_get (svs_receipts st) (receiptKey i e fp) = None"
    using fresh_receipt [of K st fp i e] by (simp add: serve_inv_def)
  moreover have "kv_get (svs_fingerprints st) (serveFingerprintKey fp) = None"
    using step_serve by (simp add: HasServeFingerprint_def kv_has_def)
  ultimately show ?case by (simp add: serve_log_grows_def record_serve_tables kv_get_set_grows)
next
  case (step_denial fp i e d st)
  then have "kv_get (svs_denials st) (denialReceiptKey i e fp) = None"
    using fresh_denial [of K st "denial_of i e d" i e] by (simp add: serve_inv_def)
  then show ?case by (simp add: serve_log_grows_def record_denial_tables kv_get_set_grows)
next
  case (step_event st fp i e x)
  then have "kv_get (svs_events st) (eventKey i e fp) = None"
    using fresh_event [of K st fp i e] by (simp add: serve_inv_def)
  then show ?case by (simp add: serve_log_grows_def kv_get_set_grows)
next
  case (step_anchor h st v p st')
  then show ?case
    by (cases rule: SetPolicyAnchor_cases) (simp_all add: serve_log_grows_def GetPolicyAnchor_def kv_get_set_grows)
qed (simp add: serve_log_grows_def serve_SetParams_def)

lemma serve_steps_grow: "(serve_step K)\<^sup>*\<^sup>* st st' \<Longrightarrow> serve_inv K st \<Longrightarrow> serve_log_grows st st'"
proof (induction rule: rtranclp_induct)
  case (step st1 st2)
  then have "serve_inv K st1" by (blast intro: serve_steps_inv)
  with step show ?case by (blast intro: serve_log_grows_trans serve_step_grows)
qed (rule serve_log_grows_refl)

interpretation serve_tx: monotone_machine "serve_handle K parse_tags" "serve_inv K" serve_log_grows
  for K :: "'x sdk" and parse_tags
  using serve_handle_steps serve_steps_inv serve_steps_grow serve_log_grows_refl serve_log_grows_trans
  by unfold_locales blast+

definition serve_run ::
  "'x sdk \<Rightarrow> (bytes \<Rightarrow> (string \<times> string) list option) \<Rightarrow> serve_event list \<Rightarrow> serve_state" where
  "serve_run K parse_tags evs = deliver_all (serve_handle K parse_tags) serve_empty evs"

lemma serve_run_inv: "serve_inv K (serve_run K parse_tags evs)"
  unfolding serve_run_def by (rule serve_tx.deliver_all_inv [OF serve_empty_inv])

subsection \<open>Lemmas for the properties\<close>

lemma distinct_by_key:
  assumes "distinct (map fst xs)" "\<And>x. x \<in> set xs \<Longrightarrow> fst x = g (f x)"
  shows "distinct (map f xs)"
proof -
  have "map fst xs = map g (map f xs)" using assms(2) by simp
  with assms(1) show ?thesis by (metis distinct_map)
qed

lemma receipts_once:
  assumes "receipts_inv K st"
  shows "distinct (map (\<lambda>(k, r). (ssr_MemoryContentHash r, ssr_ServeKeyPubkey r, ssr_Epoch r)) (svs_receipts st))"
proof -
  have ok: "kv_ok (svs_receipts st)" using assms by (simp add: receipts_inv_def)
  let ?fp = "\<lambda>(h, p, e). ComputeServeFingerprint K h p e"
  have "fst x = the (kv_get (svs_fingerprints st) (serveFingerprintKey (?fp
      ((\<lambda>(k, r). (ssr_MemoryContentHash r, ssr_ServeKeyPubkey r, ssr_Epoch r)) x))))" if "x \<in> set (svs_receipts st)" for x
  proof (cases x)
    case (Pair k r)
    then have "kv_get (svs_receipts st) k = Some r" using that ok by (simp add: kv_get_iff)
    then have "receipt_ok K st k r" using assms unfolding receipts_inv_def by blast
    then have "kv_get (svs_fingerprints st) (serveFingerprintKey (ssr_Fingerprint r)) = Some k"
      "ssr_Fingerprint r = ComputeServeFingerprint K (ssr_MemoryContentHash r) (ssr_ServeKeyPubkey r) (ssr_Epoch r)"
      unfolding receipt_ok_def by blast+
    then show ?thesis by (simp add: Pair)
  qed
  with kv_ok_distinct [OF ok] show ?thesis by (rule distinct_by_key)
qed

definition denial_id :: "StoredDenialReceipt \<Rightarrow> string \<times> u64 \<times> bytes \<times> bytes \<times> bytes" where
  "denial_id d = (sdr_OrgId d, sdr_Epoch d, sdr_MemoryHash d, sdr_ServeKeyPubkey d, sdr_ServeFingerprint d)"

lemma denials_once:
  assumes "denials_inv K st"
  shows "distinct (map (\<lambda>(k, d). denial_id d) (svs_denials st))"
proof -
  have ok: "kv_ok (svs_denials st)" using assms by (simp add: denials_inv_def)
  let ?key = "\<lambda>(i, e, h, p, f). denialReceiptKey i e (ComputeDenialFingerprint K i h e p f)"
  have "fst x = ?key ((\<lambda>(k, d). denial_id d) x)" if "x \<in> set (svs_denials st)" for x
  proof (cases x)
    case (Pair k d)
    then have "kv_get (svs_denials st) k = Some d" using that ok by (simp add: kv_get_iff)
    then have "k = denialReceiptKey (sdr_OrgId d) (sdr_Epoch d) (denial_fp K d)"
      using assms unfolding denials_inv_def by blast
    then show ?thesis by (simp add: Pair denial_id_def denial_fp_def)
  qed
  with kv_ok_distinct [OF ok] show ?thesis by (rule distinct_by_key)
qed

lemma kv_list_all:
  assumes "kv_ok t" "\<And>k v. kv_get t k = Some v \<Longrightarrow> P k v"
  shows "list_all (\<lambda>(k, v). P k v) t"
  using assms by (auto simp: list_all_iff kv_get_iff)

subsection \<open>Properties\<close>

text \<open>
  C4: After any sequence of serve, denial and event batches, anchors and parameter changes, the
  statistics of every organisation and epoch are exact (modulo the width of the counters): the
  total, the self serves, the distinct memories, the distinct serving keys and the denials are the
  numbers of the stored receipts; the counts per memory and per contributor are too; and no
  memory, serving key and epoch is recorded twice.
\<close>

theorem serve_stats_exact:
  "let st = serve_run K parse_tags evs; receipts = svs_receipts st; denials = svs_denials st;
       stats = load_epoch_stats st i e
   in ess_TotalServes stats = of_nat (tally (in_epoch i e) receipts) \<and>
      ess_SelfServes stats = of_nat (tally (\<lambda>r. in_epoch i e r \<and> ssr_IsSelfServe r) receipts) \<and>
      ess_UniqueMemoriesServed stats = of_nat (card (kinds (in_epoch i e) ssr_MemoryContentHash receipts)) \<and>
      ess_UniqueServeKeys stats = of_nat (card (kinds (in_epoch i e) ssr_ServeKeyPubkey receipts)) \<and>
      ess_TotalDenials stats = of_nat (tally (\<lambda>d. sdr_OrgId d = i \<and> sdr_Epoch d = e) denials) \<and>
      GetMemoryServeCount st i h e = of_nat (tally (of_memory i h e) receipts) \<and>
      GetMemoryDenialCount st i h e =
        of_nat (tally (\<lambda>d. sdr_OrgId d = i \<and> sdr_MemoryHash d = h \<and> sdr_Epoch d = e) denials) \<and>
      contributor_count st c e = of_nat (tally (\<lambda>r. ssr_ContributorId r = c \<and> ssr_Epoch r = e) receipts) \<and>
      distinct (map (\<lambda>(k, r). (ssr_MemoryContentHash r, ssr_ServeKeyPubkey r, ssr_Epoch r)) receipts)"
proof -
  have inv: "counts_inv (serve_run K parse_tags evs)" "stats_inv (serve_run K parse_tags evs)"
    "denials_inv K (serve_run K parse_tags evs)" "receipts_inv K (serve_run K parse_tags evs)"
    using serve_run_inv [of K parse_tags evs] by (simp_all add: serve_inv_def)
  from receipts_once [OF inv(4)] inv(1,2,3) show ?thesis
    by (simp add: counts_inv_def stats_inv_def denials_inv_def Let_def)
qed

text \<open>
  C8: A receipt that an accepted batch adds belongs to the organisation and epoch of the message
  and to one of its serves: the message was signed by the organisation's serving address, the
  serve by the serving key of the receipt over the organisation, memory, epoch and episode that
  the receipt records, and the memory is approved and valid in that epoch.
\<close>

theorem serve_authentic:
  assumes "Msg_SubmitServeBatch K parse_tags st os ms bw rs msg = Inr (b, bw')"
    and "kv_get (svs_receipts (bt_serve b)) k = Some r" and "kv_get (svs_receipts st) k \<noteq> Some r"
  shows "GetServingAddress os (msb_OrgId msg) = Inr (msb_Signer msg) \<and> msb_Signer msg \<noteq> [] \<and>
    ssr_OrgId r = msb_OrgId msg \<and> ssr_Epoch r = msb_Epoch msg \<and>
    (\<exists>s \<in> set (msb_Serves msg). ssr_ServeKeyPubkey r = se_ServeKeyPubkey s \<and>
       ed25519_Verify K (ssr_ServeKeyPubkey r)
         (CanonicalServeBody (ssr_OrgId r) (ssr_MemoryContentHash r) (ssr_Epoch r) (ssr_ServeKeyPubkey r)
            (se_Nonce s) (ssr_EpisodeRef r)) (se_ServeSig s)) \<and>
    (\<exists>m. GetApprovedMemory ms (ssr_OrgId r) (ssr_MemoryContentHash r) = Inr m) \<and>
    IsValidInEpoch parse_tags ms (ssr_OrgId r) (hex_encode (ssr_MemoryContentHash r)) (ssr_Epoch r) = Inr True"
    (is "?signer \<and> ?nonempty \<and> ?rest")
proof -
  define new where "new r \<longleftrightarrow> ssr_OrgId r = msb_OrgId msg \<and> ssr_Epoch r = msb_Epoch msg \<and>
    (\<exists>s \<in> set (msb_Serves msg). ssr_ServeKeyPubkey r = se_ServeKeyPubkey s \<and>
       ed25519_Verify K (ssr_ServeKeyPubkey r)
         (CanonicalServeBody (ssr_OrgId r) (ssr_MemoryContentHash r) (ssr_Epoch r) (ssr_ServeKeyPubkey r)
            (se_Nonce s) (ssr_EpisodeRef r)) (se_ServeSig s)) \<and>
    (\<exists>m. GetApprovedMemory ms (ssr_OrgId r) (ssr_MemoryContentHash r) = Inr m) \<and>
    IsValidInEpoch parse_tags ms (ssr_OrgId r) (hex_encode (ssr_MemoryContentHash r)) (ssr_Epoch r) = Inr True"
    for r :: StoredServeReceipt
  let ?Q = "\<lambda>st1. \<forall>k r. kv_get (svs_receipts st1) k = Some r \<longrightarrow> kv_get (svs_receipts st) k = Some r \<or> new r"
  obtain p where "process_serves K parse_tags ms p (msb_OrgId msg) (msb_Epoch msg) (new_batch st rs) (msb_Serves msg) = Inr b"
    using Msg_SubmitServeBatch_accepts(4) [OF assms(1)] by blast
  then have "?Q (bt_serve b)"
  proof (rule process_serves_keep)
    fix st1 s
    assume s: "s \<in> set (msb_Serves msg)" and old: "?Q st1"
      and acc: "serve_accepted K parse_tags ms (msb_OrgId msg) (msb_Epoch msg) st1 s"
    have "new (receipt_of (msb_OrgId msg) (msb_Epoch msg) fp s)" for fp
      unfolding new_def using acc s by (auto simp: serve_accepted_def receipt_of_def ContentHashToHex_def)
    with old show "?Q (record_serve st1 (msb_OrgId msg) (msb_Epoch msg)
        (ComputeServeFingerprint K (se_MemoryContentHash s) (se_ServeKeyPubkey s) (msb_Epoch msg)) s)"
      by (auto simp: record_serve_tables kv_get_set)
  qed (simp add: new_batch_def)
  then have "new r" using assms(2,3) by blast
  then show ?thesis unfolding new_def using Msg_SubmitServeBatch_accepts(1,2) [OF assms(1)] by blast
qed

text \<open>A batch of one serve of an approved memory, signed by the serving key.\<close>

definition ex_serve_sdk :: "ledger sdk" where
  "ex_serve_sdk = ex_mem_sdk\<lparr>ed25519_Verify := (\<lambda>pk msg sig. sig = replicate 64 (CHR ''s''))\<rparr>"

definition ex_served :: memory_state where
  "ex_served = memory_empty\<lparr>ms_approved := [(approvedKey ''o'' ex_hash, \<lparr>
     smc_OrgId = ''o'', smc_ContentHash = ex_hash, smc_EncryptedBlob = ''blob'',
     smc_ContributorPubkey = ex_contributor, smc_Epoch = 0, smc_CommittedAtHeight = 0,
     smc_CommittingLeaderPubkey = ex_contributor, smc_State = 1, smc_LastActiveEpoch = 0, smc_WrappedDekEnc = ''dek'',
     smc_MemoryType = 1, smc_ApprovedAtEpoch = 0, smc_PlaintextHash = ''p'', smc_Salt = ''s'', smc_CiphertextHash = [],
     smc_WrappedDekHash = [], smc_ContributorSig = ''signed'', smc_ContributorAddress = ''bob'', smc_ProducerModelId = [],
     smc_AttestationSessionHash = [], smc_McVersion = 1, smc_Keywords = []\<rparr>)]\<rparr>"

definition ex_serve :: ServeEntry where
  "ex_serve = \<lparr>
     se_MemoryContentHash = ex_hash, se_ContributorId = ex_contributor, se_ModelId = [], se_TurnCount = 1,
     se_ContributorWallet = ''bob'', se_ServeKeyPubkey = replicate 32 (CHR ''k''),
     se_ServeSig = replicate 64 (CHR ''s''), se_Nonce = ''n'', se_EpisodeRef = ''ep''\<rparr>"

definition ex_batch :: MsgSubmitServeBatch where
  "ex_batch = \<lparr>msb_Signer = ''hub'', msb_OrgId = ''o'', msb_Epoch = 1, msb_Serves = [ex_serve]\<rparr>"

definition ex_fp :: bytes where
  "ex_fp = ComputeServeFingerprint ex_serve_sdk ex_hash (replicate 32 (CHR ''k'')) 1"

lemma ex_serve_processed:
  "process_serve ex_serve_sdk (\<lambda>_. None) ex_served serve_DefaultParams ''o'' 1 (new_batch serve_empty reputation_empty) ex_serve =
     Inr \<lparr>bt_serve = record_serve serve_empty ''o'' 1 ex_fp ex_serve,
       bt_reputation = attribute_serve ex_served reputation_empty ''o'' 1 ex_serve,
       bt_accepted = 1, bt_duplicate = 0, bt_invalid = 0\<rparr>"
  by (simp add: process_serve_def ex_serve_def ex_serve_sdk_def ex_fp_def new_batch_def Let_def HasServeFingerprint_def
      kv_has_def serve_empty_def GetApprovedMemory_def ex_served_def IsValidInEpoch_def GetValidityMetadata_def
      memory_empty_def GetMemoryServeCount_def serve_DefaultParams_def)

lemma ex_batch_accepted:
  "\<exists>bw'. Msg_SubmitServeBatch ex_serve_sdk (\<lambda>_. None) serve_empty ex_mem_org ex_served bandwidth_empty reputation_empty ex_batch =
     Inr (\<lparr>bt_serve = record_serve serve_empty ''o'' 1 ex_fp ex_serve,
       bt_reputation = attribute_serve ex_served reputation_empty ''o'' 1 ex_serve,
       bt_accepted = 1, bt_duplicate = 0, bt_invalid = 0\<rparr>, bw')"
proof -
  have "MsgSubmitServeBatch_ValidateBasic ex_batch = Inr ()"
    by (simp add: MsgSubmitServeBatch_ValidateBasic_def ex_batch_def validate_serve_entry_def ex_serve_def ex_hash_def
        ContentHashLen_def ServePubKeyLen_def ServeSigLen_def)
  moreover have "HasOrg ex_mem_org ''o''" "requireServingKeySigner ex_mem_org ''o'' ''hub'' = Inr ()"
    by (simp_all add: HasOrg_def kv_has_def requireServingKeySigner_def GetServingAddress_def GetOrg_def
        storedToOrg_def ex_mem_org_def)
  moreover have "\<exists>bw'. ConsumeServeBandwidth bandwidth_empty ''o'' 1 1 = Inr bw'"
    by (simp add: ConsumeServeBandwidth_def GetOrInitBandwidthState_def bandwidth_empty_def Let_def
        bandwidth_GetParams_def bandwidth_DefaultParams_def NewBandwidthState_def)
  moreover have "serve_GetParams serve_empty = serve_DefaultParams"
    by (simp add: serve_GetParams_def serve_empty_def)
  moreover have "msb_OrgId ex_batch = ''o''" "msb_Signer ex_batch = ''hub''" "msb_Epoch ex_batch = 1"
    "msb_Serves ex_batch = [ex_serve]" "svp_MaxServesPerBatch serve_DefaultParams = 500"
    by (simp_all add: ex_batch_def serve_DefaultParams_def)
  ultimately show ?thesis
    by (auto simp: Msg_SubmitServeBatch_def ProcessServeBatch_def ex_serve_processed Let_def)
qed

theorem serve_authentic_witness:
  "\<exists>b bw'. Msg_SubmitServeBatch ex_serve_sdk (\<lambda>_. None) serve_empty ex_mem_org ex_served bandwidth_empty reputation_empty ex_batch
       = Inr (b, bw') \<and>
     GetServingAddress ex_mem_org ''o'' = Inr ''hub'' \<and>
     IsValidInEpoch (\<lambda>_. None) ex_served ''o'' (hex_encode ex_hash) 1 = Inr True \<and> bt_accepted b = 1"
proof -
  obtain bw' where run: "Msg_SubmitServeBatch ex_serve_sdk (\<lambda>_. None) serve_empty ex_mem_org ex_served
      bandwidth_empty reputation_empty ex_batch =
      Inr (\<lparr>bt_serve = record_serve serve_empty ''o'' 1 ex_fp ex_serve,
       bt_reputation = attribute_serve ex_served reputation_empty ''o'' 1 ex_serve,
       bt_accepted = 1, bt_duplicate = 0, bt_invalid = 0\<rparr>, bw')" (is "_ = Inr (?b, bw')")
    using ex_batch_accepted by blast
  have added: "kv_get (svs_receipts (bt_serve ?b)) (receiptKey ''o'' 1 ex_fp) = Some (receipt_of ''o'' 1 ex_fp ex_serve)"
    by (simp add: record_serve_tables)
  have absent: "kv_get (svs_receipts serve_empty) (receiptKey ''o'' 1 ex_fp) \<noteq> Some (receipt_of ''o'' 1 ex_fp ex_serve)"
    by (simp add: serve_empty_def)
  have "msb_OrgId ex_batch = ''o''" "msb_Signer ex_batch = ''hub''" "msb_Epoch ex_batch = 1"
    "se_MemoryContentHash ex_serve = ex_hash"
    by (simp_all add: ex_batch_def ex_serve_def)
  with serve_authentic [OF run added absent] run show ?thesis by auto
qed

text \<open>
  C16: Every stored denial refers, by fingerprint, to a stored serve receipt of the same memory and
  serving key, and no organisation, epoch and serve has two denials.
\<close>

theorem denials_linked:
  "let st = serve_run K parse_tags evs
   in list_all (\<lambda>(k, d). denial_linked st d) (svs_denials st) \<and>
      distinct (map (\<lambda>(k, d). denial_id d) (svs_denials st))"
proof -
  have inv: "denials_inv K (serve_run K parse_tags evs)"
    using serve_run_inv [of K parse_tags evs] by (simp add: serve_inv_def)
  then have "kv_ok (svs_denials (serve_run K parse_tags evs))" by (simp add: denials_inv_def)
  then have "list_all (\<lambda>(k, d). denial_linked (serve_run K parse_tags evs) d) (svs_denials (serve_run K parse_tags evs))"
    by (rule kv_list_all) (use inv in \<open>unfold denials_inv_def, blast\<close>)
  with denials_once [OF inv] show ?thesis by (simp add: Let_def)
qed

text \<open>
  C15: Every stored event is well typed: its body is the one its event type announces, the
  enumerations of the body are in range, the hash, key and signature have their lengths, the nonce
  has 1 to 64 bytes and every reference at most 64; and it is stored under the fingerprint of a
  canonical text that its signer signed.
\<close>

theorem event_log_typed:
  "list_all (\<lambda>(k, v). event_typed v \<and> event_signed K v \<and>
     k = eventKey (sev_OrgId v) (sev_Epoch v) (sev_Fingerprint v)) (svs_events (serve_run K parse_tags evs))"
proof -
  have inv: "events_inv K (serve_run K parse_tags evs)"
    using serve_run_inv [of K parse_tags evs] by (simp add: serve_inv_def)
  then have "kv_ok (svs_events (serve_run K parse_tags evs))" by (simp add: events_inv_def)
  then show ?thesis
    by (rule kv_list_all) (use inv in \<open>unfold events_inv_def event_ok_def, blast\<close>)
qed

text \<open>
  C17: The logs are append-only.  Whatever messages follow, each serve receipt, fingerprint, denial,
  event and policy anchor that the store holds stays under its key unchanged; so the hash anchored
  for a policy version never changes.
\<close>

theorem serve_log_permanent:
  "let st = serve_run K parse_tags evs; st' = serve_run K parse_tags (evs @ evs')
   in kv_get (svs_receipts st) \<subseteq>\<^sub>m kv_get (svs_receipts st') \<and>
      kv_get (svs_denials st) \<subseteq>\<^sub>m kv_get (svs_denials st') \<and>
      kv_get (svs_events st) \<subseteq>\<^sub>m kv_get (svs_events st') \<and>
      GetServeReceiptByFingerprint st \<subseteq>\<^sub>m GetServeReceiptByFingerprint st' \<and>
      GetPolicyAnchor st \<subseteq>\<^sub>m GetPolicyAnchor st'"
proof -
  let ?st = "serve_run K parse_tags evs" and ?st' = "serve_run K parse_tags (evs @ evs')"
  have grows: "serve_log_grows ?st ?st'"
    using serve_tx.deliver_all_evolves [OF serve_run_inv [of K parse_tags evs], where parse_tags = parse_tags]
    by (simp add: serve_run_def deliver_all_append)
  then have "GetServeReceiptByFingerprint ?st \<subseteq>\<^sub>m GetServeReceiptByFingerprint ?st'"
    by (auto simp: serve_log_grows_def map_le_def GetServeReceiptByFingerprint_def dom_def
        split: option.splits if_splits)
  with grows show ?thesis
    by (auto simp: serve_log_grows_def Let_def map_le_def GetPolicyAnchor_def dom_def)
qed

end
