(* ===== verification/Attestation.thy ===== *)
theory Attestation
  imports Sdk KVStore
begin

section \<open>The attestation module\<close>

text \<open>
  Session attestations (\<open>x/attestation\<close>): the keeper with its two tables, the messages, genesis
  and the queries.  Submitting an attestation is switched off, so the tables hold what genesis
  put there; listing them by epoch iterates over a range of keys that ends at \<open>prefixEndBytes\<close>.
\<close>

subsection \<open>State\<close>

record StoredSessionAttestation =
  ssa_OrgId :: string
  ssa_SessionHash :: bytes
  ssa_ModelId :: string
  ssa_TurnCount :: u32
  ssa_TokenCount :: u32
  ssa_ProviderType :: i32
  ssa_CommitllmReceiptHash :: bytes
  ssa_ProviderSignatureHash :: bytes
  ssa_ContributorId :: string
  ssa_Epoch :: u64
  ssa_SubmittedAtHeight :: u64

record attestation_Params =
  atp_MaxAttestationsPerEpoch :: u64
  atp_RequireAttestationForServe :: bool

definition attestation_DefaultParams :: attestation_Params where
  "attestation_DefaultParams = \<lparr>atp_MaxAttestationsPerEpoch = 10000, atp_RequireAttestationForServe = False\<rparr>"

definition attestation_Params_Validate :: "attestation_Params \<Rightarrow> check" where
  "attestation_Params_Validate p = Inr ()"

definition SessionHashLen :: nat where
  "SessionHashLen = 32"

text \<open>The tables under \<open>attestation/\<close> and \<open>session_epoch/\<close>, and the entry \<open>params\<close>.\<close>

record attestation_state =
  ats_attestations :: "StoredSessionAttestation kv"
  ats_by_epoch :: "StoredSessionAttestation kv"
  ats_params :: "attestation_Params option"

definition attestation_empty :: attestation_state where
  "attestation_empty = \<lparr>ats_attestations = [], ats_by_epoch = [], ats_params = None\<rparr>"

definition AttestationKey :: "string \<Rightarrow> bytes \<Rightarrow> bytes" where
  "AttestationKey orgID sessionHash = ''attestation/'' @ orgID @ ''/'' @ hex_encode sessionHash"

definition AttestationPrefix :: "string \<Rightarrow> u64 \<Rightarrow> bytes" where
  "AttestationPrefix orgID epoch = ''attestation/'' @ orgID @ ''/'' @ FormatUint epoch @ ''/''"

definition AttestationByEpochKey :: "string \<Rightarrow> u64 \<Rightarrow> bytes \<Rightarrow> bytes" where
  "AttestationByEpochKey orgID epoch sessionHash =
     ''session_epoch/'' @ orgID @ ''/'' @ FormatUint epoch @ ''/'' @ hex_encode sessionHash"

definition AttestationByEpochPrefix :: "string \<Rightarrow> u64 \<Rightarrow> bytes" where
  "AttestationByEpochPrefix orgID epoch = ''session_epoch/'' @ orgID @ ''/'' @ FormatUint epoch @ ''/''"

subsection \<open>The end of a range of keys\<close>

text \<open>A byte plus one, with wrap-around.\<close>

definition next_byte :: "char \<Rightarrow> char" where
  "next_byte c = char_of ((of_char c + 1) mod 256 :: nat)"

text \<open>
  The loop of \<open>prefixEndBytes\<close>, on the copy \<open>end\<close>: the argument \<open>i\<close> is one more than the index.
  The whole copy is returned, with the bytes after the index that wrapped to zero.
\<close>

fun prefix_end_loop :: "nat \<Rightarrow> bytes \<Rightarrow> bytes option" where
  "prefix_end_loop 0 e = None"
| "prefix_end_loop (Suc i) e =
     (let e' = e[i := next_byte (e ! i)]
      in if e' ! i \<noteq> char_of (0 :: nat) then Some e' else prefix_end_loop i e')"

definition prefixEndBytes :: "bytes \<Rightarrow> bytes option" where
  "prefixEndBytes p = (if length p = 0 then None else prefix_end_loop (length p) p)"

subsection \<open>The keeper\<close>

definition SetSessionAttestation :: "attestation_state \<Rightarrow> StoredSessionAttestation \<Rightarrow> attestation_state" where
  "SetSessionAttestation st att = st\<lparr>
     ats_attestations := kv_set (AttestationKey (ssa_OrgId att) (ssa_SessionHash att)) att (ats_attestations st),
     ats_by_epoch := kv_set (AttestationByEpochKey (ssa_OrgId att) (ssa_Epoch att) (ssa_SessionHash att)) att
       (ats_by_epoch st)\<rparr>"

definition GetSessionAttestation :: "attestation_state \<Rightarrow> string \<Rightarrow> bytes \<Rightarrow> StoredSessionAttestation result" where
  "GetSessionAttestation st orgID sessionHash =
     (case kv_get (ats_attestations st) (AttestationKey orgID sessionHash) of
        None \<Rightarrow> Inl (E_attestation Att_ErrAttestationNotFound)
      | Some att \<Rightarrow> Inr att)"

definition HasSessionAttestation :: "attestation_state \<Rightarrow> string \<Rightarrow> bytes \<Rightarrow> bool" where
  "HasSessionAttestation st orgID sessionHash \<longleftrightarrow>
     kv_has (ats_attestations st) (AttestationKey orgID sessionHash)"

definition ListSessionAttestations :: "attestation_state \<Rightarrow> string \<Rightarrow> u64 \<Rightarrow> StoredSessionAttestation list" where
  "ListSessionAttestations st orgID epoch =
     (let p = AttestationByEpochPrefix orgID epoch
      in map snd (kv_range p (prefixEndBytes p) (ats_by_epoch st)))"

definition VerifyCommitLLMReceipt :: "bytes \<Rightarrow> bool \<times> string" where
  "VerifyCommitLLMReceipt receiptHash = (False, ''unverified: commitllm integration pending'')"

definition VerifyCloudProviderSignature :: "bytes \<Rightarrow> bool \<times> string" where
  "VerifyCloudProviderSignature signatureHash = (False, ''unverified: cloud provider attestation pending'')"

definition attestation_SetParams :: "attestation_Params \<Rightarrow> attestation_state \<Rightarrow> attestation_state" where
  "attestation_SetParams p st = st\<lparr>ats_params := Some p\<rparr>"

definition attestation_GetParams :: "attestation_state \<Rightarrow> attestation_Params" where
  "attestation_GetParams st = (case ats_params st of None \<Rightarrow> attestation_DefaultParams | Some p \<Rightarrow> p)"

text \<open>The genesis list holds pointers; a \<open>nil\<close> one is dereferenced.\<close>

fun attestation_InitGenesis ::
  "attestation_state \<Rightarrow> StoredSessionAttestation option list \<Rightarrow> attestation_state result" where
  "attestation_InitGenesis st [] = Inr st"
| "attestation_InitGenesis st (None # atts) = Inl (Panic ''nil pointer dereference'')"
| "attestation_InitGenesis st (Some att # atts) = attestation_InitGenesis (SetSessionAttestation st att) atts"

definition attestation_ExportGenesis :: "attestation_state \<Rightarrow> StoredSessionAttestation list" where
  "attestation_ExportGenesis st =
     map snd (kv_range ''attestation/'' (prefixEndBytes ''attestation/'') (ats_attestations st))"

subsection \<open>Messages\<close>

record MsgSubmitSessionAttestation =
  mss_Signer :: string
  mss_OrgId :: string
  mss_SessionHash :: bytes
  mss_ModelId :: string
  mss_TurnCount :: u32
  mss_TokenCount :: u32
  mss_ProviderType :: i32
  mss_CommitllmReceiptHash :: bytes
  mss_ProviderSignatureHash :: bytes
  mss_ContributorId :: string
  mss_Epoch :: u64

record attestation_MsgUpdateParams =
  atu_Authority :: string
  atu_Params :: "attestation_Params option"

definition MsgSubmitSessionAttestation_ValidateBasic :: "MsgSubmitSessionAttestation \<Rightarrow> check" where
  "MsgSubmitSessionAttestation_ValidateBasic m =
     (if mss_Signer m = [] then Inl (Errorf ''signer cannot be empty'')
      else if mss_OrgId m = [] then Inl (E_attestation Att_ErrInvalidOrgID)
      else if length (mss_SessionHash m) \<noteq> SessionHashLen then Inl (E_attestation Att_ErrInvalidSessionHash)
      else if mss_ModelId m = [] then Inl (E_attestation Att_ErrInvalidModelID)
      else if mss_ContributorId m = [] then Inl (E_attestation Att_ErrInvalidContributor)
      else if mss_ProviderType m = 0 then Inl (E_attestation Att_ErrInvalidProviderType)
      else Inr ())"

definition attestation_MsgUpdateParams_ValidateBasic :: "attestation_MsgUpdateParams \<Rightarrow> check" where
  "attestation_MsgUpdateParams_ValidateBasic m =
     (if atu_Authority m = [] then Inl (Errorf ''authority cannot be empty'') else Inr ())"

definition Msg_SubmitSessionAttestation ::
  "attestation_state \<Rightarrow> MsgSubmitSessionAttestation \<Rightarrow> attestation_state result" where
  "Msg_SubmitSessionAttestation st msg =
     (case MsgSubmitSessionAttestation_ValidateBasic msg of
        Inl e \<Rightarrow> Inl e
      | Inr _ \<Rightarrow> Inl (E_attestation Att_ErrAttestationDisabled))"

definition attestation_Msg_UpdateParams ::
  "'x sdk \<Rightarrow> attestation_state \<Rightarrow> attestation_MsgUpdateParams \<Rightarrow> attestation_state result" where
  "attestation_Msg_UpdateParams K st msg =
     (case attestation_MsgUpdateParams_ValidateBasic msg of
        Inl e \<Rightarrow> Inl e
      | Inr _ \<Rightarrow>
          if atu_Authority msg \<noteq> authority K then Inl (E_attestation Att_ErrUnauthorized)
          else (case atu_Params msg of
             None \<Rightarrow> Inl (Panic ''nil pointer dereference'')
           | Some p \<Rightarrow> Inr (attestation_SetParams p st)))"

datatype attestation_msg =
    Att_Submit MsgSubmitSessionAttestation
  | Att_UpdateParams attestation_MsgUpdateParams

fun attestation_handle :: "'x sdk \<Rightarrow> attestation_state \<Rightarrow> attestation_msg \<Rightarrow> attestation_state result" where
  "attestation_handle K st (Att_Submit m) = Msg_SubmitSessionAttestation st m"
| "attestation_handle K st (Att_UpdateParams m) = attestation_Msg_UpdateParams K st m"

subsection \<open>Queries\<close>

definition Query_GetSessionAttestation :: "attestation_state \<Rightarrow> string \<Rightarrow> bytes \<Rightarrow> StoredSessionAttestation result" where
  "Query_GetSessionAttestation st orgId sessionHash = GetSessionAttestation st orgId sessionHash"

definition Query_ListSessionAttestations :: "attestation_state \<Rightarrow> string \<Rightarrow> u64 \<Rightarrow> StoredSessionAttestation list" where
  "Query_ListSessionAttestations st orgId epoch = ListSessionAttestations st orgId epoch"

definition attestation_Query_Params :: "attestation_state \<Rightarrow> attestation_Params" where
  "attestation_Query_Params st = attestation_GetParams st"

subsection \<open>Ranges and prefixes\<close>

lemma of_char_next: "of_char c \<noteq> (255 :: nat) \<Longrightarrow> of_char (next_byte c) = (of_char c + 1 :: nat)"
proof -
  assume "of_char c \<noteq> (255 :: nat)"
  then have "of_char c + 1 < (256 :: nat)" using of_char_less_256 [of c] by linarith
  then show ?thesis by (simp add: next_byte_def of_char_of)
qed

text \<open>
  A prefix whose last byte is not \<open>0xff\<close> ends right after itself, and the range it spans holds
  exactly the keys that start with it.
\<close>

lemma prefixEndBytes_snoc:
  assumes "of_char c \<noteq> (255 :: nat)"
  shows "prefixEndBytes (q @ [c]) = Some (q @ [next_byte c])"
proof -
  have "(q @ [c]) ! length q = c" by simp
  moreover have "next_byte c \<noteq> char_of (0 :: nat)"
  proof
    assume "next_byte c = char_of (0 :: nat)"
    then have "of_char (next_byte c) = (0 :: nat)" by (simp add: of_char_of)
    then show False using of_char_next [OF assms] by simp
  qed
  ultimately show ?thesis by (simp add: prefixEndBytes_def Let_def list_update_append)
qed

lemma between_next_byte:
  assumes "of_char c \<noteq> (255 :: nat)"
  shows "c \<le> x \<and> x < next_byte c \<longleftrightarrow> x = c"
proof -
  have between: "m \<le> n \<and> n < m + 1 \<longleftrightarrow> n = m" for m n :: nat by auto
  have "c \<le> x \<and> x < next_byte c \<longleftrightarrow> (of_char x :: nat) = of_char c"
    unfolding less_eq_char_def less_char_def of_char_next [OF assms] by (rule between)
  then show ?thesis by simp
qed

lemma prefix_range:
  assumes "of_char c \<noteq> (255 :: nat)"
  shows "q @ [c] \<le> k \<and> k < q @ [next_byte c] \<longleftrightarrow> prefix (q @ [c]) k"
proof (induction q arbitrary: k)
  case Nil
  show ?case
  proof (cases k)
    case (Cons x xs)
    then have "[c] \<le> k \<and> k < [next_byte c] \<longleftrightarrow> c \<le> x \<and> x < next_byte c" by (auto simp: le_less [of c x])
    with between_next_byte [OF assms] Cons show ?thesis by auto
  qed simp
next
  case (Cons a q)
  show ?case
  proof (cases k)
    case (Cons x xs)
    have "\<not> (a < x \<and> x < a)" by (simp add: less_not_sym)
    then have "(a # q) @ [c] \<le> k \<and> k < (a # q) @ [next_byte c] \<longleftrightarrow>
        a = x \<and> q @ [c] \<le> xs \<and> xs < q @ [next_byte c]"
      using Cons by (cases "a = x") auto
    with Cons.IH [of xs] Cons show ?thesis by simp
  qed simp
qed

lemma kv_range_prefix:
  assumes "of_char c \<noteq> (255 :: nat)"
  shows "kv_range (q @ [c]) (prefixEndBytes (q @ [c])) t = kv_prefix (q @ [c]) t"
  using prefix_range [OF assms, of q] by (simp add: kv_range_def kv_prefix_def prefixEndBytes_snoc [OF assms])

subsection \<open>Where attestations come from\<close>

text \<open>No message changes the tables.\<close>

definition same_attestations :: "attestation_state \<Rightarrow> attestation_state \<Rightarrow> bool" where
  "same_attestations st st' \<longleftrightarrow> ats_attestations st' = ats_attestations st \<and> ats_by_epoch st' = ats_by_epoch st"

lemma attestation_handle_same: "attestation_handle K st m = Inr st' \<Longrightarrow> same_attestations st st'"
  by (cases m) (auto simp: same_attestations_def Msg_SubmitSessionAttestation_def attestation_Msg_UpdateParams_def
      attestation_SetParams_def split: sum.splits if_splits option.splits)

interpretation attestation_tx: monotone_machine "attestation_handle K" "\<lambda>_. True" same_attestations
  for K :: "'x sdk"
  by unfold_locales (auto simp: attestation_handle_same, auto simp: same_attestations_def)

lemma attestation_InitGenesis_tables:
  assumes "attestation_InitGenesis st (map Some atts) = Inr st'"
  shows "ats_attestations st' =
      foldl (\<lambda>t a. kv_set (AttestationKey (ssa_OrgId a) (ssa_SessionHash a)) a t) (ats_attestations st) atts"
    and "ats_by_epoch st' =
      foldl (\<lambda>t a. kv_set (AttestationByEpochKey (ssa_OrgId a) (ssa_Epoch a) (ssa_SessionHash a)) a t)
        (ats_by_epoch st) atts"
  using assms by (induction atts arbitrary: st) (auto simp: SetSessionAttestation_def)

lemma attestation_key_inj:
  "AttestationKey o1 h1 = AttestationKey o2 h2 \<longleftrightarrow> o1 = o2 \<and> h1 = h2"
  "AttestationByEpochKey o1 e1 h1 = AttestationByEpochKey o2 e2 h2 \<longleftrightarrow> o1 = o2 \<and> e1 = e2 \<and> h1 = h2"
  using sep_hex_inj [of o1 h1 o2 h2] sep_uint_hex_inj [of o1 e1 h1 o2 e2 h2]
  by (simp_all add: AttestationKey_def AttestationByEpochKey_def)

text \<open>
  The keys in the range of an organisation and epoch: those of this organisation and epoch, and
  those of organisations whose identifier goes on after a slash with the epoch.
\<close>

lemma slash_within:
  assumes "c \<notin> set f" "c \<notin> set h" "us \<noteq> []" "last us = c" "prefix us (f @ c # h)"
  shows "us = f @ [c]"
proof -
  obtain v where v: "us = v @ [c]" using assms(3,4) by (metis append_butlast_last_id)
  obtain r where r: "v @ c # r = f @ c # h" using assms(5) by (auto simp: v prefix_def)
  show ?thesis
  proof (cases "c \<in> set v")
    case True
    then obtain v1 v2 where "v = v1 @ c # v2" "c \<notin> set v1" by (meson split_list_first)
    then have "h = v2 @ c # r" using r append_sep_inj [of c v1 f "v2 @ c # r" h] assms(1) by simp
    then show ?thesis using assms(2) by simp
  next
    case False
    then show ?thesis using r append_sep_inj [of c v f r h] assms(1) v by simp
  qed
qed

lemma by_epoch_prefix:
  "prefix (AttestationByEpochPrefix i e) (AttestationByEpochKey j f h) \<longleftrightarrow>
     i = j \<and> e = f \<or> prefix (i @ ''/'' @ FormatUint e @ ''/'') (j @ ''/'')"
proof -
  let ?p = "i @ CHR ''/'' # FormatUint e @ [CHR ''/'']"
  have "prefix (AttestationByEpochPrefix i e) (AttestationByEpochKey j f h) \<longleftrightarrow>
      prefix ?p ((j @ [CHR ''/'']) @ FormatUint f @ CHR ''/'' # hex_encode h)"
    by (simp add: AttestationByEpochPrefix_def AttestationByEpochKey_def)
  also have "\<dots> \<longleftrightarrow> i = j \<and> e = f \<or> prefix ?p (j @ [CHR ''/''])"
  proof
    assume "prefix ?p ((j @ [CHR ''/'']) @ FormatUint f @ CHR ''/'' # hex_encode h)"
    then consider "prefix ?p (j @ [CHR ''/''])"
      | us where "?p = (j @ [CHR ''/'']) @ us" "prefix us (FormatUint f @ CHR ''/'' # hex_encode h)"
      unfolding prefix_append by blast
    then show "i = j \<and> e = f \<or> prefix ?p (j @ [CHR ''/''])"
    proof cases
      case (2 us)
      show ?thesis
      proof (cases "us = []")
        case False
        have "last us = last ?p" using 2(1) False by simp
        then have "us = FormatUint f @ [CHR ''/'']" using slash_within [OF _ _ False _ 2(2)] by simp
        then have "i @ CHR ''/'' # FormatUint e = j @ CHR ''/'' # FormatUint f" using 2(1) by simp
        then show ?thesis by (simp add: sep_uint_inj)
      qed (use 2(1) in simp)
    qed simp
  next
    assume "i = j \<and> e = f \<or> prefix ?p (j @ [CHR ''/''])"
    then show "prefix ?p ((j @ [CHR ''/'']) @ FormatUint f @ CHR ''/'' # hex_encode h)"
    proof
      assume "prefix ?p (j @ [CHR ''/''])"
      then show ?thesis by (rule prefix_prefix)
    qed simp
  qed
  finally show ?thesis by simp
qed

lemma no_slash_no_prefix:
  assumes "CHR ''/'' \<notin> set j"
  shows "\<not> prefix (i @ ''/'' @ e @ ''/'') (j @ ''/'')"
proof
  assume "prefix (i @ ''/'' @ e @ ''/'') (j @ ''/'')"
  then obtain r where r: "j @ ''/'' = i @ ''/'' @ e @ ''/'' @ r" by (auto simp: prefix_def)
  have "filter ((=) (CHR ''/'')) j = []" using assms by (auto simp: filter_empty_conv)
  with arg_cong [OF r, of "\<lambda>s. length (filter ((=) (CHR ''/'')) s)"] show False by simp
qed

lemma slash_not_last_byte: "of_char (CHR ''/'') \<noteq> (255 :: nat)"
  by simp

lemma AttestationByEpochPrefix_snoc:
  "AttestationByEpochPrefix i e = (''session_epoch/'' @ i @ ''/'' @ FormatUint e) @ [CHR ''/'']"
  by (simp add: AttestationByEpochPrefix_def)

lemma attestation_export_range:
  "attestation_ExportGenesis st = map snd (kv_prefix ''attestation/'' (ats_attestations st))"
  using kv_range_prefix [OF slash_not_last_byte, of "''attestation''" "ats_attestations st"]
  by (simp add: attestation_ExportGenesis_def)

lemma attestation_list_range:
  "ListSessionAttestations st i e = map snd (kv_prefix (AttestationByEpochPrefix i e) (ats_by_epoch st))"
  unfolding ListSessionAttestations_def Let_def AttestationByEpochPrefix_snoc
    kv_range_prefix [OF slash_not_last_byte] by (rule refl)

subsection \<open>The property\<close>

text \<open>
  C39: Attestations come from genesis only.  After an import and any messages, for every list of
  imported attestations: an attestation is found under an organisation and session hash exactly
  when it is the last one imported with them, and these are what an export returns.  The list of
  an organisation and epoch holds the last one imported for each session hash under that
  organisation and epoch; it also holds those of organisations whose identifier continues the
  organisation and epoch after a slash, of which there are none when no identifier contains a
  slash.  Submitting an attestation is refused whatever it contains.
\<close>

theorem attestations_from_genesis:
  assumes "attestation_InitGenesis attestation_empty (map Some atts) = Inr st0"
    and "st = deliver_all (attestation_handle K) st0 msgs"
  shows "GetSessionAttestation st i h =
      (case find (\<lambda>a. ssa_OrgId a = i \<and> ssa_SessionHash a = h) (rev atts) of
         None \<Rightarrow> Inl (E_attestation Att_ErrAttestationNotFound) | Some a \<Rightarrow> Inr a) \<and>
    set (attestation_ExportGenesis st) = {a. latest (\<lambda>a. (ssa_OrgId a, ssa_SessionHash a)) atts a} \<and>
    set (ListSessionAttestations st orgID epoch) =
      {a. latest (\<lambda>a. (ssa_OrgId a, ssa_Epoch a, ssa_SessionHash a)) atts a \<and>
        (ssa_OrgId a = orgID \<and> ssa_Epoch a = epoch \<or>
         prefix (orgID @ ''/'' @ FormatUint epoch @ ''/'') (ssa_OrgId a @ ''/''))} \<and>
    (CHR ''/'' \<notin> set (ssa_OrgId b) \<longrightarrow>
      \<not> prefix (orgID @ ''/'' @ FormatUint epoch @ ''/'') (ssa_OrgId b @ ''/'')) \<and>
    (\<exists>e. Msg_SubmitSessionAttestation st msg = Inl e)"
proof -
  let ?k = "\<lambda>a. AttestationKey (ssa_OrgId a) (ssa_SessionHash a)"
  let ?e = "\<lambda>a. AttestationByEpochKey (ssa_OrgId a) (ssa_Epoch a) (ssa_SessionHash a)"
  have "ats_attestations st = ats_attestations st0" "ats_by_epoch st = ats_by_epoch st0"
    using attestation_tx.deliver_all_evolves [of st0 K msgs] assms(2) by (simp_all add: same_attestations_def)
  then have att: "ats_attestations st = foldl (\<lambda>t a. kv_set (?k a) a t) [] atts"
    and epo: "ats_by_epoch st = foldl (\<lambda>t a. kv_set (?e a) a t) [] atts"
    using attestation_InitGenesis_tables [OF assms(1)] by (simp_all add: attestation_empty_def)
  have "latest ?k atts a = latest (\<lambda>a. (ssa_OrgId a, ssa_SessionHash a)) atts a"
    and le: "latest ?e atts a = latest (\<lambda>a. (ssa_OrgId a, ssa_Epoch a, ssa_SessionHash a)) atts a" for a
    by (rule latest_cong, simp add: attestation_key_inj)+
  moreover have "set (attestation_ExportGenesis st) = {a. latest ?k atts a}"
    by (auto simp: attestation_export_range kv_prefix_def att set_kv_set_all AttestationKey_def image_iff)
  moreover have "GetSessionAttestation st i h =
      (case find (\<lambda>a. ssa_OrgId a = i \<and> ssa_SessionHash a = h) (rev atts) of
         None \<Rightarrow> Inl (E_attestation Att_ErrAttestationNotFound) | Some a \<Rightarrow> Inr a)"
    by (simp add: GetSessionAttestation_def att kv_get_set_all attestation_key_inj)
  moreover have "set (ListSessionAttestations st orgID epoch) = {a. latest ?e atts a \<and>
        (ssa_OrgId a = orgID \<and> ssa_Epoch a = epoch \<or>
         prefix (orgID @ ''/'' @ FormatUint epoch @ ''/'') (ssa_OrgId a @ ''/''))}"
    unfolding attestation_list_range kv_prefix_def epo set_map set_filter set_kv_set_all
    by (auto simp: by_epoch_prefix image_iff)
  moreover have "\<exists>e. Msg_SubmitSessionAttestation st msg = Inl e"
    by (simp add: Msg_SubmitSessionAttestation_def split: sum.split)
  ultimately show ?thesis using no_slash_no_prefix by simp
qed

definition ex_att :: "u64 \<Rightarrow> StoredSessionAttestation" where
  "ex_att e = \<lparr>
     ssa_OrgId = ''org1'', ssa_SessionHash = ''h'', ssa_ModelId = ''m'', ssa_TurnCount = 1, ssa_TokenCount = 2,
     ssa_ProviderType = 1, ssa_CommitllmReceiptHash = [], ssa_ProviderSignatureHash = [], ssa_ContributorId = ''c'',
     ssa_Epoch = e, ssa_SubmittedAtHeight = 7\<rparr>"

definition ex_att_update :: attestation_MsgUpdateParams where
  "ex_att_update = \<lparr>atu_Authority = ''gov'', atu_Params = Some attestation_DefaultParams\<rparr>"

definition ex_att_state :: attestation_state where
  "ex_att_state = SetSessionAttestation (SetSessionAttestation attestation_empty (ex_att 3)) (ex_att 4)"

text \<open>The same session imported for two epochs: the second replaces the first, which stays listed.\<close>

theorem attestations_from_genesis_witness:
  "GetSessionAttestation (deliver_all (attestation_handle ledger_sdk) ex_att_state [Att_UpdateParams ex_att_update])
     ''org1'' ''h'' = Inr (ex_att 4) \<and>
   ex_att 3 \<in> set (ListSessionAttestations
     (deliver_all (attestation_handle ledger_sdk) ex_att_state [Att_UpdateParams ex_att_update]) ''org1'' 3)"
proof -
  have "attestation_InitGenesis attestation_empty (map Some [ex_att 3, ex_att 4]) = Inr ex_att_state"
    by (simp add: ex_att_state_def)
  note f = attestations_from_genesis [OF this refl, of ledger_sdk "[Att_UpdateParams ex_att_update]"]
  have "find (\<lambda>a. ssa_OrgId a = ''org1'' \<and> ssa_SessionHash a = ''h'') (rev [ex_att 3, ex_att 4]) = Some (ex_att 4)"
    "latest (\<lambda>a. (ssa_OrgId a, ssa_Epoch a, ssa_SessionHash a)) [ex_att 3, ex_att 4] (ex_att 3)"
    "ssa_OrgId (ex_att 3) = ''org1''" "ssa_Epoch (ex_att 3) = 3"
    by (simp_all add: latest_def ex_att_def)
  then show ?thesis
    unfolding f [THEN conjunct1] f [THEN conjunct2, THEN conjunct2, THEN conjunct1] by simp
qed

end
