(* ===== verification/Chain.thy ===== *)
theory Chain
  imports Emissions_Correct Memory_Correct Serve Attestation
begin

section \<open>The chain: all modules together\<close>

text \<open>
  The application (\<open>app/app.go\<close>) gives each keeper its own store and hands the keepers to each
  other.  The state of the chain is the record of the modules' stores and of the stores of the
  framework, \<open>ch_ext\<close>.  A message is routed to the handler of its module, which also writes the
  stores of the keepers it calls; a failed message changes nothing.  At the end of an epoch the
  emissions hook runs first and the memory hook second.
\<close>

record 'x chain =
  ch_org :: org_state
  ch_identity :: identity_state
  ch_bandwidth :: bandwidth_state
  ch_reputation :: reputation_state
  ch_memory :: memory_state
  ch_serve :: serve_state
  ch_emissions :: emissions_state
  ch_attestation :: attestation_state
  ch_ext :: 'x

datatype chain_msg =
    Tx_org org_msg
  | Tx_MigrateIdentity MsgMigrateIdentity
  | Tx_SetBandwidthOverride MsgSetBandwidthOverride
  | Tx_bandwidth_UpdateParams bandwidth_MsgUpdateParams
  | Tx_UpdateReputation MsgUpdateReputation
  | Tx_IncrementContribution MsgIncrementContribution
  | Tx_IncrementServe MsgIncrementServe
  | Tx_RecordBan MsgRecordBan
  | Tx_reputation_UpdateParams reputation_MsgUpdateParams
  | Tx_SubmitCommitment MsgSubmitCommitment
  | Tx_ApproveMemory MsgApproveMemory
  | Tx_ReportMemory MsgReportMemory
  | Tx_memory_UpdateParams memory_MsgUpdateParams
  | Tx_SubmitServeBatch MsgSubmitServeBatch
  | Tx_SubmitDenialBatch MsgSubmitDenialBatch
  | Tx_SubmitEventBatch MsgSubmitEventBatch
  | Tx_AnchorPolicyVersion MsgAnchorPolicyVersion
  | Tx_serve_UpdateParams serve_MsgUpdateParams
  | Tx_MintDailyEmission MsgMintDailyEmission
  | Tx_ClaimContributorReward MsgClaimContributorReward
  | Tx_emissions_UpdateParams emissions_MsgUpdateParams
  | Tx_attestation attestation_msg

text \<open>What the emissions keeper gets from the memory keeper.\<close>

definition chain_approvals :: "memory_state \<Rightarrow> u64 \<Rightarrow> (string \<times> u64) list result" where
  "chain_approvals ms epoch = Inr (GetContributorsWithApprovalsInEpoch ms epoch)"

definition updated :: "'a result \<Rightarrow> ('a \<Rightarrow> 's) \<Rightarrow> 's result" where
  "updated r f = (case r of Inl e \<Rightarrow> Inl e | Inr v \<Rightarrow> Inr (f v))"

fun chain_handle ::
  "'x sdk \<Rightarrow> (bytes \<Rightarrow> (string \<times> string) list option) \<Rightarrow> 'x chain \<Rightarrow> chain_msg \<Rightarrow> 'x chain result" where
  "chain_handle K parse_tags s (Tx_org m) =
     updated (org_handle K (ch_org s, ch_ext s) m) (\<lambda>(os, x). s\<lparr>ch_org := os, ch_ext := x\<rparr>)"
| "chain_handle K parse_tags s (Tx_MigrateIdentity m) =
     updated (MigrateIdentity K (ch_identity s) m) (\<lambda>ids. s\<lparr>ch_identity := ids\<rparr>)"
| "chain_handle K parse_tags s (Tx_SetBandwidthOverride m) =
     updated (Msg_SetBandwidthOverride (ch_org s) (ch_bandwidth s) m) (\<lambda>bw. s\<lparr>ch_bandwidth := bw\<rparr>)"
| "chain_handle K parse_tags s (Tx_bandwidth_UpdateParams m) =
     updated (bandwidth_Msg_UpdateParams K (ch_bandwidth s) m) (\<lambda>bw. s\<lparr>ch_bandwidth := bw\<rparr>)"
| "chain_handle K parse_tags s (Tx_UpdateReputation m) =
     updated (Msg_UpdateReputation (ch_reputation s) m) (\<lambda>(rs, xp). s\<lparr>ch_reputation := rs\<rparr>)"
| "chain_handle K parse_tags s (Tx_IncrementContribution m) =
     updated (Msg_IncrementContribution K (ch_reputation s) m) (\<lambda>rs. s\<lparr>ch_reputation := rs\<rparr>)"
| "chain_handle K parse_tags s (Tx_IncrementServe m) =
     updated (Msg_IncrementServe K (ch_reputation s) m) (\<lambda>rs. s\<lparr>ch_reputation := rs\<rparr>)"
| "chain_handle K parse_tags s (Tx_RecordBan m) =
     updated (Msg_RecordBan K (ch_reputation s) m) (\<lambda>rs. s\<lparr>ch_reputation := rs\<rparr>)"
| "chain_handle K parse_tags s (Tx_reputation_UpdateParams m) =
     updated (reputation_Msg_UpdateParams K (ch_reputation s) m) (\<lambda>rs. s\<lparr>ch_reputation := rs\<rparr>)"
| "chain_handle K parse_tags s (Tx_SubmitCommitment m) =
     updated (Msg_SubmitCommitment (ch_memory s) (ch_org s) m) (\<lambda>ms. s\<lparr>ch_memory := ms\<rparr>)"
| "chain_handle K parse_tags s (Tx_ApproveMemory m) =
     updated (Msg_ApproveMemory K (ch_memory s) (ch_org s) (ch_reputation s) m)
       (\<lambda>(ms, os, rs). s\<lparr>ch_memory := ms, ch_org := os, ch_reputation := rs\<rparr>)"
| "chain_handle K parse_tags s (Tx_ReportMemory m) =
     updated (Msg_ReportMemory (ch_memory s) (ch_org s) (ch_reputation s) m)
       (\<lambda>(ms, os, rs). s\<lparr>ch_memory := ms, ch_org := os, ch_reputation := rs\<rparr>)"
| "chain_handle K parse_tags s (Tx_memory_UpdateParams m) =
     updated (memory_Msg_UpdateParams K (ch_memory s) m) (\<lambda>ms. s\<lparr>ch_memory := ms\<rparr>)"
| "chain_handle K parse_tags s (Tx_SubmitServeBatch m) =
     updated (Msg_SubmitServeBatch K parse_tags (ch_serve s) (ch_org s) (ch_memory s) (ch_bandwidth s) (ch_reputation s) m)
       (\<lambda>(b, bw). s\<lparr>ch_serve := bt_serve b, ch_reputation := bt_reputation b, ch_bandwidth := bw\<rparr>)"
| "chain_handle K parse_tags s (Tx_SubmitDenialBatch m) =
     updated (Msg_SubmitDenialBatch K (ch_serve s) (ch_org s) (ch_memory s) m) (\<lambda>b. s\<lparr>ch_serve := db_serve b\<rparr>)"
| "chain_handle K parse_tags s (Tx_SubmitEventBatch m) =
     updated (Msg_SubmitEventBatch K (ch_serve s) (ch_org s) (ch_memory s) (ch_reputation s) m)
       (\<lambda>b. s\<lparr>ch_serve := bt_serve b, ch_reputation := bt_reputation b\<rparr>)"
| "chain_handle K parse_tags s (Tx_AnchorPolicyVersion m) =
     updated (Msg_AnchorPolicyVersion K (ch_serve s) m) (\<lambda>sv. s\<lparr>ch_serve := sv\<rparr>)"
| "chain_handle K parse_tags s (Tx_serve_UpdateParams m) =
     updated (serve_Msg_UpdateParams K (ch_serve s) m) (\<lambda>sv. s\<lparr>ch_serve := sv\<rparr>)"
| "chain_handle K parse_tags s (Tx_MintDailyEmission m) =
     updated (Msg_MintDailyEmission K (chain_approvals (ch_memory s)) (ch_emissions s, ch_ext s) m)
       (\<lambda>(es, x). s\<lparr>ch_emissions := es, ch_ext := x\<rparr>)"
| "chain_handle K parse_tags s (Tx_ClaimContributorReward m) =
     updated (Msg_ClaimContributorReward K (ch_identity s) (ch_emissions s, ch_ext s) m)
       (\<lambda>(es, x). s\<lparr>ch_emissions := es, ch_ext := x\<rparr>)"
| "chain_handle K parse_tags s (Tx_emissions_UpdateParams m) =
     updated (emissions_Msg_UpdateParams K (ch_emissions s) m) (\<lambda>es. s\<lparr>ch_emissions := es\<rparr>)"
| "chain_handle K parse_tags s (Tx_attestation m) =
     updated (attestation_handle K (ch_attestation s) m) (\<lambda>att. s\<lparr>ch_attestation := att\<rparr>)"

text \<open>The hooks of the epochs module, in the order they are registered.\<close>

definition chain_epoch_end :: "'x sdk \<Rightarrow> 'x chain \<Rightarrow> string \<Rightarrow> int \<Rightarrow> 'x chain" where
  "chain_epoch_end K s epochIdentifier epochNumber =
     (case emissions_AfterEpochEnd K (chain_approvals (ch_memory s)) (ch_emissions s) (ch_ext s)
          epochIdentifier epochNumber of
        (es, x) \<Rightarrow> s\<lparr>
          ch_emissions := es, ch_ext := x,
          ch_memory := memory_AfterEpochEnd K (ch_memory s) epochIdentifier epochNumber\<rparr>)"

text \<open>A transaction runs in a block with a height and a time.\<close>

datatype chain_event =
    Chain_tx int int chain_msg
  | Chain_epoch string int

fun chain_step ::
  "'x sdk \<Rightarrow> (bytes \<Rightarrow> (string \<times> string) list option) \<Rightarrow> 'x chain \<Rightarrow> chain_event \<Rightarrow> 'x chain result" where
  "chain_step K parse_tags s (Chain_tx height time m) =
     chain_handle (K\<lparr>block_height := height, block_time := time\<rparr>) parse_tags s m"
| "chain_step K parse_tags s (Chain_epoch epochIdentifier epochNumber) =
     Inr (chain_epoch_end K s epochIdentifier epochNumber)"

definition chain_genesis :: "'x \<Rightarrow> 'x chain" where
  "chain_genesis x = \<lparr>
     ch_org = org_empty, ch_identity = identity_empty, ch_bandwidth = bandwidth_empty,
     ch_reputation = reputation_empty, ch_memory = memory_genesis, ch_serve = serve_empty,
     ch_emissions = emissions_genesis, ch_attestation = attestation_empty, ch_ext = x\<rparr>"

end
