(* ===== verification/Chain_Correct.thy ===== *)
theory Chain_Correct
  imports Chain
begin

section \<open>Approvals, epochs and rewards across the modules\<close>

text \<open>
  A memory is stamped with the epoch the memory keeper knows, which is the last one that ended;
  the emissions hook of an epoch counts the memories stamped with that very epoch.  The lemmas
  bound the stamps by the last ended epoch along every sequence of transactions and epochs, so
  the counted set is always empty.
\<close>

subsection \<open>The stamps of approved memories\<close>

definition stamps_within :: "nat \<Rightarrow> memory_state \<Rightarrow> bool" where
  "stamps_within b st \<longleftrightarrow> unat (memory_getCurrentEpoch st) \<le> b \<and>
     (\<forall>e \<in> set (ms_approved st). unat (smc_ApprovedAtEpoch (snd e)) \<le> b)"

lemma stamps_within_cong:
  "ms_epoch st' = ms_epoch st \<Longrightarrow> ms_approved st' = ms_approved st \<Longrightarrow> stamps_within b st' = stamps_within b st"
  by (simp add: stamps_within_def memory_getCurrentEpoch_def)

lemma stamps_within_submit:
  assumes "stamps_within b st" "Msg_SubmitCommitment st os m = Inr st'"
  shows "stamps_within b st'"
proof -
  obtain c where "SubmitCommitment st os c = Inr st'" using assms(2) by (elim Msg_SubmitCommitment_ok)
  from SubmitCommitment_ok(1) [OF this] have "ms_epoch st' = ms_epoch st" "ms_approved st' = ms_approved st" by simp_all
  then show ?thesis using assms(1) stamps_within_cong by blast
qed

lemma approve_stamps:
  assumes "Msg_ApproveMemory K st os rs m = Inr (st', os', rs')"
  shows "\<exists>k r. ms_approved st' = kv_set k r (ms_approved st) \<and> smc_ApprovedAtEpoch r = memory_getCurrentEpoch st \<and>
    ms_epoch st' = ms_epoch st"
proof -
  from assms obtain p pk where "ApproveMemory st os rs (mav_OrgId m) (mav_ContentHash m) (mav_EncryptedBlob m)
      (mav_CommittingLeader m) (mav_WrappedDekEnc m) (mav_PlaintextHash m) (mav_Salt m) (mav_CiphertextHash m)
      (sha256_Sum256 K (mav_WrappedDekEnc m)) (mav_ContributorSig m) (mav_MemoryType m) = Inr (st', os', rs')"
    by (rule Msg_ApproveMemory_ok)
  then show ?thesis
  proof (rule ApproveMemory_ok)
    fix p
    let ?r = "approved_record st p (mav_OrgId m) (mav_ContentHash m) (mav_EncryptedBlob m) (mav_CommittingLeader m)
      (mav_WrappedDekEnc m) (mav_PlaintextHash m) (mav_Salt m) (mav_CiphertextHash m)
      (sha256_Sum256 K (mav_WrappedDekEnc m)) (mav_ContributorSig m) (mav_MemoryType m)"
    assume "st' = st\<lparr>
       ms_approved := kv_set (approvedKey (mav_OrgId m) (mav_ContentHash m)) ?r (ms_approved st),
       ms_pending := kv_del (pendingKey (mav_OrgId m) (mav_ContentHash m)) (ms_pending st),
       ms_counts := kv_set (countKey (mav_OrgId m)) (GetApprovedCount st (mav_OrgId m) + 1) (ms_counts st)\<rparr>"
    then have "ms_approved st' = kv_set (approvedKey (mav_OrgId m) (mav_ContentHash m)) ?r (ms_approved st)"
      "ms_epoch st' = ms_epoch st" by simp_all
    moreover have "smc_ApprovedAtEpoch ?r = memory_getCurrentEpoch st" by (simp add: approved_record_def)
    ultimately show ?thesis by blast
  qed
qed

lemma stamps_within_approve:
  assumes "stamps_within b st" "Msg_ApproveMemory K st os rs m = Inr (st', os', rs')"
  shows "stamps_within b st'"
proof -
  obtain k r where app: "ms_approved st' = kv_set k r (ms_approved st)"
    and r: "smc_ApprovedAtEpoch r = memory_getCurrentEpoch st" and epoch: "ms_epoch st' = ms_epoch st"
    using approve_stamps [OF assms(2)] by blast
  have "set (ms_approved st') \<subseteq> insert (k, r) (set (ms_approved st))" unfolding app by (rule set_kv_set_subset)
  then have "\<forall>e \<in> set (ms_approved st'). unat (smc_ApprovedAtEpoch (snd e)) \<le> b"
    using assms(1) r by (auto simp: stamps_within_def)
  then show ?thesis using assms(1) epoch by (simp add: stamps_within_def memory_getCurrentEpoch_def)
qed

lemma stamps_within_report:
  assumes "stamps_within b st" "Msg_ReportMemory st os rs m = Inr (st', os', rs')"
  shows "stamps_within b st'"
  using assms(1) unfolding Msg_ReportMemory_ok(5) [OF assms(2)] by (simp add: stamps_within_def memory_getCurrentEpoch_def)

lemma stamps_within_params:
  assumes "stamps_within b st" "memory_Msg_UpdateParams K st m = Inr st'"
  shows "stamps_within b st'"
  using assms(1) memory_Msg_UpdateParams_ok [OF assms(2)] by (auto simp: stamps_within_def memory_getCurrentEpoch_def)

lemma unat_epoch: "0 \<le> n \<Longrightarrow> n < 2 ^ 63 \<Longrightarrow> unat (word_of_int n :: u64) = nat n"
  by (simp add: unat_eq_nat_uint uint_word_of_int)

lemma stamps_within_epoch:
  assumes "memory_inv st" "stamps_within b st" "0 \<le> n" "n < 2 ^ 63" "b \<le> nat n"
  shows "stamps_within (if ident = ''wevibe_epoch'' then nat n else b) (memory_AfterEpochEnd K st ident n)"
proof (cases "ident = ''wevibe_epoch''")
  case False
  then show ?thesis using assms(2) by (simp add: memory_AfterEpochEnd_def)
next
  case True
  have ok: "approved_ok (ms_approved st)" using assms(1) by (simp add: memory_inv_def)
  have wider: "stamps_within (nat n) st" using assms(2,5) by (auto simp: stamps_within_def)
  from ok show ?thesis
  proof (cases rule: memory_AfterEpochEnd_ok [where K = K and ident = ident and n = n])
    case skip
    then show ?thesis using wider True by simp
  next
    case (run a v m)
    have "unat (smc_ApprovedAtEpoch s') \<le> nat n" if "(k, s') \<in> set a" for k s'
    proof -
      have a_ok: "approved_ok a" using run(2) by (simp add: ages_to_def)
      then have "kv_get a k = Some s'" using that by (simp add: kv_get_iff approved_ok_def)
      moreover have "rel_option aged (kv_get (ms_approved st) k) (kv_get a k)" using run(2) unfolding ages_to_def by blast
      ultimately obtain s where "kv_get (ms_approved st) k = Some s" "aged s s'" by (auto simp: option_rel_Some2)
      then have "(k, s) \<in> set (ms_approved st)" "smc_ApprovedAtEpoch s' = smc_ApprovedAtEpoch s"
        by (auto dest: kv_get_SomeD simp: aged_def)
      then show ?thesis using wider by (force simp: stamps_within_def)
    qed
    then have "\<forall>e \<in> set a. unat (smc_ApprovedAtEpoch (snd e)) \<le> nat n" by auto
    then show ?thesis
      unfolding run(1) stamps_within_def memory_getCurrentEpoch_def using True assms(3,4) by (simp add: unat_epoch)
  qed
qed

lemma fold_skip: "(\<And>x c. x \<in> set xs \<Longrightarrow> f x c = c) \<Longrightarrow> fold f xs c = c"
  by (induction xs arbitrary: c) simp_all

lemma no_approvals:
  assumes "stamps_within b st" "b < unat epoch"
  shows "GetContributorsWithApprovalsInEpoch st epoch = []"
proof -
  have "smc_ApprovedAtEpoch (snd e) \<noteq> epoch" if "e \<in> set (ms_approved st)" for e
    using assms that by (force simp: stamps_within_def)
  then show ?thesis
    unfolding GetContributorsWithApprovalsInEpoch_def by (intro fold_skip) simp
qed

subsection \<open>No reward is ever credited\<close>

definition unrewarded :: "nat \<Rightarrow> 'x chain \<Rightarrow> bool" where
  "unrewarded b s \<longleftrightarrow> memory_inv (ch_memory s) \<and> stamps_within b (ch_memory s) \<and>
     es_contribreward (ch_emissions s) = [] \<and> es_lifetimereward (ch_emissions s) = []"

lemma claim_refused:
  assumes "es_contribreward st = []"
  shows "\<exists>e. Msg_ClaimContributorReward K ids (st, x) m = Inl e"
proof (cases "Msg_ClaimContributorReward K ids (st, x) m")
  case (Inr r)
  obtain st' x' where "r = (st', x')" by (cases r)
  with Inr have "Msg_ClaimContributorReward K ids (st, x) m = Inr (st', x')" by simp
  then obtain balance where "GetContributorReward st (mcr_PasskeyPubkey m) = Inr balance" "balance \<noteq> 0"
    by (rule claim_Inr)
  then show ?thesis using assms by (simp add: GetContributorReward_def read_balance_def)
qed simp

lemma mint_without_approvals:
  assumes "MintDailyEmission K (Inr []) st x epoch = (st', x', r)"
  shows "es_contribreward st' = es_contribreward st \<and> es_lifetimereward st' = es_lifetimereward st"
  using assms
  by (auto simp: MintDailyEmission_eq mint_qualifying_def qualifying_contributors_def Let_def
      split: sum.splits if_splits option.splits)

lemma emissions_UpdateParams_rewards:
  "emissions_Msg_UpdateParams K st m = Inr st' \<Longrightarrow>
     es_contribreward st' = es_contribreward st \<and> es_lifetimereward st' = es_lifetimereward st"
  by (auto simp: emissions_Msg_UpdateParams_def emissions_SetParams_def split: sum.splits if_splits option.splits)

fun mints :: "chain_msg \<Rightarrow> bool" where
  "mints (Tx_MintDailyEmission m) \<longleftrightarrow> True"
| "mints m \<longleftrightarrow> False"

lemma unrewarded_memory:
  assumes "unrewarded b s" "memory_inv ms" "stamps_within b ms" "ch_memory s' = ms" "ch_emissions s' = ch_emissions s"
  shows "unrewarded b s'"
  using assms by (simp add: unrewarded_def)

lemma updated_Inr: "updated r f = Inr s' \<longleftrightarrow> (\<exists>v. r = Inr v \<and> s' = f v)"
  by (auto simp: updated_def split: sum.split)

lemma chain_handle_unrewarded:
  assumes "chain_handle K parse_tags s m = Inr s'" "\<not> mints m" "unrewarded b s"
  shows "unrewarded b s'"
proof -
  have inv: "memory_inv (ch_memory s)" "stamps_within b (ch_memory s)" "es_contribreward (ch_emissions s) = []"
    using assms(3) by (simp_all add: unrewarded_def)
  show ?thesis
  proof (cases m)
    case (Tx_SubmitCommitment m')
    then obtain ms where ms: "Msg_SubmitCommitment (ch_memory s) (ch_org s) m' = Inr ms" "s' = s\<lparr>ch_memory := ms\<rparr>"
      using assms(1) by (auto simp: updated_Inr)
    show ?thesis
      by (rule unrewarded_memory [OF assms(3) memory_inv_submit [OF inv(1) ms(1)] stamps_within_submit [OF inv(2) ms(1)]])
        (simp_all add: ms(2))
  next
    case (Tx_ApproveMemory m')
    then obtain ms os rs where ms: "Msg_ApproveMemory K (ch_memory s) (ch_org s) (ch_reputation s) m' = Inr (ms, os, rs)"
        "s' = s\<lparr>ch_memory := ms, ch_org := os, ch_reputation := rs\<rparr>"
      using assms(1) by (auto simp: updated_Inr)
    show ?thesis
      by (rule unrewarded_memory [OF assms(3) memory_inv_approve [OF inv(1) ms(1)] stamps_within_approve [OF inv(2) ms(1)]])
        (simp_all add: ms(2))
  next
    case (Tx_ReportMemory m')
    then obtain ms os rs where ms: "Msg_ReportMemory (ch_memory s) (ch_org s) (ch_reputation s) m' = Inr (ms, os, rs)"
        "s' = s\<lparr>ch_memory := ms, ch_org := os, ch_reputation := rs\<rparr>"
      using assms(1) by (auto simp: updated_Inr)
    have "memory_inv ms"
      using memory_handle_inv [OF inv(1), of "Mem_Report (ch_org s) (ch_reputation s) m'" ms] ms(1) by simp
    then show ?thesis
      by (rule unrewarded_memory [OF assms(3) _ stamps_within_report [OF inv(2) ms(1)]]) (simp_all add: ms(2))
  next
    case (Tx_memory_UpdateParams m')
    then obtain ms where ms: "memory_Msg_UpdateParams K (ch_memory s) m' = Inr ms" "s' = s\<lparr>ch_memory := ms\<rparr>"
      using assms(1) by (auto simp: updated_Inr)
    have "memory_inv ms" using memory_handle_inv [OF inv(1), of "Mem_UpdateParams K m'" ms] ms(1) by simp
    then show ?thesis
      by (rule unrewarded_memory [OF assms(3) _ stamps_within_params [OF inv(2) ms(1)]]) (simp_all add: ms(2))
  next
    case (Tx_ClaimContributorReward m')
    then show ?thesis
      using assms(1) claim_refused [OF inv(3), of K "ch_identity s" "ch_ext s" m'] by (auto simp: updated_Inr)
  next
    case (Tx_emissions_UpdateParams m')
    then show ?thesis
      using assms(1,3) by (auto simp: updated_Inr unrewarded_def dest: emissions_UpdateParams_rewards)
  qed (use assms in \<open>auto simp: updated_Inr unrewarded_def\<close>)
qed

lemma chain_epoch_unrewarded:
  assumes "unrewarded b s" "ident = ''wevibe_epoch'' \<Longrightarrow> int b < n \<and> n < 2 ^ 63"
  shows "unrewarded (if ident = ''wevibe_epoch'' then nat n else b) (chain_epoch_end K s ident n)"
proof (cases "ident = ''wevibe_epoch''")
  case False
  then show ?thesis
    using assms(1) by (simp add: chain_epoch_end_def emissions_AfterEpochEnd_def memory_AfterEpochEnd_def
        WeVibeEpochIdentifier_def unrewarded_def)
next
  case True
  note n = assms(2) [OF True]
  have inv: "memory_inv (ch_memory s)" "stamps_within b (ch_memory s)" using assms(1) by (simp_all add: unrewarded_def)
  have "b < unat (word_of_int n :: u64)" 
  proof -
    have "unat (word_of_int n :: u64) = nat n" by (rule unat_epoch) (use n in linarith)+
    then show ?thesis using n by linarith
  qed
  from no_approvals [OF inv(2) this] have none: "chain_approvals (ch_memory s) (word_of_int n) = Inr []"
    by (simp add: chain_approvals_def)
  obtain es x r where mint: "MintDailyEmission K (Inr []) (ch_emissions s) (ch_ext s) (word_of_int n) = (es, x, r)"
    by (rule prod_cases3)
  have result: "chain_epoch_end K s ident n = s\<lparr>ch_emissions := es, ch_ext := x,
      ch_memory := memory_AfterEpochEnd K (ch_memory s) ident n\<rparr>"
    by (simp add: chain_epoch_end_def emissions_AfterEpochEnd_def True WeVibeEpochIdentifier_def none mint)
  have "memory_inv (memory_AfterEpochEnd K (ch_memory s) ident n)" by (rule memory_inv_epoch [OF inv(1)])
  moreover have "stamps_within (nat n) (memory_AfterEpochEnd K (ch_memory s) ident n)"
  proof -
    have "0 \<le> n" "n < 2 ^ 63" "b \<le> nat n" using n by linarith+
    from stamps_within_epoch [OF inv this, of ident K] show ?thesis using True by simp
  qed
  ultimately show ?thesis
    unfolding result unrewarded_def using True assms(1) mint_without_approvals [OF mint] by (simp add: unrewarded_def)
qed

subsection \<open>Runs of the chain\<close>

text \<open>The numbers of the epochs that end in a run, and runs without a governance mint.\<close>

definition wevibe_epochs :: "chain_event list \<Rightarrow> int list" where
  "wevibe_epochs evs = List.map_filter (\<lambda>ev. case ev of
     Chain_epoch ident n \<Rightarrow> if ident = ''wevibe_epoch'' then Some n else None | Chain_tx h t m \<Rightarrow> None) evs"

definition no_governance_mint :: "chain_event list \<Rightarrow> bool" where
  "no_governance_mint evs \<longleftrightarrow> list_all (\<lambda>ev. case ev of Chain_tx h t m \<Rightarrow> \<not> mints m | Chain_epoch i n \<Rightarrow> True) evs"

lemma wevibe_epochs_simps [simp]:
  "wevibe_epochs [] = []"
  "wevibe_epochs (Chain_tx h t m # evs) = wevibe_epochs evs"
  "wevibe_epochs (Chain_epoch ident n # evs) =
     (if ident = ''wevibe_epoch'' then n # wevibe_epochs evs else wevibe_epochs evs)"
  by (simp_all add: wevibe_epochs_def List.map_filter_def)

lemma chain_run_unrewarded:
  assumes "unrewarded b s" "sorted_wrt (<) (int b # wevibe_epochs evs)" "\<forall>n \<in> set (wevibe_epochs evs). n < 2 ^ 63"
    "no_governance_mint evs"
  shows "\<exists>b. unrewarded b (deliver_all (chain_step K parse_tags) s evs)"
  using assms
proof (induction evs arbitrary: b s)
  case (Cons ev evs)
  show ?case
  proof (cases ev)
    case (Chain_tx h t m)
    let ?r = "chain_handle (K\<lparr>block_height := h, block_time := t\<rparr>) parse_tags s m"
    have "unrewarded b (case ?r of Inl e \<Rightarrow> s | Inr s' \<Rightarrow> s')"
      using chain_handle_unrewarded [of _ parse_tags s m _ b] Cons.prems(1,4) Chain_tx
      by (auto simp: no_governance_mint_def split: sum.split)
    then show ?thesis
      using Cons.IH [of b] Cons.prems(2,3,4) Chain_tx by (simp add: no_governance_mint_def)
  next
    case (Chain_epoch ident n)
    let ?b = "if ident = ''wevibe_epoch'' then nat n else b"
    have n: "int b < n \<and> n < 2 ^ 63" if "ident = ''wevibe_epoch''" using Cons.prems(2,3) Chain_epoch that by simp
    have "unrewarded ?b (chain_epoch_end K s ident n)" by (rule chain_epoch_unrewarded [OF Cons.prems(1) n])
    moreover have "sorted_wrt (<) (int ?b # wevibe_epochs evs)" using Cons.prems(2) Chain_epoch n by auto
    moreover have "\<forall>n \<in> set (wevibe_epochs evs). n < 2 ^ 63" "no_governance_mint evs"
      using Cons.prems(3,4) Chain_epoch by (auto simp: no_governance_mint_def split: if_splits)
    ultimately show ?thesis using Cons.IH [of ?b] Chain_epoch by simp
  qed
qed auto

lemma chain_genesis_unrewarded: "unrewarded 0 (chain_genesis x)"
  using memory_inv_genesis
  by (simp add: emissions_genesis_pool unrewarded_def chain_genesis_def stamps_within_def memory_getCurrentEpoch_def memory_genesis_def memory_empty_def)

end
