(* ===== verification/Queries.thy ===== *)
theory Queries
  imports Memory_Properties Chain_Correct
begin

section \<open>The gRPC queries\<close>

text \<open>
  The query servers (\<open>x/*/keeper/grpc_query.go\<close>) of the org, memory, reputation, identity,
  bandwidth and emissions modules; those of the serve and attestation modules stand with their
  keepers.  A query runs on a copy of the store that is thrown away, so a query is a function from
  the state to its answer, also where the keeper call it makes would write.  A request is a tuple
  of its fields, or an option of one where the code checks for \<open>nil\<close>; a response with several
  fields is a record.  The answers of \<open>Params\<close> and \<open>IsActive\<close> are those of the keeper functions
  \<open>GetParams\<close> and \<open>IsActive\<close>.
\<close>

subsection \<open>Organisations\<close>

record QueryGetOrgResponse =
  qo_OrgId :: string
  qo_Leader :: string
  qo_CreatedAt :: u64
  qo_RenewalHeight :: u64
  qo_StorageQuota :: u64
  qo_RetrievalBudget :: u64
  qo_Status :: i32
  qo_Domain :: string
  qo_HubServingAddress :: string
  qo_HubEndpoints :: "string list"
  qo_HubResponsePubkey :: string

definition Query_GetOrg :: "org_state \<Rightarrow> string \<Rightarrow> QueryGetOrgResponse result" where
  "Query_GetOrg st orgId =
     (case GetOrg st orgId of
        Inl e \<Rightarrow> Inl e
      | Inr org \<Rightarrow> Inr \<lparr>
          qo_OrgId = org_OrgID org, qo_Leader = org_Leader org, qo_CreatedAt = org_CreatedAt org,
          qo_RenewalHeight = org_RenewalHeight org, qo_StorageQuota = org_StorageQuota org,
          qo_RetrievalBudget = org_RetrievalBudget org, qo_Status = org_Status org,
          qo_Domain = org_Domain org, qo_HubServingAddress = org_HubServingAddress org,
          qo_HubEndpoints = org_HubEndpoints org, qo_HubResponsePubkey = org_HubResponsePubkey org\<rparr>)"

record MemberInfo =
  mi_OrgId :: string
  mi_Pubkey :: string
  mi_Role :: string
  mi_CanContribute :: bool
  mi_CanModerate :: bool

definition Query_GetMembers :: "org_state \<Rightarrow> string \<Rightarrow> MemberInfo list" where
  "Query_GetMembers st orgId =
     map (\<lambda>m. \<lparr>mi_OrgId = mr_OrgID m, mi_Pubkey = mr_Pubkey m, mi_Role = mr_Role m,
        mi_CanContribute = mr_CanContribute m, mi_CanModerate = mr_CanModerate m\<rparr>) (GetAllMembers st orgId)"

definition Query_IsMember :: "org_state \<Rightarrow> string \<Rightarrow> string \<Rightarrow> bool" where
  "Query_IsMember st orgId pubkey = IsMember st orgId pubkey"

text \<open>The serve receipt flag, the contributions required per epoch and the stake.\<close>

definition Query_GetOrgConfig :: "org_state \<Rightarrow> string \<Rightarrow> bool \<times> u64 \<times> u64" where
  "Query_GetOrgConfig st orgId =
     (let cfg = GetOrgConfig st orgId
      in (oc_ServeReceiptRequired cfg, oc_MinContributionsPerEpoch cfg, oc_ContestStakeVibe cfg))"

definition Query_GetOrgAccount :: "'x sdk \<Rightarrow> org_state \<Rightarrow> 'x \<Rightarrow> string \<Rightarrow> (string \<times> string) result" where
  "Query_GetOrgAccount K st x orgId =
     (case GetOrg st orgId of
        Inl e \<Rightarrow> Inl e
      | Inr org \<Rightarrow>
          (case AccAddressFromBech32 K (org_AccountAddress org) of
             None \<Rightarrow> Inl (Errorf ''invalid org account address'')
           | Some accountAddr \<Rightarrow>
               Inr (org_AccountAddress org, format_nat (GetBalance K x accountAddr ''uvibe''))))"

record QueryGetOrgProfileResponse =
  qp_OrgId :: string
  qp_Leader :: string
  qp_AccountAddress :: string
  qp_Domain :: string
  qp_Status :: i32
  qp_CreatedAt :: u64
  qp_StorageQuota :: u64
  qp_RetrievalBudget :: u64
  qp_MemberCount :: u64
  qp_ModeratorCount :: u64
  qp_ApprovedMemoryCount :: u64
  qp_TotalServes :: u64
  qp_UniqueMemoriesServed :: u64
  qp_SelfServes :: u64
  qp_ModelBreakdown :: "u64 kv"
  qp_MemoryBandwidthUsed :: u64
  qp_MemoryBandwidthCap :: u64
  qp_ServeBandwidthUsed :: u64
  qp_ServeBandwidthCap :: u64

definition count_members :: "MemberRecord list \<Rightarrow> u64 \<times> u64" where
  "count_members members =
     fold (\<lambda>m (memberCount, moderatorCount).
         (memberCount + 1, if mr_CanModerate m then moderatorCount + 1 else moderatorCount)) members (0, 0)"

text \<open>A keeper that reports an error leaves its fields of the profile zero.\<close>

definition Query_GetOrgProfile :: "'x chain \<Rightarrow> string \<Rightarrow> u64 \<Rightarrow> QueryGetOrgProfileResponse result" where
  "Query_GetOrgProfile s orgId epoch =
     (if orgId = [] then Inl (E_org Org_ErrInvalidOrgID)
      else case GetOrg (ch_org s) orgId of
        Inl e \<Rightarrow> Inl e
      | Inr org \<Rightarrow>
          let (memberCount, moderatorCount) = count_members (GetAllMembers (ch_org s) orgId);
              resp = \<lparr>
                qp_OrgId = org_OrgID org, qp_Leader = org_Leader org, qp_AccountAddress = org_AccountAddress org,
                qp_Domain = org_Domain org, qp_Status = org_Status org, qp_CreatedAt = org_CreatedAt org,
                qp_StorageQuota = org_StorageQuota org, qp_RetrievalBudget = org_RetrievalBudget org,
                qp_MemberCount = memberCount, qp_ModeratorCount = moderatorCount,
                qp_ApprovedMemoryCount = GetApprovedCount (ch_memory s) orgId,
                qp_TotalServes = 0, qp_UniqueMemoriesServed = 0, qp_SelfServes = 0, qp_ModelBreakdown = [],
                qp_MemoryBandwidthUsed = 0, qp_MemoryBandwidthCap = 0, qp_ServeBandwidthUsed = 0,
                qp_ServeBandwidthCap = 0\<rparr>;
              resp1 = (if epoch > 0 then
                  (case GetEpochServeStatsRaw (ch_serve s) orgId epoch of
                     Inl _ \<Rightarrow> resp
                   | Inr (totalServes, uniqueMemories, selfServes, modelBreakdown) \<Rightarrow> resp\<lparr>
                       qp_TotalServes := totalServes, qp_UniqueMemoriesServed := uniqueMemories,
                       qp_SelfServes := selfServes, qp_ModelBreakdown := modelBreakdown\<rparr>)
                else resp)
          in Inr (if epoch > 0 then
              (case GetOrInitBandwidthStateRaw (ch_bandwidth s) orgId epoch of
                 (_, memoryUsed, memoryCap, serveUsed, serveCap) \<Rightarrow> resp1\<lparr>
                   qp_MemoryBandwidthUsed := memoryUsed, qp_MemoryBandwidthCap := memoryCap,
                   qp_ServeBandwidthUsed := serveUsed, qp_ServeBandwidthCap := serveCap\<rparr>)
            else resp1))"

subsection \<open>Memories\<close>

text \<open>The fields that both queries for memories copy into the answer.\<close>

definition memory_answer :: "MemoryCommitment \<Rightarrow> StoredMemoryCommitment" where
  "memory_answer memory = \<lparr>
     smc_OrgId = mc_OrgID memory, smc_ContentHash = mc_ContentHash memory,
     smc_EncryptedBlob = mc_EncryptedBlob memory, smc_ContributorPubkey = mc_Contributor memory,
     smc_Epoch = mc_Epoch memory, smc_CommittedAtHeight = mc_CommittedAtHeight memory,
     smc_CommittingLeaderPubkey = mc_CommittingLeader memory, smc_State = mc_State memory,
     smc_LastActiveEpoch = mc_LastActiveEpoch memory, smc_WrappedDekEnc = mc_WrappedDekEnc memory,
     smc_MemoryType = mc_MemoryType memory, smc_ApprovedAtEpoch = mc_ApprovedAtEpoch memory,
     smc_PlaintextHash = mc_PlaintextHash memory, smc_Salt = mc_Salt memory,
     smc_CiphertextHash = mc_CiphertextHash memory, smc_WrappedDekHash = mc_WrappedDekHash memory,
     smc_ContributorSig = mc_ContributorSig memory, smc_ContributorAddress = mc_ContributorAddress memory,
     smc_ProducerModelId = mc_ProducerModelId memory,
     smc_AttestationSessionHash = mc_AttestationSessionHash memory, smc_McVersion = mc_McVersion memory,
     smc_Keywords = mc_Keywords memory\<rparr>"

definition Query_GetMemory :: "memory_state \<Rightarrow> string \<Rightarrow> bytes \<Rightarrow> StoredMemoryCommitment result" where
  "Query_GetMemory st orgId contentHash =
     (case GetApprovedMemory st orgId contentHash of
        Inl e \<Rightarrow> Inl e
      | Inr memory \<Rightarrow> Inr (memory_answer memory))"

text \<open>
  The address, the model, the session and the version of a pending commitment are not copied.
\<close>

definition Query_GetPendingCommitments :: "memory_state \<Rightarrow> string \<Rightarrow> StoredPendingCommitment list" where
  "Query_GetPendingCommitments st orgId =
     map (\<lambda>p. \<lparr>
         spc_OrgId = pc_OrgID p, spc_ContentHash = pc_ContentHash p, spc_ContributorId = pc_Contributor p,
         spc_Epoch = pc_Epoch p, spc_SubmittedAtHeight = pc_SubmittedAt p, spc_MemoryType = pc_MemoryType p,
         spc_ContributorAddress = [], spc_Keywords = pc_Keywords p, spc_McVersion = 0,
         spc_ProducerModelId = [], spc_AttestationSessionHash = []\<rparr>)
       (GetAllPendingForOrg st orgId)"

definition Query_GetMemoryCount :: "memory_state \<Rightarrow> string \<Rightarrow> u64" where
  "Query_GetMemoryCount st orgId = GetApprovedCount st orgId"

definition Query_GetEpochMerkleRoot :: "memory_state \<Rightarrow> string \<Rightarrow> u64 \<Rightarrow> (bytes \<times> u64) result" where
  "Query_GetEpochMerkleRoot st orgId epoch =
     (case GetEpochMerkleRoot st orgId epoch of
        Inl e \<Rightarrow> Inl e
      | Inr merkle \<Rightarrow> Inr (emr_MerkleRoot merkle, emr_MemoryCount merkle))"

definition Query_ListRelationships :: "memory_state \<Rightarrow> string \<Rightarrow> string \<Rightarrow> StoredMemoryRelationship list" where
  "Query_ListRelationships st orgId cid =
     map (\<lambda>rel. \<lparr>
         smr_OrgId = rel_OrgID rel, smr_SourceCid = rel_SourceCID rel, smr_TargetCid = rel_TargetCID rel,
         smr_RelationType = rel_RelationType rel, smr_Proposer = rel_Proposer rel,
         smr_Approved = rel_Approved rel, smr_Epoch = rel_Epoch rel\<rparr>)
       (ListRelationshipsForMemory st orgId cid)"

text \<open>
  \<open>json.Marshal\<close> of a map of strings is the parameter \<open>marshal_tags\<close>, as \<open>json.Unmarshal\<close> is
  \<open>parse_tags\<close>.  An answer of \<open>None\<close> is \<open>Found: false\<close>.
\<close>

definition Query_GetValidity ::
  "(bytes \<Rightarrow> (string \<times> string) list option) \<Rightarrow> ((string \<times> string) list \<Rightarrow> bytes option) \<Rightarrow> memory_state \<Rightarrow>
   string \<Rightarrow> string \<Rightarrow> StoredValidityMetadata option result" where
  "Query_GetValidity parse_tags marshal_tags st orgId cid =
     (case GetValidityMetadata parse_tags st orgId cid of
        Inl e \<Rightarrow> Inl e
      | Inr None \<Rightarrow> Inr None
      | Inr (Some metadata) \<Rightarrow>
          (case marshal_tags (vm_ScopeTags metadata) of
             None \<Rightarrow> Inl (Errorf ''marshal scope tags'')
           | Some scopeBz \<Rightarrow> Inr (Some \<lparr>
               svm_OrgId = orgId, svm_MemoryCid = cid, svm_ValidAfterEpoch = vm_ValidAfterEpoch metadata,
               svm_ValidUntilEpoch = vm_ValidUntilEpoch metadata, svm_ScopeTagsBz = scopeBz\<rparr>)))"

fun GetMemoriesBatch_loop ::
  "memory_state \<Rightarrow> string \<Rightarrow> bytes list \<Rightarrow> StoredMemoryCommitment list \<Rightarrow> bytes list \<Rightarrow>
   StoredMemoryCommitment list \<times> bytes list" where
  "GetMemoriesBatch_loop st orgId [] memories notFound = (memories, notFound)"
| "GetMemoriesBatch_loop st orgId (hash # rest) memories notFound =
     (case GetApprovedMemory st orgId hash of
        Inl _ \<Rightarrow> GetMemoriesBatch_loop st orgId rest memories (notFound @ [hash])
      | Inr memory \<Rightarrow> GetMemoriesBatch_loop st orgId rest (memories @ [memory_answer memory]) notFound)"

definition Query_GetMemoriesBatch ::
  "memory_state \<Rightarrow> (string \<times> bytes list) option \<Rightarrow> (StoredMemoryCommitment list \<times> bytes list) result" where
  "Query_GetMemoriesBatch st req =
     (case req of
        None \<Rightarrow> Inl (Status ''InvalidArgument'' ''empty request'')
      | Some (orgId, contentHashes) \<Rightarrow>
          if orgId = [] then Inl (Status ''InvalidArgument'' ''org_id required'')
          else if contentHashes = [] then Inl (Status ''InvalidArgument'' ''at least one content_hash required'')
          else if length contentHashes > 50
            then Inl (Status ''InvalidArgument'' ''max 50 content hashes per batch'')
          else Inr (GetMemoriesBatch_loop st orgId contentHashes [] []))"

subsection \<open>Identities, bandwidth and emissions\<close>

text \<open>The wallet and the flag of an alias; \<open>None\<close> is \<open>Found: false\<close>.\<close>

definition Query_ResolveIdentity :: "identity_state \<Rightarrow> string option \<Rightarrow> (string \<times> bool) option result" where
  "Query_ResolveIdentity st req =
     (case req of
        None \<Rightarrow> Inl (Status ''InvalidArgument'' ''empty request'')
      | Some passkeyPubkey \<Rightarrow>
          Inr (map_option (\<lambda>alias. (ia_WalletAddress alias, ia_IsMigrated alias)) (GetAlias st passkeyPubkey)))"

definition Query_GetBandwidthState :: "bandwidth_state \<Rightarrow> string \<Rightarrow> u64 \<Rightarrow> StoredBandwidthState result" where
  "Query_GetBandwidthState st orgId epoch =
     (case GetBandwidthState st orgId epoch of
        None \<Rightarrow> Inl (E_bandwidth Bw_ErrOverrideNotFound)
      | Some state \<Rightarrow> Inr \<lparr>
          sbs_OrgId = bs_OrgID state, sbs_Epoch = bs_Epoch state, sbs_MemoryUsed = bs_MemoryUsed state,
          sbs_MemoryCap = bs_MemoryCap state, sbs_ServeUsed = bs_ServeUsed state,
          sbs_ServeCap = bs_ServeCap state\<rparr>)"

text \<open>An answer of \<open>None\<close> is \<open>HasOverride: false\<close>.\<close>

definition Query_GetBandwidthOverride :: "bandwidth_state \<Rightarrow> string \<Rightarrow> StoredBandwidthOverride option result" where
  "Query_GetBandwidthOverride st orgId =
     (case GetBandwidthOverride st orgId of
        Inl e \<Rightarrow> if e = E_bandwidth Bw_ErrOverrideNotFound then Inr None else Inl e
      | Inr override \<Rightarrow> Inr (Some \<lparr>
          sbo_OrgId = bo_OrgID override, sbo_MemoryCap = bo_MemoryCap override,
          sbo_ServeCap = bo_ServeCap override\<rparr>))"

definition Query_GetRemainingBandwidth :: "bandwidth_state \<Rightarrow> string \<Rightarrow> u64 \<Rightarrow> u64 \<times> u64" where
  "Query_GetRemainingBandwidth st orgId epoch = snd (GetRemainingBandwidth st orgId epoch)"

text \<open>The supply, the daily amount, the two shares and the epoch of the pool.\<close>

definition Query_GetEmissionPool :: "emissions_state \<Rightarrow> (u64 \<times> u64 \<times> u64 \<times> u64 \<times> u64) result" where
  "Query_GetEmissionPool st =
     (case GetEmissionPool st of
        Inl e \<Rightarrow> Inl e
      | Inr pool \<Rightarrow> Inr (ep_TotalSupply pool, ep_DailyMint pool, ep_OperatorShare pool, ep_ValidatorShare pool,
          ep_Epoch pool))"

text \<open>The pending reward and everything ever credited.\<close>

definition Query_ContributorReward :: "emissions_state \<Rightarrow> string option \<Rightarrow> (u64 \<times> u64) result" where
  "Query_ContributorReward st req =
     (case req of
        None \<Rightarrow> Inl (Status ''InvalidArgument'' ''empty request'')
      | Some pubkey \<Rightarrow>
          (case GetContributorReward st pubkey of
             Inl e \<Rightarrow> Inl e
           | Inr pendingReward \<Rightarrow>
               (case GetLifetimeContributorReward st pubkey of
                  Inl e \<Rightarrow> Inl e | Inr allTime \<Rightarrow> Inr (pendingReward, allTime))))"

subsection \<open>Reputation\<close>

text \<open>The name, the number of memories and the points of a developer.\<close>

definition Query_GetReputation :: "reputation_state \<Rightarrow> bytes \<Rightarrow> (string \<times> u64 \<times> u64) result" where
  "Query_GetReputation st developer =
     (case GetReputation st developer of
        Inl e \<Rightarrow> Inl e
      | Inr stats \<Rightarrow> Inr (rs_DeveloperID stats, rs_MemoryCount stats, rs_XP stats))"

definition Query_GetXP :: "reputation_state \<Rightarrow> bytes \<Rightarrow> u64 result" where
  "Query_GetXP st developer = GetXP st developer"

text \<open>Serves, serves to oneself, breadth, points and first epoch.\<close>

definition Query_GetServeStats :: "reputation_state \<Rightarrow> bytes \<Rightarrow> (u64 \<times> u64 \<times> u64 \<times> u64 \<times> u64) result" where
  "Query_GetServeStats st developer =
     (case GetServeStats st developer of
        Inl e \<Rightarrow> Inl e
      | Inr stats \<Rightarrow> Inr (rs_ServeCount stats, rs_SelfServeCount stats, rs_OrgBreadth stats, rs_ServeXP stats,
          rs_FirstSeenEpoch stats))"

definition Query_GetContributorOrgSet :: "reputation_state \<Rightarrow> bytes \<Rightarrow> string list" where
  "Query_GetContributorOrgSet st developer = cos_OrgIds (GetContributorOrgSet st developer)"

record QueryGetCrossOrgProfileResponse =
  qx_DeveloperId :: string
  qx_MemoryCount :: u64
  qx_Xp :: u64
  qx_ServeCount :: u64
  qx_SelfServeCount :: u64
  qx_OrgBreadth :: u64
  qx_ServeXp :: u64
  qx_FirstSeenEpoch :: u64
  qx_OrgIds :: "string list"
  qx_DomainTags :: "u64 kv option"

definition Query_GetCrossOrgProfile :: "reputation_state \<Rightarrow> bytes \<Rightarrow> QueryGetCrossOrgProfileResponse result" where
  "Query_GetCrossOrgProfile st developer =
     (case GetReputation st developer of
        Inl e \<Rightarrow> Inl e
      | Inr stats \<Rightarrow>
          let orgSet = GetContributorOrgSet st developer
          in Inr \<lparr>
            qx_DeveloperId = rs_DeveloperID stats, qx_MemoryCount = rs_MemoryCount stats, qx_Xp = rs_XP stats,
            qx_ServeCount = rs_ServeCount stats, qx_SelfServeCount = rs_SelfServeCount stats,
            qx_OrgBreadth = rs_OrgBreadth stats, qx_ServeXp = rs_ServeXP stats,
            qx_FirstSeenEpoch = rs_FirstSeenEpoch stats, qx_OrgIds = cos_OrgIds orgSet,
            qx_DomainTags = rs_DomainTags stats\<rparr>)"

record QueryGetContributorProfileResponse =
  qc_ContributorId :: string
  qc_Xp :: u64
  qc_ServeXp :: u64
  qc_MemoryCount :: u64
  qc_ServeCount :: u64
  qc_SelfServeCount :: u64
  qc_OrgBreadth :: u64
  qc_FirstSeenEpoch :: u64
  qc_DifficultyHistogram :: "u64 list"
  qc_TopDomains :: "string list"
  qc_ProvenanceBreakdown :: "u64 kv option"
  qc_OrgIds :: "string list"
  qc_EpochServes :: u64
  qc_EpochSelfServes :: u64
  qc_EpochTotalTurns :: u64

text \<open>
  The order in which the map of domain tags is ranged over is the parameter of \<open>GetTopDomains\<close>; an
  error there leaves the list of domains empty.
\<close>

definition Query_GetContributorProfile ::
  "(u64 kv \<Rightarrow> (string \<times> u64) list) \<Rightarrow> reputation_state \<Rightarrow> serve_state \<Rightarrow> string \<Rightarrow> u64 \<Rightarrow>
   QueryGetContributorProfileResponse result" where
  "Query_GetContributorProfile order st sv contributorId epoch =
     (if contributorId = [] then Inl (E_reputation Rep_ErrInvalidDeveloper)
      else case GetReputation st contributorId of
        Inl e \<Rightarrow> Inl e
      | Inr stats \<Rightarrow>
          let topDomains = (case GetTopDomains order st contributorId 10 of Inl _ \<Rightarrow> [] | Inr domains \<Rightarrow> domains);
              orgIDs = cos_OrgIds (GetContributorOrgSet st contributorId);
              resp = \<lparr>
                qc_ContributorId = contributorId, qc_Xp = rs_XP stats, qc_ServeXp = rs_ServeXP stats,
                qc_MemoryCount = rs_MemoryCount stats, qc_ServeCount = rs_ServeCount stats,
                qc_SelfServeCount = rs_SelfServeCount stats, qc_OrgBreadth = rs_OrgBreadth stats,
                qc_FirstSeenEpoch = rs_FirstSeenEpoch stats, qc_DifficultyHistogram = rs_DifficultyBucket stats,
                qc_TopDomains = topDomains, qc_ProvenanceBreakdown = rs_ProvenanceBreakdown stats,
                qc_OrgIds = orgIDs, qc_EpochServes = 0, qc_EpochSelfServes = 0, qc_EpochTotalTurns = 0\<rparr>
          in Inr (if epoch > 0 then
              (case GetContributorEpochServesRaw sv contributorId epoch of
                 Inl _ \<Rightarrow> resp
               | Inr (serveCount, selfServeCount, totalTurns, _) \<Rightarrow> resp\<lparr>
                   qc_EpochServes := serveCount, qc_EpochSelfServes := selfServeCount,
                   qc_EpochTotalTurns := totalTurns\<rparr>)
            else resp))"

text \<open>The keeper never returns a \<open>nil\<close> profile, so the last check of these two handlers has no branch.\<close>

definition Query_LeaderProfile :: "reputation_state \<Rightarrow> string \<Rightarrow> string \<Rightarrow> StoredLeaderProfile result" where
  "Query_LeaderProfile st leaderPubkey orgId =
     (if leaderPubkey = [] \<or> orgId = [] then Inl (E_reputation Rep_ErrInvalidDeveloper)
      else Inr (GetLeaderProfile st leaderPubkey orgId))"

definition Query_ModeratorProfile :: "reputation_state \<Rightarrow> string \<Rightarrow> string \<Rightarrow> StoredModeratorProfile result" where
  "Query_ModeratorProfile st moderatorPubkey orgId =
     (if moderatorPubkey = [] \<or> orgId = [] then Inl (E_reputation Rep_ErrInvalidDeveloper)
      else Inr (GetModeratorProfile st moderatorPubkey orgId))"

subsection \<open>Upheld reports\<close>

record UpheldReportEntry =
  ure_OrgId :: string
  ure_ContentHash :: bytes
  ure_ContributorPubkey :: string
  ure_ApprovingModerators :: "string list"
  ure_UpholdingModerators :: "string list"
  ure_ReporterPubkey :: string
  ure_Reason :: string
  ure_UpheldAtEpoch :: u64

definition report_entry :: "StoredMemoryReport \<Rightarrow> UpheldReportEntry" where
  "report_entry report = \<lparr>
     ure_OrgId = rpt_OrgId report, ure_ContentHash = rpt_ContentHash report,
     ure_ContributorPubkey = rpt_ContributorPubkey report,
     ure_ApprovingModerators = rpt_ApprovingModerators report,
     ure_UpholdingModerators = rpt_UpholdingModerators report, ure_ReporterPubkey = rpt_ReporterPubkey report,
     ure_Reason = rpt_Reason report, ure_UpheldAtEpoch = rpt_UpheldAtEpoch report\<rparr>"

text \<open>
  A page request is a pointer to an offset and a limit, of which the code takes \<open>int(...)\<close>, a
  64-bit two's complement number.  A slice whose bounds are negative or in the wrong order panics.
\<close>

definition paginateReports ::
  "UpheldReportEntry list \<Rightarrow> (u64 \<times> u64) option \<Rightarrow> (UpheldReportEntry list \<times> u64) result" where
  "paginateReports reports page =
     (let (pageOffset, pageLimit) = (case page of None \<Rightarrow> (0, 100) | Some p \<Rightarrow> p);
          len = int (length reports);
          limit = (if sint pageLimit = 0 then 100 else sint pageLimit);
          offset = (if sint pageOffset > len then len else sint pageOffset);
          sum = sint (word_of_int (offset + limit) :: u64);
          end = (if sum > len then len else sum)
      in if offset < 0 \<or> end < offset then Inl (Panic ''slice bounds out of range'')
         else Inr (take (nat (end - offset)) (drop (nat offset) reports), of_int len))"

definition Query_UpheldReportsByContributor ::
  "memory_state \<Rightarrow> (string \<times> (u64 \<times> u64) option) option \<Rightarrow> (UpheldReportEntry list \<times> u64) result" where
  "Query_UpheldReportsByContributor st req =
     (case req of
        None \<Rightarrow> Inl (Status ''InvalidArgument'' ''empty request'')
      | Some (contributorId, page) \<Rightarrow>
          if contributorId = [] then Inl (Status ''InvalidArgument'' ''contributor_id required'')
          else paginateReports
            (IterateUpheldReports st (\<lambda>matching report.
               (if rpt_ContributorPubkey report = contributorId then matching @ [report_entry report] else matching,
                True)) []) page)"

definition Query_UpheldReportsByModerator ::
  "memory_state \<Rightarrow> (string \<times> (u64 \<times> u64) option) option \<Rightarrow> (UpheldReportEntry list \<times> u64) result" where
  "Query_UpheldReportsByModerator st req =
     (case req of
        None \<Rightarrow> Inl (Status ''InvalidArgument'' ''empty request'')
      | Some (moderatorPubkey, page) \<Rightarrow>
          if moderatorPubkey = [] then Inl (Status ''InvalidArgument'' ''moderator_pubkey required'')
          else paginateReports
            (IterateUpheldReports st (\<lambda>matching report.
               (if moderatorPubkey \<in> set (rpt_ApprovingModerators report) then matching @ [report_entry report]
                else matching, True)) []) page)"

definition Query_UpheldReportsByLeader ::
  "memory_state \<Rightarrow> (string \<times> (u64 \<times> u64) option) option \<Rightarrow> (UpheldReportEntry list \<times> u64) result" where
  "Query_UpheldReportsByLeader st req =
     (case req of
        None \<Rightarrow> Inl (Status ''InvalidArgument'' ''empty request'')
      | Some (leaderPubkey, page) \<Rightarrow>
          if leaderPubkey = [] then Inl (Status ''InvalidArgument'' ''leader_pubkey required'')
          else paginateReports
            (IterateUpheldReports st (\<lambda>matching report.
               (if rpt_CommittingLeaderPubkey report = leaderPubkey then matching @ [report_entry report]
                else matching, True)) []) page)"

text \<open>The reputation module has its own copy of the text a contributor signs.\<close>

definition reputation_buildSubmitMemoryCanonicalBody ::
  "bytes \<Rightarrow> string \<Rightarrow> u64 \<Rightarrow> i32 \<Rightarrow> string \<Rightarrow> bytes \<Rightarrow> bytes \<Rightarrow> bytes \<Rightarrow> bytes \<Rightarrow> bytes" where
  "reputation_buildSubmitMemoryCanonicalBody ciphertextHash contributorPubkey epochID memoryType orgID
     plaintextHash salt submissionHash wrappedDekHash =
     join_lines [
       ''wevibe.submit_memory.v1'',
       ''ciphertext_hash:'' @ hex_encode ciphertextHash,
       ''contributor_pubkey:'' @ contributorPubkey,
       ''epoch_id:'' @ FormatUint epochID,
       ''memory_type:'' @ CanonicalMemoryType memoryType,
       ''org_id:'' @ orgID,
       ''plaintext_hash:'' @ hex_encode plaintextHash,
       ''salt:'' @ hex_encode salt,
       ''submission_hash:'' @ hex_encode submissionHash,
       ''wrapped_dek_hash:'' @ hex_encode wrappedDekHash]"

definition bytesEqual :: "bytes \<Rightarrow> bytes \<Rightarrow> bool" where
  "bytesEqual left right =
     (if length left \<noteq> length right then False
      else list_all (\<lambda>i. left ! i = right ! i) [0..<length left])"

record QueryVerifyUpheldReportResponse =
  vr_Plaintext :: bytes
  vr_Ciphertext :: bytes
  vr_Capsule :: bytes
  vr_PlaintextHash :: bytes
  vr_PlaintextOversized :: bool
  vr_ApprovingModerators :: "string list"
  vr_UpholdingModerators :: "string list"
  vr_UpheldAtEpoch :: u64
  vr_Salt :: bytes
  vr_CiphertextHash :: bytes
  vr_WrappedDekHash :: bytes
  vr_ContributorSig :: bytes
  vr_ContributorPubkey :: string
  vr_EncryptedBlob :: bytes
  vr_WrappedDekEnc :: bytes
  vr_ContentHash :: bytes
  vr_OrgId :: string
  vr_Epoch :: u64
  vr_MemoryType :: string
  vr_CanonicalBody :: bytes

text \<open>
  The lookup of the report has no error of its own: it only passes on a failure to open the iterator.
\<close>

definition Query_VerifyUpheldReport ::
  "'x sdk \<Rightarrow> memory_state \<Rightarrow> (string \<times> bytes) option \<Rightarrow> QueryVerifyUpheldReportResponse result" where
  "Query_VerifyUpheldReport K st req =
     (case req of
        None \<Rightarrow> Inl (Status ''InvalidArgument'' ''empty request'')
      | Some (orgId, contentHash) \<Rightarrow>
          if orgId = [] then Inl (Status ''InvalidArgument'' ''org_id required'')
          else if contentHash = [] then Inl (Status ''InvalidArgument'' ''content_hash required'')
          else (case GetApprovedMemory st orgId contentHash of
             Inl e \<Rightarrow>
               if e = E_memory Mem_ErrMemoryNotFound then Inl (Status ''NotFound'' ''approved memory not found'')
               else Inl (Status ''Internal'' ''lookup approved memory'')
           | Inr memory \<Rightarrow>
               let report = GetUpheldReport st orgId contentHash;
                   wrappedDekHash = sha256_Sum256 K (mc_WrappedDekEnc memory);
                   submissionHash = sha256_Sum256 K (mc_EncryptedBlob memory @ mc_WrappedDekEnc memory)
               in if mc_PlaintextHash memory = [] \<or> mc_Salt memory = [] \<or> mc_CiphertextHash memory = [] \<or>
                     mc_ContributorSig memory = []
                  then Inl (Status ''Internal'' ''approved memory missing verification fields'')
                  else if mc_WrappedDekHash memory \<noteq> [] \<and> \<not> bytesEqual (mc_WrappedDekHash memory) wrappedDekHash
                  then Inl (Status ''Internal'' ''stored wrapped_dek_hash mismatch'')
                  else if \<not> bytesEqual (mc_ContentHash memory) submissionHash
                  then Inl (Status ''Internal'' ''stored content_hash mismatch'')
                  else Inr \<lparr>
                    vr_Plaintext = (case report of None \<Rightarrow> [] | Some r \<Rightarrow> rpt_Plaintext r),
                    vr_Ciphertext = (case report of None \<Rightarrow> [] | Some r \<Rightarrow> rpt_Ciphertext r),
                    vr_Capsule = (case report of None \<Rightarrow> [] | Some r \<Rightarrow> rpt_Capsule r),
                    vr_PlaintextHash = mc_PlaintextHash memory,
                    vr_PlaintextOversized = (case report of None \<Rightarrow> False | Some r \<Rightarrow> rpt_PlaintextOversized r),
                    vr_ApprovingModerators = (case report of None \<Rightarrow> [] | Some r \<Rightarrow> rpt_ApprovingModerators r),
                    vr_UpholdingModerators = (case report of None \<Rightarrow> [] | Some r \<Rightarrow> rpt_UpholdingModerators r),
                    vr_UpheldAtEpoch = (case report of None \<Rightarrow> 0 | Some r \<Rightarrow> rpt_UpheldAtEpoch r),
                    vr_Salt = mc_Salt memory, vr_CiphertextHash = mc_CiphertextHash memory,
                    vr_WrappedDekHash = wrappedDekHash, vr_ContributorSig = mc_ContributorSig memory,
                    vr_ContributorPubkey = mc_Contributor memory, vr_EncryptedBlob = mc_EncryptedBlob memory,
                    vr_WrappedDekEnc = mc_WrappedDekEnc memory, vr_ContentHash = mc_ContentHash memory,
                    vr_OrgId = mc_OrgID memory, vr_Epoch = mc_Epoch memory,
                    vr_MemoryType = CanonicalMemoryType (mc_MemoryType memory),
                    vr_CanonicalBody = reputation_buildSubmitMemoryCanonicalBody (mc_CiphertextHash memory)
                      (mc_Contributor memory) (mc_Epoch memory) (mc_MemoryType memory) (mc_OrgID memory)
                      (mc_PlaintextHash memory) (mc_Salt memory) submissionHash wrappedDekHash\<rparr>))"

subsection \<open>What the queries return\<close>

lemma bytesEqual_eq [simp]: "bytesEqual left right \<longleftrightarrow> left = right"
  by (auto simp: bytesEqual_def list_all_iff intro: nth_equalityI)

lemma reputation_body_eq [simp]:
  "reputation_buildSubmitMemoryCanonicalBody = buildSubmitMemoryCanonicalBody"
  by (intro ext) (simp add: reputation_buildSubmitMemoryCanonicalBody_def buildSubmitMemoryCanonicalBody_def)

text \<open>A stored memory comes back unchanged from the query, for one hash and for a batch.\<close>

lemma Query_GetMemory_stored:
  "Query_GetMemory st i h =
     (case kv_get (ms_approved st) (approvedKey i h) of
        None \<Rightarrow> Inl (E_memory Mem_ErrMemoryNotFound) | Some stored \<Rightarrow> Inr stored)"
  by (simp add: Query_GetMemory_def GetApprovedMemory_def memory_answer_def storedToMemory_def split: option.split)

lemma GetMemoriesBatch_loop_eq:
  "GetMemoriesBatch_loop st i hs ms nf =
     (ms @ List.map_filter (\<lambda>h. kv_get (ms_approved st) (approvedKey i h)) hs,
      nf @ filter (\<lambda>h. kv_get (ms_approved st) (approvedKey i h) = None) hs)"
  by (induction hs arbitrary: ms nf)
    (auto simp: GetApprovedMemory_def memory_answer_def storedToMemory_def map_filter_simps split: option.split)

lemma count_members_eq:
  "count_members ms = (of_nat (length ms), of_nat (length (filter mr_CanModerate ms)))"
proof -
  have "fold (\<lambda>m (memberCount, moderatorCount).
         (memberCount + 1, if mr_CanModerate m then moderatorCount + 1 else moderatorCount)) ms (a, b) =
      (a + of_nat (length ms), b + of_nat (length (filter mr_CanModerate ms)))" for a b :: u64
    by (induction ms arbitrary: a b) (simp_all add: add.assoc)
  then show ?thesis by (simp add: count_members_def)
qed

text \<open>The reports listed are those that match, in the order of the store.\<close>

lemma iterate_reports_filter:
  "iterate_reports (\<lambda>matching report. (if P report then matching @ [f report] else matching, True)) acc t =
     acc @ map f (filter P (map snd t))"
  by (induction t arbitrary: acc) auto

lemmas upheld_reports_filter = IterateUpheldReports_def iterate_reports_filter append_Nil

text \<open>
  The page is the requested part of the list while offset and limit fit a signed number; otherwise
  the handler panics, whatever the list.
\<close>

lemma take_drop_clamped:
  assumes "0 \<le> off" "0 \<le> n" "o' = min off (int (length xs))"
  shows "take (nat (min (o' + n) (int (length xs)) - o')) (drop (nat o') xs) = take (nat n) (drop (nat off) xs)"
  using assms by (cases "off \<le> int (length xs)") (auto simp: min_def nat_add_distrib)

lemma paginateReports_page:
  assumes "uint offset + uint limit + 100 < 2 ^ 63"
  shows "paginateReports reports (Some (offset, limit)) =
    Inr (take (if limit = 0 then 100 else nat (uint limit)) (drop (nat (uint offset)) reports), of_nat (length reports))"
proof -
  have nn: "0 \<le> uint offset" "0 \<le> uint limit" by simp_all
  then have "uint offset < 2 ^ 63" "uint limit < 2 ^ 63" using assms by linarith+
  then have s: "sint offset = uint offset" "sint limit = uint limit" by (simp_all add: sint_u64)
  define n where "n = (if uint limit = 0 then 100 else uint limit)"
  define off where "off = min (uint offset) (int (length reports))"
  have off_if: "(if uint offset > int (length reports) then int (length reports) else uint offset) = off"
    by (simp add: off_def min_def)
  have b: "0 \<le> n" "0 \<le> off" "off \<le> int (length reports)" "off + n < 2 ^ 63"
    using assms nn by (auto simp: n_def off_def)
  then have sum: "sint (word_of_int (off + n) :: u64) = off + n" by (intro sint_word_of_int_u64) linarith+
  have end_if: "(if off + n > int (length reports) then int (length reports) else off + n) =
      min (off + n) (int (length reports))" by (simp add: min_def)
  have "paginateReports reports (Some (offset, limit)) =
      (if off < 0 \<or> min (off + n) (int (length reports)) < off then Inl (Panic ''slice bounds out of range'')
       else Inr (take (nat (min (off + n) (int (length reports)) - off)) (drop (nat off) reports),
         of_int (int (length reports))))"
    unfolding paginateReports_def Let_def option.case prod.case s n_def [symmetric] off_if sum end_if ..
  also have "\<dots> = Inr (take (nat n) (drop (nat (uint offset)) reports), of_nat (length reports))"
    using b unfolding take_drop_clamped [OF nn(1) b(1) off_def] by simp
  finally show ?thesis by (simp add: n_def uint_0_iff)
qed

lemma paginateReports_panics:
  assumes "length reports < 2 ^ 63" "2 ^ 63 \<le> uint offset \<or> 2 ^ 63 \<le> uint limit"
  shows "paginateReports reports (Some (offset, limit)) = Inl (Panic ''slice bounds out of range'')"
proof (cases "2 ^ 63 \<le> uint offset")
  case True
  then have "sint offset < 0" using uint_lt2p [of offset] by (simp add: sint_u64)
  then show ?thesis by (simp add: paginateReports_def Let_def)
next
  case False
  then have l: "sint limit < 0" "- (2 ^ 63) \<le> sint limit"
    using assms(2) uint_lt2p [of limit] by (simp_all add: sint_u64)
  define off where "off = (if sint offset > int (length reports) then int (length reports) else sint offset)"
  have off: "0 \<le> off" "off \<le> int (length reports)" using False by (auto simp: off_def sint_u64)
  moreover have "int (length reports) < 2 ^ 63" using assms(1) by simp
  ultimately have "sint (word_of_int (off + sint limit) :: u64) = off + sint limit"
    using l by (intro sint_word_of_int_u64) linarith+
  then show ?thesis
    unfolding paginateReports_def Let_def option.case prod.case off_def [symmetric] using l off by simp
qed

subsection \<open>Approved memories stay verifiable\<close>

text \<open>What an approval has checked, as a property of the stored record.\<close>

definition verifiable :: "'x sdk \<Rightarrow> StoredMemoryCommitment \<Rightarrow> bool" where
  "verifiable K s \<longleftrightarrow> smc_OrgId s \<noteq> [] \<and>
     smc_CiphertextHash s = sha256_Sum256 K (smc_EncryptedBlob s) \<and>
     smc_WrappedDekHash s = sha256_Sum256 K (smc_WrappedDekEnc s) \<and>
     smc_ContentHash s = sha256_Sum256 K (smc_EncryptedBlob s @ smc_WrappedDekEnc s) \<and>
     (\<exists>pk. hex_decode (smc_ContributorPubkey s) = Some pk \<and> length pk = 32 \<and>
        ed25519_Verify K pk (buildSubmitMemoryCanonicalBody (smc_CiphertextHash s) (smc_ContributorPubkey s)
          (smc_Epoch s) (smc_MemoryType s) (smc_OrgId s) (smc_PlaintextHash s) (smc_Salt s) (smc_ContentHash s)
          (smc_WrappedDekHash s)) (smc_ContributorSig s))"

definition all_verifiable :: "'x sdk \<Rightarrow> memory_state \<Rightarrow> bool" where
  "all_verifiable K st \<longleftrightarrow> (\<forall>k s. kv_get (ms_approved st) k = Some s \<longrightarrow> verifiable K s)"

lemma all_verifiable_cong: "ms_approved st' = ms_approved st \<Longrightarrow> all_verifiable K st' = all_verifiable K st"
  by (simp add: all_verifiable_def)

lemma verifiable_aged: "verifiable K s \<Longrightarrow> aged s s' \<Longrightarrow> verifiable K s'"
  by (auto simp: aged_def verifiable_def)

definition same_crypto :: "'x sdk \<Rightarrow> 'x sdk \<Rightarrow> bool" where
  "same_crypto K K' \<longleftrightarrow> sha256_Sum256 K' = sha256_Sum256 K \<and> ed25519_Verify K' = ed25519_Verify K"

fun event_crypto :: "'x sdk \<Rightarrow> 'x memory_event \<Rightarrow> bool" where
  "event_crypto K (Mem_Approve K' os rs m) \<longleftrightarrow> same_crypto K K'"
| "event_crypto K ev \<longleftrightarrow> True"

lemma all_verifiable_approve:
  assumes "all_verifiable K st" "same_crypto K K'" "Msg_ApproveMemory K' st os rs m = Inr (st', os', rs')"
  shows "all_verifiable K st'"
proof -
  let ?i = "mav_OrgId m" and ?h = "mav_ContentHash m"
  from Msg_ApproveMemory_ok [OF assms(3)] obtain p pk where
    p: "kv_get (ms_pending st) (pendingKey ?i ?h) = Some p" "MsgApproveMemory_ValidateBasic m = Inr ()"
    and pk: "hex_decode (spc_ContributorId p) = Some pk" "length pk = 32"
    and sig: "ed25519_Verify K' pk (buildSubmitMemoryCanonicalBody (mav_CiphertextHash m)
       (spc_ContributorId p) (spc_Epoch p) (mav_MemoryType m) ?i (mav_PlaintextHash m) (mav_Salt m)
       ?h (sha256_Sum256 K' (mav_WrappedDekEnc m))) (mav_ContributorSig m)"
    and hs: "mav_CiphertextHash m = sha256_Sum256 K' (mav_EncryptedBlob m)"
      "?h = sha256_Sum256 K' (mav_EncryptedBlob m @ mav_WrappedDekEnc m)"
    and a: "ApproveMemory st os rs ?i ?h (mav_EncryptedBlob m) (mav_CommittingLeader m)
       (mav_WrappedDekEnc m) (mav_PlaintextHash m) (mav_Salt m) (mav_CiphertextHash m)
       (sha256_Sum256 K' (mav_WrappedDekEnc m)) (mav_ContributorSig m) (mav_MemoryType m) = Inr (st', os', rs')"
    by blast
  let ?r = "approved_record st p ?i ?h (mav_EncryptedBlob m) (mav_CommittingLeader m) (mav_WrappedDekEnc m)
    (mav_PlaintextHash m) (mav_Salt m) (mav_CiphertextHash m) (sha256_Sum256 K' (mav_WrappedDekEnc m))
    (mav_ContributorSig m) (mav_MemoryType m)"
  have st': "ms_approved st' = kv_set (approvedKey ?i ?h) ?r (ms_approved st)"
  proof (rule ApproveMemory_ok [OF a])
    fix p'
    assume "kv_get (ms_pending st) (pendingKey ?i ?h) = Some p'"
    with p(1) have "p' = p" by simp
    moreover assume "st' = st\<lparr>
       ms_approved := kv_set (approvedKey ?i ?h)
         (approved_record st p' ?i ?h (mav_EncryptedBlob m) (mav_CommittingLeader m) (mav_WrappedDekEnc m)
           (mav_PlaintextHash m) (mav_Salt m) (mav_CiphertextHash m) (sha256_Sum256 K' (mav_WrappedDekEnc m))
           (mav_ContributorSig m) (mav_MemoryType m)) (ms_approved st),
       ms_pending := kv_del (pendingKey ?i ?h) (ms_pending st),
       ms_counts := kv_set (countKey ?i) (GetApprovedCount st ?i + 1) (ms_counts st)\<rparr>"
    ultimately show ?thesis by simp
  qed
  have K: "sha256_Sum256 K = sha256_Sum256 K'" "ed25519_Verify K = ed25519_Verify K'"
    using assms(2) by (simp_all add: same_crypto_def)
  have "?i \<noteq> []" using p(2) by (simp add: MsgApproveMemory_ValidateBasic_def split: if_splits)
  with pk sig hs have "verifiable K ?r" unfolding verifiable_def approved_record_def K by simp
  then show ?thesis using assms(1) unfolding all_verifiable_def st' kv_get_set by (simp split: if_splits)
qed

lemma all_verifiable_epoch:
  assumes "memory_inv st" "all_verifiable K st"
  shows "all_verifiable K (memory_AfterEpochEnd K' st ident n)"
proof -
  have ok: "approved_ok (ms_approved st)" using assms(1) by (simp add: memory_inv_def)
  show ?thesis
  proof (cases rule: memory_AfterEpochEnd_ok [OF ok, of K' ident n, case_names skip run])
    case (run a v m)
    have "verifiable K s'" if s': "kv_get a k = Some s'" for k s'
    proof -
      have "rel_option aged (kv_get (ms_approved st) k) (kv_get a k)" using run(2) by (simp add: ages_to_def)
      then obtain s where "kv_get (ms_approved st) k = Some s" "aged s s'" by (auto simp: s' option_rel_Some2)
      then show ?thesis using assms(2) verifiable_aged unfolding all_verifiable_def by blast
    qed
    then show ?thesis unfolding run(1) by (simp add: all_verifiable_def)
  qed (use assms in simp)
qed

lemma memory_handle_verifiable:
  assumes "memory_inv st" "all_verifiable K st" "event_crypto K ev" "memory_handle st ev = Inr st'"
  shows "all_verifiable K st'"
proof (cases ev)
  case (Mem_Submit os m)
  then have "Msg_SubmitCommitment st os m = Inr st'" using assms(4) by simp
  then obtain c where "SubmitCommitment st os c = Inr st'" by (elim Msg_SubmitCommitment_ok)
  from SubmitCommitment_ok(1) [OF this] show ?thesis using assms(2) by (simp add: all_verifiable_def)
next
  case (Mem_Approve K' os rs m)
  then obtain os' rs' where "Msg_ApproveMemory K' st os rs m = Inr (st', os', rs')"
    using assms(4) by (auto split: sum.splits)
  then show ?thesis using all_verifiable_approve assms(2,3) Mem_Approve by simp
next
  case (Mem_Report os rs m)
  then obtain os' rs' where r: "Msg_ReportMemory st os rs m = Inr (st', os', rs')"
    using assms(4) by (auto split: sum.splits)
  show ?thesis unfolding Msg_ReportMemory_ok(5) [OF r] using assms(2) by (simp add: all_verifiable_def)
next
  case (Mem_UpdateParams K' m)
  then have "memory_Msg_UpdateParams K' st m = Inr st'" using assms(4) by simp
  from memory_Msg_UpdateParams_ok [OF this] show ?thesis using assms(2) by (auto simp: all_verifiable_def)
next
  case (Mem_EpochEnd K' ident n)
  then show ?thesis using all_verifiable_epoch [OF assms(1,2)] assms(4) by auto
qed

text \<open>
  Inside the chain the memory store only moves by the operations of its own module: a step of the
  chain leaves it alone or is one of them.
\<close>

lemma chain_handle_memory:
  assumes "chain_handle K parse_tags s m = Inr s'"
  shows "ch_memory s' = ch_memory s \<or>
    (\<exists>ev. event_crypto K ev \<and> memory_handle (ch_memory s) ev = Inr (ch_memory s'))"
proof (cases m)
  case (Tx_SubmitCommitment m')
  then have "memory_handle (ch_memory s) (Mem_Submit (ch_org s) m' :: 'a memory_event) = Inr (ch_memory s')"
    using assms by (auto simp: updated_Inr)
  then show ?thesis using event_crypto.simps(2) by blast
next
  case (Tx_ApproveMemory m')
  then have "memory_handle (ch_memory s) (Mem_Approve K (ch_org s) (ch_reputation s) m') = Inr (ch_memory s')"
    using assms by (auto simp: updated_Inr)
  moreover have "event_crypto K (Mem_Approve K (ch_org s) (ch_reputation s) m')" by (simp add: same_crypto_def)
  ultimately show ?thesis by blast
next
  case (Tx_ReportMemory m')
  then have "memory_handle (ch_memory s) (Mem_Report (ch_org s) (ch_reputation s) m' :: 'a memory_event) =
      Inr (ch_memory s')"
    using assms by (auto simp: updated_Inr)
  then show ?thesis using event_crypto.simps(3) by blast
next
  case (Tx_memory_UpdateParams m')
  then have "memory_handle (ch_memory s) (Mem_UpdateParams K m') = Inr (ch_memory s')"
    using assms by (auto simp: updated_Inr)
  then show ?thesis using event_crypto.simps(4) by blast
qed (use assms in \<open>auto simp: updated_Inr\<close>)

definition chain_memory_inv :: "'x sdk \<Rightarrow> 'x chain \<Rightarrow> bool" where
  "chain_memory_inv K s \<longleftrightarrow> memory_inv (ch_memory s) \<and> all_verifiable K (ch_memory s)"

lemma chain_memory_inv_event:
  assumes "chain_memory_inv K s" "event_crypto K ev" "memory_handle (ch_memory s) ev = Inr (ch_memory s')"
  shows "chain_memory_inv K s'"
  using assms memory_handle_inv memory_handle_verifiable unfolding chain_memory_inv_def by blast

lemma chain_step_memory_inv:
  assumes "chain_memory_inv K s" "chain_step K parse_tags s ev = Inr s'"
  shows "chain_memory_inv K s'"
proof (cases ev)
  case (Chain_tx height time m)
  let ?K = "K\<lparr>block_height := height, block_time := time\<rparr>"
  have crypto: "event_crypto ?K e = event_crypto K e" for e
    by (cases e) (simp_all add: same_crypto_def)
  have "chain_handle ?K parse_tags s m = Inr s'" using assms(2) Chain_tx by simp
  from chain_handle_memory [OF this] consider "ch_memory s' = ch_memory s"
    | e where "event_crypto K e" "memory_handle (ch_memory s) e = Inr (ch_memory s')"
    unfolding crypto by blast
  then show ?thesis
  proof cases
    case 1
    then show ?thesis using assms(1) by (simp add: chain_memory_inv_def)
  qed (rule chain_memory_inv_event [OF assms(1)])
next
  case (Chain_epoch ident n)
  have "ch_memory s' = memory_AfterEpochEnd K (ch_memory s) ident n"
    using assms(2) Chain_epoch by (auto simp: chain_epoch_end_def split: prod.splits)
  then have "memory_handle (ch_memory s) (Mem_EpochEnd K ident n) = Inr (ch_memory s')" by simp
  then show ?thesis using chain_memory_inv_event [OF assms(1)] event_crypto.simps(5) by blast
qed

interpretation chain_memory: tx_machine "chain_step K parse_tags" "chain_memory_inv K" for K parse_tags
  using chain_step_memory_inv by unfold_locales

text \<open>The answer of the query for a memory that is stored as its approval left it.\<close>

lemma Query_VerifyUpheldReport_verifiable:
  assumes "chain_memory_inv K s" "GetApprovedMemory (ch_memory s) i h = Inr m" "length (sha256_Sum256 K (mc_EncryptedBlob m)) = 32"
  shows "if mc_PlaintextHash m = [] \<or> mc_Salt m = [] \<or> mc_ContributorSig m = []
    then Query_VerifyUpheldReport K (ch_memory s) (Some (i, h)) =
      Inl (Status ''Internal'' ''approved memory missing verification fields'')
    else \<exists>r pk. Query_VerifyUpheldReport K (ch_memory s) (Some (i, h)) = Inr r \<and>
      vr_ContributorPubkey r = mc_Contributor m \<and> hex_decode (vr_ContributorPubkey r) = Some pk \<and> length pk = 32 \<and>
      ed25519_Verify K pk (vr_CanonicalBody r) (vr_ContributorSig r) \<and>
      h = sha256_Sum256 K (vr_EncryptedBlob r @ vr_WrappedDekEnc r) \<and>
      vr_CanonicalBody r = buildSubmitMemoryCanonicalBody (sha256_Sum256 K (vr_EncryptedBlob r))
        (vr_ContributorPubkey r) (vr_Epoch r) (mc_MemoryType m) i (vr_PlaintextHash r) (vr_Salt r) h
        (sha256_Sum256 K (vr_WrappedDekEnc r))"
proof -
  obtain stored where stored: "kv_get (ms_approved (ch_memory s)) (approvedKey i h) = Some stored"
      "m = storedToMemory stored"
    using assms(2) by (auto simp: GetApprovedMemory_def split: option.splits)
  have "memory_ok (approvedKey i h, stored)"
    using approved_okD [OF _ stored(1)] assms(1) by (simp add: chain_memory_inv_def memory_inv_def)
  then have ih: "smc_OrgId stored = i" "smc_ContentHash stored = h" "h \<noteq> []" by (auto simp: memory_ok_def)
  have "verifiable K stored" using stored(1) assms(1) by (simp add: chain_memory_inv_def all_verifiable_def)
  then obtain pk where v: "i \<noteq> []" "smc_CiphertextHash stored = sha256_Sum256 K (smc_EncryptedBlob stored)"
      "smc_WrappedDekHash stored = sha256_Sum256 K (smc_WrappedDekEnc stored)"
      "sha256_Sum256 K (smc_EncryptedBlob stored @ smc_WrappedDekEnc stored) = h"
      "hex_decode (smc_ContributorPubkey stored) = Some pk" "length pk = 32"
    and sig: "ed25519_Verify K pk (buildSubmitMemoryCanonicalBody (sha256_Sum256 K (smc_EncryptedBlob stored))
        (smc_ContributorPubkey stored) (smc_Epoch stored) (smc_MemoryType stored) i (smc_PlaintextHash stored)
        (smc_Salt stored) h (sha256_Sum256 K (smc_WrappedDekEnc stored))) (smc_ContributorSig stored)"
    unfolding verifiable_def ih by auto
  have "sha256_Sum256 K (smc_EncryptedBlob stored) \<noteq> []" using assms(3) by (auto simp: stored(2) storedToMemory_def)
  note get = assms(2) [unfolded stored(2)] and fields = v ih(3) this
  show ?thesis
    unfolding stored(2) Query_VerifyUpheldReport_def option.case prod.case get sum.case Let_def
    using fields sig by (auto simp: storedToMemory_def ih)
qed

end
