(* ===== verification/Wire_Index.thy ===== *)
theory Wire_Index
  imports Wire
begin

section \<open>Wire: the generated decoding loops\<close>

text \<open>
  The generated \<open>Unmarshal\<close> methods and \<open>skipState\<close> (\<open>state.pb.go\<close>) walk over the buffer with an index of
  type \<open>int\<close>.  A length read from the input is converted to \<open>int\<close> and added to the index, so both can
  become negative; the guards of the code exclude that.  Here the index is an integer, \<open>go_int\<close> wraps a
  sum to 64 bits, reading outside the buffer is the error \<open>Index_out_of_range\<close> (a Go panic), and the
  loops are partial functions whose value \<open>None\<close> is a loop that never ends.  The last section shows that
  for every input the loops end, never read outside the buffer, and agree with the reference decoder.
  A schema stands for the cases of the switch over the field number, for records whose fields are
  integers, booleans, enumerations, strings and bytes, repeated strings and bytes included.
\<close>

unbundle bit_operations_syntax

datatype wire_error =
    ErrIntOverflowState | UnexpectedEOF | ErrInvalidLengthState | ErrUnexpectedEndOfGroupState
  | Illegal_field string | Index_out_of_range

definition go_int :: "int \<Rightarrow> int" where
  "go_int k = sint (word_of_int k :: u64)"

text \<open>The expressions \<open>dAtA[i]\<close> and \<open>dAtA[i:j]\<close>.\<close>

definition byte_at :: "bytes \<Rightarrow> int \<Rightarrow> wire_error + u64" where
  "byte_at dAtA i =
     (if 0 \<le> i \<and> i < int (length dAtA) then Inr (of_nat (of_char (dAtA ! nat i))) else Inl Index_out_of_range)"

definition slice_at :: "bytes \<Rightarrow> int \<Rightarrow> int \<Rightarrow> wire_error + bytes" where
  "slice_at dAtA i j =
     (if 0 \<le> i \<and> i \<le> j \<and> j \<le> int (length dAtA) then Inr (take (nat (j - i)) (drop (nat i) dAtA))
      else Inl Index_out_of_range)"

text \<open>The loop that reads a varint; \<open>skipState\<close> also uses it to pass over one.\<close>

function varint_at :: "bytes \<Rightarrow> nat \<Rightarrow> u64 \<Rightarrow> int \<Rightarrow> wire_error + u64 \<times> int" where
  "varint_at dAtA shift v iNdEx =
     (if 64 \<le> shift then Inl ErrIntOverflowState
      else if iNdEx \<ge> int (length dAtA) then Inl UnexpectedEOF
      else case byte_at dAtA iNdEx of
        Inl e \<Rightarrow> Inl e
      | Inr b \<Rightarrow>
          let v' = v OR push_bit shift (b AND 0x7F) in
          if b < 0x80 then Inr (v', go_int (iNdEx + 1))
          else varint_at dAtA (shift + 7) v' (go_int (iNdEx + 1)))"
  by pat_completeness auto
termination by (relation "measure (\<lambda>(d, s, v, i). 64 - s)") auto

declare varint_at.simps [simp del]

text \<open>One round of the loop of \<open>skipState\<close>: the new index and group depth.\<close>

definition skipState_round :: "bytes \<Rightarrow> int \<Rightarrow> int \<Rightarrow> wire_error + int \<times> int" where
  "skipState_round dAtA iNdEx depth =
     (case varint_at dAtA 0 0 iNdEx of
        Inl e \<Rightarrow> Inl e
      | Inr (wire, i) \<Rightarrow>
          let wireType = unat (wire AND 0x7) in
          (case
             (if wireType = 0 then
                (case varint_at dAtA 0 0 i of Inl e \<Rightarrow> Inl e | Inr (_, j) \<Rightarrow> Inr (j, depth))
              else if wireType = 1 then Inr (go_int (i + 8), depth)
              else if wireType = 2 then
                (case varint_at dAtA 0 0 i of
                   Inl e \<Rightarrow> Inl e
                 | Inr (v, j) \<Rightarrow>
                     if sint v < 0 then Inl ErrInvalidLengthState
                     else Inr (go_int (j + sint v), depth))
              else if wireType = 3 then Inr (i, go_int (depth + 1))
              else if wireType = 4 then
                if depth = 0 then Inl ErrUnexpectedEndOfGroupState else Inr (i, go_int (depth - 1))
              else if wireType = 5 then Inr (go_int (i + 4), depth)
              else Inl (Illegal_field ''illegal wireType'')) of
             Inl e \<Rightarrow> Inl e
           | Inr (j, d) \<Rightarrow> if j < 0 then Inl ErrInvalidLengthState else Inr (j, d)))"

partial_function (option) skipState_loop :: "bytes \<Rightarrow> int \<Rightarrow> int \<Rightarrow> (wire_error + int) option" where
  "skipState_loop dAtA iNdEx depth =
     (if iNdEx < int (length dAtA) then
        (case skipState_round dAtA iNdEx depth of
           Inl e \<Rightarrow> Some (Inl e)
         | Inr r \<Rightarrow> if snd r = 0 then Some (Inr (fst r)) else skipState_loop dAtA (fst r) (snd r))
      else Some (Inl UnexpectedEOF))"

definition skipState :: "bytes \<Rightarrow> (wire_error + int) option" where
  "skipState dAtA = skipState_loop dAtA 0 0"

text \<open>One round of the loop of \<open>Unmarshal\<close>: the fields it sets and the new index.\<close>

definition Unmarshal_round :: "schema \<Rightarrow> bytes \<Rightarrow> int \<Rightarrow> (wire_error + (nat \<times> field) list \<times> int) option" where
  "Unmarshal_round sch dAtA iNdEx =
     (case varint_at dAtA 0 0 iNdEx of
        Inl e \<Rightarrow> Some (Inl e)
      | Inr (wire, i) \<Rightarrow>
          let fieldNum = sint (ucast (drop_bit 3 wire) :: i32); wireType = unat (wire AND 0x7);
              l = int (length dAtA)
          in if wireType = 4 then Some (Inl (Illegal_field ''wiretype end group for non-group''))
             else if fieldNum \<le> 0 then Some (Inl (Illegal_field ''illegal tag''))
             else (case sch (nat fieldNum) of
                Some Varint_field \<Rightarrow>
                  if wireType \<noteq> 0 then Some (Inl (Illegal_field ''wrong wireType''))
                  else Some (case varint_at dAtA 0 0 i of
                     Inl e \<Rightarrow> Inl e
                   | Inr (v, j) \<Rightarrow> Inr ([(nat fieldNum, Varint v)], j))
              | Some Bytes_field \<Rightarrow>
                  if wireType \<noteq> 2 then Some (Inl (Illegal_field ''wrong wireType''))
                  else Some (case varint_at dAtA 0 0 i of
                     Inl e \<Rightarrow> Inl e
                   | Inr (v, j) \<Rightarrow>
                       if sint v < 0 then Inl ErrInvalidLengthState
                       else let postIndex = go_int (j + sint v) in
                         if postIndex < 0 then Inl ErrInvalidLengthState
                         else if postIndex > l then Inl UnexpectedEOF
                         else (case slice_at dAtA j postIndex of
                            Inl e \<Rightarrow> Inl e
                          | Inr b \<Rightarrow> Inr ([(nat fieldNum, Bytes b)], postIndex)))
              | None \<Rightarrow>
                  (case slice_at dAtA iNdEx l of
                     Inl e \<Rightarrow> Some (Inl e)
                   | Inr rest \<Rightarrow>
                       (case skipState rest of
                          None \<Rightarrow> None
                        | Some (Inl e) \<Rightarrow> Some (Inl e)
                        | Some (Inr skippy) \<Rightarrow>
                            Some (if skippy < 0 \<or> go_int (iNdEx + skippy) < 0 then Inl ErrInvalidLengthState
                              else if go_int (iNdEx + skippy) > l then Inl UnexpectedEOF
                              else Inr ([], go_int (iNdEx + skippy)))))))"

partial_function (option) Unmarshal_loop ::
  "schema \<Rightarrow> bytes \<Rightarrow> int \<Rightarrow> (nat \<times> field) list \<Rightarrow> (wire_error + (nat \<times> field) list) option" where
  "Unmarshal_loop sch dAtA iNdEx m =
     (if iNdEx < int (length dAtA) then
        Option.bind (Unmarshal_round sch dAtA iNdEx) (\<lambda>res.
          case res of
            Inl e \<Rightarrow> Some (Inl e)
          | Inr r \<Rightarrow> Unmarshal_loop sch dAtA (snd r) (m @ fst r))
      else if iNdEx > int (length dAtA) then Some (Inl UnexpectedEOF)
      else Some (Inr m))"

definition Unmarshal :: "schema \<Rightarrow> bytes \<Rightarrow> (wire_error + (nat \<times> field) list) option" where
  "Unmarshal sch dAtA = Unmarshal_loop sch dAtA 0 []"

subsection \<open>Varints\<close>

lemma go_int_small: "- (2 ^ 63) \<le> k \<Longrightarrow> k < 2 ^ 63 \<Longrightarrow> go_int k = k"
  by (simp add: go_int_def sint_word_of_int_u64)

lemma go_int_large:
  assumes "2 ^ 63 \<le> k" "k < 2 ^ 64"
  shows "go_int k < 0"
proof -
  have "uint (word_of_int k :: u64) = k" using assms by (simp add: uint_word_of_int)
  then show ?thesis using assms by (simp add: go_int_def sint_u64)
qed

text \<open>The new bits lie above those already read, so or-ing them in is adding them.\<close>

lemma or_push_bit_add:
  assumes "unat v < 2 ^ s"
  shows "unat (v OR push_bit s (b AND 0x7F) :: u64) = (unat v + unat b mod 128 * 2 ^ s) mod 2 ^ 64"
proof -
  have b: "b AND 0x7F = take_bit 7 b" by (simp add: take_bit_eq_mask mask_eq_exp_minus_1)
  have "take_bit s v = v" using assms by (simp add: word_unat_eq_iff unsigned_take_bit_eq take_bit_nat_eq_self)
  then have "\<not> bit v n" if "s \<le> n" for n using that by (metis bit_take_bit_iff linorder_not_le)
  then have "v AND push_bit s (b AND 0x7F) = 0" by (auto simp: bit_eq_iff bit_simps)
  then have "v OR push_bit s (b AND 0x7F) = v + take_bit 7 b * 2 ^ s"
    by (simp add: disjunctive_add_eq_or [symmetric] push_bit_eq_mult b)
  also have "\<dots> = of_nat (unat v + unat (take_bit 7 b) * 2 ^ s)" by simp
  finally have "unat (v OR push_bit s (b AND 0x7F)) = (unat v + unat (take_bit 7 b) * 2 ^ s) mod 2 ^ 64"
    by (simp only: unat_of_nat) simp
  moreover have "unat (take_bit 7 b) = unat b mod 128"
    by (subst unsigned_take_bit_eq) (simp add: take_bit_eq_mod)
  ultimately show ?thesis by simp
qed

text \<open>
  What a loop over the index returns, against the reference decoder on the rest of the buffer: an
  error, which is never a panic, when the reference fails; else the same value and the index of
  what remains.
\<close>

definition agrees :: "bytes \<Rightarrow> ('a \<times> bytes) option \<Rightarrow> wire_error + 'a \<times> int \<Rightarrow> bool" where
  "agrees dAtA ref res \<longleftrightarrow>
     (case res of
        Inl e \<Rightarrow> ref = None \<and> e \<noteq> Index_out_of_range
      | Inr (v, i) \<Rightarrow> 0 \<le> i \<and> i \<le> int (length dAtA) \<and> ref = Some (v, drop (nat i) dAtA))"

lemma varint_at_agrees:
  assumes "length dAtA < 2 ^ 63" "0 \<le> i" "i \<le> int (length dAtA)" "64 \<le> s \<or> unat v < 2 ^ s"
  shows "agrees dAtA (map_option (\<lambda>(n, r). (of_nat n, r)) (varint_loop s (unat v) (drop (nat i) dAtA)))
    (varint_at dAtA s v i)"
  using assms
proof (induction dAtA s v i rule: varint_at.induct)
  case (1 dAtA s v i)
  show ?case
  proof (cases "64 \<le> s \<or> i = int (length dAtA)")
    case True
    then show ?thesis
      by (auto simp: agrees_def varint_at.simps [of dAtA s v i] varint_loop.simps [of s])
  next
    case False
    let ?c = "dAtA ! nat i" and ?b = "of_nat (of_char (dAtA ! nat i)) :: u64"
    define w where "w = v OR push_bit s (?b AND 0x7F)"
    have i: "i < int (length dAtA)" "nat i < length dAtA" using 1(4) False 1(3) by auto
    then have byte: "byte_at dAtA i = Inr ?b" using 1(3) by (simp add: byte_at_def)
    have next_i: "go_int (i + 1) = i + 1" using 1(2,3) i by (intro go_int_small) auto
    have rest: "drop (nat i) dAtA = ?c # drop (nat (i + 1)) dAtA"
      using i 1(3) by (simp add: Cons_nth_drop_Suc nat_add_distrib)
    have "of_char ?c < (2 ^ 64 :: nat)" by (rule less_le_trans [OF of_char_less_256]) simp
    then have b: "unat ?b = of_char ?c" by (simp add: unat_of_nat)
    have w: "unat w = (unat v + of_char ?c mod 128 * 2 ^ s) mod 2 ^ 64"
      using or_push_bit_add [of v s ?b] 1(5) False b unfolding w_def by simp
    have bound: "64 \<le> s + 7 \<or> unat w < 2 ^ (s + 7)"
    proof -
      have "of_char ?c mod 128 * 2 ^ s \<le> 127 * (2 ^ s :: nat)"
        by (rule mult_right_mono) (auto simp: less_Suc_eq_le [symmetric])
      moreover have "unat v < 2 ^ s" "(2 :: nat) ^ (s + 7) = 128 * 2 ^ s" using 1(5) False by (auto simp: power_add)
      ultimately have "unat v + of_char ?c mod 128 * 2 ^ s < 2 ^ (s + 7)" by linarith
      then show ?thesis unfolding w using le_less_trans mod_less_eq_dividend by blast
    qed
    have small: "?b < 0x80 \<longleftrightarrow> of_char ?c < (128 :: nat)" by (simp add: word_less_nat_alt b)
    have guards: "\<not> 64 \<le> s" "\<not> i \<ge> int (length dAtA)" using False i by simp_all
    have step: "varint_at dAtA s v i =
        (if ?b < 0x80 then Inr (w, i + 1) else varint_at dAtA (s + 7) w (i + 1))"
      unfolding varint_at.simps [of dAtA s v i] byte sum.case Let_def w_def next_i using guards by (simp only: if_False)
    have ref: "varint_loop s (unat v) (drop (nat i) dAtA) =
        (if of_char ?c < (128 :: nat) then Some (unat w, drop (nat (i + 1)) dAtA)
         else varint_loop (s + 7) (unat w) (drop (nat (i + 1)) dAtA))"
      using guards(1) unfolding rest varint_loop.simps [of s "unat v"] w by (simp add: Let_def)
    show ?thesis
    proof (cases "?b < 0x80")
      case True
      then show ?thesis using small 1(3) i unfolding step ref by (simp add: agrees_def)
    next
      case big: False
      have "agrees dAtA (map_option (\<lambda>(n, r). (of_nat n, r))
          (varint_loop (s + 7) (unat w) (drop (nat (i + 1)) dAtA))) (varint_at dAtA (s + 7) w (i + 1))"
        using 1(1) [OF guards byte w_def big, unfolded next_i] i 1(2,3) bound by simp
      then show ?thesis using small big unfolding step ref by simp
    qed
  qed
qed

lemma varint_at_decode:
  assumes "length dAtA < 2 ^ 63" "0 \<le> i" "i \<le> int (length dAtA)"
  shows "agrees dAtA (decodeVarint (drop (nat i) dAtA)) (varint_at dAtA 0 0 i)"
  using varint_at_agrees [OF assms, of 0 0] by (simp add: decodeVarint_def)

text \<open>The two outcomes of reading a varint, with the progress of the index.\<close>

lemma varint_at_cases:
  assumes "length dAtA < 2 ^ 63" "0 \<le> i" "i \<le> int (length dAtA)"
  obtains e where "varint_at dAtA 0 0 i = Inl e" "e \<noteq> Index_out_of_range" "decodeVarint (drop (nat i) dAtA) = None"
  | v j where "varint_at dAtA 0 0 i = Inr (v, j)" "i < j" "j \<le> int (length dAtA)"
      "decodeVarint (drop (nat i) dAtA) = Some (v, drop (nat j) dAtA)"
proof (cases "varint_at dAtA 0 0 i")
  case (Inl e)
  then show ?thesis using that(1) varint_at_decode [OF assms] by (simp add: agrees_def)
next
  case (Inr r)
  obtain v j where r: "r = (v, j)" by (cases r)
  then have j: "0 \<le> j" "j \<le> int (length dAtA)" "decodeVarint (drop (nat i) dAtA) = Some (v, drop (nat j) dAtA)"
    using varint_at_decode [OF assms] Inr by (simp_all add: agrees_def)
  then have "length (drop (nat j) dAtA) < length (drop (nat i) dAtA)" by (intro decodeVarint_shorter)
  then have "i < j" using j assms(2) by auto
  then show ?thesis using that(2) Inr r j by blast
qed

subsection \<open>Skipping unknown fields\<close>

lemma and_7: "unat (w AND 0x7 :: u64) = unat w mod 8"
proof -
  have "w AND 0x7 = take_bit 3 w" by (simp add: take_bit_eq_mask mask_eq_exp_minus_1)
  moreover have "unat (take_bit 3 w) = unat w mod 8" by (subst unsigned_take_bit_eq) (simp add: take_bit_eq_mod)
  ultimately show ?thesis by simp
qed

text \<open>Moving the index forward: beyond the 63rd bit it becomes negative, which the guards catch.\<close>

lemma go_int_forward:
  assumes "length dAtA < 2 ^ 63" "0 \<le> i" "i \<le> int (length dAtA)" "0 \<le> n" "n < 2 ^ 63"
  obtains "go_int (i + n) = i + n" "0 \<le> go_int (i + n)"
  | "go_int (i + n) < 0" "take_bytes (nat n) (drop (nat i) dAtA) = None"
proof (cases "i + n < 2 ^ 63")
  case True
  then show ?thesis using that(1) assms go_int_small [of "i + n"] by simp
next
  case False
  have "i + n < 2 ^ 64" using assms by simp
  then have "go_int (i + n) < 0" using False by (intro go_int_large) auto
  moreover have "int (length dAtA) < 2 ^ 63" using assms(1) by simp
  then have "int (length dAtA) < i + n" using False by linarith
  then have "take_bytes (nat n) (drop (nat i) dAtA) = None"
    using assms(2-4) by (auto simp: take_bytes_def)
  ultimately show ?thesis by (rule that(2))
qed

lemma take_bytes_at:
  assumes "0 \<le> i" "i \<le> int (length dAtA)" "0 \<le> n"
  shows "take_bytes (nat n) (drop (nat i) dAtA) =
    (if i + n \<le> int (length dAtA) then Some (take (nat n) (drop (nat i) dAtA), drop (nat (i + n)) dAtA) else None)"
  using assms by (auto simp: take_bytes_def nat_add_distrib add.commute)

lemma sint_length:
  "sint (v :: u64) < 0 \<longleftrightarrow> 2 ^ 63 \<le> unat v" "0 \<le> sint v \<Longrightarrow> nat (sint v) = unat v" "sint v < 2 ^ 63"
proof -
  have "2 ^ 63 \<le> unat v \<longleftrightarrow> int (2 ^ 63) \<le> int (unat v)" by (rule of_nat_le_iff [symmetric])
  then have "2 ^ 63 \<le> unat v \<longleftrightarrow> 2 ^ 63 \<le> uint v" by simp
  moreover have "uint v < 2 ^ 64" "0 \<le> uint v" using uint_lt2p [of v] by simp_all
  ultimately show "sint v < 0 \<longleftrightarrow> 2 ^ 63 \<le> unat v" "sint v < 2 ^ 63" by (simp_all add: sint_u64)
  show "nat (sint v) = unat v" if "0 \<le> sint v"
    using that \<open>uint v < 2 ^ 64\<close> by (simp add: sint_u64 split: if_splits)
qed

lemma take_bytes_negative:
  "length dAtA < 2 ^ 63 \<Longrightarrow> sint (v :: u64) < 0 \<Longrightarrow> take_bytes (unat v) (drop n dAtA) = None"
  by (simp add: take_bytes_def sint_length)

lemma forward_index:
  assumes "length (dAtA :: bytes) < 2 ^ 63" "0 \<le> i" "i \<le> int (length dAtA)" "0 \<le> n" "n < 2 ^ 63" "0 \<le> go_int (i + n)"
  shows "go_int (i + n) = i + n"
  using assms(6) by (cases rule: go_int_forward [OF assms(1-5)]) auto

lemma forward_negative:
  assumes "length dAtA < 2 ^ 63" "0 \<le> i" "i \<le> int (length dAtA)" "0 \<le> n" "n < 2 ^ 63" "go_int (i + n) < 0"
  shows "take_bytes (nat n) (drop (nat i) dAtA) = None"
  using assms(6) by (cases rule: go_int_forward [OF assms(1-5)]) auto

definition skip_agrees :: "bytes \<Rightarrow> int \<Rightarrow> (nat \<times> bytes) option \<Rightarrow> wire_error + int \<times> int \<Rightarrow> bool" where
  "skip_agrees dAtA i ref res \<longleftrightarrow>
     (case res of
        Inl e \<Rightarrow> ref = None \<and> e \<noteq> Index_out_of_range
      | Inr (j, d) \<Rightarrow> i < j \<and> j < 2 ^ 63 \<and> 0 \<le> d \<and> d \<le> j \<and>
          ref = (if j \<le> int (length dAtA) then Some (nat d, drop (nat j) dAtA) else None))"

lemma forward_skip_agrees:
  assumes "length dAtA < 2 ^ 63" "0 \<le> i" "i < k" "k \<le> int (length dAtA)" "0 \<le> n" "n < 2 ^ 63"
    "0 \<le> depth" "depth \<le> i"
  shows "skip_agrees dAtA i (map_option (\<lambda>p. (nat depth, snd p)) (take_bytes (nat n) (drop (nat k) dAtA)))
    (if go_int (k + n) < 0 then Inl ErrInvalidLengthState else Inr (go_int (k + n), depth))"
proof (cases "go_int (k + n) < 0")
  case True
  then show ?thesis using forward_negative [of dAtA k n] assms by (simp add: skip_agrees_def)
next
  case False
  have "go_int (k + n) = k + n" using forward_index [of dAtA k n] assms False by simp
  moreover have "go_int (k + n) < 2 ^ 63" unfolding go_int_def by (rule sint_length(3))
  ultimately show ?thesis using take_bytes_at [of k dAtA n] assms False by (simp add: skip_agrees_def)
qed

lemma skipState_round_agrees:
  assumes len: "length dAtA < 2 ^ 63" and i: "0 \<le> i" "i < int (length dAtA)" and d: "0 \<le> depth" "depth \<le> i"
  shows "skip_agrees dAtA i (skip_step (nat depth) (drop (nat i) dAtA)) (skipState_round dAtA i depth)"
proof (rule varint_at_cases [OF len i(1)])
  show "i \<le> int (length dAtA)" using i(2) by simp
next
  fix e
  assume "varint_at dAtA 0 0 i = Inl e" "e \<noteq> Index_out_of_range" "decodeVarint (drop (nat i) dAtA) = None"
  then show ?thesis by (simp add: skip_agrees_def skipState_round_def skip_step_def)
next
  fix wire k
  assume tag: "varint_at dAtA 0 0 i = Inr (wire, k)" "i < k" "k \<le> int (length dAtA)"
    "decodeVarint (drop (nat i) dAtA) = Some (wire, drop (nat k) dAtA)"
  note eqs = skipState_round_def skip_step_def tag(1,4) and_7 Let_def
  have k: "0 \<le> k" using tag(2) i(1) by simp
  have l63: "int (length dAtA) < 2 ^ 63" using len by simp
  then have d63: "depth < 2 ^ 63 - 1" using d i(2) by linarith
  note fwd = forward_skip_agrees [OF len i(1) tag(2,3) _ _ d]
  consider "unat wire mod 8 = 0" | "unat wire mod 8 = 1" | "unat wire mod 8 = 2" | "unat wire mod 8 = 3"
    | "unat wire mod 8 = 4" | "unat wire mod 8 = 5" | "5 < unat wire mod 8" by linarith
  then show ?thesis
  proof cases
    case 1
    show ?thesis
      by (rule varint_at_cases [OF len k tag(3)])
        (use 1 tag d l63 in \<open>simp_all add: eqs skip_agrees_def\<close>)
  next
    case 2
    then show ?thesis using fwd [of 8] by (simp add: eqs)
  next
    case 3
    show ?thesis
    proof (rule varint_at_cases [OF len k tag(3)])
      fix v j
      assume v: "varint_at dAtA 0 0 k = Inr (v, j)" "k < j" "j \<le> int (length dAtA)"
        "decodeVarint (drop (nat k) dAtA) = Some (v, drop (nat j) dAtA)"
      show ?thesis
      proof (cases "sint v < 0")
        case True
        then show ?thesis
          using 3 v take_bytes_negative [OF len] by (simp add: eqs decode_bytes_def skip_agrees_def)
      next
        case False
        then show ?thesis
          using 3 v tag(2) forward_skip_agrees [OF len i(1) _ v(3) _ sint_length(3) d, of v] sint_length(2) [of v]
          by (simp add: eqs decode_bytes_def)
      qed
    qed (use 3 in \<open>simp_all add: eqs decode_bytes_def skip_agrees_def\<close>)
  next
    case 4
    have "go_int (depth + 1) = depth + 1" using d d63 by (intro go_int_small) auto
    then show ?thesis using 4 tag d k l63 by (simp add: eqs skip_agrees_def nat_add_distrib)
  next
    case 5
    have "go_int (depth - 1) = depth - 1" using d d63 by (intro go_int_small) auto
    then show ?thesis using 5 tag d k l63 by (auto simp: eqs skip_agrees_def nat_diff_distrib)
  next
    case 6
    then show ?thesis using fwd [of 4] by (simp add: eqs)
  next
    case 7
    then show ?thesis by (auto simp: eqs skip_agrees_def)
  qed
qed

text \<open>
  Where the index stands after a skipped field: at what the reference decoder leaves, or beyond the
  end, when it rejects the field.
\<close>

definition lands :: "bytes \<Rightarrow> bytes option \<Rightarrow> int \<Rightarrow> bool" where
  "lands dAtA ref j \<longleftrightarrow> (if j \<le> int (length dAtA) then ref = Some (drop (nat j) dAtA) else ref = None)"

lemma skipState_loop_agrees:
  assumes "length dAtA < 2 ^ 63" "0 \<le> i" "0 \<le> depth" "depth \<le> i"
  shows "\<exists>r. skipState_loop dAtA i depth = Some r \<and>
    (case r of
       Inl e \<Rightarrow> e \<noteq> Index_out_of_range \<and> skip_field (nat depth) (drop (nat i) dAtA) = None
     | Inr j \<Rightarrow> i < j \<and> j < 2 ^ 63 \<and> lands dAtA (skip_field (nat depth) (drop (nat i) dAtA)) j)"
  using assms(2-4)
proof (induction "nat (int (length dAtA) - i)" arbitrary: i depth rule: less_induct)
  case less
  show ?case
  proof (cases "i < int (length dAtA)")
    case False
    then have "drop (nat i) dAtA = []" by simp
    moreover have "skip_field (nat depth) [] = None"
      by (simp add: skip_field.simps skip_step_def decodeVarint_def varint_loop.simps)
    ultimately show ?thesis using False by (simp add: skipState_loop.simps)
  next
    case True
    note agree = skipState_round_agrees [OF assms(1) less(2) True less(3,4)]
    show ?thesis
    proof (cases "skipState_round dAtA i depth")
      case (Inl e)
      then show ?thesis
        using agree True by (simp add: skip_agrees_def skipState_loop.simps [of dAtA i] skip_field.simps)
    next
      case (Inr r)
      obtain j d where r: "r = (j, d)" by (cases r)
      have step: "i < j" "0 \<le> d" "d \<le> j" "j < 2 ^ 63"
        "skip_step (nat depth) (drop (nat i) dAtA) =
          (if j \<le> int (length dAtA) then Some (nat d, drop (nat j) dAtA) else None)"
        using agree Inr r by (simp_all add: skip_agrees_def)
      show ?thesis
      proof (cases "d = 0")
        case True
        then show ?thesis
          using Inr r step \<open>i < int (length dAtA)\<close>
          by (simp add: skipState_loop.simps [of dAtA i] skip_field.simps [of "nat depth"] lands_def)
      next
        case False
        have "nat (int (length dAtA) - j) < nat (int (length dAtA) - i)" using step(1) True by simp
        from less(1) [OF this _ step(2,3)] obtain q where q: "skipState_loop dAtA j d = Some q"
          "case q of Inl e \<Rightarrow> e \<noteq> Index_out_of_range \<and> skip_field (nat d) (drop (nat j) dAtA) = None
             | Inr j' \<Rightarrow> j < j' \<and> j' < 2 ^ 63 \<and> lands dAtA (skip_field (nat d) (drop (nat j) dAtA)) j'"
          using step less(2) by auto
        have loop: "skipState_loop dAtA i depth = Some q"
          using Inr r True False q(1) by (simp add: skipState_loop.simps [of dAtA i])
        have ref: "skip_field (nat depth) (drop (nat i) dAtA) =
            (if j \<le> int (length dAtA) then skip_field (nat d) (drop (nat j) dAtA) else None)"
          using step False by (simp add: skip_field.simps [of "nat depth"])
        show ?thesis
        proof (cases "j \<le> int (length dAtA)")
          case True
          then show ?thesis using loop ref q(2) step(1) by (auto split: sum.splits)
        next
          case beyond: False
          then have "q = Inl UnexpectedEOF" using q(1) by (simp add: skipState_loop.simps [of dAtA j])
          then show ?thesis using loop ref beyond by simp
        qed
      qed
    qed
  qed
qed

subsection \<open>Decoding a message\<close>

lemma field_number_shift: "sint (ucast (drop_bit 3 wire) :: i32) = field_number wire"
proof -
  have "unat (drop_bit 3 wire) = unat wire div 8" by (simp add: drop_bit_eq_div unat_div)
  then have "(ucast (drop_bit 3 wire) :: i32) = word_of_nat (unat wire div 8)" by (metis of_nat_unat)
  then show ?thesis by (simp add: field_number_def)
qed

definition round_agrees :: "bytes \<Rightarrow> int \<Rightarrow> ('a \<times> bytes) option \<Rightarrow> (wire_error + 'a \<times> int) option \<Rightarrow> bool" where
  "round_agrees dAtA i ref res \<longleftrightarrow>
     (case res of
        None \<Rightarrow> False
      | Some (Inl e) \<Rightarrow> e \<noteq> Index_out_of_range \<and> ref = None
      | Some (Inr (v, j)) \<Rightarrow> i < j \<and> j \<le> int (length dAtA) \<and> ref = Some (v, drop (nat j) dAtA))"

text \<open>The case of a string or bytes field, after its tag.\<close>

lemma bytes_field_agrees:
  assumes len: "length dAtA < 2 ^ 63" and i: "0 \<le> i" "i < k" "k \<le> int (length dAtA)"
  shows "round_agrees dAtA i (map_option (\<lambda>(v, r). (f v, r)) (decode_bytes (drop (nat k) dAtA)))
    (Some (case varint_at dAtA 0 0 k of
       Inl e \<Rightarrow> Inl e
     | Inr (v, j) \<Rightarrow>
         if sint v < 0 then Inl ErrInvalidLengthState
         else let postIndex = go_int (j + sint v) in
           if postIndex < 0 then Inl ErrInvalidLengthState
           else if postIndex > int (length dAtA) then Inl UnexpectedEOF
           else (case slice_at dAtA j postIndex of Inl e \<Rightarrow> Inl e | Inr b \<Rightarrow> Inr (f b, postIndex))))"
proof (rule varint_at_cases [OF len _ i(3)])
  show "0 \<le> k" using i by simp
next
  fix v j
  assume v: "varint_at dAtA 0 0 k = Inr (v, j)" "k < j" "j \<le> int (length dAtA)"
    "decodeVarint (drop (nat k) dAtA) = Some (v, drop (nat j) dAtA)"
  have j: "0 \<le> j" using v(2) i by simp
  consider "sint v < 0" | "0 \<le> sint v" "go_int (j + sint v) < 0" | "0 \<le> sint v" "0 \<le> go_int (j + sint v)"
    by linarith
  then show ?thesis
  proof cases
    case 1
    then show ?thesis using v take_bytes_negative [OF len] by (simp add: decode_bytes_def round_agrees_def)
  next
    case 2
    then show ?thesis
      using v forward_negative [OF len j v(3) _ sint_length(3), of v] sint_length(2) [of v]
      by (simp add: decode_bytes_def round_agrees_def Let_def)
  next
    case 3
    then have "go_int (j + sint v) = j + sint v"
      by (intro forward_index [OF len j v(3) _ sint_length(3)])
    then show ?thesis
      using 3 v i j take_bytes_at [OF j v(3), of "sint v"] sint_length(2) [of v]
      by (simp add: decode_bytes_def round_agrees_def Let_def slice_at_def)
  qed
qed (simp add: decode_bytes_def round_agrees_def)

text \<open>The case of an unknown field, from its tag on.\<close>

lemma unknown_field_agrees:
  assumes len: "length dAtA < 2 ^ 63" and i: "0 \<le> i" "i < int (length dAtA)"
  shows "round_agrees dAtA i (map_option (\<lambda>r. ([], r)) (skip_field 0 (drop (nat i) dAtA)))
    (case slice_at dAtA i (int (length dAtA)) of
       Inl e \<Rightarrow> Some (Inl e)
     | Inr rest \<Rightarrow>
         (case skipState rest of
            None \<Rightarrow> None
          | Some (Inl e) \<Rightarrow> Some (Inl e)
          | Some (Inr skippy) \<Rightarrow>
              Some (if skippy < 0 \<or> go_int (i + skippy) < 0 then Inl ErrInvalidLengthState
                else if go_int (i + skippy) > int (length dAtA) then Inl UnexpectedEOF
                else Inr ([], go_int (i + skippy)))))"
proof -
  let ?rest = "drop (nat i) dAtA"
  have slice: "slice_at dAtA i (int (length dAtA)) = Inr ?rest" using i by (simp add: slice_at_def nat_diff_distrib)
  have "length ?rest < 2 ^ 63" using len by simp
  then obtain r where r: "skipState ?rest = Some r"
    "case r of Inl e \<Rightarrow> e \<noteq> Index_out_of_range \<and> skip_field 0 ?rest = None
       | Inr j \<Rightarrow> 0 < j \<and> j < 2 ^ 63 \<and> lands ?rest (skip_field 0 ?rest) j"
    using skipState_loop_agrees [of ?rest 0 0] unfolding skipState_def nat_zero_as_int [symmetric] drop_0 by fastforce
  show ?thesis
  proof (cases r)
    case (Inl e)
    then show ?thesis using slice r by (simp add: round_agrees_def)
  next
    case (Inr n)
    then have n: "0 < n" "n < 2 ^ 63" "lands ?rest (skip_field 0 ?rest) n" using r(2) by simp_all
    show ?thesis
    proof (cases "i + n \<le> int (length dAtA)")
      case True
      then have "go_int (i + n) = i + n" using i n len by (intro go_int_small) auto
      moreover have "skip_field 0 ?rest = Some (drop (nat (i + n)) dAtA)"
        using n True i by (simp add: lands_def nat_add_distrib add.commute)
      ultimately show ?thesis using slice r(1) Inr n True i by (simp add: round_agrees_def)
    next
      case False
      then have "skip_field 0 ?rest = None" using n i by (simp add: lands_def split: if_splits)
      moreover have "go_int (i + n) < 0 \<or> go_int (i + n) > int (length dAtA)"
        using False n i go_int_small [of "i + n"] go_int_large [of "i + n"] len by (cases "i + n < 2 ^ 63") auto
      ultimately show ?thesis using slice r(1) Inr n by (auto simp: round_agrees_def)
    qed
  qed
qed

lemma Unmarshal_round_agrees:
  assumes len: "length dAtA < 2 ^ 63" and i: "0 \<le> i" "i < int (length dAtA)"
  shows "round_agrees dAtA i (decode_field sch (drop (nat i) dAtA)) (Unmarshal_round sch dAtA i)"
proof (rule varint_at_cases [OF len i(1)])
  show "i \<le> int (length dAtA)" using i by simp
next
  fix e
  assume "varint_at dAtA 0 0 i = Inl e" "e \<noteq> Index_out_of_range" "decodeVarint (drop (nat i) dAtA) = None"
  then show ?thesis by (simp add: Unmarshal_round_def decode_field_def round_agrees_def)
next
  fix wire k
  assume tag: "varint_at dAtA 0 0 i = Inr (wire, k)" "i < k" "k \<le> int (length dAtA)"
    "decodeVarint (drop (nat i) dAtA) = Some (wire, drop (nat k) dAtA)"
  let ?n = "nat (field_number wire)"
  note eqs = Unmarshal_round_def decode_field_def tag(1,4) and_7 field_number_shift
  note lets = Let_def [of "field_number wire"] Let_def [of "unat wire mod 8"] Let_def [of "int (length dAtA)"]
  have k: "0 \<le> k" using tag(2) i(1) by simp
  consider "unat wire mod 8 = 4 \<or> field_number wire \<le> 0"
    | "unat wire mod 8 \<noteq> 4" "0 < field_number wire" "sch ?n = None"
    | "unat wire mod 8 \<noteq> 4" "0 < field_number wire" "sch ?n = Some Varint_field"
    | "unat wire mod 8 \<noteq> 4" "0 < field_number wire" "sch ?n = Some Bytes_field"
    by (metis field_kind.exhaust linorder_not_le option.exhaust)
  then show ?thesis
  proof cases
    case 1
    then show ?thesis by (auto simp: eqs Let_def round_agrees_def)
  next
    case 2
    then show ?thesis using unknown_field_agrees [OF len i] by (simp add: eqs lets)
  next
    case 3
    show ?thesis
      by (rule varint_at_cases [OF len k tag(3)])
        (use 3 tag(2) in \<open>simp_all add: eqs Let_def round_agrees_def\<close>)
  next
    case 4
    then show ?thesis
      using bytes_field_agrees [OF len i(1) tag(2,3), of "\<lambda>b. [(?n, Bytes b)]"]
      by (simp add: eqs lets round_agrees_def)
  qed
qed

lemma Unmarshal_loop_agrees:
  assumes len: "length dAtA < 2 ^ 63" and "0 \<le> i" "i \<le> int (length dAtA)"
  shows "case unmarshal sch (drop (nat i) dAtA) of
      Some fs \<Rightarrow> Unmarshal_loop sch dAtA i m = Some (Inr (m @ fs))
    | None \<Rightarrow> \<exists>e. Unmarshal_loop sch dAtA i m = Some (Inl e) \<and> e \<noteq> Index_out_of_range"
  using assms(2,3)
proof (induction "nat (int (length dAtA) - i)" arbitrary: i m rule: less_induct)
  case less
  show ?case
  proof (cases "i < int (length dAtA)")
    case False
    then have "i = int (length dAtA)" using less(3) by simp
    then show ?thesis by (simp add: Unmarshal_loop.simps)
  next
    case True
    then have ne: "drop (nat i) dAtA \<noteq> []" using less(2) by auto
    note agree = Unmarshal_round_agrees [OF len less(2) True, of sch]
    then obtain r where r: "Unmarshal_round sch dAtA i = Some r"
      by (cases "Unmarshal_round sch dAtA i") (simp_all add: round_agrees_def)
    show ?thesis
    proof (cases r)
      case (Inl e)
      then show ?thesis
        using agree r True ne
        by (simp add: round_agrees_def Unmarshal_loop.simps [of sch dAtA i] unmarshal.simps [of sch "drop (nat i) dAtA"])
    next
      case (Inr p)
      obtain fs j where p: "p = (fs, j)" by (cases p)
      have step: "i < j" "j \<le> int (length dAtA)" "decode_field sch (drop (nat i) dAtA) = Some (fs, drop (nat j) dAtA)"
        using agree r Inr p by (simp_all add: round_agrees_def)
      have "nat (int (length dAtA) - j) < nat (int (length dAtA) - i)" using step(1) True by simp
      note IH = less(1) [OF this, of "m @ fs"]
      have "Unmarshal_loop sch dAtA i m = Unmarshal_loop sch dAtA j (m @ fs)"
        using True r Inr p by (simp add: Unmarshal_loop.simps [of sch dAtA i])
      moreover have "unmarshal sch (drop (nat i) dAtA) = map_option ((@) fs) (unmarshal sch (drop (nat j) dAtA))"
        using step(3) ne by (simp add: unmarshal.simps [of sch "drop (nat i) dAtA"])
      ultimately show ?thesis using IH step less(2) by (auto split: option.splits)
    qed
  qed
qed

text \<open>
  C40: The generated decoder is correct on every input.  For a record with integer, boolean,
  enumeration, string and bytes fields (repeated strings and bytes included), and any buffer whose
  length is an \<open>int\<close>, the loops of \<open>Unmarshal\<close> and \<open>skipState\<close> end and never read outside the buffer, and
  \<open>Unmarshal\<close> returns the fields that the reference decoder reads from the bytes, or an error exactly
  when the reference decoder rejects them.
\<close>

theorem Unmarshal_correct:
  assumes "length dAtA < 2 ^ 63"
  shows "case unmarshal sch dAtA of
      Some fs \<Rightarrow> Unmarshal sch dAtA = Some (Inr fs)
    | None \<Rightarrow> \<exists>e. Unmarshal sch dAtA = Some (Inl e) \<and> e \<noteq> Index_out_of_range"
  using Unmarshal_loop_agrees [OF assms, of 0 sch "[]"] by (simp add: Unmarshal_def split: option.splits)

text \<open>An unknown length-delimited field whose length is minus five, which would move the index back.\<close>

definition ex_negative_length :: bytes where
  "ex_negative_length = encode_tag 7 2 @ encodeVarint (- 5)"

theorem Unmarshal_correct_witness:
  "(\<exists>e. Unmarshal (\<lambda>n. None) ex_negative_length = Some (Inl e) \<and> e \<noteq> Index_out_of_range) \<and>
   Unmarshal (\<lambda>n. if n = 1 then Some Bytes_field else None) (marshal [(1, Bytes ''ab'')]) = Some (Inr [(1, Bytes ''ab'')])"
proof -
  have len: "length ex_negative_length < 2 ^ 63"
    by (simp add: ex_negative_length_def encode_tag_def encodeVarint_def varint_bytes.simps)
  have "unmarshal (\<lambda>n. None) ex_negative_length = None"
  proof -
    have "decodeVarint ex_negative_length = Some (tag_word 7 2, encodeVarint (- 5))"
      unfolding ex_negative_length_def by (rule decode_tag) simp_all
    moreover have "decodeVarint (encodeVarint (- 5)) = Some (- 5, [])" using decodeVarint_encode [of "- 5" "[]"] by simp
    moreover have "ex_negative_length \<noteq> []" by (simp add: ex_negative_length_def encode_tag_def)
    ultimately show ?thesis
      by (simp add: unmarshal.simps [of _ ex_negative_length] decode_field_def skip_field.simps [of 0] skip_step_def
          unat_tag decode_bytes_def take_bytes_def)
  qed
  moreover have "length (marshal [(1, Bytes ''ab'')]) < 2 ^ 63"
    by (simp add: marshal_def encode_tag_def encodeVarint_def varint_bytes.simps)
  moreover have "unmarshal (\<lambda>n. if n = 1 then Some Bytes_field else None) (marshal [(1, Bytes ''ab'')]) = Some [(1, Bytes ''ab'')]"
    by (rule unmarshal_marshal) simp
  ultimately show ?thesis
    using Unmarshal_correct [OF len, of "\<lambda>n. None"]
      Unmarshal_correct [of "marshal [(1, Bytes ''ab'')]" "\<lambda>n. if n = 1 then Some Bytes_field else None"] by simp
qed

end
