(* ===== verification/Spec2Isabelle.thy ===== *)
theory Spec2Isabelle
  imports Org_Correct Identity Bandwidth_Correct Emissions_Correct Reputation_Correct Memory_Merkle
    Serve_Properties Chain_Correct Queries Wire_Index
begin

text \<open>
  Verification of the WeVibe chain, a Cosmos SDK application in Go.  Organisations register
  (\<open>x/org\<close>), their contributors submit memories that the leader approves (\<open>x/memory\<close>), the
  organisations' serving keys record that memories were served (\<open>x/serve\<close>) within per-epoch budgets
  (\<open>x/bandwidth\<close>), statistics and profiles accumulate (\<open>x/reputation\<close>), passkeys are bound to
  wallets (\<open>x/identity\<close>), an emission schedule rewards contributors per epoch (\<open>x/emissions\<close>), and
  session attestations are stored (\<open>x/attestation\<close>).  Each module has a keeper over its own ordered
  key-value store, a message server, genesis functions and queries; modules call each other's
  keepers.  The SDK delivers messages in transactions, which are rolled back on an error or a
  panic, and calls the epoch hooks.

  \<^bold>\<open>How the code is modelled.\<close>
  \<^item> \<open>Prelude\<close>: byte strings, machine words (\<open>uint64\<close>, \<open>uint32\<close>, \<open>int32\<close> are words, so \<open>+\<close> wraps), errors
    as values (\<open>'a result\<close>; a panic is the error \<open>Panic\<close>), decimal and hexadecimal text, and the
    locales of the transaction machine: \<open>tx_machine\<close> (an invariant every message keeps),
    \<open>append_only\<close> (records no message changes) and \<open>monotone_machine\<close> (a relation every message
    respects).  \<open>deliver_all\<close> delivers messages one after the other with rollback.
  \<^item> \<open>KVStore\<close>: a store is a list of entries with strictly increasing keys; \<open>Get\<close>, \<open>Set\<close>, \<open>Delete\<close> and
    the iterators with and without an upper bound, and the locale \<open>kv_map\<close> of their laws.
  \<^item> \<open>Sdk\<close>: the framework (bank and fee-grant keepers, bech32, SHA-256, Ed25519, block height and
    time, the governance address, URL parsing) as the record \<open>sdk\<close>, a parameter of every definition
    that uses it; \<open>bank_ok\<close> states the documented behaviour of the bank, and \<open>ledger_sdk\<close> is an
    instance that has it.
  \<^item> \<open>Wire\<close>: the generated protobuf encoder and a reference decoder over a schema of integer and
    length-delimited fields, with the round trip and the errors.  It is needed where an iterator
    without an upper bound decodes the bytes of other tables as the record it looks for.
  \<^item> \<open>Wire_Index\<close>: the loops of the generated \<open>Unmarshal\<close> and \<open>skipState\<close> over an index, with wrap-around,
    guards and panics.
  \<^item> One theory for each module holds its types, keeper, messages and genesis in the order of the
    Go files, with one definition for each function: \<open>Org\<close>, \<open>Identity\<close>, \<open>Bandwidth\<close>, \<open>Emissions\<close>,
    \<open>Reputation\<close>, \<open>Memory\<close>, \<open>Serve_Types\<close> and \<open>Serve\<close>, \<open>Attestation\<close>.  The state of a module is a record
    with one table for each key prefix; a keeper function that may fail returns a result; a
    handler \<open>Msg_X\<close> is the whole message-server method \<open>X\<close>, with the states of the keepers it
    consults as arguments and, where it changes them, in its result.  Loops are recursive
    functions over the list they range over; the two loops of the generated decoder are partial
    functions that are proved to return, and no definition needs fuel.
  \<^item> \<open>Chain\<close>: the state of all modules, the routing of every message and the epoch hooks in the
    order \<open>app/app.go\<close> registers them.
  \<^item> \<open>Queries\<close>: the gRPC query handlers of the six modules whose queries are not in the module's own
    theory, as functions from the state to the answer.

  \<^bold>\<open>What is proved.\<close>
  \<^item> \<open>Wire_Index\<close>: on every input the decoding loops end, stay inside the buffer and return what the
    reference decoder returns.
  \<^item> \<open>Org_Correct\<close>: the well-formedness of organisations and members in every reachable state, the
    member counter, the split of the registration price into a burnt and a credited half, that
    only the leader's wallet changes an organisation, the hand-over of leadership, the slot price
    against a closed formula, permanence, and what a genesis round trip keeps.
  \<^item> \<open>Identity\<close>: a migration is signed by the passkey over a text that determines it, bindings are
    permanent, and genesis round-trips.
  \<^item> \<open>Bandwidth_Correct\<close>: usage never exceeds the caps, the budget is counted exactly, and what an
    export and re-import does.
  \<^item> \<open>Emissions_Correct\<close>: conservation of the emission schedule; while minting succeeds, rewards
    covered by the module's account and claims that can be paid; exact claims, the even split with
    its remainder, completion of the schedule, and the outcome when the bank refuses to mint.
  \<^item> \<open>Reputation_Correct\<close>: statistics as a summary of the log of serves, the histogram, the window of
    approvals, the selection of top domains, and the panic of a tagged update after a serve.
  \<^item> \<open>Memory_Correct\<close>, \<open>Memory_Properties\<close>, \<open>Memory_Merkle\<close>: authenticity and permanence of approvals,
    exact counters, the condition of the pending limit, what a Merkle root determines and what the
    epoch hook stores, and the effects of a report.
  \<^item> \<open>Serve_Correct\<close>, \<open>Serve_Machine\<close>, \<open>Serve_Properties\<close>: the store as a step relation, exact
    statistics, authenticity of receipts, denials linked to serves, well-typed events, and
    append-only logs.
  \<^item> \<open>Attestation\<close>: attestations come from genesis only, and what each lookup and range returns.
  \<^item> \<open>Queries\<close>: memories come back as stored, pages of reports are the requested parts of the
    matching reports unless the slice panics, and every stored memory keeps what its approval
    checked along all runs of the chain.
  \<^item> \<open>Chain_Correct\<close> and this theory: how the epochs of approvals and emissions relate, and that
    approved memories can be verified through the query for upheld reports.

  \<^bold>\<open>Bounds.\<close>  Counters are 64-bit words as in the code; a theorem that equates one with a number of
  records does so modulo \<open>2 ^ 64\<close> through \<open>of_nat\<close>.  Lengths of encoded fields are below \<open>2 ^ 63\<close>, the
  range of Go's \<open>int\<close>, and epoch numbers are non-negative \<open>int64\<close> values.

  \<^bold>\<open>Not modelled.\<close>
  \<^item> Gas, events, logs and telemetry: they do not influence the state.
  \<^item> The JSON text of genesis and the text of scope tags, which are \<open>encoding/json\<close>; the
    scope tags' parser and printer are parameters.
  \<^item> \<open>ExportGenesis\<close> and \<open>GetServeReceipts\<close> of \<open>x/serve\<close>: they only read, with iterators that decode the
    bytes of six other record types.
  \<^item> The floating-point average and the listing functions of \<open>x/reputation\<close> that nothing calls.
  \<^item> The decoding of map, packed, nested and oneof fields; records with such fields are stored in typed
    tables.
  \<^item> Generated getters, descriptors, stubs and gateways; module registration; the command line.
\<close>

section \<open>Properties across modules\<close>

text \<open>
  C1: No contributor is ever rewarded.  From a genesis without memories and rewards, with any
  organisations, identities and reputation records, along every sequence of transactions and
  epochs whose numbers increase, and without a mint by governance: every contributor's pending
  and lifetime reward stays zero and every claim is refused.  A memory approved during epoch
  \<open>n\<close> is stamped with \<open>n - 1\<close>, the last epoch that ended, while the emissions hook of epoch \<open>n\<close>
  counts the memories stamped with \<open>n\<close>.
\<close>

theorem contributors_never_rewarded:
  assumes "sorted_wrt (<) (0 # wevibe_epochs evs)" and "\<forall>n \<in> set (wevibe_epochs evs). n < 2 ^ 63"
    and "no_governance_mint evs"
    and "s = deliver_all (chain_step K parse_tags)
      ((chain_genesis x)\<lparr>ch_org := os, ch_identity := ids, ch_reputation := rs\<rparr>) evs"
  shows "GetContributorReward (ch_emissions s) c = Inr 0 \<and>
    GetLifetimeContributorReward (ch_emissions s) c = Inr 0 \<and>
    GetAllContributorRewards (ch_emissions s) = [] \<and>
    (\<exists>e. Msg_ClaimContributorReward K' (ch_identity s) (ch_emissions s, ch_ext s) msg = Inl e)"
proof -
  have "unrewarded 0 ((chain_genesis x)\<lparr>ch_org := os, ch_identity := ids, ch_reputation := rs\<rparr>)"
    using chain_genesis_unrewarded [of x] by (simp add: unrewarded_def)
  from chain_run_unrewarded [OF this _ assms(2,3), of K parse_tags] assms(1,4)
  have rewards: "es_contribreward (ch_emissions s) = []" "es_lifetimereward (ch_emissions s) = []"
    by (auto simp: unrewarded_def)
  have "GetContributorReward (ch_emissions s) c = Inr 0" "GetLifetimeContributorReward (ch_emissions s) c = Inr 0"
    "GetAllContributorRewards (ch_emissions s) = []"
    by (simp_all add: GetContributorReward_def GetLifetimeContributorReward_def GetAllContributorRewards_def
        read_balance_def rewards kv_prefix_def)
  with claim_refused [OF rewards(1), of K' "ch_identity s" "ch_ext s" msg] show ?thesis by blast
qed

text \<open>A run in which a memory is submitted and approved before the first epoch ends.\<close>

definition ex_chain :: "chain_event list" where
  "ex_chain = [
     Chain_tx (block_height ex_mem_sdk) (block_time ex_mem_sdk) (Tx_SubmitCommitment ex_submit),
     Chain_tx (block_height ex_mem_sdk) (block_time ex_mem_sdk) (Tx_ApproveMemory ex_approve),
     Chain_epoch ''wevibe_epoch'' 1, Chain_epoch ''wevibe_epoch'' 2]"

definition ex_chain_genesis :: "ledger chain" where
  "ex_chain_genesis =
     (chain_genesis ex_em_ledger)\<lparr>ch_org := ex_mem_org, ch_identity := identity_empty, ch_reputation := reputation_empty\<rparr>"

lemma ex_chain_approved:
  "\<exists>m. GetApprovedMemory (ch_memory (deliver_all (chain_step ex_mem_sdk (\<lambda>_. None)) ex_chain_genesis (take 2 ex_chain)))
     ''o'' ex_hash = Inr m \<and> mc_Contributor m = ex_contributor \<and> mc_PlaintextHash m = ''p'' \<and> mc_Salt m = ''s'' \<and>
     mc_ContributorSig m = ''signed''"
  by (simp add: ex_chain_def ex_chain_genesis_def chain_genesis_def ex_submit_ok updated_def)
    (simp add: ex_mem_defs approve_eval GetApprovedMemory_def storedToMemory_def memoryToStored_def)

theorem contributors_never_rewarded_witness:
  "(\<exists>m. GetApprovedMemory (ch_memory (deliver_all (chain_step ex_mem_sdk (\<lambda>_. None)) ex_chain_genesis (take 2 ex_chain)))
       ''o'' ex_hash = Inr m \<and> mc_Contributor m = ex_contributor) \<and>
   GetContributorReward (ch_emissions (deliver_all (chain_step ex_mem_sdk (\<lambda>_. None)) ex_chain_genesis ex_chain))
     ex_contributor = Inr 0"
proof -
  have "wevibe_epochs ex_chain = [1, 2]" "no_governance_mint ex_chain"
    by (simp_all add: ex_chain_def no_governance_mint_def)
  then have "GetContributorReward (ch_emissions (deliver_all (chain_step ex_mem_sdk (\<lambda>_. None)) ex_chain_genesis ex_chain))
      ex_contributor = Inr 0"
    using contributors_never_rewarded [where evs = ex_chain and K = ex_mem_sdk and parse_tags = "\<lambda>_. None"
        and x = ex_em_ledger and os = ex_mem_org and ids = identity_empty and rs = reputation_empty, OF _ _ _ refl]
    by (simp add: ex_chain_genesis_def)
  with ex_chain_approved show ?thesis by blast
qed

text \<open>
  C6: An approved memory can be verified for ever.  After any sequence of transactions and epochs,
  the query \<open>VerifyUpheldReport\<close> answers for every approved memory whose plaintext hash, salt and
  signature are present: the body it returns, built by the reputation module from the stored
  record, carries the contributor's valid signature under a 32-byte key, names the organisation and
  the content hash that were asked for, and its hashes are those of the returned ciphertext and
  wrapped key.  The two mismatch errors never occur.  A memory without one of the three fields,
  which an approval accepts, is refused as missing verification fields.  SHA-256 digests have 32
  bytes.
\<close>

theorem approved_verifiable:
  assumes "\<And>b. length (sha256_Sum256 K b) = 32"
    and "s = deliver_all (chain_step K parse_tags)
      ((chain_genesis x)\<lparr>ch_org := os, ch_identity := ids, ch_reputation := rs\<rparr>) evs"
    and "GetApprovedMemory (ch_memory s) i h = Inr m"
  shows "if mc_PlaintextHash m = [] \<or> mc_Salt m = [] \<or> mc_ContributorSig m = []
    then Query_VerifyUpheldReport K (ch_memory s) (Some (i, h)) =
      Inl (Status ''Internal'' ''approved memory missing verification fields'')
    else \<exists>r pk. Query_VerifyUpheldReport K (ch_memory s) (Some (i, h)) = Inr r \<and>
      vr_ContributorPubkey r = mc_Contributor m \<and> hex_decode (vr_ContributorPubkey r) = Some pk \<and> length pk = 32 \<and>
      ed25519_Verify K pk (vr_CanonicalBody r) (vr_ContributorSig r) \<and>
      h = sha256_Sum256 K (vr_EncryptedBlob r @ vr_WrappedDekEnc r) \<and>
      vr_CanonicalBody r = buildSubmitMemoryCanonicalBody (sha256_Sum256 K (vr_EncryptedBlob r))
        (vr_ContributorPubkey r) (vr_Epoch r) (mc_MemoryType m) i (vr_PlaintextHash r) (vr_Salt r) h
        (sha256_Sum256 K (vr_WrappedDekEnc r))"
proof -
  have "chain_memory_inv K ((chain_genesis x)\<lparr>ch_org := os, ch_identity := ids, ch_reputation := rs\<rparr>)"
    using chain_genesis_unrewarded [of x]
    by (simp add: chain_memory_inv_def unrewarded_def all_verifiable_def chain_genesis_def memory_genesis_def memory_empty_def)
  then have "chain_memory_inv K s" unfolding assms(2) by (rule chain_memory.deliver_all_inv)
  then show ?thesis by (rule Query_VerifyUpheldReport_verifiable [OF _ assms(3,1)])
qed

theorem approved_verifiable_witness:
  "\<exists>r. Query_VerifyUpheldReport ex_mem_sdk
      (ch_memory (deliver_all (chain_step ex_mem_sdk (\<lambda>_. None)) ex_chain_genesis (take 2 ex_chain)))
      (Some (''o'', ex_hash)) = Inr r \<and> vr_ContributorPubkey r = ex_contributor"
proof -
  obtain m where m: "GetApprovedMemory (ch_memory (deliver_all (chain_step ex_mem_sdk (\<lambda>_. None)) ex_chain_genesis
      (take 2 ex_chain))) ''o'' ex_hash = Inr m" "mc_Contributor m = ex_contributor" "mc_PlaintextHash m = ''p''"
      "mc_Salt m = ''s''" "mc_ContributorSig m = ''signed''"
    using ex_chain_approved by blast
  have "length (sha256_Sum256 ex_mem_sdk b) = 32" for b by (simp add: ex_mem_sdk_def)
  from approved_verifiable [OF this ex_chain_genesis_def [THEN arg_cong, of "\<lambda>g. deliver_all _ g _"] m(1)] m(2-)
  show ?thesis by auto
qed

end
